(* ===== verification/Float64.thy ===== *)
theory Float64
  imports Complex_Main "HOL-Library.Log_Nat"
begin

section \<open>Python floats: IEEE binary64 on the rationals\<close>

text \<open>
  A Python \<open>float\<close> is an IEEE binary64 number. The model keeps its value as a rational
  and writes every rounding out: the result of an arithmetic operation is the exact
  rational result, rounded by \<open>rnd\<close> to the nearest binary64 value, ties to the even
  significand (53 bits, gradual underflow at \<open>2 powi (-1074)\<close>). Python's
  \<open>round(x, n)\<close> is \<open>py_round\<close>: CPython rounds the exact binary value half to even
  at the n-th decimal and converts the decimal back to the nearest float. \<open>py_sum\<close> is
  the built-in \<open>sum\<close> on a list of floats, which since Python 3.12 carries Neumaier's
  compensation. Values stay finite: NaN, the infinities and overflow to them are outside
  the model, and negative zero is zero (it compares equal in Python).
\<close>

type_synonym float64 = rat

named_theorems float_mono "monotonicity of the rounded operations"

subsection \<open>Definitions\<close>

definition rhe :: "rat \<Rightarrow> int" where
  \<comment> \<open>nearest integer, ties to even\<close>
  "rhe x = (let f = \<lfloor>x\<rfloor>; d = x - of_int f in
     if d < 1 / 2 then f else if 1 / 2 < d then f + 1
     else if even f then f else f + 1)"

definition ilog2 :: "rat \<Rightarrow> int" where
  \<comment> \<open>the binary exponent of a positive rational\<close>
  "ilog2 x = (case quotient_of x of (p, q) \<Rightarrow>
     let k = bitlen p - bitlen q in if x < 2 powi k then k - 1 else k)"

definition ulp_exp :: "rat \<Rightarrow> int" where
  "ulp_exp x = max (ilog2 \<bar>x\<bar> - 52) (-1074)"

definition rnd :: "rat \<Rightarrow> float64" where
  "rnd x = (if x = 0 then 0
            else of_int (rhe (x / 2 powi ulp_exp x)) * 2 powi ulp_exp x)"

definition is_f64 :: "rat \<Rightarrow> bool" where
  "is_f64 x \<longleftrightarrow> (\<exists>m e. \<bar>m\<bar> < 2 ^ 53 \<and> - 1074 \<le> e \<and> x = of_int m * 2 powi e)"

definition fadd :: "float64 \<Rightarrow> float64 \<Rightarrow> float64" where
  "fadd x y = rnd (x + y)"

definition fsub :: "float64 \<Rightarrow> float64 \<Rightarrow> float64" where
  "fsub x y = rnd (x - y)"

definition fmul :: "float64 \<Rightarrow> float64 \<Rightarrow> float64" where
  "fmul x y = rnd (x * y)"

definition fdiv :: "float64 \<Rightarrow> float64 \<Rightarrow> float64" where
  "fdiv x y = rnd (x / y)"

definition py_round :: "float64 \<Rightarrow> nat \<Rightarrow> float64" where
  "py_round x n = rnd (of_int (rhe (x * 10 ^ n)) / 10 ^ n)"

fun neumaier :: "float64 \<Rightarrow> float64 \<Rightarrow> float64 list \<Rightarrow> float64" where
  "neumaier s c [] = (if c = 0 then s else fadd s c)"
| "neumaier s c (x # xs) =
     (let t = fadd s x;
          c' = (if \<bar>x\<bar> \<le> \<bar>s\<bar> then fadd c (fadd (fsub s t) x)
                else fadd c (fadd (fsub x t) s))
      in neumaier t c' xs)"

fun py_sum :: "float64 list \<Rightarrow> float64" where
  "py_sum [] = 0"
| "py_sum (x # xs) = neumaier x 0 xs"

subsection \<open>Rounding to an integer\<close>

lemma rhe_of_int [simp]: "rhe (of_int n) = n"
  by (simp add: rhe_def)

lemma rhe_0 [simp]: "rhe 0 = 0"
  using rhe_of_int[of 0] by simp

lemma rhe_cases:
  fixes x :: rat
  obtains (down) "rhe x = \<lfloor>x\<rfloor>" "x - of_int \<lfloor>x\<rfloor> \<le> 1 / 2"
  | (up) "rhe x = \<lfloor>x\<rfloor> + 1" "1 / 2 \<le> x - of_int \<lfloor>x\<rfloor>"
  by (cases "x - of_int \<lfloor>x\<rfloor>" "1 / 2 :: rat" rule: linorder_cases;
      cases "even \<lfloor>x\<rfloor>"; simp add: rhe_def Let_def)

lemma rhe_error: "\<bar>of_int (rhe x) - x\<bar> \<le> 1 / 2"
proof (cases x rule: rhe_cases)
  case down
  then show ?thesis using of_int_floor_le[of x] by (simp only: abs_le_iff) linarith
next
  case up
  then show ?thesis using floor_correct[of x] by (simp only: abs_le_iff of_int_add) linarith
qed

lemma rhe_le_floor_add1: "rhe x \<le> \<lfloor>x\<rfloor> + 1" and rhe_ge_floor: "\<lfloor>x\<rfloor> \<le> rhe x"
  by (cases x rule: rhe_cases; simp)+

lemma rhe_mono: "x \<le> y \<Longrightarrow> rhe x \<le> rhe y"
proof (cases "\<lfloor>x\<rfloor> = \<lfloor>y\<rfloor>")
  case True
  assume "x \<le> y"
  then have "x - of_int \<lfloor>y\<rfloor> \<le> y - of_int \<lfloor>y\<rfloor>" by simp
  with True show ?thesis by (auto simp: rhe_def Let_def)
next
  case False
  assume "x \<le> y"
  then have "\<lfloor>x\<rfloor> \<le> \<lfloor>y\<rfloor>" by (rule floor_mono)
  with False have "\<lfloor>x\<rfloor> + 1 \<le> \<lfloor>y\<rfloor>" by simp
  with rhe_le_floor_add1[of x] rhe_ge_floor[of y] show ?thesis by linarith
qed

lemma rhe_of_int_le: "x \<le> of_int n \<Longrightarrow> rhe x \<le> n"
  using rhe_mono[of x "of_int n"] by simp

lemma rhe_of_int_ge: "of_int n \<le> x \<Longrightarrow> n \<le> rhe x"
  using rhe_mono[of "of_int n" x] by simp

lemma rhe_uminus: "rhe (- x) = - rhe x"
proof (cases "x = of_int \<lfloor>x\<rfloor>")
  case True
  then have "rhe x = \<lfloor>x\<rfloor>" "- x = of_int (- \<lfloor>x\<rfloor>)"
    by (metis rhe_of_int, simp)
  then show ?thesis by (metis rhe_of_int)
next
  case False
  then have lt: "of_int \<lfloor>x\<rfloor> < x" using of_int_floor_le[of x] by linarith
  have fl: "\<lfloor>- x\<rfloor> = - \<lfloor>x\<rfloor> - 1"
    using lt by (intro floor_unique) (simp_all, linarith)
  show ?thesis
    unfolding rhe_def Let_def fl
    by (auto simp: field_simps)
qed

subsection \<open>The binary exponent\<close>

lemma powi_pos [simp]: "(0::rat) < 2 powi k"
  by simp

lemma powi_le_iff [simp]: "(2::rat) powi m \<le> 2 powi n \<longleftrightarrow> m \<le> n"
  by (meson dual_order.strict_iff_not linorder_not_le one_less_numeral_iff
      power_int_increasing power_int_strict_increasing semiring_norm(76) less_imp_le)

lemma powi_less_iff [simp]: "(2::rat) powi m < 2 powi n \<longleftrightarrow> m < n"
  by (simp add: not_le [symmetric])

lemma ilog2_bounds:
  assumes "0 < x"
  shows "2 powi ilog2 x \<le> x" and "x < 2 powi (ilog2 x + 1)"
proof -
  obtain p q where pq: "quotient_of x = (p, q)" by (cases "quotient_of x")
  have q: "0 < q" and x: "x = of_int p / of_int q"
    using quotient_of_denom_pos[OF pq] quotient_of_div[OF pq] by auto
  with assms have p: "0 < p" by (simp add: zero_less_divide_iff)
  define a b where "a = nat (bitlen p - 1)" and "b = nat (bitlen q - 1)"
  have bp: "bitlen p = int a + 1" and bq: "bitlen q = int b + 1"
    using bitlen_nonneg[of p] bitlen_nonneg[of q] p q bitlen_eq_zero_iff[of p] bitlen_eq_zero_iff[of q]
    by (auto simp: a_def b_def)
  have P: "2 ^ a \<le> p" "p < 2 ^ (a + 1)" and Q: "2 ^ b \<le> q" "q < 2 ^ (b + 1)"
    using bitlen_bounds[OF p] bitlen_bounds[OF q] by (simp_all add: bp bq nat_add_distrib)
  define k where "k = int a - int b"
  have P': "(2::rat) ^ a \<le> of_int p" "of_int p < (2::rat) ^ (a + 1)"
    using P by (metis of_int_le_iff of_int_less_iff of_int_numeral of_int_power)+
  have Q': "(2::rat) ^ b \<le> of_int q" "of_int q < (2::rat) ^ (b + 1)"
    using Q by (metis of_int_le_iff of_int_less_iff of_int_numeral of_int_power)+
  have lo: "2 powi (k - 1) < x"
  proof -
    have "2 powi (k - 1) = (2::rat) ^ a / 2 ^ (b + 1)"
      by (simp add: k_def power_int_diff power_int_add)
    also have "\<dots> < x" unfolding x using P' Q' q by (intro frac_less2) auto
    finally show ?thesis .
  qed
  have hi: "x < 2 powi (k + 1)"
  proof -
    have "x < (2::rat) ^ (a + 1) / 2 ^ b" unfolding x using P' Q' p q
      by (intro frac_less) auto
    also have "\<dots> = 2 powi (k + 1)"
      by (simp add: k_def power_int_diff power_int_add)
    finally show ?thesis .
  qed
  have e: "ilog2 x = (if x < 2 powi k then k - 1 else k)"
    by (simp add: ilog2_def pq bp bq k_def Let_def)
  show "2 powi ilog2 x \<le> x" using lo by (auto simp: e)
  show "x < 2 powi (ilog2 x + 1)" using hi by (auto simp: e)
qed

lemma ilog2_unique:
  assumes "2 powi k \<le> x" "x < 2 powi (k + 1)"
  shows "ilog2 x = k"
proof -
  have x: "0 < x" using assms(1) powi_pos[of k] by linarith
  have "2 powi ilog2 x < (2::rat) powi (k + 1)" "2 powi k < (2::rat) powi (ilog2 x + 1)"
    using ilog2_bounds[OF x] assms by linarith+
  then have "ilog2 x < k + 1" "k < ilog2 x + 1"
    by simp_all
  then show ?thesis by simp
qed

lemma ilog2_mono:
  assumes "0 < x" "x \<le> y"
  shows "ilog2 x \<le> ilog2 y"
proof -
  have "2 powi ilog2 x < (2::rat) powi (ilog2 y + 1)"
    using ilog2_bounds(1)[OF assms(1)] ilog2_bounds(2)[of y] assms by linarith
  then show ?thesis by simp
qed

lemma ulp_exp_uminus [simp]: "ulp_exp (- x) = ulp_exp x"
  by (simp add: ulp_exp_def)

lemma ulp_exp_mono: "0 < x \<Longrightarrow> x \<le> y \<Longrightarrow> ulp_exp x \<le> ulp_exp y"
  using ilog2_mono[of x y] by (simp add: ulp_exp_def)

lemma powi_div_powi: "(2::rat) powi m / 2 powi n = 2 powi (m - n)"
  by (simp add: power_int_diff)

lemma powi_int_multiple:
  assumes "n \<le> m"
  shows "(2::rat) powi m = of_int (2 ^ nat (m - n)) * 2 powi n"
proof -
  have "(2::rat) powi (m - n) = 2 ^ nat (m - n)"
    using assms by (simp add: power_int_nonneg_exp)
  then have "(2::rat) powi m / 2 powi n = 2 ^ nat (m - n)" by (simp add: powi_div_powi)
  then show ?thesis by (simp add: divide_eq_eq)
qed

subsection \<open>The rounding function\<close>

lemma rnd_0 [simp]: "rnd 0 = 0"
  by (simp add: rnd_def)

lemma rnd_uminus [simp]: "rnd (- x) = - rnd x"
  by (simp add: rnd_def rhe_uminus)

lemma rnd_pos: "0 < x \<Longrightarrow> rnd x = of_int (rhe (x / 2 powi ulp_exp x)) * 2 powi ulp_exp x"
  by (simp add: rnd_def)

lemma rnd_nonneg: "0 \<le> x \<Longrightarrow> 0 \<le> rnd x"
proof (cases "x = 0")
  case False
  assume "0 \<le> x"
  with False have "0 < x" by simp
  moreover have "0 \<le> rhe (x / 2 powi ulp_exp x)"
    using \<open>0 < x\<close> by (intro rhe_of_int_ge) simp
  ultimately show ?thesis by (simp add: rnd_pos)
qed simp

lemma rnd_le_powi:
  assumes "0 < x" "x \<le> 2 powi k" "ulp_exp x \<le> k"
  shows "rnd x \<le> 2 powi k"
proof -
  let ?u = "2 powi ulp_exp x :: rat"
  have m: "2 powi k = of_int (2 ^ nat (k - ulp_exp x)) * ?u"
    by (rule powi_int_multiple[OF assms(3)])
  with assms(2) have "x / ?u \<le> of_int (2 ^ nat (k - ulp_exp x))"
    by (simp add: pos_divide_le_eq)
  then have "rhe (x / ?u) \<le> 2 ^ nat (k - ulp_exp x)" by (rule rhe_of_int_le)
  then have "of_int (rhe (x / ?u)) \<le> (of_int (2 ^ nat (k - ulp_exp x)) :: rat)"
    by (simp only: of_int_le_iff)
  with assms(1) show ?thesis unfolding rnd_pos[OF assms(1)] m by simp
qed

lemma rnd_ge_powi:
  assumes "2 powi k \<le> x" "ulp_exp x \<le> k"
  shows "2 powi k \<le> rnd x"
proof -
  let ?u = "2 powi ulp_exp x :: rat"
  have x: "0 < x" using assms(1) powi_pos[of k] by linarith
  have m: "2 powi k = of_int (2 ^ nat (k - ulp_exp x)) * ?u"
    by (rule powi_int_multiple[OF assms(2)])
  with assms(1) have "of_int (2 ^ nat (k - ulp_exp x)) \<le> x / ?u"
    by (simp add: pos_le_divide_eq)
  then have "2 ^ nat (k - ulp_exp x) \<le> rhe (x / ?u)" by (rule rhe_of_int_ge)
  then have "(of_int (2 ^ nat (k - ulp_exp x)) :: rat) \<le> of_int (rhe (x / ?u))"
    by (simp only: of_int_le_iff)
  then show ?thesis unfolding rnd_pos[OF x] m by simp
qed

lemma rnd_mono_pos:
  assumes "0 < x" "x \<le> y"
  shows "rnd x \<le> rnd y"
proof (cases "ulp_exp x = ulp_exp y")
  case True
  have "rhe (x / 2 powi ulp_exp y) \<le> rhe (y / 2 powi ulp_exp y)"
    using assms by (intro rhe_mono) (simp add: divide_right_mono)
  with assms True show ?thesis by (simp add: rnd_pos)
next
  case False
  let ?k = "ilog2 y"
  have y: "0 < y" using assms by simp
  have "ulp_exp x < ulp_exp y" using ulp_exp_mono[OF assms] False by simp
  then have k: "ulp_exp y = ?k - 52" "ilog2 x + 1 \<le> ?k" "ulp_exp x \<le> ?k"
    using assms y by (auto simp: ulp_exp_def)
  have "x \<le> 2 powi ?k"
    using ilog2_bounds(2)[OF assms(1)] k(2) powi_le_iff[of "ilog2 x + 1" ?k] by linarith
  then have "rnd x \<le> 2 powi ?k" using assms(1) k(3) by (intro rnd_le_powi)
  also have "\<dots> \<le> rnd y" using ilog2_bounds(1)[OF y] k(1) by (intro rnd_ge_powi) auto
  finally show ?thesis .
qed

lemma rnd_nonpos: "x \<le> 0 \<Longrightarrow> rnd x \<le> 0"
  using rnd_nonneg[of "- x"] by simp

lemma rnd_mono: "x \<le> y \<Longrightarrow> rnd x \<le> rnd y"
proof -
  assume xy: "x \<le> y"
  consider "0 < x" | "x \<le> 0" "0 \<le> y" | "y < 0" by linarith
  then show ?thesis
  proof cases
    case 1
    then show ?thesis using xy by (rule rnd_mono_pos)
  next
    case 2
    then show ?thesis using rnd_nonpos[of x] rnd_nonneg[of y] by linarith
  next
    case 3
    then have "rnd (- y) \<le> rnd (- x)" using xy by (intro rnd_mono_pos) auto
    then show ?thesis by simp
  qed
qed

subsection \<open>Exact results\<close>

lemma rnd_f64:
  assumes "is_f64 x"
  shows "rnd x = x"
proof (cases "x = 0")
  case False
  obtain m e where m: "\<bar>m\<bar> < 2 ^ 53" and e: "- 1074 \<le> e" and x: "x = of_int m * 2 powi e"
    using assms by (auto simp: is_f64_def)
  let ?k = "ulp_exp x"
  have ax: "0 < \<bar>x\<bar>" using False by simp
  have "\<bar>x\<bar> < 2 powi (e + 53)"
  proof -
    have "of_int \<bar>m\<bar> < (of_int (2 ^ 53) :: rat)" using m by (simp only: of_int_less_iff)
    then have "\<bar>x\<bar> < of_int (2 ^ 53) * 2 powi e"
      unfolding x abs_mult by (simp add: abs_of_pos)
    also have "\<dots> = 2 powi (e + 53)" by (simp add: power_int_add)
    finally show ?thesis .
  qed
  then have "ilog2 \<bar>x\<bar> < e + 53"
    using ilog2_bounds(1)[OF ax] powi_less_iff[of "ilog2 \<bar>x\<bar>" "e + 53"] by linarith
  then have k: "?k \<le> e" using e by (auto simp: ulp_exp_def)
  have "x = of_int m * (of_int (2 ^ nat (e - ?k)) * 2 powi ?k)"
    using x powi_int_multiple[OF k] by metis
  then have "x = of_int (m * 2 ^ nat (e - ?k)) * 2 powi ?k"
    by (simp only: of_int_mult mult.assoc)
  then have "x / 2 powi ?k = of_int (m * 2 ^ nat (e - ?k))" by (simp add: divide_eq_eq)
  then show ?thesis using False
    by (metis (no_types, lifting) rhe_of_int rnd_def nonzero_eq_divide_eq powi_pos less_irrefl)
qed simp

lemma is_f64I: "\<bar>m\<bar> < 2 ^ 53 \<Longrightarrow> - 1074 \<le> e \<Longrightarrow> x = of_int m * 2 powi e \<Longrightarrow> is_f64 x"
  by (auto simp: is_f64_def)

lemma is_f64_0 [simp]: "is_f64 0"
  unfolding is_f64_def by (intro exI[of _ 0]) simp

lemma is_f64_uminus: "is_f64 x \<Longrightarrow> is_f64 (- x)"
proof -
  assume "is_f64 x"
  then obtain m e where "\<bar>m\<bar> < 2 ^ 53" "- 1074 \<le> e" "x = of_int m * 2 powi e"
    by (auto simp: is_f64_def)
  then show "is_f64 (- x)"
    unfolding is_f64_def by (intro exI[of _ "- m"] exI[of _ e]) simp
qed

lemma is_f64_rnd: "is_f64 (rnd x)"
proof -
  have pos: "is_f64 (rnd x)" if x: "0 < x" for x
  proof -
    let ?k = "ulp_exp x" and ?n = "rhe (x / 2 powi ulp_exp x)"
    have k: "- 1074 \<le> ?k" "ilog2 x - 52 \<le> ?k" using x by (auto simp: ulp_exp_def)
    have "x \<le> 2 powi (?k + 53)"
      using ilog2_bounds(2)[OF x] k(2) powi_le_iff[of "ilog2 x + 1" "?k + 53"] by linarith
    then have "x / 2 powi ?k \<le> of_int (2 ^ 53)"
      by (simp add: pos_divide_le_eq power_int_add mult.commute)
    then have n: "?n \<le> 2 ^ 53" by (rule rhe_of_int_le)
    have n0: "0 \<le> ?n" using x by (intro rhe_of_int_ge) simp
    show ?thesis
    proof (cases "?n = 2 ^ 53")
      case True
      have "(2::rat) powi (?k + 1) = 2 * 2 powi ?k" by (simp add: power_int_add)
      then have "rnd x = of_int (2 ^ 52) * 2 powi (?k + 1)"
        unfolding rnd_pos[OF x] True by (simp only: of_int_power of_int_numeral) simp
      moreover have "\<bar>2 ^ 52 :: int\<bar> < 2 ^ 53" "- 1074 \<le> ?k + 1" using k(1) by simp_all
      ultimately show ?thesis by (intro is_f64I)
    next
      case False
      then have "\<bar>?n\<bar> < 2 ^ 53" using n n0 by linarith
      then show ?thesis using k(1) rnd_pos[OF x] by (intro is_f64I)
    qed
  qed
  consider "0 < x" | "x = 0" | "0 < - x" by linarith
  then show ?thesis
    using pos[of x] pos[of "- x"] is_f64_uminus[of "rnd (- x)"] by cases auto
qed

lemma rnd_idem [simp]: "rnd (rnd x) = rnd x"
  by (rule rnd_f64[OF is_f64_rnd])

lemma is_f64_of_int: "\<bar>n\<bar> < 2 ^ 53 \<Longrightarrow> is_f64 (of_int n)"
  unfolding is_f64_def by (intro exI[of _ n] exI[of _ 0]) simp

lemma rnd_of_int: "\<bar>n\<bar> < 2 ^ 53 \<Longrightarrow> rnd (of_int n) = of_int n"
  by (rule rnd_f64[OF is_f64_of_int])

lemma rnd_numeral [simp]: "(numeral n :: int) < 2 ^ 53 \<Longrightarrow> rnd (numeral n) = numeral n"
  using rnd_of_int[of "numeral n"] by simp

lemma rnd_1 [simp]: "rnd 1 = 1"
  using rnd_of_int[of 1] by simp

subsection \<open>The interface of a rounding\<close>

text \<open>
  What the scorer, the risk policy and the ledger arithmetic rely on is not the binary64
  format but four laws of the rounding: it is monotone, it fixes zero and it commutes with
  the sign. Both roundings of the program (\<open>rnd\<close> after every operation, Python's
  \<open>round\<close>) meet them; \<open>rnd\<close> is also idempotent.
\<close>

locale rounding =
  fixes rd :: "rat \<Rightarrow> rat"
  assumes rd_mono: "x \<le> y \<Longrightarrow> rd x \<le> rd y"
    and rd_zero: "rd 0 = 0"
    and rd_uminus: "rd (- x) = - rd x"
begin

lemma rd_nonneg: "0 \<le> x \<Longrightarrow> 0 \<le> rd x"
  using rd_mono[of 0 x] by (simp add: rd_zero)

lemma rd_nonpos: "x \<le> 0 \<Longrightarrow> rd x \<le> 0"
  using rd_mono[of x 0] by (simp add: rd_zero)

lemma rd_pos_imp: "0 < rd x \<Longrightarrow> 0 < x"
  using rd_nonpos[of x] by linarith

lemma rd_neg_imp: "rd x < 0 \<Longrightarrow> x < 0"
  using rd_nonneg[of x] by linarith

lemma rd_abs: "\<bar>rd x\<bar> = rd \<bar>x\<bar>"
  using rd_nonneg[of x] rd_nonpos[of x] by (cases "0 \<le> x") (auto simp: rd_uminus)

lemma rd_diff_nonneg: "y \<le> x \<Longrightarrow> 0 \<le> rd (x - y)"
  by (rule rd_nonneg) simp

lemma rd_diff_nonpos: "x \<le> y \<Longrightarrow> rd (x - y) \<le> 0"
  by (rule rd_nonpos) simp

lemma rd_diff_mono: "x \<le> x' \<Longrightarrow> y' \<le> y \<Longrightarrow> rd (x - y) \<le> rd (x' - y')"
  by (rule rd_mono) simp

lemma rd_add_mono: "x \<le> x' \<Longrightarrow> y \<le> y' \<Longrightarrow> rd (x + y) \<le> rd (x' + y')"
  by (rule rd_mono) simp

lemma rd_mult_right_mono: "x \<le> x' \<Longrightarrow> 0 \<le> c \<Longrightarrow> rd (x * c) \<le> rd (x' * c)"
  by (rule rd_mono) (rule mult_right_mono)

lemma rd_mult_nonneg: "0 \<le> x \<Longrightarrow> 0 \<le> c \<Longrightarrow> 0 \<le> rd (x * c)"
  by (rule rd_nonneg) simp

lemma rd_div_nonneg: "0 \<le> x \<Longrightarrow> 0 \<le> c \<Longrightarrow> 0 \<le> rd (x / c)"
  by (rule rd_nonneg) simp
end

locale exact_rounding = rounding +
  assumes rd_idem: "rd (rd x) = rd x"
begin

lemma rd_le_fixed: "rd y = y \<Longrightarrow> x \<le> y \<Longrightarrow> rd x \<le> y"
  using rd_mono[of x y] by simp

lemma rd_ge_fixed: "rd y = y \<Longrightarrow> y \<le> x \<Longrightarrow> y \<le> rd x"
  using rd_mono[of y x] by simp

lemma rd_between: "rd x \<le> y \<Longrightarrow> rd z \<le> y \<Longrightarrow> rd (max x (rd z)) \<le> y"
  by (simp add: max_def rd_idem)
end

interpretation f64: exact_rounding rnd
  by unfold_locales (auto intro: rnd_mono)

lemma py_round_mono: "x \<le> y \<Longrightarrow> py_round x n \<le> py_round y n"
  unfolding py_round_def
  by (intro rnd_mono divide_right_mono) (simp_all add: rhe_mono mult_right_mono)

interpretation dec: rounding "\<lambda>x. py_round x n" for n
  by unfold_locales (auto simp: py_round_mono, auto simp: py_round_def rhe_uminus)

lemma py_round_0 [simp]: "py_round 0 n = 0"
  by (rule dec.rd_zero)

lemma fmul_0 [simp]: "fmul x 0 = 0" "fmul 0 x = 0"
  by (simp_all add: fmul_def)

lemma fdiv_0 [simp]: "fdiv 0 x = 0"
  by (simp add: fdiv_def)

lemma fsub_self [simp]: "fsub x x = 0"
  by (simp add: fsub_def)

lemma fadd_f64_0 [simp]: "is_f64 x \<Longrightarrow> fadd x 0 = x" "is_f64 x \<Longrightarrow> fadd 0 x = x"
  by (simp_all add: fadd_def rnd_f64)

lemma is_f64_ops [simp]:
  "is_f64 (fadd x y)" "is_f64 (fsub x y)" "is_f64 (fmul x y)" "is_f64 (fdiv x y)"
  by (simp_all add: fadd_def fsub_def fmul_def fdiv_def is_f64_rnd)

lemma is_f64_numeral [simp]: "(numeral n :: int) < 2 ^ 53 \<Longrightarrow> is_f64 (numeral n)"
  using is_f64_of_int[of "numeral n"] by simp


subsection \<open>Monotone operations\<close>

lemma fadd_mono [float_mono]: "x \<le> x' \<Longrightarrow> y \<le> y' \<Longrightarrow> fadd x y \<le> fadd x' y'"
  unfolding fadd_def by (rule f64.rd_add_mono)

lemma fsub_mono [float_mono]: "x \<le> x' \<Longrightarrow> y' \<le> y \<Longrightarrow> fsub x y \<le> fsub x' y'"
  unfolding fsub_def by (rule f64.rd_diff_mono)

lemma fmul_mono [float_mono]: "x \<le> x' \<Longrightarrow> 0 \<le> c \<Longrightarrow> fmul x c \<le> fmul x' c"
  unfolding fmul_def by (rule f64.rd_mult_right_mono)

lemmas [float_mono] = dec.rd_mono

lemma max_mono_float [float_mono]: "(x::float64) \<le> y \<Longrightarrow> max x c \<le> max y c"
  by (simp add: max_def)

lemma fmul_nonneg: "0 \<le> x \<Longrightarrow> 0 \<le> y \<Longrightarrow> 0 \<le> fmul x y"
  unfolding fmul_def by (rule f64.rd_mult_nonneg)

lemma fdiv_nonneg: "0 \<le> x \<Longrightarrow> 0 \<le> y \<Longrightarrow> 0 \<le> fdiv x y"
  unfolding fdiv_def by (rule f64.rd_div_nonneg)

lemma fadd_nonneg: "0 \<le> x \<Longrightarrow> 0 \<le> y \<Longrightarrow> 0 \<le> fadd x y"
  unfolding fadd_def by (rule f64.rd_nonneg) simp

lemma is_f64_py_round [simp]: "is_f64 (py_round x n)"
  by (simp add: py_round_def is_f64_rnd)

lemma is_f64_double: "is_f64 x \<Longrightarrow> is_f64 (2 * x)"
proof -
  assume "is_f64 x"
  then obtain m e where "\<bar>m\<bar> < 2 ^ 53" "- 1074 \<le> e" "x = of_int m * 2 powi e"
    unfolding is_f64_def by blast
  then show ?thesis by (intro is_f64I[of m "e + 1"]) (simp_all add: power_int_add)
qed

text \<open>The midpoint of two floats, computed as the code does, lies between them.\<close>

lemma midpoint_between:
  assumes "is_f64 x" "is_f64 y" "x \<le> y"
  shows "x \<le> fdiv (fadd x y) 2" "fdiv (fadd x y) 2 \<le> y"
proof -
  have "2 * x \<le> fadd x y" unfolding fadd_def
    using assms by (intro f64.rd_ge_fixed rnd_f64 is_f64_double) auto
  then show "x \<le> fdiv (fadd x y) 2" unfolding fdiv_def
    using assms by (intro f64.rd_ge_fixed rnd_f64) auto
  have "fadd x y \<le> 2 * y" unfolding fadd_def
    using assms by (intro f64.rd_le_fixed rnd_f64 is_f64_double) auto
  then show "fdiv (fadd x y) 2 \<le> y" unfolding fdiv_def
    using assms by (intro f64.rd_le_fixed rnd_f64) auto
qed

lemma midpoint_min_max:
  "is_f64 x \<Longrightarrow> is_f64 y \<Longrightarrow> min x y \<le> fdiv (fadd x y) 2 \<and> fdiv (fadd x y) 2 \<le> max x y"
  using midpoint_between[of x y] midpoint_between[of y x]
  by (cases "x \<le> y") (auto simp: fadd_def add.commute min_def max_def)

lemmas float_nonneg = fmul_nonneg fdiv_nonneg fadd_nonneg dec.rd_nonneg f64.rd_nonneg

end
