(* ===== verification/Prelude.thy ===== *)
theory Prelude
  imports Float64 "HOL-Library.AList" "HOL-Library.Char_ord" "HOL-Library.List_Lexorder"
    "HOL-Library.Product_Lexorder" "HOL-Library.Option_ord" "HOL-Library.Sublist" "HOL-Library.Multiset"
begin

section \<open>Prelude: Python values, exceptions, loops and stores\<close>

text \<open>
  What every component of the backend is written with. \<open>pyval\<close> is a JSON value;
  \<open>py_error\<close> is the exception raised; \<open>('w, 'a) py\<close> is a computation that may
  change the state \<open>'w\<close> and then returns or raises (an exception does not undo what
  was written before it). \<open>steps_in R m\<close> says that whatever \<open>m\<close> does to the state
  is related by \<open>R\<close>; the locale \<open>effect\<close> proves once that the combinators keep
  such a bound. The locale \<open>keyed_store\<close> is the contract of a store that is read by
  key and updated by replacing the first record with the key.
  Text is a \<open>string\<close>; characters outside ASCII are their UTF-8 bytes.
\<close>

named_theorems py_simps "running a computation on a state"
named_theorems steps "rules that bound the effect of a computation"

type_synonym datetime = int \<comment> \<open>UTC, microseconds since the epoch\<close>

subsection \<open>Values and exceptions\<close>

datatype pyval =
    PNone | PBool bool | PInt int | PFloat float64 | PStr string
  | PList "pyval list" | PDict "(string \<times> pyval) list"

type_synonym pydict = "(string \<times> pyval) list"

datatype py_error =
    ValueError string
  | ValidationError string \<comment> \<open>pydantic's, a subclass of ValueError\<close>
  | AttributeError string
  | TypeError string
  | KeyError string
  | IndexError string
  | HTTPStatusError int "pyval option" string
      \<comment> \<open>httpx: status code, the body when it parses as JSON, the message\<close>
  | HTTPError string \<comment> \<open>any other httpx transport error\<close>
  | HTTPException int string \<comment> \<open>FastAPI's: status code and detail\<close>
  | DatabaseError string \<comment> \<open>the MySQL driver's\<close>
  | RuntimeError string

fun is_value_error :: "py_error \<Rightarrow> bool" where
  "is_value_error (ValueError _) = True"
| "is_value_error (ValidationError _) = True"
| "is_value_error _ = False"

fun is_http_error :: "py_error \<Rightarrow> bool" where
  "is_http_error (HTTPStatusError _ _ _) = True"
| "is_http_error (HTTPError _) = True"
| "is_http_error _ = False"

fun exc_str :: "py_error \<Rightarrow> string" where
  \<comment> \<open>\<open>str(exc)\<close>\<close>
  "exc_str (ValueError m) = m"
| "exc_str (ValidationError m) = m"
| "exc_str (AttributeError m) = m"
| "exc_str (TypeError m) = m"
| "exc_str (KeyError m) = m"
| "exc_str (IndexError m) = m"
| "exc_str (HTTPStatusError _ _ m) = m"
| "exc_str (HTTPError m) = m"
| "exc_str (HTTPException _ m) = m"
| "exc_str (DatabaseError m) = m"
| "exc_str (RuntimeError m) = m"

subsection \<open>Computations\<close>

type_synonym ('w, 'a) py = "'w \<Rightarrow> (py_error + 'a) \<times> 'w"

definition ret :: "'a \<Rightarrow> ('w, 'a) py" where
  "ret x = (\<lambda>w. (Inr x, w))"

definition raise :: "py_error \<Rightarrow> ('w, 'a) py" where
  "raise e = (\<lambda>w. (Inl e, w))"

definition gets :: "('w \<Rightarrow> 'a) \<Rightarrow> ('w, 'a) py" where
  "gets f = (\<lambda>w. (Inr (f w), w))"

definition modify :: "('w \<Rightarrow> 'w) \<Rightarrow> ('w, unit) py" where
  "modify f = (\<lambda>w. (Inr (), f w))"

definition bnd :: "('w, 'a) py \<Rightarrow> ('a \<Rightarrow> ('w, 'b) py) \<Rightarrow> ('w, 'b) py" where
  "bnd m f = (\<lambda>w. case m w of (Inl e, w') \<Rightarrow> (Inl e, w') | (Inr x, w') \<Rightarrow> f x w')"

definition thn :: "('w, 'a) py \<Rightarrow> ('w, 'b) py \<Rightarrow> ('w, 'b) py" where
  "thn m k = bnd m (\<lambda>_. k)"

definition catch :: "('w, 'a) py \<Rightarrow> (py_error \<Rightarrow> bool) \<Rightarrow> (py_error \<Rightarrow> ('w, 'a) py) \<Rightarrow> ('w, 'a) py" where
  \<comment> \<open>\<open>try: m; except p as e: h e\<close>\<close>
  "catch m p h = (\<lambda>w. case m w of
      (Inl e, w') \<Rightarrow> if p e then h e w' else (Inl e, w')
    | (Inr x, w') \<Rightarrow> (Inr x, w'))"

definition attempt :: "('w, 'a) py \<Rightarrow> ('w, py_error + 'a) py" where
  "attempt m = (\<lambda>w. case m w of (r, w') \<Rightarrow> (Inr r, w'))"

definition require :: "bool \<Rightarrow> py_error \<Rightarrow> ('w, unit) py" where
  \<comment> \<open>\<open>if not b: raise e\<close>\<close>
  "require b e = (if b then ret () else raise e)"

definition lift :: "py_error + 'a \<Rightarrow> ('w, 'a) py" where
  "lift r = (case r of Inl exc \<Rightarrow> raise exc | Inr x \<Rightarrow> ret x)"

primrec for_loop :: "('a \<Rightarrow> 's \<Rightarrow> ('w, 's) py) \<Rightarrow> 'a list \<Rightarrow> 's \<Rightarrow> ('w, 's) py" where
  "for_loop f [] s = ret s"
| "for_loop f (x # xs) s = bnd (f x s) (for_loop f xs)"

primrec for_map :: "('a \<Rightarrow> ('w, 'b) py) \<Rightarrow> 'a list \<Rightarrow> ('w, 'b list) py" where
  "for_map f [] = ret []"
| "for_map f (x # xs) = bnd (f x) (\<lambda>y. bnd (for_map f xs) (\<lambda>ys. ret (y # ys)))"

lemma ret_run [py_simps]: "ret x w = (Inr x, w)"
  by (simp add: ret_def)

lemma raise_run [py_simps]: "raise e w = (Inl e, w)"
  by (simp add: raise_def)

lemma gets_run [py_simps]: "gets f w = (Inr (f w), w)"
  by (simp add: gets_def)

lemma modify_run [py_simps]: "modify f w = (Inr (), f w)"
  by (simp add: modify_def)

lemma bnd_run [py_simps]:
  "bnd m f w = (case m w of (Inl e, w') \<Rightarrow> (Inl e, w') | (Inr x, w') \<Rightarrow> f x w')"
  by (simp add: bnd_def)

lemma thn_run [py_simps]:
  "thn m k w = (case m w of (Inl e, w') \<Rightarrow> (Inl e, w') | (Inr x, w') \<Rightarrow> k w')"
  by (simp add: thn_def bnd_def)

lemma catch_run [py_simps]:
  "catch m p h w = (case m w of
      (Inl e, w') \<Rightarrow> if p e then h e w' else (Inl e, w') | (Inr x, w') \<Rightarrow> (Inr x, w'))"
  by (simp add: catch_def)

lemma attempt_run [py_simps]: "attempt m w = (case m w of (r, w') \<Rightarrow> (Inr r, w'))"
  by (simp add: attempt_def)

lemma require_run [py_simps]: "require b e w = (if b then (Inr (), w) else (Inl e, w))"
  by (simp add: require_def ret_def raise_def)

lemma lift_run [py_simps]: "lift r w = (r, w)"
  by (simp add: lift_def ret_def raise_def split: sum.splits)

lemma bnd_ret [simp]: "bnd (ret x) f = f x"
  by (simp add: bnd_def ret_def)

lemma bnd_ret_right [simp]: "bnd m ret = m"
  by (auto simp: bnd_def ret_def fun_eq_iff split: prod.splits sum.splits)

lemma bnd_raise [simp]: "bnd (raise e) f = raise e"
  by (simp add: bnd_def raise_def)

lemma bnd_assoc: "bnd (bnd m f) g = bnd m (\<lambda>x. bnd (f x) g)"
  by (auto simp: bnd_def fun_eq_iff split: prod.splits sum.splits)

lemma for_loop_append: "for_loop f (xs @ ys) s = bnd (for_loop f xs s) (for_loop f ys)"
proof (induction xs arbitrary: s)
  case (Cons x xs)
  have "for_loop f (xs @ ys) = (\<lambda>s. bnd (for_loop f xs s) (for_loop f ys))"
    by (rule ext) (rule Cons.IH)
  then show ?case by (simp add: bnd_assoc)
qed simp

subsection \<open>Loops that yield one item per turn\<close>

lemma for_map_rel:
  assumes "for_map f xs w = (Inr ys, w')"
    and "\<And>x u y u'. x \<in> set xs \<Longrightarrow> f x u = (Inr y, u') \<Longrightarrow> P x y"
  shows "list_all2 P xs ys"
  using assms
proof (induction xs arbitrary: w ys)
  case (Cons x xs)
  obtain y w1 where y: "f x w = (Inr y, w1)" using Cons.prems(1)
    by (cases "f x w") (auto simp: py_simps split: sum.splits)
  obtain zs where zs: "for_map f xs w1 = (Inr zs, w')" "ys = y # zs" using Cons.prems(1) y
    by (auto simp: py_simps split: prod.splits sum.splits)
  then show ?case using Cons y by (auto simp: list_all2_Cons1)
qed (simp add: py_simps)

lemma for_map_pure:
  assumes "\<And>x. x \<in> set xs \<Longrightarrow> f x w = (Inr (g x), w)"
  shows "for_map f xs w = (Inr (map g xs), w)"
  using assms by (induction xs) (simp_all add: py_simps)

lemma for_loop_induct:
  assumes "for_loop f xs s w = (Inr s', w')" "Q [] s"
    and "\<And>ys x s u t u'. x \<in> set xs \<Longrightarrow> Q ys s \<Longrightarrow> f x s u = (Inr t, u') \<Longrightarrow> Q (ys @ [x]) t"
  shows "Q xs s'"
proof -
  have "for_loop f zs s w = (Inr s', w') \<Longrightarrow> Q ys s \<Longrightarrow> set zs \<subseteq> set xs \<Longrightarrow> Q (ys @ zs) s'" for ys zs s w
  proof (induction zs arbitrary: ys s w)
    case (Cons z zs)
    obtain t u where t: "f z s w = (Inr t, u)" "for_loop f zs t u = (Inr s', w')"
      using Cons.prems(1) by (cases "f z s w") (auto simp: py_simps split: sum.splits)
    have "Q ((ys @ [z]) @ zs) s'"
      using Cons.prems(2,3) t assms(3) by (intro Cons.IH[OF t(2)]) auto
    then show ?case by simp
  qed (simp add: py_simps)
  from this[of xs s w "[]"] assms(1,2) show ?thesis by simp
qed

subsection \<open>Bounding the effect of a computation\<close>

definition steps_in :: "('w \<Rightarrow> 'w \<Rightarrow> bool) \<Rightarrow> ('w, 'a) py \<Rightarrow> bool" where
  "steps_in R m \<longleftrightarrow> (\<forall>w. R w (snd (m w)))"

lemma steps_inD: "steps_in R m \<Longrightarrow> m w = (r, w') \<Longrightarrow> R w w'"
  unfolding steps_in_def by (metis snd_conv)

lemma steps_inI: "(\<And>w r w'. m w = (r, w') \<Longrightarrow> R w w') \<Longrightarrow> steps_in R m"
  unfolding steps_in_def by (metis prod.collapse)

lemma steps_in_mono: "steps_in R m \<Longrightarrow> (\<And>w w'. R w w' \<Longrightarrow> S w w') \<Longrightarrow> steps_in S m"
  by (auto simp: steps_in_def)

locale effect =
  fixes R :: "'w \<Rightarrow> 'w \<Rightarrow> bool"
  assumes R_refl: "R w w"
    and R_trans: "R u v \<Longrightarrow> R v w \<Longrightarrow> R u w"
begin

lemma steps_ret [steps]: "steps_in R (ret x)"
  by (simp add: steps_in_def ret_def R_refl)

lemma steps_raise [steps]: "steps_in R (raise e)"
  by (simp add: steps_in_def raise_def R_refl)

lemma steps_gets [steps]: "steps_in R (gets f)"
  by (simp add: steps_in_def gets_def R_refl)

lemma steps_require [steps]: "steps_in R (require b e)"
  by (simp add: require_def steps_ret steps_raise)

lemma steps_lift [steps]: "steps_in R (lift r)"
  by (cases r) (simp_all add: lift_def steps_ret steps_raise)

lemma steps_bnd [steps]: "steps_in R m \<Longrightarrow> (\<And>x. steps_in R (f x)) \<Longrightarrow> steps_in R (bnd m f)"
  unfolding steps_in_def bnd_def
  by (auto split: prod.splits sum.splits) (metis R_trans snd_conv)+

lemma steps_thn [steps]: "steps_in R m \<Longrightarrow> steps_in R k \<Longrightarrow> steps_in R (thn m k)"
  unfolding thn_def by (rule steps_bnd)

lemma steps_catch [steps]:
  "steps_in R m \<Longrightarrow> (\<And>e. steps_in R (h e)) \<Longrightarrow> steps_in R (catch m p h)"
  unfolding steps_in_def catch_def
  by (auto split: prod.splits sum.splits) (metis R_trans snd_conv)+

lemma steps_attempt [steps]: "steps_in R m \<Longrightarrow> steps_in R (attempt m)"
  unfolding steps_in_def attempt_def by (auto split: prod.splits) (metis snd_conv)

lemma steps_if [steps]:
  "(b \<Longrightarrow> steps_in R m) \<Longrightarrow> (\<not> b \<Longrightarrow> steps_in R k) \<Longrightarrow> steps_in R (if b then m else k)"
  by simp

lemma steps_case_option [steps]:
  "steps_in R m \<Longrightarrow> (\<And>x. steps_in R (f x)) \<Longrightarrow> steps_in R (case z of None \<Rightarrow> m | Some x \<Rightarrow> f x)"
  by (cases z) auto

lemma steps_case_sum [steps]:
  "(\<And>x. steps_in R (f x)) \<Longrightarrow> (\<And>y. steps_in R (g y)) \<Longrightarrow>
   steps_in R (case z of Inl x \<Rightarrow> f x | Inr y \<Rightarrow> g y)"
  by (cases z) auto

lemma steps_case_prod [steps]:
  "(\<And>x y. steps_in R (f x y)) \<Longrightarrow> steps_in R (case z of (x, y) \<Rightarrow> f x y)"
  by (cases z) auto

lemma steps_case_list [steps]:
  "steps_in R m \<Longrightarrow> (\<And>x xs. steps_in R (f x xs)) \<Longrightarrow>
   steps_in R (case z of [] \<Rightarrow> m | x # xs \<Rightarrow> f x xs)"
  by (cases z) auto

lemma steps_Let [steps]: "(\<And>x. steps_in R (f x)) \<Longrightarrow> steps_in R (let x = v in f x)"
  by simp

lemma steps_for_loop [steps]:
  "(\<And>x s. steps_in R (f x s)) \<Longrightarrow> steps_in R (for_loop f xs s)"
  by (induction xs arbitrary: s) (simp_all add: steps_ret steps_bnd)

lemma steps_for_map [steps]: "(\<And>x. steps_in R (f x)) \<Longrightarrow> steps_in R (for_map f xs)"
  by (induction xs) (simp_all add: steps_ret steps_bnd)
end

subsection \<open>Lists, slices, sorting\<close>

definition slice_to :: "'a list \<Rightarrow> int \<Rightarrow> 'a list" where
  \<comment> \<open>\<open>xs[:n]\<close>\<close>
  "slice_to xs n = (if 0 \<le> n then take (nat n) xs else take (length xs - nat (- n)) xs)"

definition slice_from :: "'a list \<Rightarrow> int \<Rightarrow> 'a list" where
  \<comment> \<open>\<open>xs[n:]\<close>\<close>
  "slice_from xs n = (if 0 \<le> n then drop (nat n) xs else drop (length xs - nat (- n)) xs)"

definition limited :: "int option \<Rightarrow> 'a list \<Rightarrow> 'a list" where
  \<comment> \<open>\<open>if limit is not None: xs = xs[:limit]\<close>\<close>
  "limited limit xs = (case limit of None \<Rightarrow> xs | Some n \<Rightarrow> slice_to xs n)"

definition sorted_by :: "('a \<Rightarrow> 'k::linorder) \<Rightarrow> 'a list \<Rightarrow> 'a list" where
  \<comment> \<open>\<open>sorted(xs, key=f)\<close>: stable\<close>
  "sorted_by f xs = sort_key f xs"

definition sorted_desc :: "('a \<Rightarrow> 'k::linorder) \<Rightarrow> 'a list \<Rightarrow> 'a list" where
  \<comment> \<open>\<open>sorted(xs, key=f, reverse=True)\<close>: descending, equal keys keep their order\<close>
  "sorted_desc f xs = rev (sort_key f (rev xs))"

fun max_by :: "('a \<Rightarrow> 'k::linorder) \<Rightarrow> 'a \<Rightarrow> 'a list \<Rightarrow> 'a" where
  \<comment> \<open>\<open>max(x # xs, key=f)\<close>: the first of the largest\<close>
  "max_by f x [] = x"
| "max_by f x (y # ys) = (if f x < f y then max_by f y ys else max_by f x ys)"

fun upsert :: "('a \<Rightarrow> 'k) \<Rightarrow> 'a \<Rightarrow> 'a list \<Rightarrow> 'a list" where
  \<comment> \<open>replace the first element with the same key, append when there is none\<close>
  "upsert key x [] = [x]"
| "upsert key x (y # ys) = (if key y = key x then x # ys else y # upsert key x ys)"

definition lookup :: "('a \<Rightarrow> 'k) \<Rightarrow> 'k \<Rightarrow> 'a list \<Rightarrow> 'a option" where
  \<comment> \<open>the first element with the key\<close>
  "lookup key k xs = find (\<lambda>x. key x = k) xs"

lemma set_sorted_by [simp]: "set (sorted_by f xs) = set xs"
  by (simp add: sorted_by_def)

lemma length_sorted_by [simp]: "length (sorted_by f xs) = length xs"
  by (simp add: sorted_by_def)

lemma sorted_sorted_by [simp]: "sorted (map f (sorted_by f xs))"
  by (simp add: sorted_by_def)

lemma set_sorted_desc [simp]: "set (sorted_desc f xs) = set xs"
  by (simp add: sorted_desc_def)

lemma length_sorted_desc [simp]: "length (sorted_desc f xs) = length xs"
  by (simp add: sorted_desc_def)

lemma sorted_sorted_desc: "sorted_wrt (\<lambda>x y. f y \<le> f x) (sorted_desc f xs)"
proof -
  have "sorted (map f (sort_key f (rev xs)))" by simp
  then show ?thesis by (simp add: sorted_desc_def sorted_wrt_rev sorted_map)
qed

lemma mset_sorted_desc [simp]: "mset (sorted_desc f xs) = mset xs"
  by (simp add: sorted_desc_def)

lemma slice_to_subset: "set (slice_to xs n) \<subseteq> set xs"
  by (auto simp: slice_to_def dest: in_set_takeD)

lemma limited_subset: "set (limited l xs) \<subseteq> set xs"
  by (cases l) (simp_all add: limited_def slice_to_subset)

lemma length_limited: "0 \<le> n \<Longrightarrow> length (limited (Some n) xs) \<le> nat n"
  by (simp add: limited_def slice_to_def)

lemma max_by_in: "max_by f x xs \<in> set (x # xs)"
  by (induction xs arbitrary: x) auto

lemma max_by_ge: "y \<in> set (x # xs) \<Longrightarrow> f y \<le> f (max_by f x xs)"
proof (induction xs arbitrary: x y)
  case (Cons z zs)
  have z: "f z \<le> f (max_by f z zs)" and x: "f x \<le> f (max_by f x zs)"
    using Cons.IH by simp_all
  have rest: "y \<in> set zs \<Longrightarrow> f y \<le> f (max_by f u zs)" for u
    using Cons.IH[of y u] by simp
  show ?case using Cons.prems z x rest by (auto intro: order.trans)
qed simp

subsection \<open>Stores read and updated by key\<close>

locale keyed_store =
  fixes get :: "'k \<Rightarrow> 's \<Rightarrow> 'r option"
    and put :: "'r \<Rightarrow> 's \<Rightarrow> 's"
    and key :: "'r \<Rightarrow> 'k"
  assumes get_put: "get k (put r s) = (if k = key r then Some r else get k s)"
    and get_key: "get k s = Some r \<Longrightarrow> key r = k"
begin

lemma get_put_same: "get (key r) (put r s) = Some r"
  by (simp add: get_put)

lemma get_put_other: "k \<noteq> key r \<Longrightarrow> get k (put r s) = get k s"
  by (simp add: get_put)

lemma get_put_put: "key r = key r' \<Longrightarrow> get k (put r' (put r s)) = get k (put r' s)"
  by (simp add: get_put)

text \<open>The store refines a map from keys to records.\<close>

lemma put_refines_map: "(\<lambda>k. get k (put r s)) = (\<lambda>k. get k s)(key r \<mapsto> r)"
  by (auto simp: get_put fun_eq_iff)

lemma dom_put: "dom (\<lambda>k. get k (put r s)) = insert (key r) (dom (\<lambda>k. get k s))"
  by (auto simp: put_refines_map)
end

lemma lookup_upsert: "lookup key k (upsert key x xs) = (if k = key x then Some x else lookup key k xs)"
  by (induction xs) (auto simp: lookup_def)

lemma lookup_Some: "lookup key k xs = Some x \<Longrightarrow> x \<in> set xs \<and> key x = k"
  by (auto simp: lookup_def find_Some_iff)

lemma lookup_None: "lookup key k xs = None \<longleftrightarrow> k \<notin> key ` set xs"
  by (auto simp: lookup_def find_None_iff)

lemma upsert_keys: "map key (upsert key x xs) =
    (if key x \<in> key ` set xs then map key xs else map key xs @ [key x])"
  by (induction xs) auto

lemma upsert_distinct: "distinct (map key xs) \<Longrightarrow> distinct (map key (upsert key x xs))"
  by (simp add: upsert_keys image_iff)

lemma set_upsert_subset: "set (upsert key x xs) \<subseteq> insert x (set xs)"
  by (induction xs) auto

lemma in_set_upsert [simp]: "x \<in> set (upsert key x xs)"
  by (induction xs) auto

interpretation list_store: keyed_store "lookup key" "upsert key" key for key
  by unfold_locales (auto simp: lookup_upsert dest: lookup_Some)

subsection \<open>Dictionaries and text\<close>

definition dict_of :: "('a \<Rightarrow> 'k) \<Rightarrow> 'a list \<Rightarrow> ('k \<times> 'a) list" where
  \<comment> \<open>\<open>{f(x): x for x in xs}\<close>: later entries win, first occurrence keeps the place\<close>
  "dict_of f xs = fold (\<lambda>x. AList.update (f x) x) xs []"

definition dict_merge :: "pydict \<Rightarrow> pydict \<Rightarrow> pydict" where
  \<comment> \<open>\<open>{**a, **b}\<close>\<close>
  "dict_merge a b = fold (\<lambda>(k, v). AList.update k v) b a"

lemma map_of_fold_update:
  "map_of (fold (\<lambda>x. AList.update (f x) x) xs d) k =
    (case find (\<lambda>x. f x = k) (rev xs) of None \<Rightarrow> map_of d k | Some x \<Rightarrow> Some x)"
proof (induction xs rule: rev_induct)
  case (snoc x xs)
  then show ?case by (auto simp: update_conv')
qed simp

lemma dict_of_get: "map_of (dict_of f xs) k = find (\<lambda>x. f x = k) (rev xs)"
  by (simp add: dict_of_def map_of_fold_update split: option.splits)

lemma dict_of_Some: "map_of (dict_of f xs) k = Some x \<Longrightarrow> x \<in> set xs \<and> f x = k"
proof -
  assume "map_of (dict_of f xs) k = Some x"
  then obtain i where "i < length (rev xs)" "x = rev xs ! i" "f x = k"
    by (auto simp: dict_of_get find_Some_iff)
  then show "x \<in> set xs \<and> f x = k" by (metis nth_mem set_rev)
qed

definition or_text :: "string option \<Rightarrow> string option \<Rightarrow> string option" where
  \<comment> \<open>\<open>a or b\<close> on optional text: the empty text is falsy\<close>
  "or_text a b = (case a of None \<Rightarrow> b | Some t \<Rightarrow> if t = [] then b else Some t)"

definition utf8 :: "nat list \<Rightarrow> string" where
  "utf8 bs = map char_of bs"

definition char_upper :: "char \<Rightarrow> char" where
  "char_upper c = (let n = of_char c :: nat in if 97 \<le> n \<and> n \<le> 122 then char_of (n - 32) else c)"

definition char_lower :: "char \<Rightarrow> char" where
  "char_lower c = (let n = of_char c :: nat in if 65 \<le> n \<and> n \<le> 90 then char_of (n + 32) else c)"

definition py_upper :: "string \<Rightarrow> string" where
  "py_upper s = map char_upper s"

definition py_lower :: "string \<Rightarrow> string" where
  "py_lower s = map char_lower s"

definition is_space :: "char \<Rightarrow> bool" where
  "is_space c = (let n = of_char c :: nat in 9 \<le> n \<and> n \<le> 13 \<or> 28 \<le> n \<and> n \<le> 32)"

definition py_strip :: "string \<Rightarrow> string" where
  "py_strip s = rev (dropWhile is_space (rev (dropWhile is_space s)))"

definition contains :: "string \<Rightarrow> string \<Rightarrow> bool" where
  \<comment> \<open>\<open>t in s\<close>\<close>
  "contains t s = sublist t s"

fun join :: "string \<Rightarrow> string list \<Rightarrow> string" where
  "join sep [] = []"
| "join sep [x] = x"
| "join sep (x # y # ys) = x @ sep @ join sep (y # ys)"

function show_digits :: "int \<Rightarrow> string" where
  \<comment> \<open>decimal digits of a non-negative integer\<close>
  "show_digits n = (if n < 10 then [char_of (48 + n)] else show_digits (n div 10) @ [char_of (48 + n mod 10)])"
  by auto
termination
  by (relation "measure nat") (auto simp: nat_less_eq_zless)

declare show_digits.simps [simp del]

definition show_int :: "int \<Rightarrow> string" where
  "show_int i = (if i < 0 then CHR ''-'' # show_digits (- i) else show_digits i)"

definition show_nat :: "nat \<Rightarrow> string" where
  "show_nat n = show_int (int n)"

end
