(* ===== verification/Formats.thy ===== *)
theory Formats
  imports Prelude
begin

section \<open>Text of dates, floats and values\<close>

text \<open>
  The parts of Python's formatting the backend relies on: \<open>datetime.isoformat()\<close> of a
  UTC date, the format \<open>:g\<close> with which the trading client writes a quantity, the fixed
  formats \<open>:.1f\<close> of the monitor, \<open>repr\<close>
  of a float (the shortest decimal that reads back as the same float) and \<open>str\<close> of a
  JSON value; and the reading of numbers from JSON values (\<open>float(v)\<close>, which does not
  read digit separators, infinities and NaN). Decimal exponents are searched with fuel 400: the exponents of binary64 lie
  between -324 and 308.
\<close>

subsection \<open>Dates\<close>

definition pad :: "nat \<Rightarrow> int \<Rightarrow> string" where
  "pad w n = replicate (w - length (show_digits n)) CHR ''0'' @ show_digits n"

definition civil_from_days :: "int \<Rightarrow> int \<times> int \<times> int" where
  \<comment> \<open>year, month and day of a day count since 1970-01-01\<close>
  "civil_from_days days =
     (let z = days + 719468;
          era = z div 146097;
          doe = z mod 146097;
          yoe = (doe - doe div 1460 + doe div 36524 - doe div 146096) div 365;
          doy = doe - (365 * yoe + yoe div 4 - yoe div 100);
          mp = (5 * doy + 2) div 153;
          d = doy - (153 * mp + 2) div 5 + 1;
          m = (if mp < 10 then mp + 3 else mp - 9)
      in (yoe + era * 400 + (if m \<le> 2 then 1 else 0), m, d))"

definition isoformat :: "datetime \<Rightarrow> string" where
  "isoformat t =
     (case civil_from_days (t div 86400000000) of (y, m, d) \<Rightarrow>
       let us = t mod 86400000000; s = us div 1000000; f = us mod 1000000
       in pad 4 y @ ''-'' @ pad 2 m @ ''-'' @ pad 2 d @ ''T''
          @ pad 2 (s div 3600) @ '':'' @ pad 2 (s div 60 mod 60) @ '':'' @ pad 2 (s mod 60)
          @ (if f = 0 then [] else ''.'' @ pad 6 f) @ ''+00:00'')"

definition milliseconds :: "int \<Rightarrow> int" where
  \<comment> \<open>\<open>timedelta(milliseconds=k)\<close>\<close>
  "milliseconds k = k * 1000"

definition seconds :: "float64 \<Rightarrow> int" where
  \<comment> \<open>\<open>timedelta(seconds=x)\<close>: whole seconds, and the fraction rounded to microseconds\<close>
  "seconds x = (let whole = (if 0 \<le> x then \<lfloor>x\<rfloor> else \<lceil>x\<rceil>)
     in whole * 1000000 + rhe (fmul (fsub x (of_int whole)) 1000000))"

subsection \<open>Decimal text of a float\<close>

fun dec_exp :: "nat \<Rightarrow> rat \<Rightarrow> int" where
  \<comment> \<open>the \<open>k\<close> with \<open>10^k \<le> x < 10^(k+1)\<close>, for a positive \<open>x\<close>\<close>
  "dec_exp 0 x = 0"
| "dec_exp (Suc n) x = (if 10 \<le> x then dec_exp n (x / 10) + 1
     else if x < 1 then dec_exp n (x * 10) - 1 else 0)"

definition pow10 :: "int \<Rightarrow> rat" where
  "pow10 k = (if 0 \<le> k then 10 ^ nat k else 1 / 10 ^ nat (- k))"

definition sig_digits :: "nat \<Rightarrow> rat \<Rightarrow> int \<times> int" where
  \<comment> \<open>\<open>p\<close> significant digits of a positive \<open>x\<close>, half to even, and the decimal exponent\<close>
  "sig_digits p x =
     (let k = dec_exp 400 x; n = rhe (x * pow10 (int p - 1 - k))
      in if n = 10 ^ p then (10 ^ (p - 1), k + 1) else (n, k))"

definition strip_zeros :: "string \<Rightarrow> string" where
  "strip_zeros s = rev (dropWhile (\<lambda>c. c = CHR ''0'') (rev s))"

definition exp_text :: "int \<Rightarrow> string" where
  "exp_text k = ''e'' @ (if k < 0 then ''-'' else ''+'') @ pad 2 \<bar>k\<bar>"

definition point :: "string \<Rightarrow> string \<Rightarrow> string" where
  \<comment> \<open>integer part and fraction, without the point when there is no fraction\<close>
  "point whole fr = (if fr = [] then whole else whole @ ''.'' @ fr)"

definition place_digits :: "string \<Rightarrow> int \<Rightarrow> string \<times> string" where
  \<comment> \<open>digits read with the first of them at \<open>10^k\<close>, as integer part and fraction\<close>
  "place_digits ds k =
     (if k < 0 then (''0'', replicate (nat (- k) - 1) CHR ''0'' @ ds)
      else let ds' = ds @ replicate (nat (k + 1) - length ds) CHR ''0''
           in (take (nat (k + 1)) ds', drop (nat (k + 1)) ds'))"

definition fmt_g :: "float64 \<Rightarrow> string" where
  \<comment> \<open>\<open>f"{x:g}"\<close>\<close>
  "fmt_g x =
     (if x = 0 then ''0''
      else (if x < 0 then ''-'' else []) @
        (case sig_digits 6 \<bar>x\<bar> of (n, k) \<Rightarrow>
          if - 4 \<le> k \<and> k < 6 then
            (case place_digits (show_digits n) k of (w, f) \<Rightarrow> point w (strip_zeros f))
          else point (take 1 (show_digits n)) (strip_zeros (drop 1 (show_digits n))) @ exp_text k))"

fun shortest :: "nat \<Rightarrow> nat \<Rightarrow> rat \<Rightarrow> int \<times> int" where
  \<comment> \<open>the fewest significant digits that read back as the float \<open>x\<close>, starting with \<open>p\<close>\<close>
  "shortest 0 p x = sig_digits 17 x"
| "shortest (Suc fuel) p x =
     (case sig_digits p x of (n, k) \<Rightarrow>
       if rnd (of_int n * pow10 (k - int p + 1)) = x then (n, k) else shortest fuel (Suc p) x)"

definition float_repr :: "float64 \<Rightarrow> string" where
  "float_repr x =
     (if x = 0 then ''0.0''
      else (if x < 0 then ''-'' else []) @
        (case shortest 16 1 \<bar>x\<bar> of (n, k) \<Rightarrow>
          let ds = strip_zeros (show_digits n); ds' = (if ds = [] then ''0'' else ds) in
          if - 4 \<le> k \<and> k < 16 then
            (case place_digits ds' k of (w, f) \<Rightarrow> point w (if f = [] then ''0'' else f))
          else point (take 1 ds') (drop 1 ds') @ exp_text k))"

definition fmt_f :: "nat \<Rightarrow> float64 \<Rightarrow> string" where
  \<comment> \<open>\<open>f"{x:.pf}"\<close>: \<open>p\<close> decimals of the exact value, half to even\<close>
  "fmt_f p x =
     (let ds = pad (Suc p) (rhe (\<bar>x\<bar> * 10 ^ p)); k = length ds - p
      in (if x < 0 then ''-'' else []) @ take k ds @ (if p = 0 then [] else ''.'' @ drop k ds))"

definition total_seconds :: "int \<Rightarrow> float64" where
  \<comment> \<open>\<open>timedelta.total_seconds()\<close> of a difference in microseconds\<close>
  "total_seconds us = rnd (of_int us / 1000000)"

subsection \<open>str of a JSON value\<close>

definition hex_digit :: "nat \<Rightarrow> char" where
  "hex_digit n = (if n < 10 then char_of (48 + n) else char_of (87 + n))"

definition repr_char :: "char \<Rightarrow> char \<Rightarrow> string" where
  \<comment> \<open>one character inside the quote \<open>q\<close>; bytes of non-ASCII text are kept\<close>
  "repr_char q c =
     (let n = of_char c :: nat in
      if c = q \<or> n = 92 then [char_of (92::nat), c]
      else if n = 10 then [char_of (92::nat), CHR ''n'']
      else if n = 13 then [char_of (92::nat), CHR ''r'']
      else if n = 9 then [char_of (92::nat), CHR ''t'']
      else if n < 32 \<or> n = 127 then
        [char_of (92::nat), CHR ''x'', hex_digit (n div 16), hex_digit (n mod 16)]
      else [c])"

definition repr_str :: "string \<Rightarrow> string" where
  "repr_str s =
     (let single = char_of (39::nat); double = char_of (34::nat);
          q = (if single \<in> set s \<and> double \<notin> set s then double else single)
      in [q] @ concat (map (repr_char q) s) @ [q])"

fun py_repr :: "pyval \<Rightarrow> string" where
  "py_repr PNone = ''None''"
| "py_repr (PBool b) = (if b then ''True'' else ''False'')"
| "py_repr (PInt i) = show_int i"
| "py_repr (PFloat x) = float_repr x"
| "py_repr (PStr s) = repr_str s"
| "py_repr (PList vs) = ''['' @ join '', '' (map py_repr vs) @ '']''"
| "py_repr (PDict d) = ''{'' @ join '', '' (map (\<lambda>(k, v). repr_str k @ '': '' @ py_repr v) d) @ ''}''"

fun py_str :: "pyval \<Rightarrow> string" where
  "py_str (PStr s) = s"
| "py_str v = py_repr v"

subsection \<open>Reading numbers\<close>

definition py_truthy :: "pyval \<Rightarrow> bool" where
  "py_truthy v = (case v of PNone \<Rightarrow> False | PBool b \<Rightarrow> b | PInt i \<Rightarrow> i \<noteq> 0 | PFloat x \<Rightarrow> x \<noteq> 0
     | PStr s \<Rightarrow> s \<noteq> [] | PList l \<Rightarrow> l \<noteq> [] | PDict d \<Rightarrow> d \<noteq> [])"

definition digit_of :: "char \<Rightarrow> int option" where
  "digit_of c = (let n = of_char c :: int in if 48 \<le> n \<and> n \<le> 57 then Some (n - 48) else None)"

definition is_digit :: "char \<Rightarrow> bool" where
  "is_digit c \<longleftrightarrow> digit_of c \<noteq> None"

definition digits_val :: "string \<Rightarrow> int" where
  "digits_val s = fold (\<lambda>c n. n * 10 + (case digit_of c of Some d \<Rightarrow> d | None \<Rightarrow> 0)) s 0"

fun sign_split :: "string \<Rightarrow> bool \<times> string" where
  "sign_split (CHR ''-'' # s) = (True, s)"
| "sign_split (CHR ''+'' # s) = (False, s)"
| "sign_split s = (False, s)"

definition exponent_of :: "string \<Rightarrow> int option" where
  \<comment> \<open>what follows the mantissa: nothing, or a signed exponent\<close>
  "exponent_of s =
     (case s of [] \<Rightarrow> Some 0
      | c # t \<Rightarrow> if c \<noteq> CHR ''e'' \<and> c \<noteq> CHR ''E'' then None
          else (case sign_split t of (neg, ds) \<Rightarrow>
            if ds \<noteq> [] \<and> list_all is_digit ds then Some (if neg then - digits_val ds else digits_val ds)
            else None))"

definition parse_decimal :: "string \<Rightarrow> rat option" where
  "parse_decimal s =
     (case sign_split (py_strip s) of (neg, t) \<Rightarrow>
       let whole = takeWhile is_digit t; r = dropWhile is_digit t;
           fraction = (case r of CHR ''.'' # u \<Rightarrow> takeWhile is_digit u | _ \<Rightarrow> []);
           rest = (case r of CHR ''.'' # u \<Rightarrow> dropWhile is_digit u | _ \<Rightarrow> r)
       in if whole = [] \<and> fraction = [] then None
          else (case exponent_of rest of None \<Rightarrow> None
            | Some k \<Rightarrow> let v = of_int (digits_val (whole @ fraction)) * pow10 (k - int (length fraction))
                        in Some (if neg then - v else v)))"

definition py_float :: "pyval \<Rightarrow> py_error + float64" where
  \<comment> \<open>\<open>float(v)\<close>\<close>
  "py_float v =
     (case v of
        PInt i \<Rightarrow> Inr (rnd (of_int i))
      | PBool b \<Rightarrow> Inr (if b then 1 else 0)
      | PFloat x \<Rightarrow> Inr (rnd x) \<comment> \<open>the same float: a \<open>PFloat\<close> holds a binary64 value\<close>
      | PStr s \<Rightarrow> (case parse_decimal s of Some x \<Rightarrow> Inr (rnd x)
          | None \<Rightarrow> Inl (ValueError (''could not convert string to float: '' @ repr_str s)))
      | _ \<Rightarrow> Inl (TypeError ''float() argument must be a string or a real number''))"

definition get_or :: "string \<Rightarrow> pyval \<Rightarrow> pydict \<Rightarrow> pyval" where
  "get_or k v d = (case map_of d k of Some x \<Rightarrow> x | None \<Rightarrow> v)"

definition py_or :: "pyval \<Rightarrow> pyval \<Rightarrow> pyval" where
  "py_or a b = (if py_truthy a then a else b)"

lemma py_float_f64: "py_float v = Inr x \<Longrightarrow> is_f64 x"
  using is_f64_of_int[of 1] by (auto simp: py_float_def is_f64_rnd split: pyval.splits option.splits if_splits)

subsection \<open>Values read from the text\<close>

lemma isoformat_epoch: "isoformat 0 = ''1970-01-01T00:00:00+00:00''"
  by code_simp

lemma fmt_g_small: "fmt_g (rnd (1 / 10)) = ''0.1''" "fmt_g 25000 = ''25000''"
  by code_simp+

lemma fmt_g_loses_digits: "fmt_g (1234567 / 1000) = ''1234.57''" "fmt_g 1000000 = ''1e+06''"
  by code_simp+

lemma fmt_f_examples: "fmt_f 6 (- rnd (1 / 8000)) = ''-0.000125''" "fmt_f 0 72 = ''72''" "fmt_f 1 (rnd (1 / 3)) = ''0.3''"
  by code_simp+

lemma float_repr_tenth: "float_repr (rnd (1 / 10)) = ''0.1''"
  by code_simp

end
