(* ===== verification/World.thy ===== *)
theory World
  imports Formats
begin

section \<open>The state of the backend\<close>

text \<open>
  The data of the ledger, the audit log, the exchange reports, the circuit breaker and the
  safety switch (\<open>*/schemas.py\<close>), the state they are kept in (\<open>world\<close>: the contents
  of the runtime files or MySQL tables and of the in-memory safety service), and what comes
  from outside (\<open>env\<close>: the clock, \<open>uuid4\<close>, the replies of Binance), read by the number
  of times it was asked. Text fields with a fixed set of values (\<open>Literal[...]\<close>) are
  datatypes with the text they stand for. A date carries UTC, as all code of the backend
  writes them.
\<close>

subsection \<open>Ledger\<close>

datatype trade_mode = Paper | Live

fun mode_str :: "trade_mode \<Rightarrow> string" where
  "mode_str Paper = ''paper''"
| "mode_str Live = ''live''"

datatype trade_status =
  Candidate | Open | Hedged | Closing | Closed | Failed | RecoveryPending | Cancelled

fun status_str :: "trade_status \<Rightarrow> string" where
  "status_str Candidate = ''candidate''"
| "status_str Open = ''open''"
| "status_str Hedged = ''hedged''"
| "status_str Closing = ''closing''"
| "status_str Closed = ''closed''"
| "status_str Failed = ''failed''"
| "status_str RecoveryPending = ''recovery_pending''"
| "status_str Cancelled = ''cancelled''"

record ledger_record =
  lr_trade_id :: string
  lr_mode :: trade_mode
  lr_strategy_id :: string
  lr_symbol :: string
  lr_status :: trade_status
  lr_opened_at :: datetime
  lr_closed_at :: "datetime option"
  lr_net_exposure :: float64
  lr_spot_notional :: float64
  lr_perp_notional :: float64
  lr_realized_pnl :: float64
  lr_notes :: "string option"

definition valid_ledger_record :: "ledger_record \<Rightarrow> bool" where
  \<comment> \<open>the constraints \<open>model_validate\<close> checks when a record is read back\<close>
  "valid_ledger_record r \<longleftrightarrow> 0 \<le> lr_spot_notional r \<and> 0 \<le> lr_perp_notional r"

datatype write_mode = AppendRows | ReplaceRows

subsection \<open>Audit log\<close>

datatype severity = Debug | Info | Warning | Error | Critical

fun severity_str :: "severity \<Rightarrow> string" where
  "severity_str Debug = ''debug''"
| "severity_str Info = ''info''"
| "severity_str Warning = ''warning''"
| "severity_str Error = ''error''"
| "severity_str Critical = ''critical''"

record audit_event =
  ev_event_id :: string
  ev_event_type :: string
  ev_severity :: severity
  ev_source :: string
  ev_occurred_at :: datetime
  ev_summary :: string
  ev_payload :: pydict
  ev_tags :: "string list"

subsection \<open>Exchange order reports\<close>

datatype leg = Spot | Perp

fun leg_str :: "leg \<Rightarrow> string" where
  "leg_str Spot = ''spot''"
| "leg_str Perp = ''perp''"

record order_report =
  er_report_id :: string
  er_venue :: string
  er_order_id :: string
  er_client_order_id :: "string option"
  er_trade_id :: "string option"
  er_symbol :: string
  er_leg :: leg
  er_status :: string
  er_executed_qty :: float64
  er_cum_quote_qty :: float64
  er_updated_at :: datetime

definition valid_order_report :: "order_report \<Rightarrow> bool" where
  "valid_order_report r \<longleftrightarrow> 0 \<le> er_executed_qty r \<and> 0 \<le> er_cum_quote_qty r"

subsection \<open>Circuit breaker and safety switch\<close>

record breaker_state =
  cb_enabled :: bool
  cb_is_open :: bool
  cb_failure_threshold :: int
  cb_cooldown_seconds :: float64
  cb_consecutive_failures :: int
  cb_last_failure_at :: "datetime option"
  cb_opened_at :: "datetime option"
  cb_resume_at :: "datetime option"
  cb_last_reason :: "string option"
  cb_last_trade_id :: "string option"
  cb_updated_at :: datetime

definition valid_breaker_state :: "breaker_state \<Rightarrow> bool" where
  "valid_breaker_state s \<longleftrightarrow> 1 \<le> cb_failure_threshold s \<and> 0 < cb_cooldown_seconds s
     \<and> 0 \<le> cb_consecutive_failures s"

record safety_state =
  sf_frozen :: bool
  sf_new_positions_allowed :: bool
  sf_reduce_only_trades :: "string set"
  sf_paused_trades :: "string set"
  sf_updated_at :: datetime

subsection \<open>Requests to the exchange\<close>

datatype http_method = GET | POST

record http_request =
  rq_method :: http_method
  rq_url :: string
  rq_payload :: "(string \<times> string) list"

subsection \<open>World and environment\<close>

record world =
  w_ledger :: "ledger_record list"
  w_events :: "audit_event list"
  w_reports :: "order_report list"
  w_breaker :: "breaker_state option"
  w_safety :: safety_state
  w_sent :: "http_request list"
  w_ticks :: nat
  w_uuids :: nat

text \<open>
  \<open>env_http n r\<close> is the outcome of the \<open>n\<close>-th request of the run: the decoded JSON body,
  or the exception of \<open>post\<close>/\<open>get\<close>/\<open>raise_for_status\<close>. \<open>env_now n\<close> and
  \<open>env_uuid n\<close> are the \<open>n\<close>-th readings of \<open>datetime.now(timezone.utc)\<close> and
  \<open>uuid4().hex\<close>.
\<close>

record env =
  env_now :: "nat \<Rightarrow> datetime"
  env_uuid :: "nat \<Rightarrow> string"
  env_http :: "nat \<Rightarrow> http_request \<Rightarrow> py_error + pyval"

text \<open>An environment for examples: a counting clock, and an exchange that fills every order.\<close>

definition sample_env :: env where
  "sample_env = \<lparr>env_now = (\<lambda>n. int n), env_uuid = show_nat,
     env_http = (\<lambda>n r. Inr (PDict [(''status'', PStr ''FILLED'')]))\<rparr>"

definition utc_now :: "env \<Rightarrow> (world, datetime) py" where
  "utc_now e = (\<lambda>w. (Inr (env_now e (w_ticks w)), w\<lparr>w_ticks := Suc (w_ticks w)\<rparr>))"

definition uuid_hex :: "env \<Rightarrow> (world, string) py" where
  "uuid_hex e = (\<lambda>w. (Inr (env_uuid e (w_uuids w)), w\<lparr>w_uuids := Suc (w_uuids w)\<rparr>))"

definition or_now :: "env \<Rightarrow> datetime option \<Rightarrow> (world, datetime) py" where
  \<comment> \<open>\<open>now or datetime.now(timezone.utc)\<close>\<close>
  "or_now e t = (case t of Some t \<Rightarrow> ret t | None \<Rightarrow> utc_now e)"

definition send :: "env \<Rightarrow> http_request \<Rightarrow> (world, pyval) py" where
  "send e r = (\<lambda>w. (env_http e (length (w_sent w)) r, w\<lparr>w_sent := w_sent w @ [r]\<rparr>))"

lemma utc_now_run [py_simps]:
  "utc_now e w = (Inr (env_now e (w_ticks w)), w\<lparr>w_ticks := Suc (w_ticks w)\<rparr>)"
  by (simp add: utc_now_def)

lemma uuid_hex_run [py_simps]:
  "uuid_hex e w = (Inr (env_uuid e (w_uuids w)), w\<lparr>w_uuids := Suc (w_uuids w)\<rparr>)"
  by (simp add: uuid_hex_def)

lemma or_now_Some [py_simps]: "or_now e (Some t) w = (Inr t, w)"
  by (simp add: or_now_def ret_run)

lemma or_now_None [py_simps]: "or_now e None = utc_now e"
  by (simp add: or_now_def)

lemma send_run [py_simps]:
  "send e r w = (env_http e (length (w_sent w)) r, w\<lparr>w_sent := w_sent w @ [r]\<rparr>)"
  by (simp add: send_def)

subsection \<open>What a run may change\<close>

text \<open>
  The relations whose preservation by every operation the components state: a run only
  appends to the audit log (\<open>log_grows\<close>), sends no request (\<open>silent\<close>), leaves the
  ledger as it is (\<open>ledger_kept\<close>) or the safety switch as it is (\<open>safety_kept\<close>). Each is
  an effect, so a computation is bounded by going through its combinators.
\<close>

definition log_grows :: "world \<Rightarrow> world \<Rightarrow> bool" where
  "log_grows w w' \<longleftrightarrow> (\<exists>es. w_events w' = w_events w @ es)"

definition silent :: "world \<Rightarrow> world \<Rightarrow> bool" where
  "silent w w' \<longleftrightarrow> w_sent w' = w_sent w"

definition ledger_kept :: "world \<Rightarrow> world \<Rightarrow> bool" where
  "ledger_kept w w' \<longleftrightarrow> w_ledger w' = w_ledger w"

definition safety_kept :: "world \<Rightarrow> world \<Rightarrow> bool" where
  "safety_kept w w' \<longleftrightarrow> w_safety w' = w_safety w"

definition breaker_kept :: "world \<Rightarrow> world \<Rightarrow> bool" where
  "breaker_kept w w' \<longleftrightarrow> w_breaker w' = w_breaker w"

interpretation log_fx: effect log_grows
  by unfold_locales (auto simp: log_grows_def)

interpretation silent_fx: effect silent
  by unfold_locales (auto simp: silent_def)

interpretation ledger_fx: effect ledger_kept
  by unfold_locales (auto simp: ledger_kept_def)

interpretation safety_fx: effect safety_kept
  by unfold_locales (auto simp: safety_kept_def)

interpretation breaker_fx: effect breaker_kept
  by unfold_locales (auto simp: breaker_kept_def)

lemmas kept_defs = log_grows_def silent_def ledger_kept_def safety_kept_def breaker_kept_def

lemma steps_utc_now [steps]:
  "steps_in log_grows (utc_now e)" "steps_in silent (utc_now e)" "steps_in ledger_kept (utc_now e)"
  "steps_in safety_kept (utc_now e)" "steps_in breaker_kept (utc_now e)"
  by (simp_all add: steps_in_def utc_now_def kept_defs)

lemma steps_uuid_hex [steps]:
  "steps_in log_grows (uuid_hex e)" "steps_in silent (uuid_hex e)" "steps_in ledger_kept (uuid_hex e)"
  "steps_in safety_kept (uuid_hex e)" "steps_in breaker_kept (uuid_hex e)"
  by (simp_all add: steps_in_def uuid_hex_def kept_defs)

lemma steps_or_now [steps]:
  "steps_in log_grows (or_now e t)" "steps_in silent (or_now e t)" "steps_in ledger_kept (or_now e t)"
  "steps_in safety_kept (or_now e t)" "steps_in breaker_kept (or_now e t)"
  unfolding or_now_def by (intro steps)+

lemma steps_send [steps]:
  "steps_in log_grows (send e r)" "steps_in ledger_kept (send e r)"
  "steps_in safety_kept (send e r)" "steps_in breaker_kept (send e r)"
  by (simp_all add: steps_in_def send_def kept_defs)

end
