(* ===== verification/Ledger.thy ===== *)
theory Ledger
  imports World
begin

section \<open>Trade ledger\<close>

text \<open>
  \<open>app/ledger/store.py\<close> and \<open>service.py\<close>. Reading the ledger validates every record, so
  one invalid record makes the whole ledger unreadable; writing does not validate. The
  service keeps one record per trade: \<open>save_record\<close> replaces the first record with the
  trade's id or appends. The store is an instance of \<open>keyed_store\<close>, and
  \<open>ledger_map\<close> is the map it refines.
\<close>

definition readable :: "world \<Rightarrow> bool" where
  "readable w \<longleftrightarrow> list_all valid_ledger_record (w_ledger w)"

definition ledger_list :: "(world, ledger_record list) py" where
  "ledger_list = (\<lambda>w. if list_all valid_ledger_record (w_ledger w) then (Inr (w_ledger w), w)
     else (Inl (ValidationError ''TradeLedgerRecord''), w))"

definition ledger_save :: "ledger_record list \<Rightarrow> write_mode \<Rightarrow> (world, ledger_record list) py" where
  "ledger_save rs m =
     bnd (case m of ReplaceRows \<Rightarrow> ret rs | AppendRows \<Rightarrow> bnd ledger_list (\<lambda>old. ret (old @ rs)))
       (\<lambda>persisted. thn (modify (\<lambda>w. w\<lparr>w_ledger := persisted\<rparr>)) (ret persisted))"

definition list_records ::
  "trade_mode option \<Rightarrow> trade_status option \<Rightarrow> string option \<Rightarrow> string option \<Rightarrow>
   (world, ledger_record list) py" where
  "list_records mode status strategy_id symbol =
     bnd ledger_list (\<lambda>records.
       let records = (case mode of None \<Rightarrow> records | Some m \<Rightarrow> filter (\<lambda>r. lr_mode r = m) records);
           records = (case status of None \<Rightarrow> records | Some s \<Rightarrow> filter (\<lambda>r. lr_status r = s) records);
           records = (case strategy_id of None \<Rightarrow> records | Some s \<Rightarrow> filter (\<lambda>r. lr_strategy_id r = s) records);
           records = (case symbol of None \<Rightarrow> records | Some s \<Rightarrow> filter (\<lambda>r. lr_symbol r = s) records)
       in ret records)"

definition import_records :: "ledger_record list \<Rightarrow> write_mode \<Rightarrow> (world, ledger_record list) py" where
  "import_records rs m = ledger_save rs m"

definition get_record :: "string \<Rightarrow> (world, ledger_record option) py" where
  "get_record trade_id = bnd ledger_list (\<lambda>rs. ret (lookup lr_trade_id trade_id rs))"

definition save_record :: "ledger_record \<Rightarrow> (world, ledger_record) py" where
  "save_record r =
     bnd ledger_list (\<lambda>rs. thn (ledger_save (upsert lr_trade_id r rs) ReplaceRows) (ret r))"

subsection \<open>Running the ledger\<close>

definition set_ledger :: "ledger_record \<Rightarrow> world \<Rightarrow> world" where
  "set_ledger r w = w\<lparr>w_ledger := upsert lr_trade_id r (w_ledger w)\<rparr>"

lemma ledger_list_run:
  "ledger_list w = (if readable w then (Inr (w_ledger w), w) else (Inl (ValidationError ''TradeLedgerRecord''), w))"
  by (simp add: ledger_list_def readable_def)

lemma get_record_run [py_simps]:
  "get_record k w = (if readable w then (Inr (lookup lr_trade_id k (w_ledger w)), w)
     else (Inl (ValidationError ''TradeLedgerRecord''), w))"
  by (simp add: get_record_def ledger_list_run py_simps)

lemma save_record_run [py_simps]:
  "save_record r w = (if readable w then (Inr r, set_ledger r w)
     else (Inl (ValidationError ''TradeLedgerRecord''), w))"
  by (simp add: save_record_def ledger_save_def ledger_list_run set_ledger_def py_simps)

lemma list_records_all [py_simps]:
  "list_records None None None None w = (if readable w then (Inr (w_ledger w), w)
     else (Inl (ValidationError ''TradeLedgerRecord''), w))"
  by (simp add: list_records_def ledger_list_run py_simps)

lemma upsert_list_all: "P x \<Longrightarrow> list_all P xs \<Longrightarrow> list_all P (upsert key x xs)"
  by (induction xs) auto

lemma upsert_list_all_iff: "list_all P xs \<Longrightarrow> list_all P (upsert key x xs) \<longleftrightarrow> P x"
  by (induction xs) auto

lemma readable_set_ledger [simp]:
  "readable w \<Longrightarrow> readable (set_ledger r w) \<longleftrightarrow> valid_ledger_record r"
  by (simp add: readable_def set_ledger_def upsert_list_all_iff)

lemma readable_cong: "w_ledger w' = w_ledger w \<Longrightarrow> readable w' = readable w"
  by (simp add: readable_def)

lemma set_ledger_fields [simp]:
  "w_events (set_ledger r w) = w_events w" "w_reports (set_ledger r w) = w_reports w"
  "w_breaker (set_ledger r w) = w_breaker w" "w_safety (set_ledger r w) = w_safety w"
  "w_sent (set_ledger r w) = w_sent w" "w_ticks (set_ledger r w) = w_ticks w"
  "w_uuids (set_ledger r w) = w_uuids w"
  "w_ledger (set_ledger r w) = upsert lr_trade_id r (w_ledger w)"
  by (simp_all add: set_ledger_def)

lemma upsert_upsert: "key x = key y \<Longrightarrow> upsert key y (upsert key x xs) = upsert key y xs"
  by (induction xs) auto

lemma set_ledger_twice [simp]:
  "lr_trade_id r = lr_trade_id r' \<Longrightarrow> set_ledger r' (set_ledger r w) = set_ledger r' w"
  by (simp add: set_ledger_def upsert_upsert)

subsection \<open>The map behind the ledger\<close>

definition ledger_map :: "world \<Rightarrow> string \<Rightarrow> ledger_record option" where
  "ledger_map w = (\<lambda>k. lookup lr_trade_id k (w_ledger w))"

definition one_per_trade :: "world \<Rightarrow> bool" where
  "one_per_trade w \<longleftrightarrow> distinct (map lr_trade_id (w_ledger w))"

lemma ledger_map_set [simp]: "ledger_map (set_ledger r w) = (ledger_map w)(lr_trade_id r \<mapsto> r)"
  using list_store.put_refines_map[of lr_trade_id r "w_ledger w"] by (simp add: ledger_map_def)

lemma one_per_trade_set: "one_per_trade w \<Longrightarrow> one_per_trade (set_ledger r w)"
  by (simp add: one_per_trade_def upsert_distinct)

lemma steps_ledger_read [steps]:
  "steps_in log_grows ledger_list" "steps_in silent ledger_list" "steps_in ledger_kept ledger_list"
  "steps_in safety_kept ledger_list" "steps_in breaker_kept ledger_list"
  by (simp_all add: steps_in_def ledger_list_def kept_defs)

lemma steps_get_record [steps]:
  "steps_in log_grows (get_record k)" "steps_in silent (get_record k)"
  "steps_in ledger_kept (get_record k)" "steps_in safety_kept (get_record k)"
  "steps_in breaker_kept (get_record k)"
  unfolding get_record_def by (intro steps)+

lemma steps_list_records [steps]:
  "steps_in log_grows (list_records a b c d)" "steps_in silent (list_records a b c d)"
  "steps_in ledger_kept (list_records a b c d)" "steps_in safety_kept (list_records a b c d)"
  "steps_in breaker_kept (list_records a b c d)"
  unfolding list_records_def by (intro steps)+

lemma steps_save_record [steps]:
  "steps_in log_grows (save_record r)" "steps_in silent (save_record r)"
  "steps_in safety_kept (save_record r)" "steps_in breaker_kept (save_record r)"
  by (simp_all add: steps_in_def save_record_run kept_defs)

subsection \<open>Properties\<close>

text \<open>
  C5: On a readable ledger \<open>save_record\<close> refines the update of a map: it returns the
  record, later reads of its trade return it and every other trade is untouched; it keeps
  one record per trade; and the ledger stays readable exactly when the saved record is
  valid (saving does not validate, reading does).
\<close>

theorem save_record_refines_map:
  assumes "readable w" and run: "save_record r w = (res, w')"
  shows "res = Inr r
    \<and> ledger_map w' = (ledger_map w)(lr_trade_id r \<mapsto> r)
    \<and> (one_per_trade w \<longrightarrow> one_per_trade w')
    \<and> (readable w' \<longleftrightarrow> valid_ledger_record r)
    \<and> get_record k w' = (if valid_ledger_record r
         then Inr (if k = lr_trade_id r then Some r else ledger_map w k)
         else Inl (ValidationError ''TradeLedgerRecord''), w')"
proof -
  have w': "res = Inr r" "w' = set_ledger r w" using assms by (simp_all add: save_record_run)
  have get: "lookup lr_trade_id k (w_ledger w') = (if k = lr_trade_id r then Some r else ledger_map w k)"
    by (simp add: w' lookup_upsert ledger_map_def)
  then show ?thesis
    using assms(1) one_per_trade_set[of w r] ledger_map_set[of r w]
    by (simp add: w' get_record_run)
qed

definition sample_record :: "string \<Rightarrow> trade_status \<Rightarrow> ledger_record" where
  "sample_record k s = \<lparr>lr_trade_id = k, lr_mode = Paper, lr_strategy_id = ''funding-arb'',
     lr_symbol = ''BTCUSDT'', lr_status = s, lr_opened_at = 0, lr_closed_at = None,
     lr_net_exposure = 0, lr_spot_notional = 1000, lr_perp_notional = 1000,
     lr_realized_pnl = 0, lr_notes = None\<rparr>"

lemma sample_record_fields [simp]:
  "lr_trade_id (sample_record k s) = k" "lr_status (sample_record k s) = s"
  "lr_mode (sample_record k s) = Paper" "lr_symbol (sample_record k s) = ''BTCUSDT''"
  "lr_spot_notional (sample_record k s) = 1000" "lr_perp_notional (sample_record k s) = 1000"
  "lr_net_exposure (sample_record k s) = 0" "lr_notes (sample_record k s) = None"
  by (simp_all add: sample_record_def)

definition sample_world :: "ledger_record list \<Rightarrow> world" where
  "sample_world rs = \<lparr>w_ledger = rs, w_events = [], w_reports = [], w_breaker = None,
     w_safety = \<lparr>sf_frozen = False, sf_new_positions_allowed = True, sf_reduce_only_trades = {},
       sf_paused_trades = {}, sf_updated_at = 0\<rparr>,
     w_sent = [], w_ticks = 0, w_uuids = 0\<rparr>"

lemma sample_world_fields [simp]:
  "w_ledger (sample_world rs) = rs" "w_events (sample_world rs) = []" "w_reports (sample_world rs) = []"
  "w_breaker (sample_world rs) = None" "w_sent (sample_world rs) = []" "w_ticks (sample_world rs) = 0"
  "w_uuids (sample_world rs) = 0" "sf_frozen (w_safety (sample_world rs)) = False"
  "sf_new_positions_allowed (w_safety (sample_world rs)) = True"
  "sf_paused_trades (w_safety (sample_world rs)) = {}"
  by (simp_all add: sample_world_def)

theorem save_record_refines_map_witness:
  "ledger_map (snd (save_record (sample_record ''t1'' Closed) (sample_world [sample_record ''t1'' Open]))) ''t1''
     = Some (sample_record ''t1'' Closed)"
proof -
  have ok: "readable (sample_world [sample_record ''t1'' Open])"
    by (simp add: sample_world_def sample_record_def readable_def valid_ledger_record_def)
  have "ledger_map (snd (save_record (sample_record ''t1'' Closed) (sample_world [sample_record ''t1'' Open])))
      = (ledger_map (sample_world [sample_record ''t1'' Open]))
          (lr_trade_id (sample_record ''t1'' Closed) \<mapsto> sample_record ''t1'' Closed)"
    using save_record_refines_map[OF ok prod.collapse[symmetric], of "sample_record ''t1'' Closed"] by blast
  then show ?thesis by simp
qed

end
