(* ===== verification/AuditLog.thy ===== *)
theory AuditLog
  imports Ledger
begin

section \<open>Audit log\<close>

text \<open>
  \<open>app/audit/store.py\<close> and \<open>service.py\<close>. Every component records what it does through
  \<open>record_event\<close>, which appends. \<open>log_grows\<close> is kept by every operation of the backend
  but an import in replace mode.
\<close>

definition audit_save :: "audit_event list \<Rightarrow> write_mode \<Rightarrow> (world, audit_event list) py" where
  "audit_save es m =
     bnd (gets (\<lambda>w. case m of ReplaceRows \<Rightarrow> es | AppendRows \<Rightarrow> w_events w @ es))
       (\<lambda>persisted. thn (modify (\<lambda>w. w\<lparr>w_events := persisted\<rparr>)) (ret persisted))"

definition list_events :: "severity option \<Rightarrow> string option \<Rightarrow> int option \<Rightarrow> (world, audit_event list) py" where
  "list_events sev source limit =
     gets (\<lambda>w. let filtered = filter (\<lambda>ev. (case sev of None \<Rightarrow> True | Some s \<Rightarrow> ev_severity ev = s)
                    \<and> (case source of None \<Rightarrow> True | Some s \<Rightarrow> ev_source ev = s)) (w_events w);
               ordered = sorted_by (\<lambda>ev. (ev_occurred_at ev, ev_event_id ev)) filtered
           in case limit of None \<Rightarrow> ordered | Some n \<Rightarrow> slice_from ordered (- n))"

definition audit_record_event ::
  "env \<Rightarrow> string \<Rightarrow> string \<Rightarrow> string \<Rightarrow> severity \<Rightarrow> datetime option \<Rightarrow> pydict option \<Rightarrow>
   string list option \<Rightarrow> string option \<Rightarrow> (world, audit_event) py" where
  "audit_record_event e event_type source summary sev occurred_at payload tags event_id =
     bnd (case event_id of None \<Rightarrow> uuid_hex e | Some t \<Rightarrow> if t = [] then uuid_hex e else ret t) (\<lambda>eid.
     bnd (or_now e occurred_at) (\<lambda>tm.
       let ev = \<lparr>ev_event_id = eid, ev_event_type = event_type, ev_severity = sev, ev_source = source,
                 ev_occurred_at = tm, ev_summary = summary,
                 ev_payload = (case payload of None \<Rightarrow> [] | Some p \<Rightarrow> p),
                 ev_tags = (case tags of None \<Rightarrow> [] | Some t \<Rightarrow> t)\<rparr>
       in thn (audit_save [ev] AppendRows) (ret ev)))"

definition import_events :: "audit_event list \<Rightarrow> write_mode \<Rightarrow> (world, audit_event list) py" where
  "import_events es m = audit_save es m"

subsection \<open>Running the log\<close>

lemma record_event_at [py_simps]:
  "audit_record_event e ty src sm sev (Some t) (Some p) (Some tg) None w =
    (let ev = \<lparr>ev_event_id = env_uuid e (w_uuids w), ev_event_type = ty, ev_severity = sev,
               ev_source = src, ev_occurred_at = t, ev_summary = sm, ev_payload = p, ev_tags = tg\<rparr>
     in (Inr ev, w\<lparr>w_uuids := Suc (w_uuids w), w_events := w_events w @ [ev]\<rparr>))"
  by (simp add: audit_record_event_def audit_save_def py_simps Let_def)

lemma steps_audit_append [steps]:
  "steps_in log_grows (audit_save es AppendRows)" "steps_in silent (audit_save es m)"
  "steps_in ledger_kept (audit_save es m)" "steps_in safety_kept (audit_save es m)"
  "steps_in breaker_kept (audit_save es m)"
  by (simp_all add: steps_in_def audit_save_def kept_defs py_simps)

lemma steps_record_event [steps]:
  "steps_in log_grows (audit_record_event e a b c d t p tg i)"
  "steps_in silent (audit_record_event e a b c d t p tg i)"
  "steps_in ledger_kept (audit_record_event e a b c d t p tg i)"
  "steps_in safety_kept (audit_record_event e a b c d t p tg i)"
  "steps_in breaker_kept (audit_record_event e a b c d t p tg i)"
  unfolding audit_record_event_def by (intro steps)+

lemma steps_list_events [steps]:
  "steps_in log_grows (list_events a b c)" "steps_in silent (list_events a b c)"
  "steps_in ledger_kept (list_events a b c)" "steps_in safety_kept (list_events a b c)"
  "steps_in breaker_kept (list_events a b c)"
  unfolding list_events_def by (intro steps)+

text \<open>No operation but an import can raise or forget while recording.\<close>

lemma record_event_returns: "\<exists>ev w'. audit_record_event e a b c d t p tg i w = (Inr ev, w')"
  by (cases i; cases t)
    (simp_all add: audit_record_event_def audit_save_def or_now_def py_simps Let_def)

lemma list_events_run [py_simps]: "list_events a b c w = (fst (list_events a b c w), w)"
  by (simp add: list_events_def gets_def)

lemma slice_from_last: "0 < n \<Longrightarrow> slice_from xs (- n) = drop (length xs - nat n) xs"
  by (simp add: slice_from_def)

lemma slice_from_0: "slice_from xs (- 0) = xs"
  by (simp add: slice_from_def)

subsection \<open>Properties\<close>

text \<open>
  C6: \<open>record_event\<close> never raises, appends exactly the event it returns with a fresh
  identifier and keeps everything recorded before; listing without filters returns the
  whole log ordered by time and identifier; a positive limit returns that many of the
  latest, and the limit 0 returns everything (the slice \<open>[-0:]\<close>).
\<close>

theorem audit_log_correct:
  "(\<exists>ev. audit_record_event e ty src sm sev (Some t) p tg None w =
       (Inr ev, w\<lparr>w_uuids := Suc (w_uuids w), w_events := w_events w @ [ev]\<rparr>)
     \<and> ev_event_id ev = env_uuid e (w_uuids w) \<and> ev_occurred_at ev = t \<and> ev_event_type ev = ty)
   \<and> (\<exists>es. list_events None None None w = (Inr es, w) \<and> mset es = mset (w_events w)
       \<and> sorted (map (\<lambda>ev. (ev_occurred_at ev, ev_event_id ev)) es)
       \<and> list_events None None (Some (int (Suc n))) w = (Inr (drop (length es - Suc n) es), w)
       \<and> list_events None None (Some 0) w = (Inr es, w))"
proof (intro conjI)
  show "\<exists>ev. audit_record_event e ty src sm sev (Some t) p tg None w =
       (Inr ev, w\<lparr>w_uuids := Suc (w_uuids w), w_events := w_events w @ [ev]\<rparr>)
     \<and> ev_event_id ev = env_uuid e (w_uuids w) \<and> ev_occurred_at ev = t \<and> ev_event_type ev = ty"
    by (simp add: audit_record_event_def audit_save_def py_simps Let_def)
  let ?es = "sorted_by (\<lambda>ev. (ev_occurred_at ev, ev_event_id ev)) (w_events w)"
  have "list_events None None None w = (Inr ?es, w)"
    "list_events None None (Some (int (Suc n))) w = (Inr (drop (length ?es - Suc n) ?es), w)"
    "list_events None None (Some 0) w = (Inr ?es, w)"
    by (simp_all add: list_events_def gets_run slice_from_def nat_add_distrib Let_def)
  then show "\<exists>es. list_events None None None w = (Inr es, w) \<and> mset es = mset (w_events w)
       \<and> sorted (map (\<lambda>ev. (ev_occurred_at ev, ev_event_id ev)) es)
       \<and> list_events None None (Some (int (Suc n))) w = (Inr (drop (length es - Suc n) es), w)
       \<and> list_events None None (Some 0) w = (Inr es, w)"
    by (intro exI[of _ ?es]) (simp add: sorted_by_def)
qed

end
