(* ===== verification/Reports.thy ===== *)
theory Reports
  imports AuditLog
begin

section \<open>Store of exchange order reports\<close>

text \<open>
  \<open>app/reconciliation/store.py\<close>: the reports imported from the exchange, read by the
  reconciliation and the hedge manager, and the index of the latest event of a trade that
  both build from the audit log.
\<close>

definition reports_readable :: "world \<Rightarrow> bool" where
  "reports_readable w \<longleftrightarrow> list_all valid_order_report (w_reports w)"

definition report_list :: "(world, order_report list) py" where
  "report_list = (\<lambda>w. if list_all valid_order_report (w_reports w) then (Inr (w_reports w), w)
     else (Inl (ValidationError ''ExchangeOrderReport''), w))"

definition report_save :: "order_report list \<Rightarrow> write_mode \<Rightarrow> (world, order_report list) py" where
  "report_save rs m =
     bnd (case m of ReplaceRows \<Rightarrow> ret rs | AppendRows \<Rightarrow> bnd report_list (\<lambda>old. ret (old @ rs)))
       (\<lambda>persisted. thn (modify (\<lambda>w. w\<lparr>w_reports := persisted\<rparr>)) (ret persisted))"

lemma report_list_run [py_simps]:
  "report_list w = (if reports_readable w then (Inr (w_reports w), w)
     else (Inl (ValidationError ''ExchangeOrderReport''), w))"
  by (simp add: report_list_def reports_readable_def)

lemma steps_report_list [steps]:
  "steps_in log_grows report_list" "steps_in silent report_list" "steps_in ledger_kept report_list"
  "steps_in safety_kept report_list" "steps_in breaker_kept report_list"
  by (simp_all add: steps_in_def report_list_def kept_defs)

lemma steps_report_save [steps]:
  "steps_in log_grows (report_save rs m)" "steps_in silent (report_save rs m)"
  "steps_in ledger_kept (report_save rs m)" "steps_in safety_kept (report_save rs m)"
  "steps_in breaker_kept (report_save rs m)"
  by (cases m; simp add: steps_in_def report_save_def report_list_def kept_defs py_simps)+

subsection \<open>Events by trade\<close>

definition event_trade :: "audit_event \<Rightarrow> string option" where
  \<comment> \<open>\<open>event.payload.get("trade_id")\<close>, when it is text\<close>
  "event_trade ev = (case map_of (ev_payload ev) ''trade_id'' of Some (PStr k) \<Rightarrow> Some k | _ \<Rightarrow> None)"

definition events_of :: "string \<Rightarrow> audit_event list \<Rightarrow> audit_event list" where
  "events_of k evs = filter (\<lambda>ev. event_trade ev = Some k) evs"

definition latest_event :: "audit_event list \<Rightarrow> string \<Rightarrow> audit_event option" where
  \<comment> \<open>\<open>_build_latest_event_index(events).get(trade_id)\<close>: the last event in the list\<close>
  "latest_event evs k = (case events_of k evs of [] \<Rightarrow> None | x # xs \<Rightarrow> Some (last (x # xs)))"

lemma latest_event_Some: "latest_event evs k = Some ev \<Longrightarrow> ev \<in> set evs \<and> event_trade ev = Some k"
proof -
  assume "latest_event evs k = Some ev"
  then have "ev = last (events_of k evs)" "events_of k evs \<noteq> []"
    by (auto simp: latest_event_def split: list.splits)
  then have "ev \<in> set (events_of k evs)" by simp
  then show ?thesis by (simp add: events_of_def)
qed

end
