(* ===== verification/Breaker.thy ===== *)
theory Breaker
  imports AuditLog
begin

section \<open>Execution circuit breaker\<close>

text \<open>
  \<open>app/execution/circuit_breaker.py\<close>. The stored state is read, overlaid with the
  configuration of the service and closed again once \<open>resume_at\<close> has passed. The
  specification is a machine with two states, closed after \<open>n\<close> failures or open until a
  date; the invariant \<open>breaker_inv\<close> ties the stored fields to it and every operation
  refines its step.
\<close>

record breaker_config =
  bc_enabled :: bool
  bc_failure_threshold :: int
  bc_cooldown_seconds :: float64

definition breaker_load :: "(world, breaker_state option) py" where
  \<comment> \<open>\<open>ExecutionCircuitBreakerStore.load\<close>\<close>
  "breaker_load = (\<lambda>w. case w_breaker w of None \<Rightarrow> (Inr None, w)
     | Some s \<Rightarrow> if valid_breaker_state s then (Inr (Some s), w)
         else (Inl (ValidationError ''ExecutionCircuitBreakerState''), w))"

definition breaker_save :: "breaker_state \<Rightarrow> (world, breaker_state) py" where
  "breaker_save s = thn (modify (\<lambda>w. w\<lparr>w_breaker := Some s\<rparr>)) (ret s)"

definition breaker_load_state :: "env \<Rightarrow> breaker_config \<Rightarrow> (world, breaker_state) py" where
  "breaker_load_state e c =
     bnd breaker_load (\<lambda>stored. case stored of
       None \<Rightarrow>
         thn (require (1 \<le> bc_failure_threshold c \<and> 0 < bc_cooldown_seconds c)
                (ValidationError ''ExecutionCircuitBreakerState''))
         (bnd (utc_now e) (\<lambda>t.
           ret \<lparr>cb_enabled = bc_enabled c, cb_is_open = False,
                cb_failure_threshold = bc_failure_threshold c,
                cb_cooldown_seconds = bc_cooldown_seconds c, cb_consecutive_failures = 0,
                cb_last_failure_at = None, cb_opened_at = None, cb_resume_at = None,
                cb_last_reason = None, cb_last_trade_id = None, cb_updated_at = t\<rparr>))
     | Some s \<Rightarrow> ret (s\<lparr>cb_enabled := bc_enabled c, cb_failure_threshold := bc_failure_threshold c,
                        cb_cooldown_seconds := bc_cooldown_seconds c\<rparr>))"

definition close_breaker :: "breaker_state \<Rightarrow> datetime \<Rightarrow> breaker_state" where
  "close_breaker s t = s\<lparr>cb_is_open := False, cb_consecutive_failures := 0, cb_opened_at := None,
     cb_resume_at := None, cb_last_reason := None, cb_updated_at := t\<rparr>"

definition breaker_get_state :: "env \<Rightarrow> breaker_config \<Rightarrow> datetime option \<Rightarrow> (world, breaker_state) py" where
  "breaker_get_state e c now =
     bnd (breaker_load_state e c) (\<lambda>s.
     bnd (or_now e now) (\<lambda>t.
       if cb_is_open s \<and> (case cb_resume_at s of None \<Rightarrow> False | Some r \<Rightarrow> r \<le> t)
       then breaker_save (close_breaker s t)
       else ret s))"

definition ensure_allows_execution ::
  "env \<Rightarrow> breaker_config \<Rightarrow> datetime option \<Rightarrow> (world, breaker_state) py" where
  "ensure_allows_execution e c now =
     bnd (breaker_get_state e c now) (\<lambda>s.
       if cb_enabled s \<and> cb_is_open s then
         raise (ValueError (''live execution circuit breaker is open until '' @
           (case cb_resume_at s of Some r \<Rightarrow> isoformat r | None \<Rightarrow> ''unknown'')))
       else ret s)"

definition record_failure ::
  "env \<Rightarrow> breaker_config \<Rightarrow> string \<Rightarrow> string \<Rightarrow> datetime option \<Rightarrow> (world, breaker_state) py" where
  "record_failure e c trade_id reason occurred_at =
     bnd (or_now e occurred_at) (\<lambda>t.
     bnd (breaker_get_state e c (Some t)) (\<lambda>s.
       if \<not> cb_enabled s then ret s
       else
         let n = cb_consecutive_failures s + 1; opened = (cb_failure_threshold s \<le> n)
         in breaker_save (s\<lparr>cb_is_open := opened, cb_consecutive_failures := n,
              cb_last_failure_at := Some t,
              cb_opened_at := (if opened then Some t else None),
              cb_resume_at := (if opened then Some (t + seconds (cb_cooldown_seconds s)) else None),
              cb_last_reason := Some reason, cb_last_trade_id := Some trade_id,
              cb_updated_at := t\<rparr>)))"

definition record_success ::
  "env \<Rightarrow> breaker_config \<Rightarrow> string \<Rightarrow> datetime option \<Rightarrow> (world, breaker_state) py" where
  "record_success e c trade_id occurred_at =
     bnd (or_now e occurred_at) (\<lambda>t.
     bnd (breaker_get_state e c (Some t)) (\<lambda>s.
       if \<not> cb_enabled s then ret s
       else breaker_save ((close_breaker s t)\<lparr>cb_last_trade_id := Some trade_id\<rparr>)))"

definition manual_reset :: "env \<Rightarrow> breaker_config \<Rightarrow> datetime option \<Rightarrow> (world, breaker_state) py" where
  "manual_reset e c occurred_at =
     bnd (or_now e occurred_at) (\<lambda>t.
     bnd (breaker_get_state e c (Some t)) (\<lambda>s. breaker_save (close_breaker s t)))"

subsection \<open>The specification\<close>

datatype breaker_abs = BClosed int | BOpen datetime

definition expire :: "datetime \<Rightarrow> breaker_abs \<Rightarrow> breaker_abs" where
  "expire t a = (case a of BOpen r \<Rightarrow> if r \<le> t then BClosed 0 else a | BClosed n \<Rightarrow> BClosed n)"

definition fail_step :: "breaker_config \<Rightarrow> datetime \<Rightarrow> breaker_abs \<Rightarrow> breaker_abs" where
  "fail_step c t a =
     (case expire t a of
       BClosed n \<Rightarrow> if bc_failure_threshold c \<le> n + 1 then BOpen (t + seconds (bc_cooldown_seconds c))
                    else BClosed (n + 1)
     | BOpen _ \<Rightarrow> BOpen (t + seconds (bc_cooldown_seconds c)))"

definition blocks :: "breaker_config \<Rightarrow> datetime \<Rightarrow> breaker_abs \<Rightarrow> bool" where
  "blocks c t a = (bc_enabled c \<and> (case expire t a of BOpen _ \<Rightarrow> True | BClosed _ \<Rightarrow> False))"

definition state_abs :: "breaker_state \<Rightarrow> breaker_abs" where
  "state_abs s = (if cb_is_open s then BOpen (the (cb_resume_at s))
     else BClosed (cb_consecutive_failures s))"

definition breaker_abs_of :: "world \<Rightarrow> breaker_abs" where
  "breaker_abs_of w = (case w_breaker w of None \<Rightarrow> BClosed 0 | Some s \<Rightarrow> state_abs s)"

definition breaker_state_inv :: "breaker_config \<Rightarrow> breaker_state \<Rightarrow> bool" where
  "breaker_state_inv c s \<longleftrightarrow>
     1 \<le> cb_failure_threshold s \<and> 0 < cb_cooldown_seconds s \<and> 0 \<le> cb_consecutive_failures s
     \<and> (cb_is_open s \<longrightarrow> cb_resume_at s \<noteq> None \<and> bc_failure_threshold c \<le> cb_consecutive_failures s)
     \<and> (\<not> cb_is_open s \<longrightarrow> cb_resume_at s = None \<and> cb_opened_at s = None
          \<and> cb_consecutive_failures s < bc_failure_threshold c)"

definition breaker_inv :: "breaker_config \<Rightarrow> world \<Rightarrow> bool" where
  "breaker_inv c w \<longleftrightarrow> 1 \<le> bc_failure_threshold c \<and> 0 < bc_cooldown_seconds c
     \<and> (case w_breaker w of None \<Rightarrow> True | Some s \<Rightarrow> breaker_state_inv c s)"


definition configured :: "breaker_config \<Rightarrow> breaker_state \<Rightarrow> bool" where
  "configured c s \<longleftrightarrow> cb_enabled s = bc_enabled c \<and> cb_failure_threshold s = bc_failure_threshold c
     \<and> cb_cooldown_seconds s = bc_cooldown_seconds c"

subsection \<open>The operations refine the machine\<close>

lemma state_abs_close [simp]: "state_abs (close_breaker s t) = BClosed 0"
  by (simp add: state_abs_def close_breaker_def)

lemma breaker_save_run [py_simps]: "breaker_save s w = (Inr s, w\<lparr>w_breaker := Some s\<rparr>)"
  by (simp add: breaker_save_def py_simps)

lemma breaker_inv_saved:
  "breaker_inv c w \<Longrightarrow> breaker_state_inv c s \<Longrightarrow> breaker_inv c (w\<lparr>w_breaker := Some s\<rparr>)"
  by (simp add: breaker_inv_def)

lemma breaker_abs_saved [simp]: "breaker_abs_of (w\<lparr>w_breaker := Some s\<rparr>) = state_abs s"
  by (simp add: breaker_abs_of_def)

lemma load_state_refines:
  assumes "breaker_inv c w"
  obtains s w' where "breaker_load_state e c w = (Inr s, w')" "breaker_inv c w'"
    "w_breaker w' = w_breaker w" "state_abs s = breaker_abs_of w" "breaker_state_inv c s" "configured c s"
proof (cases "w_breaker w")
  case None
  have run: "breaker_load_state e c w =
     (Inr \<lparr>cb_enabled = bc_enabled c, cb_is_open = False,
            cb_failure_threshold = bc_failure_threshold c,
            cb_cooldown_seconds = bc_cooldown_seconds c, cb_consecutive_failures = 0,
            cb_last_failure_at = None, cb_opened_at = None, cb_resume_at = None,
            cb_last_reason = None, cb_last_trade_id = None, cb_updated_at = env_now e (w_ticks w)\<rparr>,
      w\<lparr>w_ticks := Suc (w_ticks w)\<rparr>)"
    using assms None by (simp add: breaker_load_state_def breaker_load_def py_simps breaker_inv_def)
  then show ?thesis using assms None
    by (intro that[OF run])
      (simp_all add: breaker_inv_def breaker_abs_of_def state_abs_def breaker_state_inv_def configured_def)
next
  case (Some s)
  then have "breaker_load w = (Inr (Some s), w)" using assms
    by (simp add: breaker_load_def breaker_inv_def breaker_state_inv_def valid_breaker_state_def)
  then have run: "breaker_load_state e c w =
     (Inr (s\<lparr>cb_enabled := bc_enabled c, cb_failure_threshold := bc_failure_threshold c,
            cb_cooldown_seconds := bc_cooldown_seconds c\<rparr>), w)"
    by (simp add: breaker_load_state_def py_simps)
  then show ?thesis using assms Some
    by (intro that[OF run])
      (simp_all add: breaker_inv_def breaker_abs_of_def state_abs_def breaker_state_inv_def configured_def)
qed

lemma breaker_abs_cong: "w_breaker w' = w_breaker w \<Longrightarrow> breaker_abs_of w' = breaker_abs_of w"
  by (simp add: breaker_abs_of_def)

lemma close_inv: "breaker_state_inv c s \<Longrightarrow> 1 \<le> bc_failure_threshold c \<Longrightarrow>
    breaker_state_inv c (close_breaker s t)"
  by (simp add: breaker_state_inv_def close_breaker_def)

lemma close_configured: "configured c s \<Longrightarrow> configured c (close_breaker s t)"
  by (simp add: configured_def close_breaker_def)

lemma get_state_refines:
  assumes inv: "breaker_inv c w"
  obtains s w' where "breaker_get_state e c (Some t) w = (Inr s, w')" "breaker_inv c w'"
    "breaker_abs_of w' = expire t (breaker_abs_of w)" "state_abs s = expire t (breaker_abs_of w)"
    "breaker_state_inv c s" "configured c s"
proof -
  obtain s w' where load: "breaker_load_state e c w = (Inr s, w')" and w': "breaker_inv c w'"
    "w_breaker w' = w_breaker w" "state_abs s = breaker_abs_of w" "breaker_state_inv c s" "configured c s"
    using load_state_refines[OF inv] by metis
  have th: "1 \<le> bc_failure_threshold c" using inv by (simp add: breaker_inv_def)
  show ?thesis
  proof (cases "cb_is_open s \<and> the (cb_resume_at s) \<le> t")
    case True
    then obtain r where r: "cb_is_open s" "cb_resume_at s = Some r" "r \<le> t"
      using w'(4) by (auto simp: breaker_state_inv_def)
    then have "breaker_get_state e c (Some t) w
        = (Inr (close_breaker s t), w'\<lparr>w_breaker := Some (close_breaker s t)\<rparr>)"
      by (simp add: breaker_get_state_def load py_simps)
    moreover have "expire t (breaker_abs_of w) = BClosed 0"
      using w'(3) r by (simp add: state_abs_def expire_def flip: w'(3))
    ultimately show ?thesis
      using that w' th breaker_inv_saved close_inv close_configured state_abs_close breaker_abs_saved
      by metis
  next
    case False
    then have "breaker_get_state e c (Some t) w = (Inr s, w')"
      using w'(4) by (auto simp: breaker_get_state_def load py_simps breaker_state_inv_def)
    moreover have "expire t (breaker_abs_of w) = breaker_abs_of w"
      using w'(3) False by (auto simp: state_abs_def expire_def simp flip: w'(3) split: if_splits)
    ultimately show ?thesis using that w' breaker_abs_cong by metis
  qed
qed

lemma ensure_refines:
  assumes inv: "breaker_inv c w"
  obtains r w' where "ensure_allows_execution e c (Some t) w = (r, w')" "breaker_inv c w'"
    "breaker_abs_of w' = expire t (breaker_abs_of w)"
    "blocks c t (breaker_abs_of w) = (\<exists>m. r = Inl (ValueError m))"
    "\<not> blocks c t (breaker_abs_of w) \<Longrightarrow> \<exists>s. r = Inr s"
proof -
  obtain s w' where st: "breaker_get_state e c (Some t) w = (Inr s, w')" "breaker_inv c w'"
    "breaker_abs_of w' = expire t (breaker_abs_of w)" "state_abs s = expire t (breaker_abs_of w)"
    "breaker_state_inv c s" "configured c s" using get_state_refines[OF inv] by metis
  have open_iff: "cb_is_open s \<longleftrightarrow> (case expire t (breaker_abs_of w) of BOpen _ \<Rightarrow> True | BClosed _ \<Rightarrow> False)"
    using st(4) by (auto simp: state_abs_def split: breaker_abs.splits if_splits)
  show ?thesis
  proof (cases "bc_enabled c \<and> cb_is_open s")
    case True
    then have "\<exists>m. ensure_allows_execution e c (Some t) w = (Inl (ValueError m), w')"
      using st(1,6) by (simp add: ensure_allows_execution_def configured_def py_simps)
    then show ?thesis using that st(2,3) True open_iff by (auto simp: blocks_def)
  next
    case False
    then have "ensure_allows_execution e c (Some t) w = (Inr s, w')"
      using st(1,6) by (auto simp: ensure_allows_execution_def configured_def py_simps)
    then show ?thesis using that st(2,3) False open_iff by (auto simp: blocks_def)
  qed
qed

lemma fail_inv:
  assumes "breaker_state_inv c s" "configured c s" "bc_enabled c"
  shows "breaker_state_inv c (s\<lparr>cb_is_open := (cb_failure_threshold s \<le> cb_consecutive_failures s + 1),
      cb_consecutive_failures := cb_consecutive_failures s + 1, cb_last_failure_at := Some t,
      cb_opened_at := (if cb_failure_threshold s \<le> cb_consecutive_failures s + 1 then Some t else None),
      cb_resume_at := (if cb_failure_threshold s \<le> cb_consecutive_failures s + 1
        then Some (t + seconds (cb_cooldown_seconds s)) else None),
      cb_last_reason := Some m, cb_last_trade_id := Some k, cb_updated_at := t\<rparr>)"
  using assms by (auto simp: breaker_state_inv_def configured_def)

lemma record_failure_refines:
  assumes inv: "breaker_inv c w" and en: "bc_enabled c"
  obtains s w' where "record_failure e c k m (Some t) w = (Inr s, w')" "breaker_inv c w'"
    "breaker_abs_of w' = fail_step c t (breaker_abs_of w)"
proof -
  obtain s w' where st: "breaker_get_state e c (Some t) w = (Inr s, w')" "breaker_inv c w'"
    "breaker_abs_of w' = expire t (breaker_abs_of w)" "state_abs s = expire t (breaker_abs_of w)"
    "breaker_state_inv c s" "configured c s" using get_state_refines[OF inv] by metis
  let ?n = "cb_consecutive_failures s + 1"
  let ?o = "cb_failure_threshold s \<le> ?n"
  let ?s = "s\<lparr>cb_is_open := ?o, cb_consecutive_failures := ?n, cb_last_failure_at := Some t,
      cb_opened_at := (if ?o then Some t else None),
      cb_resume_at := (if ?o then Some (t + seconds (cb_cooldown_seconds s)) else None),
      cb_last_reason := Some m, cb_last_trade_id := Some k, cb_updated_at := t\<rparr>"
  have run: "record_failure e c k m (Some t) w = (Inr ?s, w'\<lparr>w_breaker := Some ?s\<rparr>)"
    using st(1,6) en by (simp add: record_failure_def py_simps Let_def configured_def)
  have "state_abs ?s = fail_step c t (breaker_abs_of w)"
    using st(5,6) unfolding fail_step_def st(4)[symmetric]
    by (auto simp: state_abs_def breaker_state_inv_def configured_def)
  then show ?thesis
    using that[OF run] breaker_inv_saved[OF st(2) fail_inv[OF st(5,6) en]] breaker_abs_saved by metis
qed

lemma record_success_refines:
  assumes inv: "breaker_inv c w" and en: "bc_enabled c"
  obtains s w' where "record_success e c k (Some t) w = (Inr s, w')" "breaker_inv c w'"
    "breaker_abs_of w' = BClosed 0"
proof -
  obtain s w' where st: "breaker_get_state e c (Some t) w = (Inr s, w')" "breaker_inv c w'"
    "breaker_state_inv c s" "configured c s" using get_state_refines[OF inv] by metis
  let ?s = "(close_breaker s t)\<lparr>cb_last_trade_id := Some k\<rparr>"
  have run: "record_success e c k (Some t) w = (Inr ?s, w'\<lparr>w_breaker := Some ?s\<rparr>)"
    using st(1,4) en by (simp add: record_success_def py_simps configured_def)
  have "breaker_state_inv c ?s"
    using st(3) inv by (simp add: breaker_state_inv_def close_breaker_def breaker_inv_def)
  moreover have "state_abs ?s = BClosed 0" by (simp add: state_abs_def close_breaker_def)
  ultimately show ?thesis
    using that[OF run] breaker_inv_saved[OF st(2)] breaker_abs_saved by metis
qed

lemma manual_reset_refines:
  assumes inv: "breaker_inv c w"
  obtains s w' where "manual_reset e c (Some t) w = (Inr s, w')" "breaker_inv c w'"
    "breaker_abs_of w' = BClosed 0"
proof -
  obtain s w' where st: "breaker_get_state e c (Some t) w = (Inr s, w')" "breaker_inv c w'"
    "breaker_state_inv c s" using get_state_refines[OF inv] by metis
  have th: "1 \<le> bc_failure_threshold c" using inv by (simp add: breaker_inv_def)
  have "manual_reset e c (Some t) w
      = (Inr (close_breaker s t), w'\<lparr>w_breaker := Some (close_breaker s t)\<rparr>)"
    using st(1) by (simp add: manual_reset_def py_simps)
  then show ?thesis
    using that breaker_inv_saved[OF st(2) close_inv[OF st(3) th]] breaker_abs_saved state_abs_close
    by metis
qed

subsection \<open>Only the breaker's own state changes\<close>

lemma steps_breaker_load_state [steps]:
  "steps_in log_grows (breaker_load_state e c)" "steps_in silent (breaker_load_state e c)"
  "steps_in ledger_kept (breaker_load_state e c)" "steps_in safety_kept (breaker_load_state e c)"
  unfolding breaker_load_state_def breaker_load_def
  by (auto simp: steps_in_def kept_defs py_simps split: option.splits prod.splits sum.splits)

lemma steps_breaker_save [steps]:
  "steps_in log_grows (breaker_save s)" "steps_in silent (breaker_save s)"
  "steps_in ledger_kept (breaker_save s)" "steps_in safety_kept (breaker_save s)"
  by (simp_all add: steps_in_def kept_defs py_simps)

lemma steps_breaker_get_state [steps]:
  "steps_in log_grows (breaker_get_state e c t)" "steps_in silent (breaker_get_state e c t)"
  "steps_in ledger_kept (breaker_get_state e c t)" "steps_in safety_kept (breaker_get_state e c t)"
  unfolding breaker_get_state_def by (intro steps)+

lemma steps_ensure_allows [steps]:
  "steps_in log_grows (ensure_allows_execution e c t)" "steps_in silent (ensure_allows_execution e c t)"
  "steps_in ledger_kept (ensure_allows_execution e c t)" "steps_in safety_kept (ensure_allows_execution e c t)"
  unfolding ensure_allows_execution_def by (intro steps)+

lemma steps_record_failure [steps]:
  "steps_in log_grows (record_failure e c k m t)" "steps_in silent (record_failure e c k m t)"
  "steps_in ledger_kept (record_failure e c k m t)" "steps_in safety_kept (record_failure e c k m t)"
  unfolding record_failure_def by (intro steps)+

lemma steps_record_success [steps]:
  "steps_in log_grows (record_success e c k t)" "steps_in silent (record_success e c k t)"
  "steps_in ledger_kept (record_success e c k t)" "steps_in safety_kept (record_success e c k t)"
  unfolding record_success_def by (intro steps)+

subsection \<open>Properties\<close>

definition sample_breaker_config :: breaker_config where
  "sample_breaker_config = \<lparr>bc_enabled = True, bc_failure_threshold = 2, bc_cooldown_seconds = 300\<rparr>"

lemma sample_breaker_inv: "breaker_inv sample_breaker_config (sample_world rs)"
  by (simp add: breaker_inv_def sample_breaker_config_def sample_world_def)

text \<open>
  C7: From every state that satisfies the invariant, \<open>record_failure\<close>,
  \<open>record_success\<close> and \<open>manual_reset\<close> return and refine the steps of the two-state
  machine, keep the invariant, and \<open>ensure_allows_execution\<close> raises exactly when the machine
  blocks at that time.
\<close>

theorem breaker_refines_machine:
  assumes "breaker_inv c w" "bc_enabled c"
  shows "(\<exists>s w'. record_failure e c k m (Some t) w = (Inr s, w') \<and> breaker_inv c w'
        \<and> breaker_abs_of w' = fail_step c t (breaker_abs_of w))
    \<and> (\<exists>s w'. record_success e c k (Some t) w = (Inr s, w') \<and> breaker_inv c w'
        \<and> breaker_abs_of w' = BClosed 0)
    \<and> (\<exists>s w'. manual_reset e c (Some t) w = (Inr s, w') \<and> breaker_inv c w'
        \<and> breaker_abs_of w' = BClosed 0)
    \<and> (\<exists>r w'. ensure_allows_execution e c (Some t) w = (r, w') \<and> breaker_inv c w'
        \<and> breaker_abs_of w' = expire t (breaker_abs_of w)
        \<and> (if blocks c t (breaker_abs_of w) then \<exists>msg. r = Inl (ValueError msg) else \<exists>s. r = Inr s))"
proof (intro conjI)
  show "\<exists>s w'. record_failure e c k m (Some t) w = (Inr s, w') \<and> breaker_inv c w'
        \<and> breaker_abs_of w' = fail_step c t (breaker_abs_of w)"
    using record_failure_refines[OF assms] by metis
  show "\<exists>s w'. record_success e c k (Some t) w = (Inr s, w') \<and> breaker_inv c w'
        \<and> breaker_abs_of w' = BClosed 0"
    using record_success_refines[OF assms] by metis
  show "\<exists>s w'. manual_reset e c (Some t) w = (Inr s, w') \<and> breaker_inv c w'
        \<and> breaker_abs_of w' = BClosed 0"
    using manual_reset_refines[OF assms(1)] by metis
  show "\<exists>r w'. ensure_allows_execution e c (Some t) w = (r, w') \<and> breaker_inv c w'
        \<and> breaker_abs_of w' = expire t (breaker_abs_of w)
        \<and> (if blocks c t (breaker_abs_of w) then \<exists>msg. r = Inl (ValueError msg) else \<exists>s. r = Inr s)"
    using ensure_refines[OF assms(1)] by metis
qed

theorem breaker_refines_machine_witness:
  "\<exists>s w'. record_failure sample_env sample_breaker_config ''t1'' ''timeout'' (Some 0) (sample_world []) = (Inr s, w')
     \<and> breaker_abs_of w' = BClosed 1"
proof -
  have "bc_enabled sample_breaker_config" by (simp add: sample_breaker_config_def)
  then obtain s w' where "record_failure sample_env sample_breaker_config ''t1'' ''timeout'' (Some 0) (sample_world []) = (Inr s, w')"
    "breaker_abs_of w' = fail_step sample_breaker_config 0 (breaker_abs_of (sample_world []))"
    using breaker_refines_machine[OF sample_breaker_inv] by metis
  then show ?thesis
    by (simp add: fail_step_def expire_def breaker_abs_of_def sample_world_def sample_breaker_config_def)
qed

text \<open>Failures in a row, as the orchestrator records them.\<close>

primrec record_failures :: "env \<Rightarrow> breaker_config \<Rightarrow> string \<Rightarrow> string \<Rightarrow> datetime list \<Rightarrow> (world, unit) py" where
  "record_failures e c k m [] = ret ()"
| "record_failures e c k m (t # ts) =
     bnd (record_failure e c k m (Some t)) (\<lambda>_. record_failures e c k m ts)"

lemma fail_step_count:
  "n + 1 < bc_failure_threshold c \<Longrightarrow> fail_step c t (BClosed n) = BClosed (n + 1)"
  "bc_failure_threshold c \<le> n + 1 \<Longrightarrow> fail_step c t (BClosed n) = BOpen (t + seconds (bc_cooldown_seconds c))"
  by (simp_all add: fail_step_def expire_def)

lemma record_failures_count:
  assumes "breaker_inv c w" "bc_enabled c" "breaker_abs_of w = BClosed n" "ts \<noteq> []"
    "n + int (length ts) \<le> bc_failure_threshold c"
  shows "\<exists>w'. record_failures e c k m ts w = (Inr (), w') \<and> breaker_inv c w'
    \<and> breaker_abs_of w' = (if n + int (length ts) = bc_failure_threshold c
       then BOpen (last ts + seconds (bc_cooldown_seconds c)) else BClosed (n + int (length ts)))"
  using assms
proof (induction ts arbitrary: w n)
  case (Cons t ts)
  obtain s w1 where w1: "record_failure e c k m (Some t) w = (Inr s, w1)" "breaker_inv c w1"
    "breaker_abs_of w1 = fail_step c t (BClosed n)"
    using record_failure_refines[OF Cons.prems(1,2)] Cons.prems(3) by metis
  have step: "record_failures e c k m (t # ts) w = record_failures e c k m ts w1"
    by (simp add: w1(1) py_simps)
  show ?case
  proof (cases "ts = []")
    case True
    then show ?thesis
      using Cons.prems(5) w1(2,3) fail_step_count[where c=c and n=n and t=t]
      unfolding step by (simp add: ret_run)
  next
    case False
    then have "n + 1 < bc_failure_threshold c" using Cons.prems(5) by (cases ts) auto
    then have "breaker_abs_of w1 = BClosed (n + 1)" using w1(3) fail_step_count(1) by simp
    then show ?thesis
      using Cons.IH[OF w1(2) Cons.prems(2), of "n + 1"] False Cons.prems(5)
      unfolding step by (auto simp: add.assoc split: if_splits)
  qed
qed simp

text \<open>
  C8: On a fresh breaker, fewer failures in a row than the threshold never block live
  execution; the failure that reaches the threshold blocks it at every time before its
  cooldown has passed and at no time after.
\<close>

theorem breaker_trips_at_threshold:
  assumes "breaker_inv c w" "bc_enabled c" "w_breaker w = None" "ts \<noteq> []"
    "int (length ts) \<le> bc_failure_threshold c"
  shows "\<exists>w'. record_failures e c k m ts w = (Inr (), w')
    \<and> (\<exists>r w''. ensure_allows_execution e c (Some t) w' = (r, w'')
        \<and> ((\<exists>msg. r = Inl (ValueError msg)) \<longleftrightarrow>
             int (length ts) = bc_failure_threshold c
             \<and> t < last ts + seconds (bc_cooldown_seconds c)))"
proof -
  have "breaker_abs_of w = BClosed 0" using assms(3) by (simp add: breaker_abs_of_def)
  then obtain w' where w': "record_failures e c k m ts w = (Inr (), w')" "breaker_inv c w'"
    "breaker_abs_of w' = (if int (length ts) = bc_failure_threshold c
       then BOpen (last ts + seconds (bc_cooldown_seconds c)) else BClosed (int (length ts)))"
    using record_failures_count[OF assms(1,2), of 0 ts e k m] assms(4,5) by auto
  obtain r w'' where "ensure_allows_execution e c (Some t) w' = (r, w'')"
    "blocks c t (breaker_abs_of w') = (\<exists>msg. r = Inl (ValueError msg))"
    using ensure_refines[OF w'(2)] by metis
  moreover have "blocks c t (breaker_abs_of w') \<longleftrightarrow> int (length ts) = bc_failure_threshold c
      \<and> t < last ts + seconds (bc_cooldown_seconds c)"
    using assms(2) by (simp add: w'(3) blocks_def expire_def)
  ultimately show ?thesis using w'(1) by blast
qed

theorem breaker_trips_at_threshold_witness:
  "\<exists>w' r w''. record_failures sample_env sample_breaker_config ''t1'' ''timeout'' [0, 5] (sample_world []) = (Inr (), w')
    \<and> ensure_allows_execution sample_env sample_breaker_config (Some 7) w' = (r, w'') \<and> (\<exists>msg. r = Inl (ValueError msg))"
proof -
  have "seconds 300 = 300000000" by code_simp
  moreover have "bc_enabled sample_breaker_config" "w_breaker (sample_world []) = None"
    "int (length [0::datetime, 5]) \<le> bc_failure_threshold sample_breaker_config"
    by (simp_all add: sample_breaker_config_def sample_world_def)
  ultimately show ?thesis
    using breaker_trips_at_threshold[OF sample_breaker_inv, where ts = "[0, 5]" and t = 7 and k = "''t1''" and m = "''timeout''" and e = sample_env]
    by (auto simp: sample_breaker_config_def)
qed

end
