(* ===== verification/Safety.thy ===== *)
theory Safety
  imports Breaker
begin

section \<open>Safety switch\<close>

text \<open>
  \<open>app/safety/service.py\<close>, its state and its gates; closing positions in an emergency is
  in \<open>SafetyOps\<close>. Every operation changes the state and then records an audit event with
  \<open>self._audit.save_record\<close>, a method \<open>AuditEventService\<close> does not have: the operations
  change the state and raise \<open>AttributeError\<close>. The gates only read.
\<close>

record safety_snapshot =
  sn_frozen :: bool
  sn_new_positions_allowed :: bool
  sn_reduce_only_trades :: "string list"
  sn_paused_trades :: "string list"
  sn_updated_at :: datetime

definition audit_service_save_record :: "audit_event \<Rightarrow> (world, unit) py" where
  \<comment> \<open>\<open>AuditEventService\<close> has no attribute \<open>save_record\<close>\<close>
  "audit_service_save_record ev =
     raise (AttributeError ([CHR 0x27] @ ''AuditEventService'' @ [CHR 0x27]
       @ '' object has no attribute '' @ [CHR 0x27] @ ''save_record'' @ [CHR 0x27]))"

definition safety_record ::
  "env \<Rightarrow> string \<Rightarrow> string \<Rightarrow> severity \<Rightarrow> pydict \<Rightarrow> (world, unit) py" where
  "safety_record e event_type summary sev payload =
     bnd (gets (\<lambda>w. ''safety-'' @ event_type @ ''-'' @ isoformat (sf_updated_at (w_safety w)))) (\<lambda>eid.
     bnd (utc_now e) (\<lambda>t.
       audit_service_save_record \<lparr>ev_event_id = eid, ev_event_type = event_type, ev_severity = sev,
         ev_source = ''safety'', ev_occurred_at = t, ev_summary = summary, ev_payload = payload,
         ev_tags = [''safety'']\<rparr>))"

definition safety_get_state :: "(world, safety_snapshot) py" where
  "safety_get_state = gets (\<lambda>w. let s = w_safety w in
     \<lparr>sn_frozen = sf_frozen s, sn_new_positions_allowed = sf_new_positions_allowed s,
      sn_reduce_only_trades = sorted_list_of_set (sf_reduce_only_trades s),
      sn_paused_trades = sorted_list_of_set (sf_paused_trades s),
      sn_updated_at = sf_updated_at s\<rparr>)"

definition touch_safety :: "env \<Rightarrow> (world, unit) py" where
  "touch_safety e = bnd (utc_now e) (\<lambda>t.
     modify (\<lambda>w. w\<lparr>w_safety := (w_safety w)\<lparr>sf_updated_at := t\<rparr>\<rparr>))"

definition manual_trigger :: "string option \<Rightarrow> string" where
  \<comment> \<open>the reason, or the Chinese for "triggered by hand"\<close>
  "manual_trigger reason = (case or_text reason None of Some t \<Rightarrow> t | None \<Rightarrow> utf8 [230, 137, 139, 229, 138, 168, 232, 167, 166, 229, 143, 145])"

definition freeze_all :: "env \<Rightarrow> string option \<Rightarrow> (world, safety_snapshot) py" where
  "freeze_all e reason =
     thn (modify (\<lambda>w. w\<lparr>w_safety := (w_safety w)\<lparr>sf_frozen := True\<rparr>\<rparr>))
     (thn (touch_safety e)
     (thn (safety_record e ''safety.frozen'' (utf8 [229, 133, 168, 232, 180, 166, 230, 136, 183, 229, 134, 187, 231, 187, 147, 58, 32] @ manual_trigger reason) Critical [])
       safety_get_state))"

definition unfreeze_all :: "env \<Rightarrow> string option \<Rightarrow> (world, safety_snapshot) py" where
  "unfreeze_all e reason =
     thn (modify (\<lambda>w. w\<lparr>w_safety := (w_safety w)\<lparr>sf_frozen := False\<rparr>\<rparr>))
     (thn (touch_safety e)
     (thn (safety_record e ''safety.unfrozen'' (utf8 [232, 167, 163, 233, 153, 164, 229, 134, 187, 231, 187, 147, 58, 32] @ manual_trigger reason) Info [])
       safety_get_state))"

definition stop_new_positions :: "env \<Rightarrow> string option \<Rightarrow> (world, safety_snapshot) py" where
  "stop_new_positions e reason =
     thn (modify (\<lambda>w. w\<lparr>w_safety := (w_safety w)\<lparr>sf_new_positions_allowed := False\<rparr>\<rparr>))
     (thn (touch_safety e)
     (thn (safety_record e ''safety.new_positions_stopped'' (utf8 [229, 129, 156, 230, 173, 162, 230, 150, 176, 229, 188, 128, 228, 187, 147, 58, 32] @ manual_trigger reason) Warning [])
       safety_get_state))"

definition resume_new_positions :: "env \<Rightarrow> string option \<Rightarrow> (world, safety_snapshot) py" where
  "resume_new_positions e reason =
     thn (modify (\<lambda>w. w\<lparr>w_safety := (w_safety w)\<lparr>sf_new_positions_allowed := True\<rparr>\<rparr>))
     (thn (touch_safety e)
     (thn (safety_record e ''safety.new_positions_resumed'' (utf8 [230, 129, 162, 229, 164, 141, 230, 150, 176, 229, 188, 128, 228, 187, 147, 58, 32] @ manual_trigger reason) Info [])
       safety_get_state))"

definition set_reduce_only :: "env \<Rightarrow> string \<Rightarrow> string option \<Rightarrow> (world, safety_snapshot) py" where
  "set_reduce_only e trade_id reason =
     thn (modify (\<lambda>w. w\<lparr>w_safety := (w_safety w)\<lparr>sf_reduce_only_trades := insert trade_id (sf_reduce_only_trades (w_safety w))\<rparr>\<rparr>))
     (thn (touch_safety e)
     (thn (safety_record e ''safety.reduce_only_set'' (utf8 [232, 174, 190, 231, 189, 174, 228, 187, 133, 229, 135, 143, 228, 187, 147, 58, 32] @ trade_id) Warning [(''trade_id'', PStr trade_id)])
       safety_get_state))"

definition unset_reduce_only :: "env \<Rightarrow> string \<Rightarrow> string option \<Rightarrow> (world, safety_snapshot) py" where
  "unset_reduce_only e trade_id reason =
     thn (modify (\<lambda>w. w\<lparr>w_safety := (w_safety w)\<lparr>sf_reduce_only_trades := sf_reduce_only_trades (w_safety w) - {trade_id}\<rparr>\<rparr>))
     (thn (touch_safety e)
     (thn (safety_record e ''safety.reduce_only_cleared'' (utf8 [229, 143, 150, 230, 182, 136, 228, 187, 133, 229, 135, 143, 228, 187, 147, 58, 32] @ trade_id) Info [(''trade_id'', PStr trade_id)])
       safety_get_state))"

definition pause_trade :: "env \<Rightarrow> string \<Rightarrow> string option \<Rightarrow> (world, safety_snapshot) py" where
  "pause_trade e trade_id reason =
     thn (modify (\<lambda>w. w\<lparr>w_safety := (w_safety w)\<lparr>sf_paused_trades := insert trade_id (sf_paused_trades (w_safety w))\<rparr>\<rparr>))
     (thn (touch_safety e)
     (thn (safety_record e ''safety.trade_paused'' (utf8 [230, 154, 130, 229, 129, 156, 228, 186, 164, 230, 152, 147, 58, 32] @ trade_id) Warning [(''trade_id'', PStr trade_id)])
       safety_get_state))"

definition unpause_trade :: "env \<Rightarrow> string \<Rightarrow> string option \<Rightarrow> (world, safety_snapshot) py" where
  "unpause_trade e trade_id reason =
     thn (modify (\<lambda>w. w\<lparr>w_safety := (w_safety w)\<lparr>sf_paused_trades := sf_paused_trades (w_safety w) - {trade_id}\<rparr>\<rparr>))
     (thn (touch_safety e)
     (thn (safety_record e ''safety.trade_unpaused'' (utf8 [230, 129, 162, 229, 164, 141, 228, 186, 164, 230, 152, 147, 58, 32] @ trade_id) Info [(''trade_id'', PStr trade_id)])
       safety_get_state))"

subsection \<open>Gates\<close>

definition check_can_open :: "(world, unit) py" where
  "check_can_open =
     bnd (gets w_safety) (\<lambda>s.
     thn (require (\<not> sf_frozen s) (ValueError ''account is frozen: all trading stopped''))
       (require (sf_new_positions_allowed s) (ValueError ''new positions are currently blocked'')))"

definition check_can_operate :: "string \<Rightarrow> (world, unit) py" where
  "check_can_operate trade_id =
     bnd (gets w_safety) (\<lambda>s.
     thn (require (\<not> sf_frozen s) (ValueError ''account is frozen: all trading stopped''))
       (require (\<not> (trade_id \<noteq> [] \<and> trade_id \<in> sf_paused_trades s))
          (ValueError (''trade '' @ [CHR 0x27] @ trade_id @ [CHR 0x27] @ '' is paused''))))"

definition is_reduce_only :: "string \<Rightarrow> (world, bool) py" where
  "is_reduce_only trade_id = gets (\<lambda>w. trade_id \<in> sf_reduce_only_trades (w_safety w))"

definition may_open :: "safety_state \<Rightarrow> bool" where
  "may_open s \<longleftrightarrow> \<not> sf_frozen s \<and> sf_new_positions_allowed s"

definition may_operate :: "string \<Rightarrow> safety_state \<Rightarrow> bool" where
  "may_operate k s \<longleftrightarrow> \<not> sf_frozen s \<and> \<not> (k \<noteq> [] \<and> k \<in> sf_paused_trades s)"

lemma check_can_open_run:
  "\<exists>m. check_can_open w = (if may_open (w_safety w) then Inr () else Inl (ValueError m), w)"
  by (auto simp: check_can_open_def may_open_def py_simps)

lemma check_can_operate_run:
  "\<exists>m. check_can_operate k w = (if may_operate k (w_safety w) then Inr () else Inl (ValueError m), w)"
  by (auto simp: check_can_operate_def may_operate_def py_simps)

lemma check_can_open_ok: "may_open (w_safety w) \<Longrightarrow> check_can_open w = (Inr (), w)"
  using check_can_open_run[of w] by auto

lemma check_can_operate_ok: "may_operate k (w_safety w) \<Longrightarrow> check_can_operate k w = (Inr (), w)"
  using check_can_operate_run[of k w] by auto

lemma steps_gates [steps]:
  "steps_in log_grows check_can_open" "steps_in silent check_can_open"
  "steps_in ledger_kept check_can_open" "steps_in safety_kept check_can_open"
  "steps_in breaker_kept check_can_open"
  "steps_in log_grows (check_can_operate k)" "steps_in silent (check_can_operate k)"
  "steps_in ledger_kept (check_can_operate k)" "steps_in safety_kept (check_can_operate k)"
  "steps_in breaker_kept (check_can_operate k)"
  unfolding check_can_open_def check_can_operate_def by (intro steps)+

lemma safety_record_run [py_simps]:
  "safety_record e ty sm sev p w =
     (Inl (AttributeError ([CHR 0x27] @ ''AuditEventService'' @ [CHR 0x27]
       @ '' object has no attribute '' @ [CHR 0x27] @ ''save_record'' @ [CHR 0x27])),
      w\<lparr>w_ticks := Suc (w_ticks w)\<rparr>)"
  by (simp add: safety_record_def audit_service_save_record_def py_simps)

lemmas safety_ops = freeze_all_def unfreeze_all_def stop_new_positions_def resume_new_positions_def
  set_reduce_only_def unset_reduce_only_def pause_trade_def unpause_trade_def touch_safety_def

subsection \<open>Any sequence of switches\<close>

datatype safety_op =
    Freeze | Unfreeze | StopNew | ResumeNew
  | SetReduceOnly string | UnsetReduceOnly string | Pause string | Unpause string

definition safety_perform :: "env \<Rightarrow> safety_op \<Rightarrow> string option \<Rightarrow> (world, safety_snapshot) py" where
  "safety_perform e op reason =
     (case op of
        Freeze \<Rightarrow> freeze_all e reason
      | Unfreeze \<Rightarrow> unfreeze_all e reason
      | StopNew \<Rightarrow> stop_new_positions e reason
      | ResumeNew \<Rightarrow> resume_new_positions e reason
      | SetReduceOnly k \<Rightarrow> set_reduce_only e k reason
      | UnsetReduceOnly k \<Rightarrow> unset_reduce_only e k reason
      | Pause k \<Rightarrow> pause_trade e k reason
      | Unpause k \<Rightarrow> unpause_trade e k reason)"

fun safety_run :: "env \<Rightarrow> (safety_op \<times> string option) list \<Rightarrow> world \<Rightarrow> world" where
  \<comment> \<open>the calls one after the other, whatever they raise\<close>
  "safety_run e [] w = w"
| "safety_run e ((op, reason) # ops) w = safety_run e ops (snd (safety_perform e op reason w))"

text \<open>A switch as its history has it: the last call that concerns it decides.\<close>

fun last_set :: "safety_op \<Rightarrow> safety_op \<Rightarrow> bool \<Rightarrow> (safety_op \<times> string option) list \<Rightarrow> bool" where
  "last_set on off b [] = b"
| "last_set on off b ((op, _) # ops) = last_set on off (if op = on then True else if op = off then False else b) ops"

definition frozen_after :: "world \<Rightarrow> (safety_op \<times> string option) list \<Rightarrow> bool" where
  "frozen_after w ops = last_set Freeze Unfreeze (sf_frozen (w_safety w)) ops"

definition new_allowed_after :: "world \<Rightarrow> (safety_op \<times> string option) list \<Rightarrow> bool" where
  "new_allowed_after w ops = last_set ResumeNew StopNew (sf_new_positions_allowed (w_safety w)) ops"

definition paused_after :: "string \<Rightarrow> world \<Rightarrow> (safety_op \<times> string option) list \<Rightarrow> bool" where
  "paused_after k w ops = last_set (Pause k) (Unpause k) (k \<in> sf_paused_trades (w_safety w)) ops"

definition reduce_only_after :: "string \<Rightarrow> world \<Rightarrow> (safety_op \<times> string option) list \<Rightarrow> bool" where
  "reduce_only_after k w ops =
     last_set (SetReduceOnly k) (UnsetReduceOnly k) (k \<in> sf_reduce_only_trades (w_safety w)) ops"

lemma safety_perform_raises: "\<exists>m. fst (safety_perform e op reason w) = Inl (AttributeError m)"
  by (cases op) (simp_all add: safety_perform_def safety_ops py_simps)

lemma safety_perform_rest:
  "(snd (safety_perform e op reason w))\<lparr>w_safety := w_safety w, w_ticks := w_ticks w\<rparr> = w"
  by (cases op) (simp_all add: safety_perform_def safety_ops py_simps)

lemma safety_perform_state:
  "sf_frozen (w_safety (snd (safety_perform e op reason w)))
     = (if op = Freeze then True else if op = Unfreeze then False else sf_frozen (w_safety w))"
  "sf_new_positions_allowed (w_safety (snd (safety_perform e op reason w)))
     = (if op = ResumeNew then True else if op = StopNew then False else sf_new_positions_allowed (w_safety w))"
  "k \<in> sf_paused_trades (w_safety (snd (safety_perform e op reason w)))
     \<longleftrightarrow> (if op = Pause k then True else if op = Unpause k then False else k \<in> sf_paused_trades (w_safety w))"
  "k \<in> sf_reduce_only_trades (w_safety (snd (safety_perform e op reason w)))
     \<longleftrightarrow> (if op = SetReduceOnly k then True else if op = UnsetReduceOnly k then False else k \<in> sf_reduce_only_trades (w_safety w))"
  by (cases op; auto simp: safety_perform_def safety_ops py_simps)+

lemma safety_run_state:
  "sf_frozen (w_safety (safety_run e ops w)) = frozen_after w ops"
  "sf_new_positions_allowed (w_safety (safety_run e ops w)) = new_allowed_after w ops"
  "k \<in> sf_paused_trades (w_safety (safety_run e ops w)) \<longleftrightarrow> paused_after k w ops"
  "k \<in> sf_reduce_only_trades (w_safety (safety_run e ops w)) \<longleftrightarrow> reduce_only_after k w ops"
  unfolding frozen_after_def new_allowed_after_def paused_after_def reduce_only_after_def
  by (induction e ops w rule: safety_run.induct) (simp_all add: safety_perform_state)

lemma safety_run_rest:
  "(safety_run e ops w)\<lparr>w_safety := w_safety w, w_ticks := w_ticks w\<rparr> = w"
proof (induction e ops w rule: safety_run.induct)
  case (2 e op reason ops w)
  let ?w = "snd (safety_perform e op reason w)"
  have "(safety_run e ops ?w)\<lparr>w_safety := w_safety w, w_ticks := w_ticks w\<rparr>
      = ((safety_run e ops ?w)\<lparr>w_safety := w_safety ?w, w_ticks := w_ticks ?w\<rparr>)\<lparr>w_safety := w_safety w, w_ticks := w_ticks w\<rparr>"
    by simp
  also have "\<dots> = ?w\<lparr>w_safety := w_safety w, w_ticks := w_ticks w\<rparr>" by (simp only: 2)
  also have "\<dots> = w" by (rule safety_perform_rest)
  finally show ?case by simp
qed simp

subsection \<open>Properties\<close>

text \<open>
  C9. The gates answer by the history of the switches, after any sequence of the eight
  operations from any state: \<open>check_can_open\<close> refuses with the error of a frozen account when
  the last of freeze and unfreeze was freeze, else with that of blocked positions when the last
  of stop and resume was stop, and passes otherwise; \<open>check_can_operate\<close> refuses a frozen
  account and then a named trade whose last of pause and unpause was pause, and passes
  otherwise; \<open>is_reduce_only\<close> answers whether the last of set and unset for the trade was
  set. Each operation takes effect although its call always raises \<open>AttributeError\<close>, because
  the audit service has no \<open>save_record\<close>; nothing is logged, and nothing but the switch and
  the clock changes.
\<close>

theorem safety_switch_gates:
  "check_can_open (safety_run e ops w) =
       (if frozen_after w ops then Inl (ValueError ''account is frozen: all trading stopped'')
        else if \<not> new_allowed_after w ops then Inl (ValueError ''new positions are currently blocked'')
        else Inr (), safety_run e ops w)
   \<and> check_can_operate k (safety_run e ops w) =
       (if frozen_after w ops then Inl (ValueError ''account is frozen: all trading stopped'')
        else if k \<noteq> [] \<and> paused_after k w ops
        then Inl (ValueError (''trade '' @ [CHR 0x27] @ k @ [CHR 0x27] @ '' is paused''))
        else Inr (), safety_run e ops w)
   \<and> is_reduce_only k (safety_run e ops w) = (Inr (reduce_only_after k w ops), safety_run e ops w)
   \<and> (\<exists>m. fst (safety_perform e op reason (safety_run e ops w)) = Inl (AttributeError m))
   \<and> (safety_run e ops w)\<lparr>w_safety := w_safety w, w_ticks := w_ticks w\<rparr> = w"
  by (intro conjI safety_perform_raises safety_run_rest)
    (simp_all add: check_can_open_def check_can_operate_def is_reduce_only_def py_simps safety_run_state)

end
