(* ===== verification/Exchange.thy ===== *)
theory Exchange
  imports Safety
begin

section \<open>Binance trading client and live adapter\<close>

text \<open>
  \<open>app/exchange/binance_trading.py\<close> and \<open>app/execution/adapters.py\<close>, with the intent and
  leg report of \<open>app/execution/schemas.py\<close>. A request is its method, URL and payload; the
  timestamp and the HMAC signature the client appends, and the headers, are left out. The
  exchange is the parameter \<open>env_http\<close>.
\<close>

subsection \<open>Schemas\<close>

datatype execution_action = OpenHedge | CloseHedge | RebalanceHedge

fun action_str :: "execution_action \<Rightarrow> string" where
  "action_str OpenHedge = ''open_hedge''"
| "action_str CloseHedge = ''close_hedge''"
| "action_str RebalanceHedge = ''rebalance_hedge''"

record intent =
  it_trade_id :: string
  it_mode :: trade_mode
  it_strategy_id :: string
  it_symbol :: string
  it_action :: execution_action
  it_spot_notional :: float64
  it_perp_notional :: float64
  it_spot_quantity :: "float64 option"
  it_perp_quantity :: "float64 option"
  it_realized_pnl :: float64
  it_net_exposure :: "float64 option"
  it_notes :: "string option"
  it_simulate_perp_leg_failure :: bool

definition valid_intent :: "intent \<Rightarrow> bool" where
  "valid_intent i \<longleftrightarrow> 0 \<le> it_spot_notional i \<and> 0 \<le> it_perp_notional i"

datatype leg_status = Submitted | Filled | Partial | LegFailed

fun leg_status_str :: "leg_status \<Rightarrow> string" where
  "leg_status_str Submitted = ''submitted''"
| "leg_status_str Filled = ''filled''"
| "leg_status_str Partial = ''partial''"
| "leg_status_str LegFailed = ''failed''"

record leg_report =
  lg_leg :: leg
  lg_status :: leg_status
  lg_payload :: pydict

subsection \<open>The trading client\<close>

record client =
  cl_api_key :: string
  cl_api_secret :: string
  cl_spot_base_url :: string
  cl_perp_base_url :: string

definition signed_request ::
  "env \<Rightarrow> client \<Rightarrow> http_method \<Rightarrow> string \<Rightarrow> (string \<times> string) list \<Rightarrow> (world, pyval) py" where
  \<comment> \<open>\<open>_signed_post\<close> and \<open>_signed_get\<close>\<close>
  "signed_request e c m url payload =
     thn (require (cl_api_key c \<noteq> [] \<and> cl_api_secret c \<noteq> [])
            (ValueError ''binance api credentials are not configured''))
       (send e \<lparr>rq_method = m, rq_url = url, rq_payload = payload\<rparr>)"

definition opt_field :: "string \<Rightarrow> string option \<Rightarrow> (string \<times> string) list" where
  "opt_field k v = (case v of None \<Rightarrow> [] | Some x \<Rightarrow> [(k, x)])"

definition place_spot_market_order ::
  "env \<Rightarrow> client \<Rightarrow> string \<Rightarrow> string \<Rightarrow> float64 option \<Rightarrow> float64 option \<Rightarrow> int option \<Rightarrow>
   string option \<Rightarrow> (world, pyval) py" where
  "place_spot_market_order e c symbol side quote_order_qty quantity recv_window client_id =
     signed_request e c POST (cl_spot_base_url c @ ''/api/v3/order'')
       ([(''symbol'', symbol), (''side'', side), (''type'', ''MARKET'')]
        @ opt_field ''quoteOrderQty'' (map_option fmt_g quote_order_qty)
        @ opt_field ''quantity'' (map_option fmt_g quantity)
        @ opt_field ''recvWindow'' (map_option show_int recv_window)
        @ opt_field ''newClientOrderId'' client_id)"

definition place_perp_market_order ::
  "env \<Rightarrow> client \<Rightarrow> string \<Rightarrow> string \<Rightarrow> float64 \<Rightarrow> bool \<Rightarrow> int option \<Rightarrow> string option \<Rightarrow>
   (world, pyval) py" where
  "place_perp_market_order e c symbol side quantity reduce_only recv_window client_id =
     signed_request e c POST (cl_perp_base_url c @ ''/fapi/v1/order'')
       ([(''symbol'', symbol), (''side'', side), (''type'', ''MARKET''),
         (''quantity'', fmt_g quantity), (''reduceOnly'', if reduce_only then ''true'' else ''false'')]
        @ opt_field ''recvWindow'' (map_option show_int recv_window)
        @ opt_field ''newClientOrderId'' client_id)"

definition get_spot_order ::
  "env \<Rightarrow> client \<Rightarrow> string \<Rightarrow> string option \<Rightarrow> string option \<Rightarrow> int option \<Rightarrow> (world, pyval) py" where
  "get_spot_order e c symbol order_id orig_client_order_id recv_window =
     signed_request e c GET (cl_spot_base_url c @ ''/api/v3/order'')
       ([(''symbol'', symbol)] @ opt_field ''orderId'' order_id
        @ opt_field ''origClientOrderId'' orig_client_order_id
        @ opt_field ''recvWindow'' (map_option show_int recv_window))"

definition get_perp_order ::
  "env \<Rightarrow> client \<Rightarrow> string \<Rightarrow> string option \<Rightarrow> string option \<Rightarrow> int option \<Rightarrow> (world, pyval) py" where
  "get_perp_order e c symbol order_id orig_client_order_id recv_window =
     signed_request e c GET (cl_perp_base_url c @ ''/fapi/v1/order'')
       ([(''symbol'', symbol)] @ opt_field ''orderId'' order_id
        @ opt_field ''origClientOrderId'' orig_client_order_id
        @ opt_field ''recvWindow'' (map_option show_int recv_window))"

definition get_account_balance :: "env \<Rightarrow> client \<Rightarrow> int option \<Rightarrow> (world, pyval) py" where
  "get_account_balance e c recv_window =
     signed_request e c GET (cl_perp_base_url c @ ''/fapi/v3/balance'')
       (opt_field ''recvWindow'' (map_option show_int recv_window))"

definition get_position_info :: "env \<Rightarrow> client \<Rightarrow> string option \<Rightarrow> int option \<Rightarrow> (world, pyval) py" where
  "get_position_info e c symbol recv_window =
     signed_request e c GET (cl_perp_base_url c @ ''/fapi/v2/positionRisk'')
       (opt_field ''symbol'' symbol @ opt_field ''recvWindow'' (map_option show_int recv_window))"

subsection \<open>The live adapter\<close>

fun py_type_name :: "pyval \<Rightarrow> string" where
  "py_type_name PNone = ''NoneType''"
| "py_type_name (PBool _) = ''bool''"
| "py_type_name (PInt _) = ''int''"
| "py_type_name (PFloat _) = ''float''"
| "py_type_name (PStr _) = ''str''"
| "py_type_name (PList _) = ''list''"
| "py_type_name (PDict _) = ''dict''"

definition no_get_attribute :: "pyval \<Rightarrow> py_error" where
  \<comment> \<open>\<open>v.get\<close> on a value that is not a dictionary\<close>
  "no_get_attribute v = AttributeError ([CHR 0x27] @ py_type_name v @ [CHR 0x27]
     @ '' object has no attribute '' @ [CHR 0x27] @ ''get'' @ [CHR 0x27])"

definition is_order_not_found :: "py_error \<Rightarrow> py_error + bool" where
  "is_order_not_found exc =
     (case exc of HTTPStatusError code body _ \<Rightarrow>
        if code = 404 then Inr True
        else (case body of
            None \<Rightarrow> Inr False
          | Some (PDict d) \<Rightarrow>
              (case map_of d ''code'' of
                 Some (PInt i) \<Rightarrow> Inr (i = - 2013)
               | Some (PFloat x) \<Rightarrow> Inr (x = - 2013)
               | Some (PStr s) \<Rightarrow> Inr (s = ''-2013'')
               | Some (PList _) \<Rightarrow> Inl (TypeError ''unhashable type: list'')
               | Some (PDict _) \<Rightarrow> Inl (TypeError ''unhashable type: dict'')
               | _ \<Rightarrow> Inr False)
          | Some v \<Rightarrow> Inl (no_get_attribute v))
      | _ \<Rightarrow> Inr False)"

definition submit_with_safe_retry ::
  "('w, pyval) py \<Rightarrow> ('w, pyval) py \<Rightarrow> ('w, pyval) py" where
  "submit_with_safe_retry submit lookup_order =
     bnd (attempt submit) (\<lambda>r. case r of
       Inr v \<Rightarrow> ret v
     | Inl exc \<Rightarrow>
         if \<not> is_http_error exc then raise exc
         else bnd (attempt lookup_order) (\<lambda>l. case l of
             Inr v \<Rightarrow> ret v
           | Inl (HTTPStatusError code body m) \<Rightarrow>
               (case is_order_not_found (HTTPStatusError code body m) of
                  Inl exc' \<Rightarrow> raise exc'
                | Inr True \<Rightarrow> submit
                | Inr False \<Rightarrow> raise exc)
           | Inl lookup_exc \<Rightarrow> if is_http_error lookup_exc then raise exc else raise lookup_exc))"

definition normalize_text :: "string \<Rightarrow> leg_status" where
  "normalize_text status =
     (if status = ''filled'' then Filled
      else if status = ''partially_filled'' then Partial
      else if status = ''new'' then Submitted
      else if status \<in> {''rejected'', ''expired'', ''canceled''} then LegFailed
      else Submitted)"

definition leg_report_of :: "leg \<Rightarrow> pyval \<Rightarrow> ('w, leg_report) py" where
  \<comment> \<open>\<open>ExecutionLegReport(leg, status=self._normalize_status(payload), payload)\<close>\<close>
  "leg_report_of l payload =
     (case payload of
        PDict d \<Rightarrow> ret \<lparr>lg_leg = l,
          lg_status = normalize_text (py_lower
            (case map_of d ''status'' of None \<Rightarrow> ''submitted'' | Some v \<Rightarrow> py_str v)),
          lg_payload = d\<rparr>
      | v \<Rightarrow> raise (no_get_attribute v))"

definition positive :: "float64 option \<Rightarrow> bool" where
  "positive q = (case q of None \<Rightarrow> False | Some x \<Rightarrow> 0 < x)"

definition adapter_open_hedge :: "env \<Rightarrow> client \<Rightarrow> intent \<Rightarrow> (world, leg_report list) py" where
  "adapter_open_hedge e c i =
     thn (require (positive (it_perp_quantity i)) (ValueError ''live open_hedge requires perp_quantity''))
     (thn (require (0 < it_spot_notional i) (ValueError ''live open_hedge requires spot_notional''))
     (let spot_id = it_trade_id i @ ''-spot-open''; perp_id = it_trade_id i @ ''-perp-open'' in
      bnd (submit_with_safe_retry
             (place_spot_market_order e c (it_symbol i) ''BUY'' (Some (it_spot_notional i)) None None (Some spot_id))
             (get_spot_order e c (it_symbol i) None (Some spot_id) None)) (\<lambda>spot.
      bnd (submit_with_safe_retry
             (place_perp_market_order e c (it_symbol i) ''SELL'' (the (it_perp_quantity i)) False None (Some perp_id))
             (get_perp_order e c (it_symbol i) None (Some perp_id) None)) (\<lambda>perp.
      bnd (leg_report_of Spot spot) (\<lambda>r1.
      bnd (leg_report_of Perp perp) (\<lambda>r2. ret [r1, r2]))))))"

definition adapter_close_hedge :: "env \<Rightarrow> client \<Rightarrow> intent \<Rightarrow> (world, leg_report list) py" where
  "adapter_close_hedge e c i =
     thn (require (positive (it_spot_quantity i)) (ValueError ''live close_hedge requires spot_quantity''))
     (thn (require (positive (it_perp_quantity i)) (ValueError ''live close_hedge requires perp_quantity''))
     (let spot_id = it_trade_id i @ ''-spot-close''; perp_id = it_trade_id i @ ''-perp-close'' in
      bnd (submit_with_safe_retry
             (place_spot_market_order e c (it_symbol i) ''SELL'' None (it_spot_quantity i) None (Some spot_id))
             (get_spot_order e c (it_symbol i) None (Some spot_id) None)) (\<lambda>spot.
      bnd (submit_with_safe_retry
             (place_perp_market_order e c (it_symbol i) ''BUY'' (the (it_perp_quantity i)) True None (Some perp_id))
             (get_perp_order e c (it_symbol i) None (Some perp_id) None)) (\<lambda>perp.
      bnd (leg_report_of Spot spot) (\<lambda>r1.
      bnd (leg_report_of Perp perp) (\<lambda>r2. ret [r1, r2]))))))"

definition adapter_rebalance_perp ::
  "env \<Rightarrow> client \<Rightarrow> string \<Rightarrow> string \<Rightarrow> string \<Rightarrow> float64 \<Rightarrow> bool \<Rightarrow> (world, leg_report) py" where
  "adapter_rebalance_perp e c trade_id symbol side quantity reduce_only =
     thn (require (0 < quantity) (ValueError ''live rebalance_hedge requires positive perp quantity''))
     (let client_id = trade_id @ ''-perp-rebalance'' in
      bnd (submit_with_safe_retry
             (place_perp_market_order e c symbol side quantity reduce_only None (Some client_id))
             (get_perp_order e c symbol None (Some client_id) None)) (\<lambda>perp.
      leg_report_of Perp perp))"


subsection \<open>What the adapter does to the state\<close>

lemma steps_signed_request [steps]:
  "steps_in log_grows (signed_request e c m u p)" "steps_in ledger_kept (signed_request e c m u p)"
  "steps_in safety_kept (signed_request e c m u p)" "steps_in breaker_kept (signed_request e c m u p)"
  unfolding signed_request_def by (intro steps)+

lemma steps_orders [steps]:
  "steps_in log_grows (place_spot_market_order e c a b f g h i)"
  "steps_in ledger_kept (place_spot_market_order e c a b f g h i)"
  "steps_in safety_kept (place_spot_market_order e c a b f g h i)"
  "steps_in breaker_kept (place_spot_market_order e c a b f g h i)"
  "steps_in log_grows (place_perp_market_order e c a b q ro h i)"
  "steps_in ledger_kept (place_perp_market_order e c a b q ro h i)"
  "steps_in safety_kept (place_perp_market_order e c a b q ro h i)"
  "steps_in breaker_kept (place_perp_market_order e c a b q ro h i)"
  "steps_in log_grows (get_spot_order e c a j i h)" "steps_in ledger_kept (get_spot_order e c a j i h)"
  "steps_in safety_kept (get_spot_order e c a j i h)" "steps_in breaker_kept (get_spot_order e c a j i h)"
  "steps_in log_grows (get_perp_order e c a j i h)" "steps_in ledger_kept (get_perp_order e c a j i h)"
  "steps_in safety_kept (get_perp_order e c a j i h)" "steps_in breaker_kept (get_perp_order e c a j i h)"
  unfolding place_spot_market_order_def place_perp_market_order_def get_spot_order_def get_perp_order_def
  by (intro steps)+

context effect
begin

lemma steps_retry [steps]:
  assumes m: "steps_in R m" and l: "steps_in R l"
  shows "steps_in R (submit_with_safe_retry m l)"
  unfolding submit_with_safe_retry_def
  by (auto intro!: steps_bnd steps_attempt m l steps_if steps_ret steps_raise
      split: sum.split py_error.split bool.split)

lemma steps_leg_report [steps]: "steps_in R (leg_report_of l v)"
  unfolding leg_report_of_def by (cases v) (auto intro: steps_ret steps_raise)
end

lemma steps_adapter [steps]:
  "steps_in log_grows (adapter_open_hedge e c i)" "steps_in ledger_kept (adapter_open_hedge e c i)"
  "steps_in safety_kept (adapter_open_hedge e c i)" "steps_in breaker_kept (adapter_open_hedge e c i)"
  "steps_in log_grows (adapter_close_hedge e c i)" "steps_in ledger_kept (adapter_close_hedge e c i)"
  "steps_in safety_kept (adapter_close_hedge e c i)" "steps_in breaker_kept (adapter_close_hedge e c i)"
  "steps_in log_grows (adapter_rebalance_perp e c k sy sd q ro)"
  "steps_in ledger_kept (adapter_rebalance_perp e c k sy sd q ro)"
  "steps_in safety_kept (adapter_rebalance_perp e c k sy sd q ro)"
  "steps_in breaker_kept (adapter_rebalance_perp e c k sy sd q ro)"
  unfolding adapter_open_hedge_def adapter_close_hedge_def adapter_rebalance_perp_def
  by (intro steps)+

subsection \<open>Safe retry\<close>

definition has_credentials :: "client \<Rightarrow> bool" where
  "has_credentials c \<longleftrightarrow> cl_api_key c \<noteq> [] \<and> cl_api_secret c \<noteq> []"

lemma signed_request_run:
  "signed_request e c m u p w =
    (if has_credentials c
     then (env_http e (length (w_sent w)) \<lparr>rq_method = m, rq_url = u, rq_payload = p\<rparr>,
           w\<lparr>w_sent := w_sent w @ [\<lparr>rq_method = m, rq_url = u, rq_payload = p\<rparr>]\<rparr>)
     else (Inl (ValueError ''binance api credentials are not configured''), w))"
  by (simp add: signed_request_def has_credentials_def py_simps)

lemma order_not_found_http: "is_order_not_found x = Inr True \<Longrightarrow> \<exists>a b m. x = HTTPStatusError a b m"
  by (cases x) (simp_all add: is_order_not_found_def)

text \<open>
  The reply and the requests of one leg, from the replies it gets: \<open>P\<close> is the order,
  \<open>G\<close> its lookup.
\<close>

definition retry_outcome ::
  "(py_error + pyval) \<Rightarrow> (py_error + pyval) \<Rightarrow> (py_error + pyval) \<Rightarrow> http_request \<Rightarrow> http_request \<Rightarrow>
   (py_error + pyval) \<times> http_request list" where
  "retry_outcome r1 r2 r3 P G =
     (case r1 of
        Inr v \<Rightarrow> (Inr v, [P])
      | Inl x \<Rightarrow> if \<not> is_http_error x then (Inl x, [P])
                 else (case r2 of
                     Inr v \<Rightarrow> (Inr v, [P, G])
                   | Inl y \<Rightarrow> (case is_order_not_found y of
                         Inr True \<Rightarrow> (r3, [P, G, P])
                       | Inr False \<Rightarrow> (Inl (if is_http_error y then x else y), [P, G])
                       | Inl z \<Rightarrow> (Inl z, [P, G]))))"

lemma order_not_found_other:
  "\<nexists>a b m. y = HTTPStatusError a b m \<Longrightarrow> is_order_not_found y = Inr False"
  by (cases y) (simp_all add: is_order_not_found_def)

lemma retry_run:
  assumes "has_credentials c"
    and P: "P = \<lparr>rq_method = POST, rq_url = u, rq_payload = p\<rparr>"
    and G: "G = \<lparr>rq_method = GET, rq_url = u', rq_payload = g\<rparr>"
    and n: "n = length (w_sent w)"
  shows "submit_with_safe_retry (signed_request e c POST u p) (signed_request e c GET u' g) w =
    (case retry_outcome (env_http e n P) (env_http e (n + 1) G) (env_http e (n + 2) P) P G of
       (r, reqs) \<Rightarrow> (r, w\<lparr>w_sent := w_sent w @ reqs\<rparr>))"
proof (cases "env_http e n P")
  case (Inr v)
  then show ?thesis using assms
    by (simp add: submit_with_safe_retry_def retry_outcome_def signed_request_run py_simps)
next
  case (Inl x)
  show ?thesis
  proof (cases "env_http e (n + 1) G")
    case (Inr v)
    then show ?thesis using assms Inl
      by (simp add: submit_with_safe_retry_def retry_outcome_def signed_request_run py_simps)
  next
    case looked: (Inl y)
    then show ?thesis using assms Inl order_not_found_other[of y]
      by (cases y)
        (auto simp: submit_with_safe_retry_def retry_outcome_def signed_request_run py_simps
          split: sum.splits bool.splits)
  qed
qed

definition posts :: "http_request list \<Rightarrow> http_request list" where
  "posts rs = filter (\<lambda>r. rq_method r = POST) rs"

lemma retry_posts:
  assumes "retry_outcome r1 r2 r3 P G = (r, reqs)" "rq_method P = POST" "rq_method G = GET"
  shows "posts reqs = [P] \<or> (posts reqs = [P, P] \<and> reqs = [P, G, P]
      \<and> (\<exists>x y. r1 = Inl x \<and> is_http_error x \<and> r2 = Inl y \<and> is_order_not_found y = Inr True))"
  using assms by (auto simp: retry_outcome_def posts_def split: sum.splits bool.splits if_splits)

subsection \<open>Properties\<close>

text \<open>
  C10: A leg of a live order is submitted at most twice, with the same client order id, and
  the second submission happens only when the first failed in transport and the lookup
  answered that the order does not exist; an answer of the first submission is final.
\<close>

theorem safe_retry_submits_once:
  assumes "has_credentials c"
    and "submit_with_safe_retry (signed_request e c POST u p) (signed_request e c GET u' g) w = (r, w')"
  shows "\<exists>reqs. w_sent w' = w_sent w @ reqs
    \<and> (posts reqs = [\<lparr>rq_method = POST, rq_url = u, rq_payload = p\<rparr>]
       \<or> posts reqs = replicate 2 \<lparr>rq_method = POST, rq_url = u, rq_payload = p\<rparr>
         \<and> (\<exists>x y. env_http e (length (w_sent w)) \<lparr>rq_method = POST, rq_url = u, rq_payload = p\<rparr> = Inl x
              \<and> is_http_error x
              \<and> env_http e (length (w_sent w) + 1) \<lparr>rq_method = GET, rq_url = u', rq_payload = g\<rparr> = Inl y
              \<and> is_order_not_found y = Inr True))
    \<and> (\<forall>v. env_http e (length (w_sent w)) \<lparr>rq_method = POST, rq_url = u, rq_payload = p\<rparr> = Inr v
          \<longrightarrow> r = Inr v \<and> length reqs = 1)"
proof -
  let ?P = "\<lparr>rq_method = POST, rq_url = u, rq_payload = p\<rparr>"
  let ?G = "\<lparr>rq_method = GET, rq_url = u', rq_payload = g\<rparr>"
  let ?n = "length (w_sent w)"
  obtain r0 reqs where out: "retry_outcome (env_http e ?n ?P) (env_http e (?n + 1) ?G)
      (env_http e (?n + 2) ?P) ?P ?G = (r0, reqs)" by fastforce
  then have run: "r = r0" "w_sent w' = w_sent w @ reqs"
    using retry_run[OF assms(1) refl refl refl, of e u p u' g w] assms(2) by auto
  have "env_http e ?n ?P = Inr v \<Longrightarrow> r = Inr v \<and> length reqs = 1" for v
    using out run by (auto simp: retry_outcome_def)
  moreover have "replicate 2 ?P = [?P, ?P]" by (simp add: numeral_2_eq_2)
  ultimately show ?thesis using run(2) retry_posts[OF out] by fastforce
qed

definition sample_client :: client where
  "sample_client = \<lparr>cl_api_key = ''k'', cl_api_secret = ''s'',
     cl_spot_base_url = ''https://api.binance.com'', cl_perp_base_url = ''https://fapi.binance.com''\<rparr>"

text \<open>An exchange whose first reply is lost and that has not seen the order.\<close>

definition lossy_env :: env where
  "lossy_env = \<lparr>env_now = (\<lambda>n. int n), env_uuid = show_nat,
     env_http = (\<lambda>n r. if n = 0 then Inl (HTTPError ''timed out'')
        else if rq_method r = GET then Inl (HTTPStatusError 400 (Some (PDict [(''code'', PInt (- 2013))])) ''400'')
        else Inr (PDict [(''status'', PStr ''FILLED'')]))\<rparr>"

theorem safe_retry_submits_once_witness:
  "\<exists>reqs. w_sent (snd (submit_with_safe_retry (signed_request lossy_env sample_client POST ''u'' [])
      (signed_request lossy_env sample_client GET ''u'' []) (sample_world []))) = reqs \<and> length (posts reqs) \<le> 2"
proof -
  have "has_credentials sample_client" by (simp add: has_credentials_def sample_client_def)
  then show ?thesis
    using safe_retry_submits_once[OF _ prod.collapse[symmetric], of sample_client lossy_env "''u''" "[]" "''u''" "[]" "sample_world []"]
    by (auto simp: sample_world_def)
qed

end
