(* ===== verification/Orchestrator.thy ===== *)
theory Orchestrator
  imports Exchange
begin

section \<open>Execution orchestrator\<close>

text \<open>
  \<open>app/execution/service.py\<close>: \<open>execute\<close> (idempotent replay, safety gate, live guards,
  circuit breaker, paper and live open and close), \<open>recover\<close> and \<open>rebalance_hedge\<close>. A
  computation changes the ledger, the log and the breaker as it goes and keeps these
  changes when it raises later.
\<close>

record orchestrator =
  oc_client :: "client option" \<comment> \<open>the live adapter's trading client\<close>
  oc_breaker :: "breaker_config option"
  oc_safety :: bool \<comment> \<open>whether a safety service was given\<close>
  oc_live_enabled :: bool
  oc_allowlist :: "string list"
  oc_max_live_notional :: "float64 option"

record execution_result =
  ex_trade_id :: string
  ex_action :: execution_action
  ex_mode :: trade_mode
  ex_symbol :: string
  ex_status :: trade_status
  ex_ledger_record :: ledger_record
  ex_events :: "audit_event list"
  ex_executed_at :: datetime

datatype recovery_action = ResumeOpen | ResumeClose

fun recovery_str :: "recovery_action \<Rightarrow> string" where
  "recovery_str ResumeOpen = ''resume_open''"
| "recovery_str ResumeClose = ''resume_close''"

record recovery_request =
  rr_trade_id :: string
  rr_action :: recovery_action
  rr_notes :: "string option"

subsection \<open>Helpers\<close>

definition quoted :: "string \<Rightarrow> string" where
  "quoted s = [CHR 0x27] @ s @ [CHR 0x27]"

definition opt_str :: "string option \<Rightarrow> pyval" where
  "opt_str t = (case t of None \<Rightarrow> PNone | Some s \<Rightarrow> PStr s)"

definition opt_float :: "float64 option \<Rightarrow> pyval" where
  "opt_float t = (case t of None \<Rightarrow> PNone | Some x \<Rightarrow> PFloat x)"

definition intent_dump :: "intent \<Rightarrow> pydict" where
  \<comment> \<open>\<open>request.model_dump(mode="json")\<close>\<close>
  "intent_dump i =
     [(''trade_id'', PStr (it_trade_id i)), (''mode'', PStr (mode_str (it_mode i))),
      (''strategy_id'', PStr (it_strategy_id i)), (''symbol'', PStr (it_symbol i)),
      (''action'', PStr (action_str (it_action i))),
      (''spot_notional'', PFloat (it_spot_notional i)), (''perp_notional'', PFloat (it_perp_notional i)),
      (''spot_quantity'', opt_float (it_spot_quantity i)), (''perp_quantity'', opt_float (it_perp_quantity i)),
      (''realized_pnl'', PFloat (it_realized_pnl i)), (''net_exposure'', opt_float (it_net_exposure i)),
      (''notes'', opt_str (it_notes i)),
      (''simulate_perp_leg_failure'', PBool (it_simulate_perp_leg_failure i))]"

definition orch_event ::
  "env \<Rightarrow> string \<Rightarrow> string \<Rightarrow> severity \<Rightarrow> datetime \<Rightarrow> pydict \<Rightarrow> string list \<Rightarrow> (world, audit_event) py" where
  "orch_event e event_type summary sev occurred_at payload tags =
     audit_record_event e event_type ''execution-orchestrator'' summary sev (Some occurred_at)
       (Some payload) (Some tags) None"

definition live_leg_event ::
  "env \<Rightarrow> string \<Rightarrow> leg_report \<Rightarrow> datetime \<Rightarrow> string \<Rightarrow> (world, audit_event) py" where
  "live_leg_event e trade_id r occurred_at pfx =
     orch_event e (pfx @ ''.'' @ leg_str (lg_leg r) @ ''.'' @ leg_status_str (lg_status r))
       (''Live '' @ leg_str (lg_leg r) @ '' leg '' @ leg_status_str (lg_status r))
       (if lg_status r = LegFailed then Error else Info) occurred_at
       (dict_merge [(''trade_id'', PStr trade_id)] (lg_payload r))
       [''execution'', ''live'', leg_str (lg_leg r), leg_status_str (lg_status r)]"

definition live_leg_events ::
  "env \<Rightarrow> string \<Rightarrow> leg_report list \<Rightarrow> datetime \<Rightarrow> string \<Rightarrow> (world, audit_event list) py" where
  \<comment> \<open>\<open>for index, report in enumerate(reports, start=1)\<close>\<close>
  "live_leg_events e trade_id rs base pfx =
     for_map (\<lambda>(n, r). live_leg_event e trade_id r (base + milliseconds (int n)) pfx)
       (zip [1..<length rs + 1] rs)"

definition resolve_net_exposure :: "intent \<Rightarrow> float64" where
  "resolve_net_exposure i = (case it_net_exposure i of Some x \<Rightarrow> x
     | None \<Rightarrow> py_round (fsub (it_spot_notional i) (it_perp_notional i)) 4)"

definition validate_live :: "orchestrator \<Rightarrow> string \<Rightarrow> float64 \<Rightarrow> (world, unit) py" where
  \<comment> \<open>\<open>_validate_live_rebalance_request\<close>\<close>
  "validate_live c symbol notional =
     thn (require (oc_live_enabled c) (ValueError ''live execution is disabled''))
     (thn (require (oc_allowlist c = [] \<or> symbol \<in> set (oc_allowlist c))
             (ValueError (''symbol '' @ quoted symbol @ '' is not in live execution allowlist'')))
        (require (case oc_max_live_notional c of None \<Rightarrow> True | Some m \<Rightarrow> notional \<le> m)
             (ValueError ''requested notional exceeds configured live notional limit'')))"

definition validate_live_request :: "orchestrator \<Rightarrow> intent \<Rightarrow> (world, unit) py" where
  "validate_live_request c i = validate_live c (it_symbol i) (max (it_spot_notional i) (it_perp_notional i))"

definition ensure_live_allowed ::
  "env \<Rightarrow> orchestrator \<Rightarrow> string \<Rightarrow> string \<Rightarrow> datetime \<Rightarrow> (world, unit) py" where
  "ensure_live_allowed e c trade_id symbol t =
     (case oc_breaker c of None \<Rightarrow> ret ()
      | Some b \<Rightarrow> catch (thn (ensure_allows_execution e b (Some t)) (ret ())) is_value_error (\<lambda>exc.
          thn (orch_event e ''execution.circuit_breaker.blocked''
                 (''Live execution blocked by circuit breaker for '' @ symbol) Critical t
                 [(''trade_id'', PStr trade_id), (''reason'', PStr (exc_str exc))]
                 [''execution'', ''live'', ''circuit-breaker'', ''blocked''])
            (raise exc)))"

definition live_breaker_failure ::
  "env \<Rightarrow> orchestrator \<Rightarrow> string \<Rightarrow> string \<Rightarrow> datetime \<Rightarrow> string \<Rightarrow> (world, unit) py" where
  "live_breaker_failure e c trade_id symbol t reason =
     (case oc_breaker c of None \<Rightarrow> ret ()
      | Some b \<Rightarrow>
          bnd (breaker_get_state e b (Some t)) (\<lambda>previous.
          bnd (record_failure e b trade_id reason (Some t)) (\<lambda>current.
            if \<not> cb_is_open previous \<and> cb_is_open current then
              thn (orch_event e ''execution.circuit_breaker.opened''
                     (''Live circuit breaker opened for '' @ symbol) Critical t
                     [(''trade_id'', PStr trade_id), (''reason'', PStr reason),
                      (''resume_at'', opt_str (map_option isoformat (cb_resume_at current)))]
                     [''execution'', ''live'', ''circuit-breaker'', ''opened''])
                (ret ())
            else ret ())))"

definition live_breaker_after ::
  "env \<Rightarrow> orchestrator \<Rightarrow> string \<Rightarrow> string \<Rightarrow> execution_action \<Rightarrow> trade_status \<Rightarrow> datetime \<Rightarrow> (world, unit) py" where
  \<comment> \<open>\<open>_update_live_circuit_breaker_after_result\<close>\<close>
  "live_breaker_after e c trade_id symbol action status t =
     (case oc_breaker c of None \<Rightarrow> ret ()
      | Some b \<Rightarrow>
          if status \<in> {Failed, RecoveryPending} then
            live_breaker_failure e c trade_id symbol t
              (''live '' @ action_str action @ '' ended with status '' @ status_str status)
          else
            bnd (breaker_get_state e b (Some t)) (\<lambda>previous.
            bnd (record_success e b trade_id (Some t)) (\<lambda>current.
              if 0 < cb_consecutive_failures previous \<and> cb_consecutive_failures current = 0 then
                thn (orch_event e ''execution.circuit_breaker.reset''
                       (''Live circuit breaker failure count reset after successful execution on '' @ symbol)
                       Info t [(''trade_id'', PStr trade_id)]
                       [''execution'', ''live'', ''circuit-breaker'', ''reset''])
                  (ret ())
              else ret ())))"

subsection \<open>Idempotent replay\<close>

definition replay_status :: "execution_action \<Rightarrow> trade_status \<Rightarrow> bool" where
  "replay_status a s \<longleftrightarrow>
     (a = OpenHedge \<and> s \<in> {Open, Hedged, Closing, Closed, RecoveryPending}) \<or> (a = CloseHedge \<and> s = Closed)"

definition idempotent_replay ::
  "env \<Rightarrow> intent \<Rightarrow> datetime \<Rightarrow> (world, execution_result option) py" where
  "idempotent_replay e i t =
     bnd (get_record (it_trade_id i)) (\<lambda>existing. case existing of
       None \<Rightarrow> ret None
     | Some r \<Rightarrow>
         if replay_status (it_action i) (lr_status r) then
           bnd (orch_event e ''execution.idempotent.replay''
                  (''Replayed '' @ (if it_action i = OpenHedge then ''open'' else ''close'')
                     @ '' intent for existing trade '' @ it_trade_id i) Info t
                  [(''trade_id'', PStr (it_trade_id i)), (''status'', PStr (status_str (lr_status r)))]
                  [''execution'', ''idempotent'', mode_str (it_mode i)]) (\<lambda>ev.
             ret (Some \<lparr>ex_trade_id = it_trade_id i, ex_action = it_action i, ex_mode = it_mode i,
               ex_symbol = it_symbol i, ex_status = lr_status r, ex_ledger_record = r,
               ex_events = [ev], ex_executed_at = t\<rparr>))
         else ret None)"


subsection \<open>Opening on paper\<close>

definition intent_received :: "env \<Rightarrow> intent \<Rightarrow> datetime \<Rightarrow> (world, audit_event) py" where
  "intent_received e i t =
     orch_event e ''execution.intent.received''
       (''Received '' @ action_str (it_action i) @ '' intent for '' @ it_symbol i) Info t
       (intent_dump i) [''execution'', mode_str (it_mode i), action_str (it_action i)]"

definition candidate_of :: "intent \<Rightarrow> datetime \<Rightarrow> ledger_record" where
  "candidate_of i t =
     \<lparr>lr_trade_id = it_trade_id i, lr_mode = it_mode i, lr_strategy_id = it_strategy_id i,
      lr_symbol = it_symbol i, lr_status = Candidate, lr_opened_at = t, lr_closed_at = None,
      lr_net_exposure = resolve_net_exposure i, lr_spot_notional = it_spot_notional i,
      lr_perp_notional = it_perp_notional i, lr_realized_pnl = 0, lr_notes = it_notes i\<rparr>"

definition new_ledger_record :: "ledger_record \<Rightarrow> ('w, ledger_record) py" where
  \<comment> \<open>\<open>TradeLedgerRecord(...)\<close> checks its fields\<close>
  "new_ledger_record r =
     (if valid_ledger_record r then ret r else raise (ValidationError ''TradeLedgerRecord''))"

definition result_of ::
  "intent \<Rightarrow> trade_status \<Rightarrow> ledger_record \<Rightarrow> audit_event list \<Rightarrow> datetime \<Rightarrow> execution_result" where
  "result_of i s r evs t =
     \<lparr>ex_trade_id = it_trade_id i, ex_action = it_action i, ex_mode = it_mode i,
      ex_symbol = it_symbol i, ex_status = s, ex_ledger_record = r, ex_events = evs,
      ex_executed_at = t\<rparr>"

definition execute_open :: "env \<Rightarrow> intent \<Rightarrow> datetime \<Rightarrow> (world, execution_result) py" where
  "execute_open e i t =
     (let k = it_trade_id i; sy = it_symbol i; md = mode_str (it_mode i);
          tid = (''trade_id'', PStr k) in
      bnd (intent_received e i t) (\<lambda>ev0.
      bnd (new_ledger_record (candidate_of i t)) (\<lambda>r0.
      thn (save_record r0)
      (let r1 = r0\<lparr>lr_status := Open\<rparr> in
      thn (save_record r1)
      (bnd (orch_event e ''execution.leg.spot.filled'' (''Spot leg filled for '' @ sy) Info
              (t + milliseconds 1) [tid, (''spot_notional'', PFloat (it_spot_notional i))]
              [''execution'', ''spot'', md]) (\<lambda>ev1.
      if it_simulate_perp_leg_failure i then
        let r2 = r1\<lparr>lr_status := Failed\<rparr> in
        thn (save_record r2)
        (bnd (orch_event e ''execution.leg.perp.failed'' (''Perp leg failed for '' @ sy) Error
                (t + milliseconds 2) [tid, (''perp_notional'', PFloat (it_perp_notional i))]
                [''execution'', ''perp'', ''failure'', md]) (\<lambda>ev2.
         bnd (orch_event e ''execution.recovery.required''
                (''Recovery required after partial fill on '' @ sy) Critical (t + milliseconds 3)
                [tid, (''status'', PStr ''failed'')] [''execution'', ''recovery'', md]) (\<lambda>ev3.
         ret (result_of i Failed r2 [ev0, ev1, ev2, ev3] (t + milliseconds 3)))))
      else
        let r2 = r1\<lparr>lr_status := Hedged\<rparr> in
        thn (save_record r2)
        (bnd (orch_event e ''execution.leg.perp.filled'' (''Perp leg filled for '' @ sy) Info
                (t + milliseconds 2) [tid, (''perp_notional'', PFloat (it_perp_notional i))]
                [''execution'', ''perp'', md]) (\<lambda>ev2.
         bnd (if it_mode i = Live then
                bnd (orch_event e ''execution.live.stubbed''
                       (''Live execution adapter is not wired yet for '' @ sy) Warning
                       (t + milliseconds 3) [tid] [''execution'', ''live'', ''stub'']) (\<lambda>ev.
                  ret ([ev], t + milliseconds 4))
              else ret ([], t + milliseconds 3)) (\<lambda>(stub, done_at).
         bnd (orch_event e ''execution.completed'' (''Hedge open completed for '' @ sy) Info done_at
                [tid, (''status'', PStr ''hedged'')] [''execution'', ''completed'', md]) (\<lambda>ev3.
         ret (result_of i Hedged r2 ([ev0, ev1, ev2] @ stub @ [ev3]) done_at)))))))))))"

subsection \<open>Closing on paper\<close>

definition execute_close :: "env \<Rightarrow> intent \<Rightarrow> datetime \<Rightarrow> (world, execution_result) py" where
  "execute_close e i t =
     (let k = it_trade_id i; sy = it_symbol i; md = mode_str (it_mode i);
          tid = (''trade_id'', PStr k) in
      bnd (get_record k) (\<lambda>found. case found of
        None \<Rightarrow> raise (ValueError (''trade '' @ quoted k @ '' not found in ledger''))
      | Some existing \<Rightarrow>
          bnd (intent_received e i t) (\<lambda>ev0.
          let closing = existing\<lparr>lr_status := Closing\<rparr> in
          thn (save_record closing)
          (bnd (orch_event e ''execution.close.started'' (''Close started for '' @ sy) Info
                  (t + milliseconds 1) [tid] [''execution'', ''close'', md]) (\<lambda>ev1.
           let closed = closing\<lparr>lr_status := Closed, lr_closed_at := Some (t + milliseconds 2),
                 lr_realized_pnl := it_realized_pnl i,
                 lr_notes := or_text (it_notes i) (lr_notes closing)\<rparr> in
           thn (save_record closed)
           (bnd (orch_event e ''execution.close.completed'' (''Close completed for '' @ sy) Info
                  (t + milliseconds 2) [tid, (''realized_pnl'', PFloat (it_realized_pnl i))]
                  [''execution'', ''close'', ''completed'', md]) (\<lambda>ev2.
            ret (result_of i Closed closed [ev0, ev1, ev2] (t + milliseconds 2)))))))))"


subsection \<open>Live execution\<close>

definition any_failed :: "leg_report list \<Rightarrow> bool" where
  "any_failed rs = list_ex (\<lambda>r. lg_status r = LegFailed) rs"

definition any_partial :: "leg_report list \<Rightarrow> bool" where
  "any_partial rs = list_ex (\<lambda>r. lg_status r = Partial) rs"

definition final_status :: "trade_status \<Rightarrow> leg_report list \<Rightarrow> trade_status" where
  "final_status done rs = (if any_failed rs then Failed else if any_partial rs then RecoveryPending else done)"

definition finish_live_open ::
  "env \<Rightarrow> intent \<Rightarrow> datetime \<Rightarrow> audit_event \<Rightarrow> ledger_record \<Rightarrow> leg_report list \<Rightarrow> (world, execution_result) py" where
  \<comment> \<open>what \<open>_execute_live_open\<close> does with the reports of the two legs\<close>
  "finish_live_open e i t ev0 r0 reports =
     bnd (live_leg_events e (it_trade_id i) reports t ''execution.live'') (\<lambda>evs.
       let status = final_status Hedged reports; r1 = r0\<lparr>lr_status := status\<rparr>;
           tid = (''trade_id'', PStr (it_trade_id i));
           at_end = t + milliseconds (int (length reports) + 1) in
       thn (save_record r1)
       (bnd (if any_failed reports \<or> any_partial reports then
               orch_event e ''execution.recovery.required''
                 (''Recovery required after live open issue on '' @ it_symbol i)
                 (if any_failed reports then Critical else Warning) at_end
                 [tid, (''status'', PStr (status_str status))]
                 [''execution'', ''recovery'', mode_str (it_mode i)]
             else
               orch_event e ''execution.completed'' (''Hedge open completed for '' @ it_symbol i) Info at_end
                 [tid, (''status'', PStr ''hedged'')]
                 [''execution'', ''completed'', mode_str (it_mode i)]) (\<lambda>ev1.
        ret (result_of i status r1 ([ev0] @ evs @ [ev1]) at_end))))"

definition execute_live_open :: "env \<Rightarrow> client \<Rightarrow> intent \<Rightarrow> datetime \<Rightarrow> (world, execution_result) py" where
  "execute_live_open e cl i t =
     bnd (intent_received e i t) (\<lambda>ev0.
     bnd (new_ledger_record (candidate_of i t)) (\<lambda>r0.
     thn (save_record r0)
     (bnd (adapter_open_hedge e cl i) (finish_live_open e i t ev0 r0))))"

definition finish_live_close ::
  "env \<Rightarrow> intent \<Rightarrow> datetime \<Rightarrow> audit_event \<Rightarrow> ledger_record \<Rightarrow> leg_report list \<Rightarrow> (world, execution_result) py" where
  \<comment> \<open>what \<open>_execute_live_close\<close> does with the reports of the two legs\<close>
  "finish_live_close e i t ev0 closing reports =
     bnd (live_leg_events e (it_trade_id i) reports t ''execution.live.close'') (\<lambda>evs.
       let status = final_status Closed reports;
           tid = (''trade_id'', PStr (it_trade_id i));
           at_end = t + milliseconds (int (length reports) + 1);
           closed = closing\<lparr>lr_status := status,
             lr_closed_at := (if status = Closed then Some at_end else None),
             lr_realized_pnl := it_realized_pnl i,
             lr_notes := or_text (it_notes i) (lr_notes closing)\<rparr> in
       thn (save_record closed)
       (bnd (if any_failed reports \<or> any_partial reports then
               orch_event e ''execution.recovery.required''
                 (''Recovery required after live close issue on '' @ it_symbol i)
                 (if any_failed reports then Critical else Warning) at_end
                 [tid, (''status'', PStr (status_str status))]
                 [''execution'', ''recovery'', mode_str (it_mode i)]
             else
               orch_event e ''execution.close.completed'' (''Close completed for '' @ it_symbol i) Info at_end
                 [tid, (''realized_pnl'', PFloat (it_realized_pnl i))]
                 [''execution'', ''close'', ''completed'', mode_str (it_mode i)]) (\<lambda>ev1.
        ret (result_of i status closed ([ev0] @ evs @ [ev1]) at_end))))"

definition execute_live_close :: "env \<Rightarrow> client \<Rightarrow> intent \<Rightarrow> datetime \<Rightarrow> (world, execution_result) py" where
  "execute_live_close e cl i t =
     bnd (get_record (it_trade_id i)) (\<lambda>found. case found of
        None \<Rightarrow> raise (ValueError (''trade '' @ quoted (it_trade_id i) @ '' not found in ledger''))
      | Some existing \<Rightarrow>
          bnd (intent_received e i t) (\<lambda>ev0.
          let closing = existing\<lparr>lr_status := Closing\<rparr> in
          thn (save_record closing)
          (bnd (adapter_close_hedge e cl i) (finish_live_close e i t ev0 closing))))"

definition execute_live :: "env \<Rightarrow> orchestrator \<Rightarrow> intent \<Rightarrow> datetime \<Rightarrow> (world, execution_result) py" where
  "execute_live e c i t =
     (case oc_client c of
        None \<Rightarrow> raise (ValueError ''live execution adapter is not configured'')
      | Some cl \<Rightarrow> if it_action i = OpenHedge then execute_live_open e cl i t
                   else execute_live_close e cl i t)"

subsection \<open>execute\<close>

definition safety_gate :: "orchestrator \<Rightarrow> intent \<Rightarrow> (world, unit) py" where
  "safety_gate c i =
     (if oc_safety c then
        (if it_action i = OpenHedge then check_can_open else check_can_operate (it_trade_id i))
      else ret ())"

definition dispatch :: "env \<Rightarrow> orchestrator \<Rightarrow> intent \<Rightarrow> datetime \<Rightarrow> (world, execution_result) py" where
  \<comment> \<open>what follows the safety gate\<close>
  "dispatch e c i t =
     (if it_mode i = Live then
        thn (validate_live_request c i)
        (thn (ensure_live_allowed e c (it_trade_id i) (it_symbol i) t)
        (bnd (attempt (execute_live e c i t)) (\<lambda>r. case r of
           Inl exc \<Rightarrow> thn (live_breaker_failure e c (it_trade_id i) (it_symbol i) t (exc_str exc)) (raise exc)
         | Inr result \<Rightarrow>
             thn (live_breaker_after e c (it_trade_id i) (it_symbol i) (it_action i)
                    (ex_status result) (ex_executed_at result))
               (ret result))))
      else if it_action i = OpenHedge then execute_open e i t
      else execute_close e i t)"

definition execute :: "env \<Rightarrow> orchestrator \<Rightarrow> intent \<Rightarrow> (world, execution_result) py" where
  "execute e c i =
     bnd (utc_now e) (\<lambda>t.
     bnd (idempotent_replay e i t) (\<lambda>replayed. case replayed of
       Some result \<Rightarrow> ret result
     | None \<Rightarrow> thn (safety_gate c i) (dispatch e c i t)))"

subsection \<open>recover\<close>

definition recover_result ::
  "execution_action \<Rightarrow> trade_status \<Rightarrow> ledger_record \<Rightarrow> audit_event list \<Rightarrow> datetime \<Rightarrow> execution_result" where
  "recover_result a s r evs t =
     \<lparr>ex_trade_id = lr_trade_id r, ex_action = a, ex_mode = lr_mode r, ex_symbol = lr_symbol r,
      ex_status = s, ex_ledger_record = r, ex_events = evs, ex_executed_at = t\<rparr>"

definition recover :: "env \<Rightarrow> recovery_request \<Rightarrow> (world, execution_result) py" where
  "recover e q =
     bnd (utc_now e) (\<lambda>t.
     bnd (get_record (rr_trade_id q)) (\<lambda>found. case found of
       None \<Rightarrow> raise (ValueError (''trade '' @ quoted (rr_trade_id q) @ '' not found in ledger''))
     | Some existing \<Rightarrow>
         thn (require (lr_status existing \<in> {Failed, RecoveryPending})
                (ValueError (''trade '' @ quoted (rr_trade_id q) @ '' is not in recoverable state'')))
         (let sy = lr_symbol existing; md = mode_str (lr_mode existing);
              tid = (''trade_id'', PStr (rr_trade_id q)) in
          bnd (orch_event e ''execution.recovery.started'' (''Recovery started for '' @ sy) Info t
                 [tid, (''action'', PStr (recovery_str (rr_action q)))]
                 [''execution'', ''recovery'', md]) (\<lambda>ev0.
          case rr_action q of
            ResumeOpen \<Rightarrow>
              let recovered = existing\<lparr>lr_status := Hedged, lr_notes := or_text (rr_notes q) (lr_notes existing)\<rparr> in
              thn (save_record recovered)
              (bnd (orch_event e ''execution.recovery.perp.filled''
                      (''Recovery filled missing perp leg for '' @ sy) Info (t + milliseconds 1) [tid]
                      [''execution'', ''recovery'', ''perp'', md]) (\<lambda>ev1.
               bnd (orch_event e ''execution.recovery.completed'' (''Recovery completed for '' @ sy) Info
                      (t + milliseconds 2) [tid, (''status'', PStr ''hedged'')]
                      [''execution'', ''recovery'', ''completed'', md]) (\<lambda>ev2.
               ret (recover_result OpenHedge Hedged recovered [ev0, ev1, ev2] (t + milliseconds 2)))))
          | ResumeClose \<Rightarrow>
              let closed = existing\<lparr>lr_status := Closed, lr_closed_at := Some (t + milliseconds 2),
                    lr_notes := or_text (rr_notes q) (lr_notes existing)\<rparr> in
              thn (save_record closed)
              (bnd (orch_event e ''execution.recovery.completed'' (''Close recovery completed for '' @ sy) Info
                      (t + milliseconds 2) [tid, (''status'', PStr ''closed'')]
                      [''execution'', ''recovery'', ''completed'', md]) (\<lambda>ev1.
               ret (recover_result CloseHedge Closed closed [ev0, ev1] (t + milliseconds 2))))))))"


subsection \<open>Rebalancing\<close>

definition rebalanced :: "ledger_record \<Rightarrow> float64 \<Rightarrow> string option \<Rightarrow> ledger_record" where
  "rebalanced r delta notes =
     r\<lparr>lr_status := Hedged,
       lr_perp_notional := py_round (fadd (lr_perp_notional r) delta) 4,
       lr_net_exposure := py_round (fsub (lr_net_exposure r) delta) 4,
       lr_notes := or_text notes (lr_notes r)\<rparr>"

definition rebalance_result ::
  "ledger_record \<Rightarrow> trade_status \<Rightarrow> ledger_record \<Rightarrow> audit_event list \<Rightarrow> datetime \<Rightarrow> execution_result" where
  "rebalance_result existing s r evs t =
     \<lparr>ex_trade_id = lr_trade_id existing, ex_action = RebalanceHedge, ex_mode = lr_mode existing,
      ex_symbol = lr_symbol existing, ex_status = s, ex_ledger_record = r, ex_events = evs,
      ex_executed_at = t\<rparr>"

definition live_rebalance ::
  "env \<Rightarrow> orchestrator \<Rightarrow> ledger_record \<Rightarrow> float64 \<Rightarrow> float64 \<Rightarrow> datetime \<Rightarrow> (world, leg_report) py" where
  "live_rebalance e c existing delta quantity t =
     thn (validate_live c (lr_symbol existing) \<bar>delta\<bar>)
     (thn (ensure_live_allowed e c (lr_trade_id existing) (lr_symbol existing) t)
     (case oc_client c of
        None \<Rightarrow> raise (ValueError ''live execution adapter is not configured'')
      | Some cl \<Rightarrow>
          bnd (attempt (adapter_rebalance_perp e cl (lr_trade_id existing) (lr_symbol existing)
                 (if 0 < delta then ''SELL'' else ''BUY'') quantity (delta < 0))) (\<lambda>r. case r of
            Inl exc \<Rightarrow> thn (live_breaker_failure e c (lr_trade_id existing) (lr_symbol existing) t (exc_str exc))
                         (raise exc)
          | Inr report \<Rightarrow> ret report)))"

definition rebalance_hedge ::
  "env \<Rightarrow> orchestrator \<Rightarrow> string \<Rightarrow> float64 \<Rightarrow> float64 \<Rightarrow> string option \<Rightarrow> (world, execution_result) py" where
  "rebalance_hedge e c trade_id delta quantity notes =
     bnd (utc_now e) (\<lambda>t.
     bnd (get_record trade_id) (\<lambda>found. case found of
       None \<Rightarrow> raise (ValueError (''trade '' @ quoted trade_id @ '' not found in ledger''))
     | Some existing \<Rightarrow>
         thn (require (lr_status existing \<in> {Hedged, Open})
                (ValueError (''trade '' @ quoted trade_id @ '' is not in rebalancable state'')))
         (thn (require (0 < quantity) (ValueError ''rebalance_hedge requires positive perp_quantity''))
         (thn (require (delta \<noteq> 0) (ValueError ''rebalance_hedge requires non-zero perp_notional_delta''))
         (let sy = lr_symbol existing; md = mode_str (lr_mode existing);
              tid = (''trade_id'', PStr trade_id); at_end = t + milliseconds 2;
              finish = (\<lambda>evs.
                let updated = rebalanced existing delta notes in
                thn (save_record updated)
                (bnd (orch_event e ''execution.rebalance.completed'' (''Rebalance completed for '' @ sy)
                        Info at_end
                        [tid, (''perp_notional_delta'', PFloat delta), (''perp_quantity'', PFloat quantity),
                         (''status'', PStr ''hedged'')]
                        [''execution'', ''rebalance'', ''completed'', md]) (\<lambda>ev.
                 thn (if lr_mode existing = Live then
                        live_breaker_after e c (lr_trade_id existing) sy RebalanceHedge Hedged at_end
                      else ret ())
                   (ret (rebalance_result existing Hedged updated (evs @ [ev]) at_end)))))
          in
          bnd (orch_event e ''execution.rebalance.started'' (''Rebalance started for '' @ sy) Info t
                 [tid, (''perp_notional_delta'', PFloat delta), (''perp_quantity'', PFloat quantity)]
                 [''execution'', ''rebalance'', md]) (\<lambda>ev0.
          if lr_mode existing = Live then
            bnd (live_rebalance e c existing delta quantity t) (\<lambda>report.
            bnd (live_leg_event e (lr_trade_id existing) report (t + milliseconds 1) ''execution.live.rebalance'') (\<lambda>ev1.
            if lg_status report \<noteq> Filled then
              let status = (if lg_status report = LegFailed then Failed else RecoveryPending);
                  updated = existing\<lparr>lr_status := status, lr_notes := or_text notes (lr_notes existing)\<rparr> in
              thn (save_record updated)
              (bnd (orch_event e ''execution.recovery.required''
                      (''Recovery required after rebalance issue on '' @ sy)
                      (if status = Failed then Critical else Warning) at_end
                      [tid, (''status'', PStr (status_str status))]
                      [''execution'', ''recovery'', md, ''rebalance'']) (\<lambda>ev2.
               thn (live_breaker_after e c (lr_trade_id existing) sy RebalanceHedge status at_end)
                 (ret (rebalance_result existing status updated [ev0, ev1, ev2] at_end))))
            else finish [ev0, ev1]))
          else finish [ev0]))))))"

end
