(* ===== verification/OrchestratorProps.thy ===== *)
theory OrchestratorProps
  imports Orchestrator
begin

section \<open>Properties of the execution orchestrator\<close>

text \<open>
  What \<open>execute\<close>, \<open>recover\<close> and \<open>rebalance_hedge\<close> may change (effects), what they return
  on each path (functional behaviour) and the invariants of the ledger they keep.
\<close>

subsection \<open>Effects\<close>

definition only_trade :: "string \<Rightarrow> world \<Rightarrow> world \<Rightarrow> bool" where
  \<comment> \<open>the records of other trades are untouched, and one record per trade is kept\<close>
  "only_trade k w w' \<longleftrightarrow> (\<forall>j. j \<noteq> k \<longrightarrow> ledger_map w' j = ledger_map w j)
     \<and> (one_per_trade w \<longrightarrow> one_per_trade w')"

interpretation trade_fx: effect "only_trade k" for k
  by unfold_locales (auto simp: only_trade_def)

lemma steps_only_trade_kept: "steps_in ledger_kept m \<Longrightarrow> steps_in (only_trade k) m"
  by (erule steps_in_mono) (simp add: ledger_kept_def only_trade_def ledger_map_def one_per_trade_def)

lemma steps_only_trade_save:
  "lr_trade_id r = k \<Longrightarrow> steps_in (only_trade k) (save_record r)"
  by (auto simp: steps_in_def only_trade_def save_record_run one_per_trade_set)

lemma steps_orch_event [steps]:
  "steps_in log_grows (orch_event e ty sm sv t p tg)" "steps_in silent (orch_event e ty sm sv t p tg)"
  "steps_in ledger_kept (orch_event e ty sm sv t p tg)" "steps_in safety_kept (orch_event e ty sm sv t p tg)"
  "steps_in breaker_kept (orch_event e ty sm sv t p tg)"
  unfolding orch_event_def by (intro steps)+

lemma steps_leg_events [steps]:
  "steps_in log_grows (live_leg_event e k r t x)" "steps_in silent (live_leg_event e k r t x)"
  "steps_in ledger_kept (live_leg_event e k r t x)" "steps_in safety_kept (live_leg_event e k r t x)"
  "steps_in log_grows (live_leg_events e k rs t x)" "steps_in silent (live_leg_events e k rs t x)"
  "steps_in ledger_kept (live_leg_events e k rs t x)" "steps_in safety_kept (live_leg_events e k rs t x)"
  unfolding live_leg_events_def live_leg_event_def by (intro steps)+

lemma steps_guards [steps]:
  "steps_in log_grows (validate_live c s x)" "steps_in silent (validate_live c s x)"
  "steps_in ledger_kept (validate_live c s x)" "steps_in safety_kept (validate_live c s x)"
  "steps_in log_grows (safety_gate c i)" "steps_in silent (safety_gate c i)"
  "steps_in ledger_kept (safety_gate c i)" "steps_in safety_kept (safety_gate c i)"
  "steps_in log_grows (ensure_live_allowed e c k s t)" "steps_in silent (ensure_live_allowed e c k s t)"
  "steps_in ledger_kept (ensure_live_allowed e c k s t)" "steps_in safety_kept (ensure_live_allowed e c k s t)"
  unfolding validate_live_def safety_gate_def ensure_live_allowed_def by (intro steps)+

lemma steps_live_breaker [steps]:
  "steps_in log_grows (live_breaker_failure e c k s t m)" "steps_in silent (live_breaker_failure e c k s t m)"
  "steps_in ledger_kept (live_breaker_failure e c k s t m)" "steps_in safety_kept (live_breaker_failure e c k s t m)"
  "steps_in log_grows (live_breaker_after e c k s a st t)" "steps_in silent (live_breaker_after e c k s a st t)"
  "steps_in ledger_kept (live_breaker_after e c k s a st t)" "steps_in safety_kept (live_breaker_after e c k s a st t)"
  unfolding live_breaker_after_def live_breaker_failure_def by (intro steps)+

context effect
begin

lemma steps_new_ledger_record [steps]: "steps_in R (new_ledger_record r)"
  unfolding new_ledger_record_def by (intro steps_if steps_ret steps_raise)
end

lemma steps_intent_received [steps]:
  "steps_in log_grows (intent_received e i t)" "steps_in silent (intent_received e i t)"
  "steps_in ledger_kept (intent_received e i t)" "steps_in safety_kept (intent_received e i t)"
  unfolding intent_received_def by (intro steps)+

lemma steps_paper [steps]:
  "steps_in log_grows (execute_open e i t)" "steps_in silent (execute_open e i t)"
  "steps_in safety_kept (execute_open e i t)"
  "steps_in log_grows (execute_close e i t)" "steps_in silent (execute_close e i t)"
  "steps_in safety_kept (execute_close e i t)"
  unfolding execute_open_def execute_close_def Let_def by (intro steps)+

lemma steps_live [steps]:
  "steps_in log_grows (execute_live e c i t)" "steps_in safety_kept (execute_live e c i t)"
  unfolding execute_live_def execute_live_open_def execute_live_close_def finish_live_open_def
    finish_live_close_def Let_def
  by (intro steps)+

lemma steps_dispatch [steps]:
  "steps_in log_grows (dispatch e c i t)" "steps_in safety_kept (dispatch e c i t)"
  unfolding dispatch_def validate_live_request_def by (intro steps)+

lemma steps_replay [steps]:
  "steps_in log_grows (idempotent_replay e i t)" "steps_in silent (idempotent_replay e i t)"
  "steps_in ledger_kept (idempotent_replay e i t)" "steps_in safety_kept (idempotent_replay e i t)"
  "steps_in breaker_kept (idempotent_replay e i t)"
  unfolding idempotent_replay_def by (intro steps)+

lemma steps_execute [steps]:
  "steps_in log_grows (execute e c i)" "steps_in safety_kept (execute e c i)"
  unfolding execute_def by (intro steps)+

lemma steps_recover [steps]:
  "steps_in log_grows (recover e q)" "steps_in silent (recover e q)" "steps_in safety_kept (recover e q)"
  unfolding recover_def Let_def
  by (intro steps; cases "rr_action q"; simp; intro steps)+

lemma steps_rebalance [steps]:
  "steps_in log_grows (rebalance_hedge e c k d q n)" "steps_in safety_kept (rebalance_hedge e c k d q n)"
  unfolding rebalance_hedge_def live_rebalance_def Let_def by (intro steps)+


subsection \<open>Only the trade of the request\<close>

context effect
begin

lemma steps_bnd_val:
  assumes "steps_in R m" "\<And>x w w'. m w = (Inr x, w') \<Longrightarrow> steps_in R (f x)"
  shows "steps_in R (bnd m f)"
proof (rule steps_inI)
  fix w r w' assume run: "bnd m f w = (r, w')"
  obtain r1 w1 where m: "m w = (r1, w1)" by fastforce
  show "R w w'"
  proof (cases r1)
    case (Inl x)
    then show ?thesis using run m steps_inD[OF assms(1) m] by (simp add: bnd_run)
  next
    case (Inr x)
    then have "f x w1 = (r, w')" "steps_in R (f x)" using run m assms(2) by (simp_all add: bnd_run)
    then show ?thesis using R_trans[OF steps_inD[OF assms(1) m]] steps_inD by metis
  qed
qed
end

lemma get_record_value: "get_record k w = (Inr (Some r), w') \<Longrightarrow> lr_trade_id r = k"
  by (auto simp: get_record_run dest: lookup_Some split: if_splits)

lemma new_ledger_record_value: "new_ledger_record r w = (Inr x, w') \<Longrightarrow> x = r"
  by (simp add: new_ledger_record_def py_simps split: if_splits)

lemma steps_trade_reads:
  "steps_in (only_trade k) (orch_event e ty sm sv t p tg)" "steps_in (only_trade k) (get_record j)"
  "steps_in (only_trade k) (intent_received e i t)" "steps_in (only_trade k) (live_leg_event e a r t x)"
  "steps_in (only_trade k) (live_leg_events e a rs t x)" "steps_in (only_trade k) (safety_gate c i)"
  "steps_in (only_trade k) (validate_live c s y)" "steps_in (only_trade k) (ensure_live_allowed e c a s t)"
  "steps_in (only_trade k) (live_breaker_failure e c a s t m)"
  "steps_in (only_trade k) (live_breaker_after e c a s ac st t)"
  "steps_in (only_trade k) (adapter_open_hedge e cl i)" "steps_in (only_trade k) (adapter_close_hedge e cl i)"
  "steps_in (only_trade k) (adapter_rebalance_perp e cl a s sd y ro)" "steps_in (only_trade k) (utc_now e)"
  "steps_in (only_trade k) (idempotent_replay e i t)"
  by (rule steps_only_trade_kept, intro steps)+

lemma trade_execute_open: "steps_in (only_trade (it_trade_id i)) (execute_open e i t)"
  unfolding execute_open_def Let_def
  by (intro trade_fx.steps_bnd_val[where m = "new_ledger_record r" for r] trade_fx.steps_bnd
      trade_fx.steps_thn trade_fx.steps_if trade_fx.steps_ret trade_fx.steps_case_prod
      steps_trade_reads trade_fx.steps_new_ledger_record steps_only_trade_save)
    (auto dest!: new_ledger_record_value simp: candidate_of_def)

lemmas trade_intros = trade_fx.steps_bnd_val[where m = "new_ledger_record r" for r]
  trade_fx.steps_bnd_val[where m = "get_record j" for j] trade_fx.steps_bnd
  trade_fx.steps_thn trade_fx.steps_if trade_fx.steps_ret trade_fx.steps_raise
  trade_fx.steps_case_prod trade_fx.steps_require trade_fx.steps_attempt
  steps_trade_reads trade_fx.steps_new_ledger_record

lemma trade_execute_close: "steps_in (only_trade (it_trade_id i)) (execute_close e i t)"
  unfolding execute_close_def Let_def
  by (intro trade_intros)
    (auto intro!: trade_intros steps_only_trade_save dest: get_record_value split: option.splits)

lemma trade_finish_open:
  "lr_trade_id r = k \<Longrightarrow> steps_in (only_trade k) (finish_live_open e i t ev r reports)"
  unfolding finish_live_open_def Let_def by (intro trade_intros steps_only_trade_save) auto

lemma trade_finish_close:
  "lr_trade_id r = k \<Longrightarrow> steps_in (only_trade k) (finish_live_close e i t ev r reports)"
  unfolding finish_live_close_def Let_def by (intro trade_intros steps_only_trade_save) auto

lemma trade_live_open: "steps_in (only_trade (it_trade_id i)) (execute_live_open e cl i t)"
  unfolding execute_live_open_def
  by (intro trade_intros steps_only_trade_save trade_finish_open)
    (auto dest!: new_ledger_record_value simp: candidate_of_def)

lemma trade_live_close: "steps_in (only_trade (it_trade_id i)) (execute_live_close e cl i t)"
  unfolding execute_live_close_def Let_def
  by (intro trade_intros)
    (auto intro!: trade_intros steps_only_trade_save trade_finish_close dest: get_record_value
      split: option.splits)

lemma trade_execute: "steps_in (only_trade (it_trade_id i)) (execute e c i)"
  unfolding execute_def dispatch_def execute_live_def validate_live_request_def
  by (auto intro!: trade_intros trade_execute_open trade_execute_close trade_live_open trade_live_close
      split: option.splits sum.splits)

lemma trade_recover: "steps_in (only_trade (rr_trade_id q)) (recover e q)"
  unfolding recover_def Let_def
  by (intro trade_intros)
    (auto intro!: trade_intros steps_only_trade_save dest!: get_record_value
      split: option.splits recovery_action.splits)

lemma trade_rebalance: "steps_in (only_trade k) (rebalance_hedge e c k d q n)"
  unfolding rebalance_hedge_def live_rebalance_def Let_def rebalanced_def
  by (intro trade_intros)
    (auto intro!: trade_intros steps_only_trade_save dest: get_record_value
      split: option.splits sum.splits)


subsection \<open>Running an operation\<close>

definition event_at ::
  "env \<Rightarrow> nat \<Rightarrow> string \<Rightarrow> string \<Rightarrow> severity \<Rightarrow> datetime \<Rightarrow> pydict \<Rightarrow> string list \<Rightarrow> audit_event" where
  "event_at e n ty sm sv t p tg =
     \<lparr>ev_event_id = env_uuid e n, ev_event_type = ty, ev_severity = sv,
      ev_source = ''execution-orchestrator'', ev_occurred_at = t, ev_summary = sm,
      ev_payload = p, ev_tags = tg\<rparr>"

definition log_event :: "audit_event \<Rightarrow> world \<Rightarrow> world" where
  "log_event ev w = w\<lparr>w_uuids := Suc (w_uuids w), w_events := w_events w @ [ev]\<rparr>"

lemma log_event_fields [simp]:
  "w_events (log_event ev w) = w_events w @ [ev]" "w_uuids (log_event ev w) = Suc (w_uuids w)"
  "w_ledger (log_event ev w) = w_ledger w" "w_reports (log_event ev w) = w_reports w"
  "w_breaker (log_event ev w) = w_breaker w" "w_safety (log_event ev w) = w_safety w"
  "w_sent (log_event ev w) = w_sent w" "w_ticks (log_event ev w) = w_ticks w"
  "readable (log_event ev w) = readable w" "ledger_map (log_event ev w) = ledger_map w"
  by (simp_all add: log_event_def readable_def ledger_map_def)

lemma event_at_fields [simp]:
  "ev_event_type (event_at e n ty sm sv t p tg) = ty" "ev_severity (event_at e n ty sm sv t p tg) = sv"
  "ev_occurred_at (event_at e n ty sm sv t p tg) = t" "ev_payload (event_at e n ty sm sv t p tg) = p"
  by (simp_all add: event_at_def)

lemma orch_event_run [py_simps]:
  "orch_event e ty sm sv t p tg w =
     (Inr (event_at e (w_uuids w) ty sm sv t p tg), log_event (event_at e (w_uuids w) ty sm sv t p tg) w)"
  by (simp add: orch_event_def record_event_at event_at_def log_event_def Let_def)

lemma intent_received_run [py_simps]:
  "\<exists>ev. intent_received e i t w = (Inr ev, log_event ev w) \<and> ev_event_type ev = ''execution.intent.received''"
  by (simp add: intent_received_def orch_event_run)

lemma valid_status [simp]:
  "valid_ledger_record (r\<lparr>lr_status := s\<rparr>) = valid_ledger_record r"
  "valid_ledger_record (r\<lparr>lr_notes := n\<rparr>) = valid_ledger_record r"
  "valid_ledger_record (r\<lparr>lr_closed_at := ca\<rparr>) = valid_ledger_record r"
  "valid_ledger_record (r\<lparr>lr_realized_pnl := x\<rparr>) = valid_ledger_record r"
  by (simp_all add: valid_ledger_record_def)

lemma candidate_valid [simp]: "valid_ledger_record (candidate_of i t) = valid_intent i"
  by (simp add: candidate_of_def valid_ledger_record_def valid_intent_def)

lemma candidate_trade [simp]: "lr_trade_id (candidate_of i t) = it_trade_id i"
  by (simp add: candidate_of_def)

lemma result_of_fields [simp]:
  "ex_status (result_of i s r evs t) = s" "ex_ledger_record (result_of i s r evs t) = r"
  "ex_events (result_of i s r evs t) = evs" "ex_executed_at (result_of i s r evs t) = t"
  by (simp_all add: result_of_def)

text \<open>
  Opening on paper: the record of the trade afterwards, and the events, in order.
\<close>

definition paper_open_record :: "intent \<Rightarrow> datetime \<Rightarrow> ledger_record" where
  "paper_open_record i t = (candidate_of i t)\<lparr>lr_status :=
     (if it_simulate_perp_leg_failure i then Failed else Hedged)\<rparr>"

definition paper_open_events :: "intent \<Rightarrow> string list" where
  "paper_open_events i =
     [''execution.intent.received'', ''execution.leg.spot.filled'']
     @ (if it_simulate_perp_leg_failure i
        then [''execution.leg.perp.failed'', ''execution.recovery.required'']
        else [''execution.leg.perp.filled'', ''execution.completed''])"

lemma execute_open_run:
  assumes "readable w" "valid_intent i" "it_mode i = Paper"
  shows "\<exists>res w'. execute_open e i t w = (Inr res, w')
    \<and> ex_ledger_record res = paper_open_record i t \<and> ex_status res = lr_status (paper_open_record i t)
    \<and> w_ledger w' = upsert lr_trade_id (paper_open_record i t) (w_ledger w)
    \<and> w_events w' = w_events w @ ex_events res
    \<and> map ev_event_type (ex_events res) = paper_open_events i
    \<and> w_safety w' = w_safety w \<and> w_breaker w' = w_breaker w \<and> w_sent w' = w_sent w"
proof (cases "it_simulate_perp_leg_failure i")
  case True
  then show ?thesis using assms
    by (simp add: execute_open_def intent_received_def Let_def py_simps new_ledger_record_def
        paper_open_record_def paper_open_events_def upsert_upsert)
next
  case False
  then show ?thesis using assms
    by (simp add: execute_open_def intent_received_def Let_def py_simps new_ledger_record_def
        paper_open_record_def paper_open_events_def upsert_upsert)
qed

definition paper_close_record :: "intent \<Rightarrow> datetime \<Rightarrow> ledger_record \<Rightarrow> ledger_record" where
  "paper_close_record i t r = r\<lparr>lr_status := Closed, lr_closed_at := Some (t + milliseconds 2),
     lr_realized_pnl := it_realized_pnl i, lr_notes := or_text (it_notes i) (lr_notes r)\<rparr>"

lemma readable_valid: "readable w \<Longrightarrow> ledger_map w k = Some r \<Longrightarrow> valid_ledger_record r \<and> lr_trade_id r = k"
  by (auto simp: readable_def ledger_map_def list_all_iff dest: lookup_Some)

lemma execute_close_run:
  assumes "readable w" "ledger_map w (it_trade_id i) = Some r"
  shows "\<exists>res w'. execute_close e i t w = (Inr res, w')
    \<and> ex_ledger_record res = paper_close_record i t r \<and> ex_status res = Closed
    \<and> w_ledger w' = upsert lr_trade_id (paper_close_record i t r) (w_ledger w)
    \<and> w_events w' = w_events w @ ex_events res
    \<and> map ev_event_type (ex_events res) =
        [''execution.intent.received'', ''execution.close.started'', ''execution.close.completed'']
    \<and> w_safety w' = w_safety w \<and> w_breaker w' = w_breaker w \<and> w_sent w' = w_sent w"
  using assms readable_valid[OF assms]
  by (simp add: execute_close_def intent_received_def Let_def py_simps paper_close_record_def
      upsert_upsert ledger_map_def)

definition replays :: "intent \<Rightarrow> world \<Rightarrow> bool" where
  "replays i w \<longleftrightarrow> (case ledger_map w (it_trade_id i) of None \<Rightarrow> False
     | Some r \<Rightarrow> replay_status (it_action i) (lr_status r))"

lemma replay_none: "readable w \<Longrightarrow> \<not> replays i w \<Longrightarrow> idempotent_replay e i t w = (Inr None, w)"
  by (auto simp: idempotent_replay_def py_simps ledger_map_def replays_def split: option.splits)

lemma replay_some:
  assumes "readable w" "ledger_map w (it_trade_id i) = Some r" "replay_status (it_action i) (lr_status r)"
  shows "\<exists>ev. idempotent_replay e i t w =
      (Inr (Some \<lparr>ex_trade_id = it_trade_id i, ex_action = it_action i, ex_mode = it_mode i,
         ex_symbol = it_symbol i, ex_status = lr_status r, ex_ledger_record = r,
         ex_events = [ev], ex_executed_at = t\<rparr>), log_event ev w)
    \<and> ev_event_type ev = ''execution.idempotent.replay''"
  using assms by (simp add: idempotent_replay_def py_simps ledger_map_def)

definition tick :: "world \<Rightarrow> world" where
  "tick w = w\<lparr>w_ticks := Suc (w_ticks w)\<rparr>"

lemma tick_fields [simp]:
  "w_ledger (tick w) = w_ledger w" "w_events (tick w) = w_events w" "w_reports (tick w) = w_reports w"
  "w_breaker (tick w) = w_breaker w" "w_safety (tick w) = w_safety w" "w_sent (tick w) = w_sent w"
  "w_uuids (tick w) = w_uuids w" "readable (tick w) = readable w" "ledger_map (tick w) = ledger_map w"
  by (simp_all add: tick_def readable_def ledger_map_def)

lemma execute_fresh:
  assumes "readable w" "\<not> replays i w"
  shows "execute e c i w = thn (safety_gate c i) (dispatch e c i (env_now e (w_ticks w))) (tick w)"
proof -
  have "replays i (tick w) = replays i w" by (simp add: replays_def)
  then have "idempotent_replay e i t (tick w) = (Inr None, tick w)" for t
    using assms by (simp add: replay_none)
  then show ?thesis by (simp add: execute_def bnd_run utc_now_run flip: tick_def)
qed

definition gate_open :: "orchestrator \<Rightarrow> intent \<Rightarrow> safety_state \<Rightarrow> bool" where
  "gate_open c i s \<longleftrightarrow> (\<not> oc_safety c
     \<or> (if it_action i = OpenHedge then may_open s else may_operate (it_trade_id i) s))"

lemma safety_gate_run:
  "\<exists>m. safety_gate c i w = (if gate_open c i (w_safety w) then Inr () else Inl (ValueError m), w)"
  using check_can_open_run[of w] check_can_operate_run[of "it_trade_id i" w]
  by (auto simp: safety_gate_def gate_open_def py_simps)

lemma safety_gate_ok: "gate_open c i (w_safety w) \<Longrightarrow> safety_gate c i w = (Inr (), w)"
  using safety_gate_run[of c i w] by auto

lemma readable_upsert: "readable w \<Longrightarrow> w_ledger w' = upsert lr_trade_id r (w_ledger w) \<Longrightarrow>
    readable w' = valid_ledger_record r"
  by (simp add: readable_def upsert_list_all_iff)

lemma ledger_map_upsert: "w_ledger w' = upsert lr_trade_id r (w_ledger w) \<Longrightarrow>
    ledger_map w' = (ledger_map w)(lr_trade_id r \<mapsto> r)"
  using ledger_map_set[of r w] by (simp add: ledger_map_def)

subsection \<open>Properties of paper execution\<close>

definition sample_orchestrator :: orchestrator where
  "sample_orchestrator = \<lparr>oc_client = Some sample_client, oc_breaker = Some sample_breaker_config,
     oc_safety = True, oc_live_enabled = True, oc_allowlist = [''BTCUSDT''],
     oc_max_live_notional = Some 25000\<rparr>"

definition sample_intent :: "trade_mode \<Rightarrow> execution_action \<Rightarrow> intent" where
  "sample_intent m a = \<lparr>it_trade_id = ''t1'', it_mode = m, it_strategy_id = ''funding-arb'',
     it_symbol = ''BTCUSDT'', it_action = a, it_spot_notional = 1000, it_perp_notional = 1000,
     it_spot_quantity = None, it_perp_quantity = None, it_realized_pnl = 5, it_net_exposure = None,
     it_notes = None, it_simulate_perp_leg_failure = False\<rparr>"

lemma sample_intent_fields [simp]:
  "it_trade_id (sample_intent m a) = ''t1''" "it_mode (sample_intent m a) = m"
  "it_action (sample_intent m a) = a" "it_symbol (sample_intent m a) = ''BTCUSDT''"
  "it_spot_notional (sample_intent m a) = 1000" "it_perp_notional (sample_intent m a) = 1000"
  "it_spot_quantity (sample_intent m a) = None" "it_perp_quantity (sample_intent m a) = None"
  "it_simulate_perp_leg_failure (sample_intent m a) = False"
  by (simp_all add: sample_intent_def)

lemma sample_readable: "readable (sample_world [])" "readable (sample_world [sample_record k s])"
  by (simp_all add: sample_world_def sample_record_def readable_def valid_ledger_record_def)

lemma sample_map:
  "ledger_map (sample_world []) k = None"
  "ledger_map (sample_world [sample_record k s]) k = Some (sample_record k s)"
  by (simp_all add: sample_world_def sample_record_def ledger_map_def lookup_def)

lemma sample_may: "may_open (w_safety (sample_world rs))" "may_operate k (w_safety (sample_world rs))"
  by (simp_all add: sample_world_def may_open_def may_operate_def)

lemma sample_intent_valid: "valid_intent (sample_intent m a)"
  by (simp add: sample_intent_def valid_intent_def)

text \<open>
  C11: A paper open that the safety gate lets through and that is not a replay returns a
  result with status hedged (failed when the perp leg is made to fail); the ledger then
  holds exactly one changed record, with the intent's fields, opened at the time of the
  call; the log has grown by exactly the events of the result, in the documented order;
  nothing is sent to the exchange, and safety switch and breaker are untouched.
\<close>

theorem paper_open_correct:
  assumes "readable w" "valid_intent i" "it_mode i = Paper" "it_action i = OpenHedge"
    and "\<not> replays i w" "gate_open c i (w_safety w)"
  shows "\<exists>res w'. execute e c i w = (Inr res, w')
    \<and> ex_ledger_record res = paper_open_record i (env_now e (w_ticks w))
    \<and> ex_status res = (if it_simulate_perp_leg_failure i then Failed else Hedged)
    \<and> ledger_map w' = (ledger_map w)(it_trade_id i \<mapsto> paper_open_record i (env_now e (w_ticks w)))
    \<and> readable w'
    \<and> w_events w' = w_events w @ ex_events res \<and> map ev_event_type (ex_events res) = paper_open_events i
    \<and> w_sent w' = w_sent w \<and> w_safety w' = w_safety w \<and> w_breaker w' = w_breaker w"
proof -
  let ?t = "env_now e (w_ticks w)"
  obtain res w' where open_run: "execute_open e i ?t (tick w) = (Inr res, w')"
    "ex_ledger_record res = paper_open_record i ?t" "ex_status res = lr_status (paper_open_record i ?t)"
    "w_ledger w' = upsert lr_trade_id (paper_open_record i ?t) (w_ledger w)"
    "w_events w' = w_events w @ ex_events res" "map ev_event_type (ex_events res) = paper_open_events i"
    "w_safety w' = w_safety w" "w_breaker w' = w_breaker w" "w_sent w' = w_sent w"
    using execute_open_run[of "tick w" i e ?t] assms(1-3) by auto
  have "execute e c i w = (Inr res, w')"
    using open_run(1) assms(3-6)
    by (simp add: execute_fresh[OF assms(1,5)] thn_run safety_gate_ok dispatch_def)
  moreover have "valid_ledger_record (paper_open_record i ?t)"
    using assms(2) by (simp add: paper_open_record_def)
  ultimately show ?thesis
    using open_run readable_upsert[OF assms(1) open_run(4)] ledger_map_upsert[OF open_run(4)]
    by (simp add: paper_open_record_def)
qed

theorem paper_open_correct_witness:
  "\<exists>res w'. execute sample_env sample_orchestrator (sample_intent Paper OpenHedge) (sample_world []) = (Inr res, w')
     \<and> ex_status res = Hedged \<and> w_sent w' = []"
proof -
  have "\<not> replays (sample_intent Paper OpenHedge) (sample_world [])"
    by (simp add: replays_def sample_map)
  moreover have "gate_open sample_orchestrator (sample_intent Paper OpenHedge) (w_safety (sample_world []))"
    by (simp add: gate_open_def sample_may)
  ultimately show ?thesis
    using paper_open_correct[OF sample_readable(1) sample_intent_valid, of Paper OpenHedge sample_orchestrator sample_env]
    by auto
qed

text \<open>
  C12: A paper intent that is not an open closes the trade, whatever its status: the record
  becomes closed two milliseconds after the call with the intent's profit, and keeps its
  other fields. This holds for the action \<open>rebalance_hedge\<close> as well: sent through
  \<open>execute\<close> it closes the hedge.
\<close>

theorem paper_close_correct:
  assumes "readable w" "it_mode i = Paper" "it_action i \<noteq> OpenHedge"
    and "ledger_map w (it_trade_id i) = Some r" "\<not> replays i w" "gate_open c i (w_safety w)"
  shows "\<exists>res w'. execute e c i w = (Inr res, w') \<and> ex_status res = Closed
    \<and> ledger_map w' = (ledger_map w)(it_trade_id i \<mapsto> paper_close_record i (env_now e (w_ticks w)) r)
    \<and> readable w' \<and> w_events w' = w_events w @ ex_events res
    \<and> map ev_event_type (ex_events res) =
        [''execution.intent.received'', ''execution.close.started'', ''execution.close.completed'']
    \<and> w_sent w' = w_sent w \<and> w_safety w' = w_safety w \<and> w_breaker w' = w_breaker w"
proof -
  let ?t = "env_now e (w_ticks w)"
  obtain res w' where close_run: "execute_close e i ?t (tick w) = (Inr res, w')" "ex_status res = Closed"
    "w_ledger w' = upsert lr_trade_id (paper_close_record i ?t r) (w_ledger w)"
    "w_events w' = w_events w @ ex_events res"
    "map ev_event_type (ex_events res) =
        [''execution.intent.received'', ''execution.close.started'', ''execution.close.completed'']"
    "w_safety w' = w_safety w" "w_breaker w' = w_breaker w" "w_sent w' = w_sent w"
    using execute_close_run[of "tick w" i r e ?t] assms(1,4) by auto
  have "execute e c i w = (Inr res, w')"
    using close_run(1) assms(2,3,6)
    by (simp add: execute_fresh[OF assms(1,5)] thn_run safety_gate_ok dispatch_def)
  moreover have "valid_ledger_record (paper_close_record i ?t r)" "lr_trade_id (paper_close_record i ?t r) = it_trade_id i"
    using readable_valid[OF assms(1,4)] by (simp_all add: paper_close_record_def)
  ultimately show ?thesis
    using close_run readable_upsert[OF assms(1) close_run(3)] ledger_map_upsert[OF close_run(3)] by simp
qed

theorem paper_close_correct_witness:
  "\<exists>res w'. execute sample_env sample_orchestrator (sample_intent Paper RebalanceHedge) (sample_world [sample_record ''t1'' Hedged]) = (Inr res, w')
     \<and> ex_status res = Closed"
proof -
  have "\<not> replays (sample_intent Paper RebalanceHedge) (sample_world [sample_record ''t1'' Hedged])"
    by (simp add: replays_def sample_map replay_status_def)
  moreover have "gate_open sample_orchestrator (sample_intent Paper RebalanceHedge) (w_safety (sample_world [sample_record ''t1'' Hedged]))"
    by (simp add: gate_open_def sample_may)
  ultimately show ?thesis
    using paper_close_correct[OF sample_readable(2)[of "''t1''" Hedged], where i = "sample_intent Paper RebalanceHedge"
        and r = "sample_record ''t1'' Hedged" and c = sample_orchestrator and e = sample_env]
      sample_map(2)[of "''t1''" Hedged]
    by auto
qed

text \<open>
  C13: Replaying an open of a trade that is open, hedged, closing, closed or waiting for
  recovery, or a close of a closed trade, returns the stored record and its status, changes
  neither ledger nor breaker, sends nothing and adds one event. The replay is answered
  before the safety gate and the live guards.
\<close>

theorem replay_idempotent:
  assumes "readable w" "ledger_map w (it_trade_id i) = Some r" "replay_status (it_action i) (lr_status r)"
  shows "\<exists>res w' ev. execute e c i w = (Inr res, w')
    \<and> ex_ledger_record res = r \<and> ex_status res = lr_status r \<and> ex_events res = [ev]
    \<and> ev_event_type ev = ''execution.idempotent.replay'' \<and> w_events w' = w_events w @ [ev]
    \<and> w_ledger w' = w_ledger w \<and> w_breaker w' = w_breaker w \<and> w_sent w' = w_sent w"
proof -
  let ?t = "env_now e (w_ticks w)"
  obtain ev where "idempotent_replay e i ?t (tick w) =
      (Inr (Some \<lparr>ex_trade_id = it_trade_id i, ex_action = it_action i, ex_mode = it_mode i,
         ex_symbol = it_symbol i, ex_status = lr_status r, ex_ledger_record = r,
         ex_events = [ev], ex_executed_at = ?t\<rparr>), log_event ev (tick w))"
    "ev_event_type ev = ''execution.idempotent.replay''"
    using replay_some[of "tick w" i r e ?t] assms by auto
  then show ?thesis by (simp add: execute_def bnd_run utc_now_run ret_run flip: tick_def)
qed

theorem replay_idempotent_witness:
  "\<exists>res w'. execute sample_env sample_orchestrator (sample_intent Live OpenHedge) (sample_world [sample_record ''t1'' Hedged]) = (Inr res, w')
     \<and> ex_status res = Hedged \<and> w_sent w' = []"
  using replay_idempotent[OF sample_readable(2)[of "''t1''" Hedged], where i = "sample_intent Live OpenHedge"
      and r = "sample_record ''t1'' Hedged" and c = sample_orchestrator and e = sample_env]
    sample_map(2)[of "''t1''" Hedged]
  by (auto simp: replay_status_def)

subsection \<open>Live guards\<close>

definition guard_fails :: "orchestrator \<Rightarrow> string \<Rightarrow> float64 \<Rightarrow> bool" where
  "guard_fails c symbol notional \<longleftrightarrow> \<not> oc_live_enabled c
     \<or> (oc_allowlist c \<noteq> [] \<and> symbol \<notin> set (oc_allowlist c))
     \<or> (case oc_max_live_notional c of None \<Rightarrow> False | Some m \<Rightarrow> m < notional)"

lemma validate_live_run:
  "\<exists>m. validate_live c sy x w = (if guard_fails c sy x then Inl (ValueError m) else Inr (), w)"
  by (auto simp: validate_live_def guard_fails_def py_simps not_le not_less split: option.splits)

lemma validate_live_ok: "\<not> guard_fails c sy x \<Longrightarrow> validate_live c sy x w = (Inr (), w)"
  using validate_live_run[of c sy x w] by auto

definition breaker_blocks :: "orchestrator \<Rightarrow> datetime \<Rightarrow> world \<Rightarrow> bool" where
  "breaker_blocks c t w \<longleftrightarrow> (case oc_breaker c of None \<Rightarrow> False
     | Some b \<Rightarrow> breaker_inv b w \<and> blocks b t (breaker_abs_of w))"

lemma ensure_live_blocked:
  assumes "breaker_blocks c t w"
  shows "\<exists>m w'. ensure_live_allowed e c k sy t w = (Inl (ValueError m), w')"
proof -
  obtain b where b: "oc_breaker c = Some b" "breaker_inv b w" "blocks b t (breaker_abs_of w)"
    using assms by (auto simp: breaker_blocks_def split: option.splits)
  obtain m w' where "ensure_allows_execution e b (Some t) w = (Inl (ValueError m), w')"
    using ensure_refines[OF b(2), of e t] b(3) by metis
  then show ?thesis by (simp add: ensure_live_allowed_def b(1) py_simps)
qed

lemma tick_breaker [simp]: "breaker_blocks c t (tick w) = breaker_blocks c t w"
  by (simp add: breaker_blocks_def breaker_inv_def breaker_abs_of_def split: option.splits)

definition live_refused :: "orchestrator \<Rightarrow> intent \<Rightarrow> datetime \<Rightarrow> world \<Rightarrow> bool" where
  "live_refused c i t w \<longleftrightarrow> \<not> gate_open c i (w_safety w)
     \<or> guard_fails c (it_symbol i) (max (it_spot_notional i) (it_perp_notional i))
     \<or> breaker_blocks c t w \<or> oc_client c = None"

lemma refused_dispatch:
  assumes "it_mode i = Live" "live_refused c i t w"
  shows "\<exists>exc. fst (thn (safety_gate c i) (dispatch e c i t) w) = Inl exc"
proof -
  have no_client: "oc_client c = None \<Longrightarrow> \<exists>exc. fst (dispatch e c i t w) = Inl exc"
    using assms(1)
    by (auto simp: dispatch_def execute_live_def py_simps split: prod.splits sum.splits)
  show ?thesis
    using assms safety_gate_run[of c i w] no_client ensure_live_blocked[of c t w e "it_trade_id i" "it_symbol i"]
      validate_live_run[of c "it_symbol i" "max (it_spot_notional i) (it_perp_notional i)" w]
    by (auto simp: live_refused_def thn_run dispatch_def validate_live_request_def split: if_splits)
qed

lemma steps_refused:
  assumes "it_mode i = Live" "live_refused c i t w"
  shows "silent w (snd (thn (safety_gate c i) (dispatch e c i t) w))
    \<and> ledger_kept w (snd (thn (safety_gate c i) (dispatch e c i t) w))"
proof (cases "oc_client c")
  case None
  have "steps_in silent (thn (safety_gate c i) (dispatch e c i t))"
    "steps_in ledger_kept (thn (safety_gate c i) (dispatch e c i t))"
    using assms(1) unfolding dispatch_def validate_live_request_def execute_live_def None
    by (simp, intro steps)+
  then show ?thesis by (simp add: steps_in_def)
next
  case (Some cl)
  have ensure: "silent w (snd (ensure_live_allowed e c k sy t w))" "ledger_kept w (snd (ensure_live_allowed e c k sy t w))" for k sy
    using steps_guards by (auto simp: steps_in_def)
  show ?thesis
    using assms Some safety_gate_run[of c i w] ensure[of "it_trade_id i" "it_symbol i"]
      ensure_live_blocked[of c t w e "it_trade_id i" "it_symbol i"]
      validate_live_run[of c "it_symbol i" "max (it_spot_notional i) (it_perp_notional i)" w]
      silent_fx.R_refl[of w] ledger_fx.R_refl[of w]
    by (auto simp: live_refused_def thn_run dispatch_def validate_live_request_def split: if_splits)
qed

text \<open>
  C14: When live execution is disabled, the symbol is not on the allowlist, the larger leg
  exceeds the notional limit, the safety gate refuses, the breaker is open or no adapter is
  configured, a live intent sends no request and leaves the ledger as it was; unless it is a
  replay it raises.
\<close>

theorem live_guards_send_nothing:
  assumes "readable w" "it_mode i = Live" "live_refused c i (env_now e (w_ticks w)) w"
    and run: "execute e c i w = (r, w')"
  shows "w_sent w' = w_sent w \<and> w_ledger w' = w_ledger w \<and> (replays i w \<or> (\<exists>exc. r = Inl exc))"
proof (cases "replays i w")
  case True
  then obtain x where "ledger_map w (it_trade_id i) = Some x" "replay_status (it_action i) (lr_status x)"
    by (auto simp: replays_def split: option.splits)
  then obtain ev where "idempotent_replay e i (env_now e (w_ticks w)) (tick w) =
      (Inr (Some \<lparr>ex_trade_id = it_trade_id i, ex_action = it_action i, ex_mode = it_mode i,
         ex_symbol = it_symbol i, ex_status = lr_status x, ex_ledger_record = x,
         ex_events = [ev], ex_executed_at = env_now e (w_ticks w)\<rparr>), log_event ev (tick w))"
    using replay_some[of "tick w" i x e] assms(1) by force
  then show ?thesis using run True
    by (auto simp: execute_def bnd_run utc_now_run ret_run simp flip: tick_def)
next
  case False
  let ?t = "env_now e (w_ticks w)"
  have refused: "live_refused c i ?t (tick w)" using assms(3) by (simp add: live_refused_def)
  have run: "thn (safety_gate c i) (dispatch e c i ?t) (tick w) = (r, w')"
    using execute_fresh[OF assms(1) False] run by simp
  show ?thesis
    using refused_dispatch[OF assms(2) refused, of e] steps_refused[OF assms(2) refused, of e]
    by (simp add: run silent_def ledger_kept_def)
qed

theorem live_guards_send_nothing_witness:
  "w_sent (snd (execute sample_env (sample_orchestrator\<lparr>oc_live_enabled := False\<rparr>) (sample_intent Live OpenHedge) (sample_world []))) = []"
proof -
  have "live_refused (sample_orchestrator\<lparr>oc_live_enabled := False\<rparr>) (sample_intent Live OpenHedge)
      (env_now sample_env (w_ticks (sample_world []))) (sample_world [])"
    by (simp add: live_refused_def guard_fails_def)
  then show ?thesis
    using live_guards_send_nothing[OF sample_readable(1) _ _ prod.collapse[symmetric]] by simp
qed

subsection \<open>Live open and close\<close>

lemma for_map_total:
  "(\<And>x w. \<exists>y w'. f x w = (Inr y, w')) \<Longrightarrow> \<exists>ys w'. for_map f xs w = (Inr ys, w')"
proof (induction xs arbitrary: w)
  case (Cons x xs)
  obtain y w1 where "f x w = (Inr y, w1)" using Cons.prems by metis
  moreover obtain ys w2 where "for_map f xs w1 = (Inr ys, w2)" using Cons by metis
  ultimately show ?case by (simp add: py_simps)
qed (simp add: py_simps)

lemma leg_events_total:
  obtains evs w' where "live_leg_events e k rs t x w = (Inr evs, w')" "w_ledger w' = w_ledger w"
    "w_sent w' = w_sent w"
proof -
  have "\<exists>evs w'. live_leg_events e k rs t x w = (Inr evs, w')"
    unfolding live_leg_events_def by (rule for_map_total) (auto simp: live_leg_event_def orch_event_run)
  then obtain evs w' where run: "live_leg_events e k rs t x w = (Inr evs, w')" by blast
  then have "ledger_kept w w'" "silent w w'" using steps_leg_events steps_inD by metis+
  then show ?thesis using that[OF run] by (simp add: kept_defs)
qed

lemma finish_open_run:
  assumes "readable w" "valid_ledger_record r"
  shows "\<exists>res w'. finish_live_open e i t ev r reports w = (Inr res, w')
    \<and> ex_status res = final_status Hedged reports \<and> w_sent w' = w_sent w
    \<and> w_ledger w' = upsert lr_trade_id (r\<lparr>lr_status := final_status Hedged reports\<rparr>) (w_ledger w)"
proof -
  obtain evs w1 where "live_leg_events e (it_trade_id i) reports t ''execution.live'' w = (Inr evs, w1)"
    "w_ledger w1 = w_ledger w" "w_sent w1 = w_sent w" using leg_events_total by metis
  moreover from this have "readable w1" using assms(1) by (simp add: readable_def)
  ultimately show ?thesis
    by (simp add: finish_live_open_def bnd_run[of "live_leg_events e k rs u x" for k rs u x] Let_def
        thn_run save_record_run) (simp add: py_simps)
qed

definition live_close_record :: "intent \<Rightarrow> datetime \<Rightarrow> ledger_record \<Rightarrow> leg_report list \<Rightarrow> ledger_record" where
  "live_close_record i t r reports = r\<lparr>lr_status := final_status Closed reports,
     lr_closed_at := (if final_status Closed reports = Closed
        then Some (t + milliseconds (int (length reports) + 1)) else None),
     lr_realized_pnl := it_realized_pnl i, lr_notes := or_text (it_notes i) (lr_notes r)\<rparr>"

lemma finish_close_run:
  assumes "readable w" "valid_ledger_record r"
  shows "\<exists>res w'. finish_live_close e i t ev r reports w = (Inr res, w')
    \<and> ex_status res = final_status Closed reports \<and> w_sent w' = w_sent w
    \<and> w_ledger w' = upsert lr_trade_id (live_close_record i t r reports) (w_ledger w)"
proof -
  obtain evs w1 where "live_leg_events e (it_trade_id i) reports t ''execution.live.close'' w = (Inr evs, w1)"
    "w_ledger w1 = w_ledger w" "w_sent w1 = w_sent w" using leg_events_total by metis
  moreover from this have "readable w1" using assms(1) by (simp add: readable_def)
  ultimately show ?thesis
    by (simp add: finish_live_close_def bnd_run[of "live_leg_events e k rs u x" for k rs u x] Let_def
        thn_run save_record_run live_close_record_def[symmetric]) (simp add: py_simps live_close_record_def)
qed

lemma live_open_run:
  assumes "readable w" "valid_intent i"
  shows "\<exists>w1. w_sent w1 = w_sent w \<and> (case adapter_open_hedge e cl i w1 of
      (Inl exc, w2) \<Rightarrow> execute_live_open e cl i t w = (Inl exc, w2)
        \<and> w_ledger w2 = upsert lr_trade_id (candidate_of i t) (w_ledger w)
    | (Inr reports, w2) \<Rightarrow> \<exists>res w'. execute_live_open e cl i t w = (Inr res, w')
        \<and> ex_status res = final_status Hedged reports \<and> w_sent w' = w_sent w2
        \<and> w_ledger w' = upsert lr_trade_id ((candidate_of i t)\<lparr>lr_status := final_status Hedged reports\<rparr>) (w_ledger w))"
proof -
  obtain ev where ev: "intent_received e i t w = (Inr ev, log_event ev w)" using intent_received_run by metis
  let ?w1 = "set_ledger (candidate_of i t) (log_event ev w)"
  have pre: "execute_live_open e cl i t w =
      bnd (adapter_open_hedge e cl i) (finish_live_open e i t ev (candidate_of i t)) ?w1"
    using assms by (simp add: execute_live_open_def bnd_run[of "intent_received e i t"] ev
        new_ledger_record_def thn_run save_record_run)
  obtain ra w2 where ad: "adapter_open_hedge e cl i ?w1 = (ra, w2)" by fastforce
  then have led: "w_ledger w2 = upsert lr_trade_id (candidate_of i t) (w_ledger w)"
    using steps_inD[OF steps_adapter(2) ad] by (simp add: ledger_kept_def)
  have rw: "readable w2" using led assms by (simp add: readable_def upsert_list_all_iff)
  show ?thesis
    using finish_open_run[OF rw, of "candidate_of i t" e i t ev] assms(2)
    by (intro exI[of _ ?w1]) (auto simp: pre bnd_run ad led upsert_upsert split: sum.splits)
qed

lemma live_close_run:
  assumes "readable w" "ledger_map w (it_trade_id i) = Some r"
  shows "\<exists>w1. w_sent w1 = w_sent w \<and> (case adapter_close_hedge e cl i w1 of
      (Inl exc, w2) \<Rightarrow> execute_live_close e cl i t w = (Inl exc, w2)
        \<and> w_ledger w2 = upsert lr_trade_id (r\<lparr>lr_status := Closing\<rparr>) (w_ledger w)
    | (Inr reports, w2) \<Rightarrow> \<exists>res w'. execute_live_close e cl i t w = (Inr res, w')
        \<and> ex_status res = final_status Closed reports \<and> w_sent w' = w_sent w2
        \<and> w_ledger w' = upsert lr_trade_id (live_close_record i t r reports) (w_ledger w))"
proof -
  obtain ev where ev: "intent_received e i t w = (Inr ev, log_event ev w)" using intent_received_run by metis
  let ?c = "r\<lparr>lr_status := Closing\<rparr>"
  let ?w1 = "set_ledger ?c (log_event ev w)"
  have pre: "execute_live_close e cl i t w =
      bnd (adapter_close_hedge e cl i) (finish_live_close e i t ev ?c) ?w1"
    using assms by (simp add: execute_live_close_def bnd_run[of "get_record k" for k] get_record_run
        ledger_map_def bnd_run[of "intent_received e i t"] ev Let_def thn_run save_record_run)
  obtain ra w2 where ad: "adapter_close_hedge e cl i ?w1 = (ra, w2)" by fastforce
  then have led: "w_ledger w2 = upsert lr_trade_id ?c (w_ledger w)"
    using steps_inD[OF steps_adapter(6) ad] by (simp add: ledger_kept_def)
  have ok: "valid_ledger_record r" using readable_valid[OF assms] by simp
  then have rw: "readable w2" using led assms by (simp add: readable_def upsert_list_all_iff)
  have rec: "live_close_record i t ?c reports = live_close_record i t r reports" for reports
    by (simp add: live_close_record_def)
  have "lr_trade_id (live_close_record i t r reports) = lr_trade_id r" for reports
    by (simp add: live_close_record_def)
  then show ?thesis
    using finish_close_run[OF rw, of ?c e i t ev] ok
    by (intro exI[of _ ?w1]) (auto simp: pre bnd_run ad led rec upsert_upsert split: sum.splits)
qed

definition breaker_allows :: "orchestrator \<Rightarrow> datetime \<Rightarrow> world \<Rightarrow> bool" where
  "breaker_allows c t w \<longleftrightarrow> (case oc_breaker c of None \<Rightarrow> True
     | Some b \<Rightarrow> breaker_inv b w \<and> \<not> blocks b t (breaker_abs_of w))"

definition live_ready :: "orchestrator \<Rightarrow> intent \<Rightarrow> datetime \<Rightarrow> world \<Rightarrow> bool" where
  "live_ready c i t w \<longleftrightarrow> gate_open c i (w_safety w) \<and> breaker_allows c t w
     \<and> \<not> guard_fails c (it_symbol i) (max (it_spot_notional i) (it_perp_notional i))"

lemma ensure_allowed:
  "breaker_inv b w \<Longrightarrow> \<not> blocks b t (breaker_abs_of w) \<Longrightarrow>
   \<exists>s w'. ensure_allows_execution e b (Some t) w = (Inr s, w')"
  by (metis ensure_refines)

lemma ensure_live_ok:
  assumes "breaker_allows c t w"
  shows "\<exists>w'. ensure_live_allowed e c k sy t w = (Inr (), w') \<and> w_ledger w' = w_ledger w \<and> w_sent w' = w_sent w"
proof (cases "oc_breaker c")
  case None
  then show ?thesis by (simp add: ensure_live_allowed_def ret_run)
next
  case (Some b)
  then obtain s w' where "ensure_allows_execution e b (Some t) w = (Inr s, w')"
    using assms ensure_allowed[of b w t e] by (auto simp: breaker_allows_def)
  then have "ensure_live_allowed e c k sy t w = (Inr (), w')"
    by (simp add: ensure_live_allowed_def Some py_simps)
  then show ?thesis using steps_inD[OF steps_guards(10)] steps_inD[OF steps_guards(11)] 
    by (metis silent_def ledger_kept_def)
qed

lemma tick_allows [simp]: "live_ready c i t (tick w) = live_ready c i t w"
  by (simp add: live_ready_def breaker_allows_def breaker_inv_def breaker_abs_of_def split: option.splits)

text \<open>Past its guards, a live intent ends with the ledger and the requests of \<open>execute_live\<close>.\<close>

lemma execute_live_reached:
  assumes "readable w" "\<not> replays i w" "it_mode i = Live" "live_ready c i (env_now e (w_ticks w)) w"
    and run: "execute e c i w = (r, w')"
  shows "\<exists>w1 r2 w2. w_ledger w1 = w_ledger w \<and> w_sent w1 = w_sent w
    \<and> execute_live e c i (env_now e (w_ticks w)) w1 = (r2, w2)
    \<and> w_ledger w' = w_ledger w2 \<and> w_sent w' = w_sent w2
    \<and> (\<forall>exc. r2 = Inl exc \<longrightarrow> (\<exists>exc'. r = Inl exc'))
    \<and> (\<forall>res res'. r2 = Inr res' \<longrightarrow> r = Inr res \<longrightarrow> res = res')"
proof -
  let ?t = "env_now e (w_ticks w)"
  have ready: "live_ready c i ?t (tick w)" using assms(4) by simp
  then obtain w1 where w1: "ensure_live_allowed e c (it_trade_id i) (it_symbol i) ?t (tick w) = (Inr (), w1)"
    "w_ledger w1 = w_ledger w" "w_sent w1 = w_sent w"
    using ensure_live_ok[of c ?t "tick w" e] by (auto simp: live_ready_def)
  obtain r2 w2 where live: "execute_live e c i ?t w1 = (r2, w2)" by fastforce
  have tail: "execute e c i w = (case r2 of
      Inl exc \<Rightarrow> thn (live_breaker_failure e c (it_trade_id i) (it_symbol i) ?t (exc_str exc)) (raise exc) w2
    | Inr result \<Rightarrow> thn (live_breaker_after e c (it_trade_id i) (it_symbol i) (it_action i)
                    (ex_status result) (ex_executed_at result)) (ret result) w2)"
    using ready assms(3) w1(1) live
    by (simp add: execute_fresh[OF assms(1,2)] thn_run[of "safety_gate c i"] safety_gate_ok live_ready_def
        dispatch_def validate_live_request_def thn_run[of "validate_live c sy x" for sy x] validate_live_ok
        thn_run[of "ensure_live_allowed e c k sy u" for k sy u] bnd_run attempt_run split: sum.splits)
  have eff: "silent w2 w'" "ledger_kept w2 w'"
    using run steps_inD[OF silent_fx.steps_thn[OF steps_live_breaker(2) silent_fx.steps_raise], of _ _ _ _ _ _ _ w2 r w']
      steps_inD[OF ledger_fx.steps_thn[OF steps_live_breaker(3) ledger_fx.steps_raise], of _ _ _ _ _ _ _ w2 r w']
      steps_inD[OF silent_fx.steps_thn[OF steps_live_breaker(6) silent_fx.steps_ret], of _ _ _ _ _ _ _ _ w2 r w']
      steps_inD[OF ledger_fx.steps_thn[OF steps_live_breaker(7) ledger_fx.steps_ret], of _ _ _ _ _ _ _ _ w2 r w']
    unfolding tail by (auto split: sum.splits)
  show ?thesis
    using w1(2,3) live eff run unfolding tail
    by (intro exI[of _ w1] exI[of _ r2] exI[of _ w2])
      (auto simp: kept_defs thn_run ret_run raise_run split: sum.splits prod.splits)
qed

text \<open>
  C15: A live open that passes its guards calls the adapter once. If the adapter returns,
  the trade is failed when a leg failed, waits for recovery when a leg is partial and is
  hedged otherwise (also when an order was only acknowledged); if the adapter raises, the
  call raises and the trade is left as a candidate, whatever orders were already sent.
\<close>

theorem live_open_outcome:
  assumes "readable w" "valid_intent i" "it_mode i = Live" "it_action i = OpenHedge"
    and "\<not> replays i w" "live_ready c i (env_now e (w_ticks w)) w" "oc_client c = Some cl"
    and run: "execute e c i w = (r, w')"
  shows "\<exists>w1. w_sent w1 = w_sent w \<and> (case adapter_open_hedge e cl i w1 of
      (Inl exc, w2) \<Rightarrow> (\<exists>exc'. r = Inl exc') \<and> w_sent w' = w_sent w2
        \<and> ledger_map w' = (ledger_map w)(it_trade_id i \<mapsto> candidate_of i (env_now e (w_ticks w)))
    | (Inr reports, w2) \<Rightarrow> w_sent w' = w_sent w2
        \<and> (\<forall>res. r = Inr res \<longrightarrow> ex_status res = final_status Hedged reports)
        \<and> ledger_map w' = (ledger_map w)(it_trade_id i \<mapsto>
            (candidate_of i (env_now e (w_ticks w)))\<lparr>lr_status := final_status Hedged reports\<rparr>))"
proof -
  let ?t = "env_now e (w_ticks w)"
  obtain w0 r2 w2 where w0: "w_ledger w0 = w_ledger w" "w_sent w0 = w_sent w"
    "execute_live e c i ?t w0 = (r2, w2)" "w_ledger w' = w_ledger w2" "w_sent w' = w_sent w2"
    "\<forall>exc. r2 = Inl exc \<longrightarrow> (\<exists>exc'. r = Inl exc')" "\<forall>res res'. r2 = Inr res' \<longrightarrow> r = Inr res \<longrightarrow> res = res'"
    using execute_live_reached[OF assms(1,5,3,6) run] by blast
  have rd: "readable w0" using w0(1) assms(1) by (simp add: readable_def)
  have live: "execute_live_open e cl i ?t w0 = (r2, w2)"
    using assms(4,7) w0(3) by (simp add: execute_live_def)
  obtain w1 where sent: "w_sent w1 = w_sent w0" and ad: "case adapter_open_hedge e cl i w1 of
      (Inl exc, u) \<Rightarrow> execute_live_open e cl i ?t w0 = (Inl exc, u)
        \<and> w_ledger u = upsert lr_trade_id (candidate_of i ?t) (w_ledger w0)
    | (Inr reports, u) \<Rightarrow> \<exists>res v. execute_live_open e cl i ?t w0 = (Inr res, v)
        \<and> ex_status res = final_status Hedged reports \<and> w_sent v = w_sent u
        \<and> w_ledger v = upsert lr_trade_id ((candidate_of i ?t)\<lparr>lr_status := final_status Hedged reports\<rparr>) (w_ledger w0)"
    using live_open_run[OF rd assms(2), of e cl ?t] by (elim exE conjE) (rule that)
  obtain ra u where ra: "adapter_open_hedge e cl i w1 = (ra, u)" by fastforce
  show ?thesis
  proof (intro exI[of _ w1] conjI)
    show "w_sent w1 = w_sent w" using sent w0(2) by simp
    show "case adapter_open_hedge e cl i w1 of
      (Inl exc, w2) \<Rightarrow> (\<exists>exc'. r = Inl exc') \<and> w_sent w' = w_sent w2
        \<and> ledger_map w' = (ledger_map w)(it_trade_id i \<mapsto> candidate_of i ?t)
    | (Inr reports, w2) \<Rightarrow> w_sent w' = w_sent w2
        \<and> (\<forall>res. r = Inr res \<longrightarrow> ex_status res = final_status Hedged reports)
        \<and> ledger_map w' = (ledger_map w)(it_trade_id i \<mapsto>
            (candidate_of i ?t)\<lparr>lr_status := final_status Hedged reports\<rparr>)"
    proof (cases ra)
      case (Inl exc)
      then have "r2 = Inl exc" "w2 = u" "w_ledger w' = upsert lr_trade_id (candidate_of i ?t) (w_ledger w)"
        using ad ra live w0(1,4) by simp_all
      then show ?thesis using Inl ra w0(5,6) ledger_map_upsert[of w' "candidate_of i ?t" w] by simp
    next
      case (Inr reports)
      then obtain res where "r2 = Inr res" "ex_status res = final_status Hedged reports" "w_sent w2 = w_sent u"
        "w_ledger w' = upsert lr_trade_id ((candidate_of i ?t)\<lparr>lr_status := final_status Hedged reports\<rparr>) (w_ledger w)"
        using ad ra live w0(1,4) by auto
      then show ?thesis
        using Inr ra w0(5) w0(7)
          ledger_map_upsert[of w' "(candidate_of i ?t)\<lparr>lr_status := final_status Hedged reports\<rparr>" w] by auto
    qed
  qed
qed

lemma sample_live_ready: "live_ready sample_orchestrator (sample_intent Live a) t (sample_world rs)"
proof -
  have "\<not> blocks sample_breaker_config t (breaker_abs_of (sample_world rs))"
    by (simp add: blocks_def breaker_abs_of_def expire_def)
  then show ?thesis
    using sample_breaker_inv[of rs]
    by (simp add: live_ready_def sample_orchestrator_def gate_open_def sample_may breaker_allows_def guard_fails_def)
qed

lemma open_without_quantity:
  "\<not> positive (it_perp_quantity i) \<Longrightarrow>
   adapter_open_hedge e cl i w = (Inl (ValueError ''live open_hedge requires perp_quantity''), w)"
  by (simp add: adapter_open_hedge_def py_simps)

lemma close_without_quantity:
  "\<not> positive (it_spot_quantity i) \<Longrightarrow>
   adapter_close_hedge e cl i w = (Inl (ValueError ''live close_hedge requires spot_quantity''), w)"
  by (simp add: adapter_close_hedge_def py_simps)

theorem live_open_outcome_witness:
  "\<exists>exc x. fst (execute sample_env sample_orchestrator (sample_intent Live OpenHedge) (sample_world [])) = Inl exc
    \<and> ledger_map (snd (execute sample_env sample_orchestrator (sample_intent Live OpenHedge) (sample_world []))) ''t1'' = Some x
    \<and> lr_status x = Candidate"
proof -
  have "\<not> positive (it_perp_quantity (sample_intent Live OpenHedge))" by (simp add: positive_def)
  moreover have "\<not> replays (sample_intent Live OpenHedge) (sample_world [])"
    by (simp add: replays_def sample_map)
  moreover have "oc_client sample_orchestrator = Some sample_client" by (simp add: sample_orchestrator_def)
  ultimately show ?thesis
    using live_open_outcome[OF sample_readable(1) sample_intent_valid, where c = sample_orchestrator and cl = sample_client and e = sample_env,
        OF _ _ _ sample_live_ready _ prod.collapse[symmetric]]
    by (auto simp: open_without_quantity candidate_of_def)
qed

text \<open>
  C16: A live close (or rebalance intent) that passes its guards marks the trade closing and
  calls the adapter once. If the adapter returns, the trade is failed, waiting for recovery
  or closed by the leg reports; if it raises, as it does when the intent carries no
  quantities, the call raises and the trade stays in status closing.
\<close>

theorem live_close_outcome:
  assumes "readable w" "it_mode i = Live" "it_action i \<noteq> OpenHedge"
    and "ledger_map w (it_trade_id i) = Some x" "\<not> replays i w"
    and "live_ready c i (env_now e (w_ticks w)) w" "oc_client c = Some cl"
    and run: "execute e c i w = (r, w')"
  shows "\<exists>w1. w_sent w1 = w_sent w \<and> (case adapter_close_hedge e cl i w1 of
      (Inl exc, w2) \<Rightarrow> (\<exists>exc'. r = Inl exc') \<and> w_sent w' = w_sent w2
        \<and> ledger_map w' = (ledger_map w)(it_trade_id i \<mapsto> x\<lparr>lr_status := Closing\<rparr>)
    | (Inr reports, w2) \<Rightarrow> w_sent w' = w_sent w2
        \<and> (\<forall>res. r = Inr res \<longrightarrow> ex_status res = final_status Closed reports)
        \<and> ledger_map w' = (ledger_map w)(it_trade_id i \<mapsto>
            live_close_record i (env_now e (w_ticks w)) x reports))"
proof -
  let ?t = "env_now e (w_ticks w)"
  obtain w0 r2 w2 where w0: "w_ledger w0 = w_ledger w" "w_sent w0 = w_sent w"
    "execute_live e c i ?t w0 = (r2, w2)" "w_ledger w' = w_ledger w2" "w_sent w' = w_sent w2"
    "\<forall>exc. r2 = Inl exc \<longrightarrow> (\<exists>exc'. r = Inl exc')" "\<forall>res res'. r2 = Inr res' \<longrightarrow> r = Inr res \<longrightarrow> res = res'"
    using execute_live_reached[OF assms(1,5,2,6) run] by blast
  have rd: "readable w0" "ledger_map w0 (it_trade_id i) = Some x"
    using w0(1) assms(1,4) by (simp_all add: readable_def ledger_map_def)
  have x: "lr_trade_id x = it_trade_id i" using readable_valid[OF assms(1,4)] by simp
  have live: "execute_live_close e cl i ?t w0 = (r2, w2)"
    using assms(3,7) w0(3) by (simp add: execute_live_def)
  obtain w1 where sent: "w_sent w1 = w_sent w0" and ad: "case adapter_close_hedge e cl i w1 of
      (Inl exc, u) \<Rightarrow> execute_live_close e cl i ?t w0 = (Inl exc, u)
        \<and> w_ledger u = upsert lr_trade_id (x\<lparr>lr_status := Closing\<rparr>) (w_ledger w0)
    | (Inr reports, u) \<Rightarrow> \<exists>res v. execute_live_close e cl i ?t w0 = (Inr res, v)
        \<and> ex_status res = final_status Closed reports \<and> w_sent v = w_sent u
        \<and> w_ledger v = upsert lr_trade_id (live_close_record i ?t x reports) (w_ledger w0)"
    using live_close_run[OF rd, of e cl ?t] by (elim exE conjE) (rule that)
  obtain ra u where ra: "adapter_close_hedge e cl i w1 = (ra, u)" by fastforce
  have rec: "lr_trade_id (live_close_record i ?t x reports) = it_trade_id i" for reports
    by (simp add: live_close_record_def x)
  show ?thesis
  proof (intro exI[of _ w1] conjI)
    show "w_sent w1 = w_sent w" using sent w0(2) by simp
    show "case adapter_close_hedge e cl i w1 of
      (Inl exc, w2) \<Rightarrow> (\<exists>exc'. r = Inl exc') \<and> w_sent w' = w_sent w2
        \<and> ledger_map w' = (ledger_map w)(it_trade_id i \<mapsto> x\<lparr>lr_status := Closing\<rparr>)
    | (Inr reports, w2) \<Rightarrow> w_sent w' = w_sent w2
        \<and> (\<forall>res. r = Inr res \<longrightarrow> ex_status res = final_status Closed reports)
        \<and> ledger_map w' = (ledger_map w)(it_trade_id i \<mapsto> live_close_record i ?t x reports)"
    proof (cases ra)
      case (Inl exc)
      then have "r2 = Inl exc" "w2 = u" "w_ledger w' = upsert lr_trade_id (x\<lparr>lr_status := Closing\<rparr>) (w_ledger w)"
        using ad ra live w0(1,4) by simp_all
      then show ?thesis using Inl ra w0(5,6) ledger_map_upsert[of w' "x\<lparr>lr_status := Closing\<rparr>" w] x by simp
    next
      case (Inr reports)
      then obtain res where "r2 = Inr res" "ex_status res = final_status Closed reports" "w_sent w2 = w_sent u"
        "w_ledger w' = upsert lr_trade_id (live_close_record i ?t x reports) (w_ledger w)"
        using ad ra live w0(1,4) by auto
      then show ?thesis
        using Inr ra w0(5) w0(7) ledger_map_upsert[of w' "live_close_record i ?t x reports" w] rec by auto
    qed
  qed
qed

theorem live_close_outcome_witness:
  "\<exists>exc x. fst (execute sample_env sample_orchestrator (sample_intent Live CloseHedge) (sample_world [sample_record ''t1'' Hedged])) = Inl exc
    \<and> ledger_map (snd (execute sample_env sample_orchestrator (sample_intent Live CloseHedge) (sample_world [sample_record ''t1'' Hedged]))) ''t1'' = Some x
    \<and> lr_status x = Closing"
proof -
  have "\<not> positive (it_spot_quantity (sample_intent Live CloseHedge))" by (simp add: positive_def)
  moreover have "\<not> replays (sample_intent Live CloseHedge) (sample_world [sample_record ''t1'' Hedged])"
    by (simp add: replays_def sample_map replay_status_def)
  moreover have "oc_client sample_orchestrator = Some sample_client" by (simp add: sample_orchestrator_def)
  moreover have "ledger_map (sample_world [sample_record ''t1'' Hedged]) (it_trade_id (sample_intent Live CloseHedge))
      = Some (sample_record ''t1'' Hedged)" by (simp add: sample_map)
  ultimately show ?thesis
    using live_close_outcome[OF sample_readable(2)[of "''t1''" Hedged], where i = "sample_intent Live CloseHedge"
        and c = sample_orchestrator and cl = sample_client and e = sample_env and x = "sample_record ''t1'' Hedged",
        OF _ _ _ _ sample_live_ready _ prod.collapse[symmetric]]
    by (auto simp: close_without_quantity)
qed

subsection \<open>Recovery and rebalancing\<close>

definition recovered_record :: "recovery_request \<Rightarrow> datetime \<Rightarrow> ledger_record \<Rightarrow> ledger_record" where
  "recovered_record q t r = (case rr_action q of
     ResumeOpen \<Rightarrow> r\<lparr>lr_status := Hedged, lr_notes := or_text (rr_notes q) (lr_notes r)\<rparr>
   | ResumeClose \<Rightarrow> r\<lparr>lr_status := Closed, lr_closed_at := Some (t + milliseconds 2),
       lr_notes := or_text (rr_notes q) (lr_notes r)\<rparr>)"

text \<open>
  C17: Recovery changes a trade only when it exists and is failed or waiting for recovery;
  otherwise it raises and changes nothing but the clock. Then the trade is hedged or closed,
  as asked, with its exposures unchanged; no order is sent, although the event says that the
  missing leg was filled.
\<close>

theorem recover_outcome:
  assumes "readable w"
  shows "\<exists>res w'. recover e q w = (res, w') \<and> w_sent w' = w_sent w \<and>
    (case ledger_map w (rr_trade_id q) of
       Some r \<Rightarrow> if lr_status r \<in> {Failed, RecoveryPending}
         then ledger_map w' = (ledger_map w)(rr_trade_id q \<mapsto> recovered_record q (env_now e (w_ticks w)) r)
           \<and> readable w' \<and> (\<exists>x. res = Inr x \<and> ex_status x = lr_status (recovered_record q 0 r)
                \<and> w_events w' = w_events w @ ex_events x)
         else w' = tick w \<and> (\<exists>m. res = Inl (ValueError m))
     | None \<Rightarrow> w' = tick w \<and> (\<exists>m. res = Inl (ValueError m)))"
proof (cases "ledger_map w (rr_trade_id q)")
  case None
  then show ?thesis using assms
    by (simp add: recover_def py_simps ledger_map_def readable_def tick_def)
next
  case (Some r)
  have r: "valid_ledger_record r" "lr_trade_id r = rr_trade_id q" using readable_valid[OF assms Some] by auto
  have found: "get_record (rr_trade_id q) (tick w) = (Inr (Some r), tick w)"
    using Some assms by (simp add: get_record_run ledger_map_def)
  show ?thesis
  proof (cases "lr_status r \<in> {Failed, RecoveryPending}")
    case False
    then show ?thesis using Some
      by (simp add: recover_def bnd_run utc_now_run found thn_run require_run flip: tick_def)
  next
    case True
    then show ?thesis using Some assms r
      by (cases "rr_action q")
        (simp_all add: recover_def bnd_run utc_now_run found thn_run require_run recovered_record_def
          Let_def orch_event_run save_record_run ret_run recover_result_def flip: tick_def)
  qed
qed

theorem recover_outcome_witness:
  "ledger_map (snd (recover sample_env \<lparr>rr_trade_id = ''t1'', rr_action = ResumeOpen, rr_notes = None\<rparr>
      (sample_world [sample_record ''t1'' Failed]))) ''t1'' = Some (sample_record ''t1'' Hedged)"
proof -
  have rec: "recovered_record \<lparr>rr_trade_id = ''t1'', rr_action = ResumeOpen, rr_notes = None\<rparr> t
      (sample_record ''t1'' Failed) = sample_record ''t1'' Hedged" for t
    by (simp add: recovered_record_def sample_record_def or_text_def)
  show ?thesis
    using recover_outcome[OF sample_readable(2)[of "''t1''" Failed], of sample_env
        "\<lparr>rr_trade_id = ''t1'', rr_action = ResumeOpen, rr_notes = None\<rparr>"]
    by (auto simp: sample_map rec)
qed

text \<open>
  C18: Rebalancing a paper hedge succeeds exactly for an open or hedged trade, a positive
  quantity and a non-zero delta. It adds the delta to the perpetual notional, takes it from
  the net exposure (both rounded to four decimals), sends nothing, and leaves the ledger
  readable exactly when the new perpetual notional is not negative: a delta below minus the
  notional makes every later read of the ledger fail.
\<close>

theorem rebalance_paper_outcome:
  assumes "readable w" "ledger_map w k = Some r" "lr_mode r = Paper"
  shows "\<exists>res w'. rebalance_hedge e c k delta quantity notes w = (res, w') \<and> w_sent w' = w_sent w \<and>
    (if lr_status r \<in> {Hedged, Open} \<and> 0 < quantity \<and> delta \<noteq> 0
     then ledger_map w' = (ledger_map w)(k \<mapsto> rebalanced r delta notes)
       \<and> (\<exists>x. res = Inr x \<and> ex_status x = Hedged \<and> ex_ledger_record x = rebalanced r delta notes)
       \<and> (readable w' \<longleftrightarrow> 0 \<le> py_round (fadd (lr_perp_notional r) delta) 4)
       \<and> lr_net_exposure (rebalanced r delta notes) = py_round (fsub (lr_net_exposure r) delta) 4
     else w' = tick w \<and> (\<exists>m. res = Inl (ValueError m)))"
proof -
  have r: "valid_ledger_record r" "lr_trade_id r = k" using readable_valid[OF assms(1,2)] by auto
  have found: "get_record k (tick w) = (Inr (Some r), tick w)"
    using assms(1,2) by (simp add: get_record_run ledger_map_def)
  have reb: "lr_trade_id (rebalanced r delta notes) = k"
    "valid_ledger_record (rebalanced r delta notes) \<longleftrightarrow> 0 \<le> py_round (fadd (lr_perp_notional r) delta) 4"
    using r by (simp_all add: rebalanced_def valid_ledger_record_def)
  show ?thesis
  proof (cases "lr_status r \<in> {Hedged, Open} \<and> 0 < quantity \<and> delta \<noteq> 0")
    case True
    then show ?thesis using assms(1,3) r reb
      by (simp add: rebalance_hedge_def bnd_run utc_now_run found thn_run require_run Let_def orch_event_run
          save_record_run ret_run rebalance_result_def rebalanced_def flip: tick_def)
  next
    case False
    then show ?thesis
      by (auto simp: rebalance_hedge_def bnd_run utc_now_run found thn_run require_run simp flip: tick_def)
  qed
qed

theorem rebalance_paper_outcome_witness:
  "\<not> readable (snd (rebalance_hedge sample_env sample_orchestrator ''t1'' (- 2000) 1 None (sample_world [sample_record ''t1'' Hedged])))"
proof -
  have "py_round (fadd 1000 (- 2000)) 4 < 0" by code_simp
  moreover have "ledger_map (sample_world [sample_record ''t1'' Hedged]) ''t1'' = Some (sample_record ''t1'' Hedged)"
    by (simp add: sample_map)
  ultimately show ?thesis
    using rebalance_paper_outcome[OF sample_readable(2), of "''t1''" Hedged "''t1''" "sample_record ''t1'' Hedged" sample_env sample_orchestrator "- 2000" 1 None]
    by auto
qed

text \<open>
  C19: Whatever its outcome, an operation on a trade touches no other trade, keeps one record
  per trade, only appends to the audit log and leaves the safety switch alone.
\<close>

theorem operations_are_local:
  "(case execute e c i w of (_, w') \<Rightarrow> only_trade (it_trade_id i) w w' \<and> log_grows w w' \<and> safety_kept w w')
   \<and> (case recover e q w of (_, w') \<Rightarrow> only_trade (rr_trade_id q) w w' \<and> log_grows w w' \<and> safety_kept w w' \<and> silent w w')
   \<and> (case rebalance_hedge e c k d x n w of (_, w') \<Rightarrow> only_trade k w w' \<and> log_grows w w' \<and> safety_kept w w')"
  using trade_execute[of i e c] trade_recover[of q e] trade_rebalance[of k e c d x n]
    steps_execute[of e c i] steps_recover[of e q] steps_rebalance[of e c k d x n]
  by (simp add: steps_in_def case_prod_beta)

end
