(* ===== verification/Reconciliation.thy ===== *)
theory Reconciliation
  imports Reports OrchestratorProps
begin

section \<open>Reconciliation\<close>

text \<open>
  \<open>app/reconciliation/service.py\<close>: which order ids the audit log expects for a live
  trade, which reports exist for them, the candidates and issues that follow, and the
  synchronisation of reports with the exchange. The dictionaries indexed by trade are
  modelled by their value at one trade. Numbers in replies are read with \<open>py_float\<close>.
\<close>

subsection \<open>Schemas\<close>

datatype suggested_action = SuggestNone | InspectExchange | SuggestResumeOpen | SuggestResumeClose

record candidate =
  rc_trade_id :: string
  rc_symbol :: string
  rc_local_status :: trade_status
  rc_expected_order_ids :: "string list"
  rc_reported_order_ids :: "string list"
  rc_missing_order_ids :: "string list"
  rc_exchange_statuses :: "string list"
  rc_latest_event_at :: "datetime option"
  rc_latest_report_at :: "datetime option"
  rc_suggested_action :: suggested_action
  rc_needs_attention :: bool

datatype issue_type = MissingExchangeReport | StatusMismatch

record issue =
  is_trade_id :: string
  is_symbol :: string
  is_issue_type :: issue_type
  is_local_status :: trade_status
  is_exchange_statuses :: "string list"
  is_missing_order_ids :: "string list"
  is_suggested_action :: suggested_action
  is_summary :: string

record recon_summary =
  su_generated_at :: datetime
  su_compared_trade_count :: nat
  su_matched_trade_count :: nat
  su_issue_count :: nat
  su_missing_exchange_report_count :: nat
  su_status_mismatch_count :: nat
  su_issues :: "issue list"

subsection \<open>Indexes over the audit log and the reports\<close>

definition order_event_types :: "string list" where
  \<comment> \<open>\<open>EVENT_TYPES_WITH_ORDER_ID\<close>\<close>
  "order_event_types =
     [''execution.live.spot.filled'', ''execution.live.perp.filled'',
      ''execution.live.spot.partial'', ''execution.live.perp.partial'',
      ''execution.live.close.spot.filled'', ''execution.live.close.perp.filled'',
      ''execution.live.close.spot.partial'', ''execution.live.close.perp.partial'']"

definition text_order_id :: "audit_event \<Rightarrow> string option" where
  \<comment> \<open>the \<open>orderId\<close> of an event that carries one, when it is text\<close>
  "text_order_id ev =
     (if ev_event_type ev \<in> set order_event_types
      then (case map_of (ev_payload ev) ''orderId'' of Some (PStr s) \<Rightarrow> Some s | _ \<Rightarrow> None)
      else None)"

definition add_new :: "'a \<Rightarrow> 'a list \<Rightarrow> 'a list" where
  "add_new x xs = (if x \<in> set xs then xs else xs @ [x])"

definition expected_order_ids :: "audit_event list \<Rightarrow> string \<Rightarrow> string list" where
  \<comment> \<open>\<open>_build_expected_order_id_index(events).get(trade_id, [])\<close>\<close>
  "expected_order_ids evs k =
     fold (\<lambda>ev ids. if event_trade ev = Some k
             then (case text_order_id ev of Some s \<Rightarrow> add_new s ids | None \<Rightarrow> ids) else ids) evs []"

definition report_index :: "order_report list \<Rightarrow> string \<Rightarrow> order_report option" where
  \<comment> \<open>\<open>_build_report_index\<close>: the latest report of an order\<close>
  "report_index rs =
     map_of (dict_of er_order_id (sorted_by (\<lambda>r. (er_updated_at r, er_report_id r)) rs))"

definition latest_event_at :: "audit_event list \<Rightarrow> string \<Rightarrow> datetime option" where
  "latest_event_at evs k =
     fold (\<lambda>ev prev. if event_trade ev \<noteq> Some k then prev
             else (case prev of None \<Rightarrow> Some (ev_occurred_at ev)
               | Some t \<Rightarrow> if t < ev_occurred_at ev then Some (ev_occurred_at ev) else prev)) evs None"

record order_request =
  oq_leg :: leg
  oq_order_id :: string
  oq_client_order_id :: string

definition order_requests :: "ledger_record \<Rightarrow> audit_event list \<Rightarrow> order_request list" where
  \<comment> \<open>\<open>_build_expected_order_requests\<close>\<close>
  "order_requests r evs =
     rev (fold (\<lambda>ev qs.
       if ev_event_type ev \<notin> set order_event_types then qs
       else if event_trade ev \<noteq> Some (lr_trade_id r) then qs
       else (case map_of (ev_payload ev) ''orderId'' of
           None \<Rightarrow> qs
         | Some PNone \<Rightarrow> qs
         | Some v \<Rightarrow>
             let l = (if contains ''.perp.'' (ev_event_type ev) then Perp else Spot) in
             if (l, py_str v) \<in> set (map (\<lambda>q. (oq_leg q, oq_order_id q)) qs) then qs
             else \<lparr>oq_leg = l, oq_order_id = py_str v,
                   oq_client_order_id = (case map_of (ev_payload ev) ''clientOrderId'' of
                      Some c \<Rightarrow> if py_truthy c then py_str c else [] | None \<Rightarrow> [])\<rparr> # qs)) evs [])"

subsection \<open>Comparing statuses\<close>

definition normalize_exchange_status :: "string \<Rightarrow> string" where
  "normalize_exchange_status status =
     (let n = py_upper (py_strip status) in
      if n = ''FILLED'' then ''filled''
      else if n = ''PARTIALLY_FILLED'' then ''partial''
      else if n \<in> {''NEW'', ''PENDING_NEW''} then ''submitted''
      else if n \<in> {''CANCELED'', ''EXPIRED'', ''REJECTED''} then ''failed''
      else py_lower n)"

definition normalized_statuses :: "string list \<Rightarrow> string set" where
  "normalized_statuses ss = set (map normalize_exchange_status ss)"

definition is_status_mismatch :: "trade_status \<Rightarrow> order_report list \<Rightarrow> bool" where
  "is_status_mismatch local reports =
     (let st = normalized_statuses (map er_status reports) in
      if local \<in> {Hedged, Closed} then st \<noteq> {''filled''}
      else if local \<in> {RecoveryPending, Failed} then st = {''filled''}
      else False)"

definition suggest_action :: "trade_status \<Rightarrow> string list \<Rightarrow> suggested_action" where
  "suggest_action local statuses =
     (let st = normalized_statuses statuses in
      if local \<in> {RecoveryPending, Failed} \<and> st = {''filled''} then SuggestResumeOpen
      else if local = Closed \<and> st = {''filled''} then SuggestResumeClose
      else InspectExchange)"

definition reconciled_statuses :: "trade_status set" where
  "reconciled_statuses = {Hedged, RecoveryPending, Failed, Closing, Closed}"

definition reconciliation_records :: "(world, ledger_record list) py" where
  "reconciliation_records =
     bnd (list_records (Some Live) None None None) (\<lambda>rs.
       ret (filter (\<lambda>r. lr_status r \<in> reconciled_statuses) rs))"


subsection \<open>Candidates\<close>

definition datetime_min :: datetime where
  \<comment> \<open>\<open>datetime.min\<close> in UTC\<close>
  "datetime_min = - 62135596800000000"

definition available_reports :: "(string \<Rightarrow> order_report option) \<Rightarrow> string list \<Rightarrow> order_report list" where
  "available_reports index ids = List.map_filter index ids"

definition missing_ids :: "(string \<Rightarrow> order_report option) \<Rightarrow> string list \<Rightarrow> string list" where
  "missing_ids index ids = filter (\<lambda>i. index i = None) ids"

definition candidate_for ::
  "(string \<Rightarrow> order_report option) \<Rightarrow> audit_event list \<Rightarrow> ledger_record \<Rightarrow> candidate" where
  "candidate_for index evs r =
     (let ids = expected_order_ids evs (lr_trade_id r);
          avail = available_reports index ids; missing = missing_ids index ids;
          statuses = map er_status avail in
      \<lparr>rc_trade_id = lr_trade_id r, rc_symbol = lr_symbol r, rc_local_status = lr_status r,
       rc_expected_order_ids = ids, rc_reported_order_ids = map er_order_id avail,
       rc_missing_order_ids = missing, rc_exchange_statuses = statuses,
       rc_latest_event_at = latest_event_at evs (lr_trade_id r),
       rc_latest_report_at = (case map er_updated_at avail of [] \<Rightarrow> None
          | x # xs \<Rightarrow> Some (max_by (\<lambda>t. t) x xs)),
       rc_suggested_action = (if missing \<noteq> [] then InspectExchange else suggest_action (lr_status r) statuses),
       rc_needs_attention = (missing \<noteq> [] \<or> (avail \<noteq> [] \<and> is_status_mismatch (lr_status r) avail))\<rparr>)"

definition candidate_key :: "candidate \<Rightarrow> bool \<times> datetime \<times> string" where
  "candidate_key cd = (rc_needs_attention cd,
     (case rc_latest_event_at cd of Some t \<Rightarrow> t | None \<Rightarrow> datetime_min), rc_trade_id cd)"

definition list_candidates :: "string option \<Rightarrow> bool \<Rightarrow> (world, candidate list) py" where
  "list_candidates symbol only_attention =
     bnd reconciliation_records (\<lambda>rs.
     let rs = (case symbol of None \<Rightarrow> rs | Some s \<Rightarrow> filter (\<lambda>r. lr_symbol r = s) rs) in
     bnd (list_events None (Some ''execution-orchestrator'') None) (\<lambda>evs.
     bnd report_list (\<lambda>reports.
       ret (sorted_desc candidate_key
         (filter (\<lambda>cd. only_attention \<longrightarrow> rc_needs_attention cd)
           (map (candidate_for (report_index reports) evs) rs))))))"

definition import_reports :: "order_report list \<Rightarrow> write_mode \<Rightarrow> (world, order_report list) py" where
  "import_reports rs m = report_save rs m"

definition list_reports :: "string option \<Rightarrow> string option \<Rightarrow> (world, order_report list) py" where
  "list_reports symbol order_id =
     bnd report_list (\<lambda>rs.
       let rs = (case symbol of None \<Rightarrow> rs | Some s \<Rightarrow> filter (\<lambda>r. er_symbol r = s) rs);
           rs = (case order_id of None \<Rightarrow> rs | Some s \<Rightarrow> filter (\<lambda>r. er_order_id r = s) rs)
       in ret (sorted_desc (\<lambda>r. (er_updated_at r, er_report_id r)) rs))"

subsection \<open>Issues\<close>

definition trade_issues ::
  "(string \<Rightarrow> order_report option) \<Rightarrow> ledger_record \<Rightarrow> string list \<Rightarrow> issue list" where
  "trade_issues index r ids =
     (let missing = missing_ids index ids; avail = available_reports index ids;
          statuses = map er_status avail in
      (if missing \<noteq> [] then
         [\<lparr>is_trade_id = lr_trade_id r, is_symbol = lr_symbol r, is_issue_type = MissingExchangeReport,
           is_local_status = lr_status r, is_exchange_statuses = [], is_missing_order_ids = missing,
           is_suggested_action = InspectExchange,
           is_summary = ''Missing exchange reports for '' @ lr_symbol r @ '': '' @ join '', '' missing\<rparr>]
       else [])
      @ (if avail \<noteq> [] \<and> is_status_mismatch (lr_status r) avail then
         [\<lparr>is_trade_id = lr_trade_id r, is_symbol = lr_symbol r, is_issue_type = StatusMismatch,
           is_local_status = lr_status r, is_exchange_statuses = statuses, is_missing_order_ids = [],
           is_suggested_action = suggest_action (lr_status r) statuses,
           is_summary = ''Local status '' @ quoted (status_str (lr_status r))
             @ '' does not match exchange reports for '' @ lr_symbol r\<rparr>]
       else []))"

definition build_summary :: "env \<Rightarrow> (world, recon_summary) py" where
  "build_summary e =
     bnd reconciliation_records (\<lambda>rs.
     bnd (list_events None (Some ''execution-orchestrator'') None) (\<lambda>evs.
     bnd report_list (\<lambda>reports.
     let issues = concat (map (\<lambda>r. trade_issues (report_index reports) r
            (expected_order_ids evs (lr_trade_id r))) rs) in
     bnd (utc_now e) (\<lambda>t.
     ret \<lparr>su_generated_at = t, su_compared_trade_count = length rs,
          su_matched_trade_count = length rs - length (remdups (map is_trade_id issues)),
          su_issue_count = length issues,
          su_missing_exchange_report_count = length (filter (\<lambda>i. is_issue_type i = MissingExchangeReport) issues),
          su_status_mismatch_count = length (filter (\<lambda>i. is_issue_type i = StatusMismatch) issues),
          su_issues = issues\<rparr>))))"

subsection \<open>Synchronising with the exchange\<close>

definition update_time_of :: "env \<Rightarrow> pyval \<Rightarrow> (world, datetime) py" where
  "update_time_of e v =
     (case v of
        PInt i \<Rightarrow> ret (seconds (rnd (of_int i / 1000)))
      | PFloat x \<Rightarrow> ret (seconds (fdiv x 1000))
      | PBool b \<Rightarrow> ret (seconds (fdiv (if b then 1 else 0) 1000))
      | _ \<Rightarrow> utc_now e)"

definition to_exchange_report :: "env \<Rightarrow> string \<Rightarrow> leg \<Rightarrow> pyval \<Rightarrow> (world, order_report) py" where
  "to_exchange_report e trade_id l payload =
     (case payload of
        PDict d \<Rightarrow>
          bnd (update_time_of e (py_or (get_or ''updateTime'' PNone d) (get_or ''update_time'' PNone d))) (\<lambda>t.
          let quote = (case map_of d ''cummulativeQuoteQty'' of None \<Rightarrow> get_or ''cumQuote'' PNone d
                | Some PNone \<Rightarrow> get_or ''cumQuote'' PNone d | Some v \<Rightarrow> v) in
          bnd (lift (py_float (get_or ''executedQty'' (PFloat 0) d))) (\<lambda>qty.
          bnd (lift (py_float (py_or quote (PFloat 0)))) (\<lambda>quote_qty.
          bnd (uuid_hex e) (\<lambda>rid.
          bnd (case get_or ''clientOrderId'' PNone d of PNone \<Rightarrow> ret None | PStr c \<Rightarrow> ret (Some c)
               | _ \<Rightarrow> raise (ValidationError ''ExchangeOrderReport'')) (\<lambda>cid.
          let r = \<lparr>er_report_id = rid, er_venue = ''binance'',
                er_order_id = py_str (get_or ''orderId'' PNone d), er_client_order_id = cid,
                er_trade_id = Some trade_id, er_symbol = py_str (get_or ''symbol'' PNone d), er_leg = l,
                er_status = py_str (get_or ''status'' (PStr ''UNKNOWN'') d),
                er_executed_qty = qty, er_cum_quote_qty = quote_qty, er_updated_at = t\<rparr> in
          thn (require (valid_order_report r) (ValidationError ''ExchangeOrderReport'')) (ret r))))))
      | v \<Rightarrow> raise (no_get_attribute v))"

definition upsert_reports :: "order_report list \<Rightarrow> (world, order_report list) py" where
  "upsert_reports rs =
     bnd report_list (\<lambda>old.
     let persisted = map snd (dict_of er_order_id (old @ rs)) in
     thn (report_save persisted ReplaceRows) (ret persisted))"

definition fetch_order :: "env \<Rightarrow> client \<Rightarrow> ledger_record \<Rightarrow> order_request \<Rightarrow> (world, order_report) py" where
  "fetch_order e cl r q =
     bnd (if oq_leg q = Spot
          then get_spot_order e cl (lr_symbol r) (Some (oq_order_id q)) (Some (oq_client_order_id q)) None
          else get_perp_order e cl (lr_symbol r) (Some (oq_order_id q)) (Some (oq_client_order_id q)) None)
       (\<lambda>payload. to_exchange_report e (lr_trade_id r) (oq_leg q) payload)"

definition sync_reports_for_trade :: "env \<Rightarrow> client \<Rightarrow> string \<Rightarrow> (world, order_report list) py" where
  "sync_reports_for_trade e cl trade_id =
     bnd (get_record trade_id) (\<lambda>found. case found of
       None \<Rightarrow> raise (ValueError (''trade '' @ quoted trade_id @ '' not found in ledger''))
     | Some r \<Rightarrow>
         thn (require (lr_mode r = Live) (ValueError (''trade '' @ quoted trade_id @ '' is not a live trade'')))
         (bnd (list_events None (Some ''execution-orchestrator'') None) (\<lambda>evs.
          let qs = order_requests r evs in
          if qs = [] then ret []
          else bnd (for_map (fetch_order e cl r) qs) (\<lambda>synced.
            thn (upsert_reports synced) (ret synced)))))"

definition sync_attention_candidates :: "env \<Rightarrow> client \<Rightarrow> int option \<Rightarrow> (world, order_report list) py" where
  "sync_attention_candidates e cl limit =
     bnd (list_candidates None True) (\<lambda>cds.
     bnd (for_map (\<lambda>cd. sync_reports_for_trade e cl (rc_trade_id cd)) (limited limit cds)) (\<lambda>rss.
     ret (concat rss)))"


subsection \<open>Facts about the indexes\<close>

lemma expected_ids_mono: "set ids \<subseteq> set (fold (\<lambda>ev ids. if event_trade ev = Some k
             then (case text_order_id ev of Some s \<Rightarrow> add_new s ids | None \<Rightarrow> ids) else ids) evs ids)"
proof (induction evs arbitrary: ids)
  case (Cons ev evs)
  have "set ids \<subseteq> set (add_new s ids)" for s by (auto simp: add_new_def)
  then show ?case using Cons by (auto split: option.splits)
qed simp

lemma expected_ids_none:
  "list_all (\<lambda>ev. text_order_id ev = None) evs \<Longrightarrow> expected_order_ids evs k = []"
proof -
  have "list_all (\<lambda>ev. text_order_id ev = None) evs \<Longrightarrow> fold (\<lambda>ev ids. if event_trade ev = Some k
             then (case text_order_id ev of Some s \<Rightarrow> add_new s ids | None \<Rightarrow> ids) else ids) evs ids = ids" for ids
    by (induction evs) auto
  then show "list_all (\<lambda>ev. text_order_id ev = None) evs \<Longrightarrow> ?thesis" by (simp add: expected_order_ids_def)
qed

lemma report_index_Some: "report_index rs i = Some r \<Longrightarrow> r \<in> set rs \<and> er_order_id r = i"
  unfolding report_index_def by (drule dict_of_Some) simp

lemma available_missing:
  "mset (map er_order_id (available_reports (report_index rs) ids)) + mset (missing_ids (report_index rs) ids) = mset ids"
proof (induction ids)
  case (Cons i ids)
  then show ?case
    by (cases "report_index rs i")
      (auto simp: available_reports_def missing_ids_def map_filter_simps dest: report_index_Some)
qed (simp add: available_reports_def missing_ids_def map_filter_simps)

lemma trade_issues_empty:
  "trade_issues index r (expected_order_ids evs (lr_trade_id r)) = [] \<longleftrightarrow>
     \<not> rc_needs_attention (candidate_for index evs r)"
  by (auto simp: trade_issues_def candidate_for_def Let_def)

lemma trade_issues_trade: "i \<in> set (trade_issues index r ids) \<Longrightarrow> is_trade_id i = lr_trade_id r"
  by (auto simp: trade_issues_def Let_def split: if_splits)

lemma reconciliation_records_run [py_simps]:
  "reconciliation_records w = (if readable w
     then (Inr (filter (\<lambda>r. lr_mode r = Live \<and> lr_status r \<in> reconciled_statuses) (w_ledger w)), w)
     else (Inl (ValidationError ''TradeLedgerRecord''), w))"
proof -
  have "filter (\<lambda>r. lr_status r \<in> reconciled_statuses) (filter (\<lambda>r. lr_mode r = Live) rs)
      = filter (\<lambda>r. lr_mode r = Live \<and> lr_status r \<in> reconciled_statuses) rs" for rs
    by (simp add: conj_commute)
  then show ?thesis
    by (simp add: reconciliation_records_def list_records_def ledger_list_run py_simps Let_def)
qed

definition orch_events :: "world \<Rightarrow> audit_event list" where
  "orch_events w = sorted_by (\<lambda>ev. (ev_occurred_at ev, ev_event_id ev))
     (filter (\<lambda>ev. ev_source ev = ''execution-orchestrator'') (w_events w))"

lemma list_orch_events [py_simps]:
  "list_events None (Some ''execution-orchestrator'') None w = (Inr (orch_events w), w)"
  by (simp add: list_events_def gets_run orch_events_def Let_def)

definition live_trades :: "world \<Rightarrow> ledger_record list" where
  "live_trades w = filter (\<lambda>r. lr_mode r = Live \<and> lr_status r \<in> reconciled_statuses) (w_ledger w)"

lemma list_candidates_run:
  assumes "readable w" "reports_readable w"
  shows "list_candidates None only w = (Inr (sorted_desc candidate_key
      (filter (\<lambda>cd. only \<longrightarrow> rc_needs_attention cd)
        (map (candidate_for (report_index (w_reports w)) (orch_events w)) (live_trades w)))), w)"
  using assms by (simp add: list_candidates_def bnd_run reconciliation_records_run list_orch_events
      report_list_run ret_run live_trades_def Let_def)

subsection \<open>Properties\<close>

text \<open>
  C23: The candidates are exactly the live trades to reconcile (those needing attention, when
  only these are asked for), attention first. For each, the expected order ids are split into
  reported and missing ones; it needs attention exactly when an id is missing or its status
  contradicts the reports, which is when \<open>build_summary\<close> raises an issue for it.
\<close>

theorem candidates_correct:
  assumes "readable w" "reports_readable w"
  shows "\<exists>cds. list_candidates None only w = (Inr cds, w)
    \<and> mset cds = mset (filter (\<lambda>cd. only \<longrightarrow> rc_needs_attention cd)
        (map (candidate_for (report_index (w_reports w)) (orch_events w)) (live_trades w)))
    \<and> sorted_wrt (\<lambda>x y. candidate_key y \<le> candidate_key x) cds
    \<and> list_all (\<lambda>cd. mset (rc_reported_order_ids cd) + mset (rc_missing_order_ids cd)
         = mset (rc_expected_order_ids cd)) cds
    \<and> (\<forall>r. rc_needs_attention (candidate_for (report_index (w_reports w)) (orch_events w) r)
         = (trade_issues (report_index (w_reports w)) r (expected_order_ids (orch_events w) (lr_trade_id r)) \<noteq> []))"
proof -
  let ?cands = "map (candidate_for (report_index (w_reports w)) (orch_events w)) (live_trades w)"
  let ?cds = "sorted_desc candidate_key (filter (\<lambda>cd. only \<longrightarrow> rc_needs_attention cd) ?cands)"
  have "list_all (\<lambda>cd. mset (rc_reported_order_ids cd) + mset (rc_missing_order_ids cd)
         = mset (rc_expected_order_ids cd)) ?cds"
    by (auto simp: list_all_iff candidate_for_def Let_def available_missing simp del: mset_map)
  then show ?thesis
    using list_candidates_run[OF assms, of only] sorted_sorted_desc[of candidate_key]
    by (intro exI[of _ ?cds]) (simp add: trade_issues_empty)
qed

definition live_record :: ledger_record where
  "live_record = (sample_record ''t1'' Hedged)\<lparr>lr_mode := Live\<rparr>"

definition int_order_event :: audit_event where
  "int_order_event = \<lparr>ev_event_id = ''e1'', ev_event_type = ''execution.live.perp.filled'', ev_severity = Info,
     ev_source = ''execution-orchestrator'', ev_occurred_at = 0, ev_summary = ''Live perp leg filled'',
     ev_payload = [(''trade_id'', PStr ''t1''), (''orderId'', PInt 42), (''status'', PStr ''FILLED'')],
     ev_tags = []\<rparr>"

definition live_world :: world where
  "live_world = (sample_world [live_record])\<lparr>w_events := [int_order_event]\<rparr>"

lemma live_world_readable: "readable live_world" "reports_readable live_world"
  by (simp_all add: live_world_def readable_def reports_readable_def live_record_def valid_ledger_record_def)

theorem candidates_correct_witness:
  "\<exists>cds. list_candidates None True live_world = (Inr cds, live_world)"
  using candidates_correct[OF live_world_readable, of True] by blast

text \<open>
  An order id that the exchange returned as a number is not expected by the index, so
  when no event carries a textual order id no live trade ever needs attention and the
  synchronisation of attention candidates sends no request and imports nothing, although
  \<open>_build_expected_order_requests\<close> would ask for the order.
\<close>

lemma orch_events_all: "list_all P (w_events w) \<Longrightarrow> list_all P (orch_events w)"
  by (auto simp: orch_events_def list_all_iff)

theorem numeric_order_ids_unseen:
  assumes "readable w" "reports_readable w"
    and "list_all (\<lambda>ev. text_order_id ev = None) (w_events w)"
  shows "list_candidates None True w = (Inr [], w) \<and> sync_attention_candidates e cl limit w = (Inr [], w)"
proof -
  have "expected_order_ids (orch_events w) k = []" for k
    by (rule expected_ids_none) (rule orch_events_all[OF assms(3)])
  then have "\<not> rc_needs_attention (candidate_for (report_index (w_reports w)) (orch_events w) r)" for r
    by (simp add: candidate_for_def Let_def missing_ids_def available_reports_def map_filter_simps)
  then have "filter (\<lambda>cd. True \<longrightarrow> rc_needs_attention cd)
        (map (candidate_for (report_index (w_reports w)) (orch_events w)) (live_trades w)) = []"
    by (simp add: filter_empty_conv)
  then have none: "list_candidates None True w = (Inr [], w)"
    using list_candidates_run[OF assms(1,2), of True] by (simp only: sorted_desc_def) simp
  have "limited limit [] = ([] :: candidate list)"
    by (cases limit) (simp_all add: limited_def slice_to_def)
  then show ?thesis using none by (simp add: sync_attention_candidates_def bnd_run ret_run)
qed

theorem numeric_order_ids_unseen_witness:
  "sync_attention_candidates sample_env sample_client None live_world = (Inr [], live_world)
   \<and> length (order_requests live_record (w_events live_world)) = 1"
proof -
  have "list_all (\<lambda>ev. text_order_id ev = None) (w_events live_world)"
    by (simp add: live_world_def int_order_event_def text_order_id_def)
  moreover have "length (order_requests live_record (w_events live_world)) = 1"
    by code_simp
  ultimately show ?thesis
    using numeric_order_ids_unseen[OF live_world_readable, of sample_env sample_client None] by blast
qed

text \<open>
  Storing synchronised reports keeps one report per order id: afterwards the report of
  an order is the last synchronised one, or the last stored one when none was synchronised;
  no order that had a report loses it.
\<close>

lemma update_keyed: "(\<forall>(k, x) \<in> set d. f x = k) \<Longrightarrow> \<forall>(k, y) \<in> set (AList.update (f x) x d). f y = k"
  by (induction d) auto

lemma dict_of_keyed: "\<forall>(k, x) \<in> set (dict_of f xs). f x = k"
proof (induction xs rule: rev_induct)
  case (snoc x xs)
  then show ?case using update_keyed[of "dict_of f xs" f x] by (simp add: dict_of_def)
qed (simp add: dict_of_def)

lemma dict_of_distinct: "distinct (map fst (dict_of f xs))"
  by (induction xs rule: rev_induct) (simp_all add: dict_of_def distinct_update)

lemma dict_of_values:
  "map f (map snd (dict_of f xs)) = map fst (dict_of f xs)"
  using dict_of_keyed[of f xs] by (auto simp: case_prod_beta)

lemma lookup_values:
  assumes "\<forall>(k, x) \<in> set d. f x = k"
  shows "lookup f k (map snd d) = map_of d k"
  using assms by (induction d) (auto simp: lookup_def)

lemma dict_of_values_subset: "set (map snd (dict_of f xs)) \<subseteq> set xs"
proof
  fix x assume "x \<in> set (map snd (dict_of f xs))"
  then have "x \<in> snd ` set (dict_of f xs)" by simp
  then obtain p where p: "p \<in> set (dict_of f xs)" "x = snd p" by (rule imageE)
  then have "map_of (dict_of f xs) (fst p) = Some x"
    using dict_of_distinct[of f xs] by (simp add: map_of_eq_Some_iff)
  then show "x \<in> set xs" by (rule dict_of_Some[THEN conjunct1])
qed

theorem upsert_reports_refines:
  assumes "reports_readable w" "list_all valid_order_report rs"
  shows "\<exists>w'. fst (upsert_reports rs w) = Inr (w_reports w') \<and> snd (upsert_reports rs w) = w'
    \<and> reports_readable w' \<and> distinct (map er_order_id (w_reports w'))
    \<and> lookup er_order_id k (w_reports w') =
        (case find (\<lambda>r. er_order_id r = k) (rev rs) of Some r \<Rightarrow> Some r
         | None \<Rightarrow> find (\<lambda>r. er_order_id r = k) (rev (w_reports w)))"
proof -
  let ?all = "w_reports w @ rs"
  let ?p = "map snd (dict_of er_order_id ?all)"
  have run: "upsert_reports rs w = (Inr ?p, w\<lparr>w_reports := ?p\<rparr>)"
    using assms(1) by (simp add: upsert_reports_def report_save_def py_simps Let_def)
  have "list_all valid_order_report ?p"
  proof -
    have "set ?p \<subseteq> set ?all" by (rule dict_of_values_subset)
    then show ?thesis using assms by (fastforce simp: list_all_iff reports_readable_def)
  qed
  then have rd: "reports_readable (w\<lparr>w_reports := ?p\<rparr>)" by (simp add: reports_readable_def)
  have dist: "distinct (map er_order_id ?p)" using dict_of_distinct dict_of_values by metis
  have find_app: "find P (xs @ ys) = (case find P xs of Some r \<Rightarrow> Some r | None \<Rightarrow> find P ys)" for P :: "order_report \<Rightarrow> bool" and xs ys
    by (induction xs) auto
  have "lookup er_order_id k ?p = find (\<lambda>r. er_order_id r = k) (rev ?all)"
    by (simp only: lookup_values[OF dict_of_keyed] dict_of_get)
  then show ?thesis using run rd dist by (simp add: find_app)
qed

theorem upsert_reports_refines_witness:
  "\<exists>w'. snd (upsert_reports [] (sample_world [])) = w' \<and> reports_readable w'"
proof -
  have "reports_readable (sample_world [])" by (simp add: reports_readable_def)
  then show ?thesis using upsert_reports_refines[of "sample_world []" "[]"] by simp
qed

text \<open>
  The summary adds up: its issues are missing reports and status mismatches, and on a
  ledger with one record per trade the matched trades are exactly the candidates that need
  no attention.
\<close>

lemma issue_type_counts:
  "length (filter (\<lambda>i. is_issue_type i = MissingExchangeReport) is)
   + length (filter (\<lambda>i. is_issue_type i = StatusMismatch) is) = length is"
proof (induction "is")
  case (Cons i "is")
  then show ?case by (cases "is_issue_type i") auto
qed simp

lemma distinct_concat_trades:
  assumes "distinct (map lr_trade_id rs)" "\<And>r i. r \<in> set rs \<Longrightarrow> i \<in> set (f r) \<Longrightarrow> is_trade_id i = lr_trade_id r"
  shows "length (remdups (map is_trade_id (concat (map f rs)))) = length (filter (\<lambda>r. f r \<noteq> []) rs)"
proof -
  have "set (map is_trade_id (concat (map f rs))) = lr_trade_id ` set (filter (\<lambda>r. f r \<noteq> []) rs)"
  proof (intro set_eqI iffI)
    fix k assume "k \<in> set (map is_trade_id (concat (map f rs)))"
    then obtain r i where ri: "r \<in> set rs" "i \<in> set (f r)" "k = is_trade_id i" by auto
    then have "f r \<noteq> []" by auto
    then show "k \<in> lr_trade_id ` set (filter (\<lambda>r. f r \<noteq> []) rs)" using assms(2)[OF ri(1,2)] ri by auto
  next
    fix k assume "k \<in> lr_trade_id ` set (filter (\<lambda>r. f r \<noteq> []) rs)"
    then obtain r where r: "r \<in> set rs" "f r \<noteq> []" "k = lr_trade_id r" by auto
    then obtain i where "i \<in> set (f r)" by (cases "f r") auto
    then show "k \<in> set (map is_trade_id (concat (map f rs)))" using assms(2)[OF r(1)] r by force
  qed
  moreover have "distinct (map lr_trade_id (filter (\<lambda>r. f r \<noteq> []) rs))"
    using assms(1) by (simp add: distinct_map_filter)
  ultimately show ?thesis
    by (metis length_remdups_card_conv distinct_card length_map set_map)
qed

theorem summary_adds_up:
  assumes "readable w" "reports_readable w" "one_per_trade w"
  shows "\<exists>s. build_summary e w = (Inr s, tick w)
    \<and> su_issue_count s = su_missing_exchange_report_count s + su_status_mismatch_count s
    \<and> su_issue_count s = length (su_issues s)
    \<and> su_compared_trade_count s = length (live_trades w)
    \<and> su_matched_trade_count s = length (filter (\<lambda>r.
        \<not> rc_needs_attention (candidate_for (report_index (w_reports w)) (orch_events w) r)) (live_trades w))"
proof -
  let ?ix = "report_index (w_reports w)"
  let ?f = "\<lambda>r. trade_issues ?ix r (expected_order_ids (orch_events w) (lr_trade_id r))"
  let ?issues = "concat (map ?f (live_trades w))"
  obtain s where s: "build_summary e w = (Inr s, tick w)" "su_issues s = ?issues" "su_issue_count s = length ?issues"
    "su_missing_exchange_report_count s = length (filter (\<lambda>i. is_issue_type i = MissingExchangeReport) ?issues)"
    "su_status_mismatch_count s = length (filter (\<lambda>i. is_issue_type i = StatusMismatch) ?issues)"
    "su_compared_trade_count s = length (live_trades w)"
    "su_matched_trade_count s = length (live_trades w) - length (remdups (map is_trade_id ?issues))"
    using assms by (simp add: build_summary_def bnd_run reconciliation_records_run list_orch_events report_list_run
        Let_def utc_now_run ret_run live_trades_def tick_def)
  have "distinct (map lr_trade_id (live_trades w))"
    using assms(3) by (simp add: live_trades_def one_per_trade_def distinct_map_filter)
  then have "length (remdups (map is_trade_id ?issues)) = length (filter (\<lambda>r. ?f r \<noteq> []) (live_trades w))"
    by (rule distinct_concat_trades) (rule trade_issues_trade)
  moreover have "length (live_trades w) = length (filter (\<lambda>r. ?f r \<noteq> []) (live_trades w))
      + length (filter (\<lambda>r. ?f r = []) (live_trades w))"
    using sum_length_filter_compl[of "\<lambda>r. ?f r \<noteq> []" "live_trades w"] by simp
  ultimately have "su_matched_trade_count s = length (filter (\<lambda>r. ?f r = []) (live_trades w))"
    using s(7) by simp
  then show ?thesis
    using s issue_type_counts[of ?issues] by (intro exI[of _ s]) (simp add: trade_issues_empty)
qed

theorem summary_adds_up_witness:
  "\<exists>s. build_summary sample_env live_world = (Inr s, tick live_world) \<and> su_compared_trade_count s = 1"
proof -
  have "one_per_trade live_world" by (simp add: live_world_def one_per_trade_def)
  moreover have "length (live_trades live_world) = 1"
    by (simp add: live_world_def live_trades_def live_record_def reconciled_statuses_def)
  ultimately show ?thesis using summary_adds_up[OF live_world_readable, of sample_env] by auto
qed

end
