(* ===== verification/Hedge.thy ===== *)
theory Hedge
  imports Reports OrchestratorProps
begin

section \<open>Hedge manager\<close>

text \<open>
  \<open>app/hedge/service.py\<close>: health of every active trade, the rebalance plan of one trade and
  the execution of plans through the orchestrator. The reference price comes from the latest
  filled perpetual report of the trade.
\<close>

datatype hedge_health = Healthy | Monitoring | RebalanceRequired | RecoveryRequired

fun health_order :: "hedge_health \<Rightarrow> int" where
  "health_order RecoveryRequired = 0"
| "health_order RebalanceRequired = 1"
| "health_order Monitoring = 2"
| "health_order Healthy = 3"

datatype rebalance_action = NoAction | MonitorOnly | RecoverTrade | IncreasePerp | ReducePerp

fun rebalance_action_str :: "rebalance_action \<Rightarrow> string" where
  "rebalance_action_str NoAction = ''none''"
| "rebalance_action_str MonitorOnly = ''monitor_only''"
| "rebalance_action_str RecoverTrade = ''recover_trade''"
| "rebalance_action_str IncreasePerp = ''increase_perp_hedge''"
| "rebalance_action_str ReducePerp = ''reduce_perp_hedge''"

record hedge_item =
  hi_trade_id :: string
  hi_mode :: trade_mode
  hi_symbol :: string
  hi_status :: trade_status
  hi_health :: hedge_health
  hi_opened_at :: datetime
  hi_spot_notional :: float64
  hi_perp_notional :: float64
  hi_net_exposure :: float64
  hi_exposure_bps :: float64
  hi_latest_event_type :: "string option"
  hi_latest_event_summary :: "string option"
  hi_latest_event_severity :: "severity option"

record hedge_overview =
  ho_generated_at :: datetime
  ho_exposure_limit_bps :: float64
  ho_active_trade_count :: nat
  ho_healthy_count :: nat
  ho_monitoring_count :: nat
  ho_rebalance_required_count :: nat
  ho_recovery_required_count :: nat
  ho_items :: "hedge_item list"

record hedge_plan =
  hp_trade_id :: string
  hp_symbol :: string
  hp_status :: trade_status
  hp_health :: hedge_health
  hp_exposure_limit_bps :: float64
  hp_net_exposure :: float64
  hp_exposure_bps :: float64
  hp_recommended_action :: rebalance_action
  hp_suggested_perp_notional_delta :: float64
  hp_estimated_post_exposure_bps :: float64
  hp_notes :: string

datatype outcome = Executed | Skipped | OutcomeFailed

record rebalance_item =
  ri_trade_id :: string
  ri_symbol :: string
  ri_action :: rebalance_action
  ri_outcome :: outcome
  ri_reason :: string
  ri_details :: pydict

record rebalance_summary =
  rs_generated_at :: datetime
  rs_attempted_count :: nat
  rs_executed_count :: nat
  rs_skipped_count :: nat
  rs_failed_count :: nat
  rs_results :: "rebalance_item list"

definition active_statuses :: "trade_status set" where
  "active_statuses = {Candidate, Open, Hedged, Closing, Failed, RecoveryPending}"

definition recovery_statuses :: "trade_status set" where
  "recovery_statuses = {Failed, RecoveryPending}"

definition monitoring_statuses :: "trade_status set" where
  "monitoring_statuses = {Candidate, Open, Closing}"

definition exposure_bps :: "ledger_record \<Rightarrow> float64" where
  \<comment> \<open>\<open>_calculate_exposure_bps\<close>\<close>
  "exposure_bps r =
     py_round (fmul (fdiv \<bar>lr_net_exposure r\<bar> (max (max (lr_spot_notional r) (lr_perp_notional r)) 1)) 10000) 2"

definition classify_health :: "ledger_record \<Rightarrow> float64 \<Rightarrow> float64 \<Rightarrow> hedge_health" where
  "classify_health r bps limit =
     (if lr_status r \<in> recovery_statuses then RecoveryRequired
      else if lr_status r \<in> monitoring_statuses then Monitoring
      else if limit < bps then RebalanceRequired else Healthy)"

definition hedge_build_item :: "ledger_record \<Rightarrow> audit_event option \<Rightarrow> float64 \<Rightarrow> hedge_item" where
  "hedge_build_item r latest limit =
     (let bps = exposure_bps r in
      \<lparr>hi_trade_id = lr_trade_id r, hi_mode = lr_mode r, hi_symbol = lr_symbol r,
       hi_status = lr_status r, hi_health = classify_health r bps limit,
       hi_opened_at = lr_opened_at r, hi_spot_notional = lr_spot_notional r,
       hi_perp_notional = lr_perp_notional r, hi_net_exposure = lr_net_exposure r,
       hi_exposure_bps = bps,
       hi_latest_event_type = map_option ev_event_type latest,
       hi_latest_event_summary = map_option ev_summary latest,
       hi_latest_event_severity = map_option ev_severity latest\<rparr>)"

definition count_health :: "hedge_health \<Rightarrow> hedge_item list \<Rightarrow> nat" where
  "count_health h items = length (filter (\<lambda>it. hi_health it = h) items)"

definition hedge_overview_of :: "env \<Rightarrow> float64 \<Rightarrow> (world, hedge_overview) py" where
  "hedge_overview_of e limit =
     bnd (list_records None None None None) (\<lambda>rs.
     bnd (list_events None (Some ''execution-orchestrator'') None) (\<lambda>evs.
     let records = filter (\<lambda>r. lr_status r \<in> active_statuses) rs;
         items = map (\<lambda>r. hedge_build_item r (latest_event evs (lr_trade_id r)) limit) records;
         ordered = sorted_by (\<lambda>it. (health_order (hi_health it), hi_opened_at it, hi_trade_id it)) items in
     bnd (utc_now e) (\<lambda>t.
     thn (require (0 \<le> limit) (ValidationError ''HedgeOverview''))
     (ret \<lparr>ho_generated_at = t, ho_exposure_limit_bps = limit, ho_active_trade_count = length ordered,
           ho_healthy_count = count_health Healthy ordered,
           ho_monitoring_count = count_health Monitoring ordered,
           ho_rebalance_required_count = count_health RebalanceRequired ordered,
           ho_recovery_required_count = count_health RecoveryRequired ordered,
           ho_items = ordered\<rparr>))))"

definition plan_of :: "ledger_record \<Rightarrow> float64 \<Rightarrow> hedge_plan" where
  "plan_of r limit =
     (let bps = exposure_bps r; health = classify_health r bps limit;
          plan = (\<lambda>action delta notes.
            \<lparr>hp_trade_id = lr_trade_id r, hp_symbol = lr_symbol r, hp_status = lr_status r,
             hp_health = health, hp_exposure_limit_bps = limit, hp_net_exposure = lr_net_exposure r,
             hp_exposure_bps = bps, hp_recommended_action = action,
             hp_suggested_perp_notional_delta = delta, hp_estimated_post_exposure_bps = 0,
             hp_notes = notes\<rparr>)
      in case health of
           RecoveryRequired \<Rightarrow> plan RecoverTrade 0
             ''Trade is in recovery state and should be reconciled before rebalancing.''
         | Monitoring \<Rightarrow> plan MonitorOnly 0
             ''Trade is still transitioning; monitor execution before rebalancing.''
         | RebalanceRequired \<Rightarrow> plan (if 0 < lr_net_exposure r then IncreasePerp else ReducePerp)
             (py_round (lr_net_exposure r) 4)
             ''Rebalance suggestion assumes perp hedge notional is adjusted to neutralize net exposure.''
         | Healthy \<Rightarrow> plan NoAction 0 ''Exposure is within configured tolerance.'')"

definition build_rebalance_plan :: "string \<Rightarrow> float64 \<Rightarrow> (world, hedge_plan) py" where
  "build_rebalance_plan trade_id limit =
     bnd (get_record trade_id) (\<lambda>found. case found of
       None \<Rightarrow> raise (ValueError (''trade '' @ quoted trade_id @ '' not found in ledger''))
     | Some r \<Rightarrow> thn (require (0 \<le> limit) (ValidationError ''HedgeRebalancePlan'')) (ret (plan_of r limit)))"

definition reference_report :: "order_report list \<Rightarrow> string \<Rightarrow> order_report option" where
  "reference_report rs trade_id =
     (case filter (\<lambda>r. er_trade_id r = Some trade_id \<and> er_leg r = Perp
             \<and> 0 < er_executed_qty r \<and> 0 < er_cum_quote_qty r) rs of
        [] \<Rightarrow> None
      | x # xs \<Rightarrow> Some (max_by (\<lambda>r. (er_updated_at r, er_report_id r)) x xs))"

definition reference_price :: "string \<Rightarrow> (world, float64 option) py" where
  \<comment> \<open>\<open>_infer_latest_perp_reference_price\<close>\<close>
  "reference_price trade_id =
     bnd report_list (\<lambda>rs. ret (case reference_report rs trade_id of None \<Rightarrow> None
       | Some r \<Rightarrow> Some (fdiv (er_cum_quote_qty r) (er_executed_qty r))))"

definition rebalances :: "rebalance_action \<Rightarrow> bool" where
  "rebalances a \<longleftrightarrow> a \<in> {IncreasePerp, ReducePerp}"

definition rebalance_quantity :: "float64 \<Rightarrow> float64 \<Rightarrow> float64" where
  "rebalance_quantity delta price = py_round (fdiv \<bar>delta\<bar> price) 6"

definition execute_plan_item :: "env \<Rightarrow> orchestrator \<Rightarrow> hedge_plan \<Rightarrow> (world, rebalance_item) py" where
  \<comment> \<open>one turn of the loop of \<open>execute_auto_rebalance_actions\<close>\<close>
  "execute_plan_item e c p =
     (let item = (\<lambda>oc reason details. \<lparr>ri_trade_id = hp_trade_id p, ri_symbol = hp_symbol p,
            ri_action = hp_recommended_action p, ri_outcome = oc, ri_reason = reason, ri_details = details\<rparr>);
          delta = hp_suggested_perp_notional_delta p in
      if delta = 0 then
        ret (item Skipped ''missing suggested_perp_notional_delta for rebalance action'' [])
      else bnd (reference_price (hp_trade_id p)) (\<lambda>price. case price of
          None \<Rightarrow> ret (item Skipped ''cannot infer perp reference price for rebalance action'' [])
        | Some px \<Rightarrow>
            if px \<le> 0 then
              ret (item Skipped ''cannot infer perp reference price for rebalance action'' [])
            else
              let quantity = rebalance_quantity delta px;
                  priced = [(''reference_price'', PFloat px)];
                  details = priced @ [(''perp_quantity'', PFloat quantity)] in
              if quantity \<le> 0 then ret (item Skipped ''calculated perp quantity is zero'' priced)
              else bnd (attempt (rebalance_hedge e c (hp_trade_id p) delta quantity (Some ''auto hedge rebalance'')))
                (\<lambda>r. case r of
                   Inl exc \<Rightarrow> ret (item OutcomeFailed (exc_str exc) details)
                 | Inr _ \<Rightarrow> ret (item Executed ''executed hedge rebalance'' details))))"

definition count_outcome :: "outcome \<Rightarrow> rebalance_item list \<Rightarrow> nat" where
  "count_outcome oc items = length (filter (\<lambda>it. ri_outcome it = oc) items)"

definition auto_rebalance_plans ::
  "string option \<Rightarrow> int option \<Rightarrow> float64 \<Rightarrow> (world, hedge_plan list) py" where
  "auto_rebalance_plans symbol limit exposure_limit =
     bnd (list_records None None None symbol) (\<lambda>rs.
     bnd (for_map (\<lambda>r. build_rebalance_plan (lr_trade_id r) exposure_limit)
            (filter (\<lambda>r. lr_status r \<in> active_statuses) rs)) (\<lambda>plans.
     ret (limited limit (sorted_desc (\<lambda>p. (hp_exposure_bps p, hp_trade_id p))
            (filter (\<lambda>p. rebalances (hp_recommended_action p)) plans)))))"

definition execute_auto_rebalance_actions ::
  "env \<Rightarrow> orchestrator \<Rightarrow> string option \<Rightarrow> int option \<Rightarrow> float64 \<Rightarrow> (world, rebalance_summary) py" where
  "execute_auto_rebalance_actions e c symbol limit exposure_limit =
     bnd (auto_rebalance_plans symbol limit exposure_limit) (\<lambda>plans.
     bnd (for_map (execute_plan_item e c) plans) (\<lambda>results.
     bnd (utc_now e) (\<lambda>t.
     ret \<lparr>rs_generated_at = t, rs_attempted_count = length plans,
          rs_executed_count = count_outcome Executed results,
          rs_skipped_count = count_outcome Skipped results,
          rs_failed_count = count_outcome OutcomeFailed results,
          rs_results = results\<rparr>)))"

definition execute_rebalance_plan ::
  "env \<Rightarrow> orchestrator \<Rightarrow> string \<Rightarrow> float64 \<Rightarrow> string option \<Rightarrow> (world, execution_result) py" where
  "execute_rebalance_plan e c trade_id exposure_limit notes =
     bnd (build_rebalance_plan trade_id exposure_limit) (\<lambda>p.
     thn (require (rebalances (hp_recommended_action p) \<and> hp_suggested_perp_notional_delta p \<noteq> 0)
            (ValueError (''trade '' @ quoted trade_id @ '' does not currently require hedge rebalance'')))
     (bnd (reference_price trade_id) (\<lambda>price. case price of
        None \<Rightarrow> raise (ValueError (''trade '' @ quoted trade_id @ '' cannot infer perp reference price for hedge rebalance''))
      | Some px \<Rightarrow>
          thn (require (0 < px)
                 (ValueError (''trade '' @ quoted trade_id @ '' cannot infer perp reference price for hedge rebalance'')))
          (let quantity = rebalance_quantity (hp_suggested_perp_notional_delta p) px in
           thn (require (0 < quantity)
                  (ValueError (''trade '' @ quoted trade_id @ '' calculated perp quantity is zero'')))
             (rebalance_hedge e c trade_id (hp_suggested_perp_notional_delta p) quantity notes)))))"


subsection \<open>Plans\<close>

lemma plan_fields [simp]:
  "hp_trade_id (plan_of r limit) = lr_trade_id r"
  "hp_net_exposure (plan_of r limit) = lr_net_exposure r"
  "hp_exposure_bps (plan_of r limit) = exposure_bps r"
  "hp_health (plan_of r limit) = classify_health r (exposure_bps r) limit"
  by (simp_all add: plan_of_def Let_def split: hedge_health.splits)

lemma plan_rebalances:
  "rebalances (hp_recommended_action (plan_of r limit)) \<longleftrightarrow>
     lr_status r \<notin> recovery_statuses \<union> monitoring_statuses \<and> limit < exposure_bps r"
  by (auto simp: plan_of_def Let_def classify_health_def rebalances_def split: hedge_health.splits)

lemma plan_delta:
  "rebalances (hp_recommended_action (plan_of r limit)) \<Longrightarrow>
   hp_suggested_perp_notional_delta (plan_of r limit) = py_round (lr_net_exposure r) 4"
  by (auto simp: plan_of_def Let_def rebalances_def split: hedge_health.splits)

lemma build_plan_run:
  assumes "readable w"
  shows "build_rebalance_plan k limit w = (case ledger_map w k of
      None \<Rightarrow> (Inl (ValueError (''trade '' @ quoted k @ '' not found in ledger'')), w)
    | Some r \<Rightarrow> if 0 \<le> limit then (Inr (plan_of r limit), w)
                else (Inl (ValidationError ''HedgeRebalancePlan''), w))"
  using assms by (simp add: build_rebalance_plan_def py_simps ledger_map_def split: option.splits)

lemma exposure_zero: "lr_net_exposure r = 0 \<Longrightarrow> exposure_bps r = 0"
  by (simp add: exposure_bps_def)

lemma exposure_nonneg: "0 \<le> exposure_bps r"
  unfolding exposure_bps_def
  by (intro dec.rd_nonneg fmul_nonneg fdiv_nonneg) (simp_all add: max_def)

lemma execute_plan_item_fields:
  assumes "execute_plan_item e c p w = (Inr it, w')"
  shows "ri_trade_id it = hp_trade_id p \<and> ri_action it = hp_recommended_action p"
  using assms
  by (auto simp: execute_plan_item_def Let_def py_simps split: if_splits option.splits sum.splits prod.splits)

subsection \<open>Properties\<close>

text \<open>
  C20. Executing the plan of a drifted paper hedge neutralises it: the call succeeds, the perp
  notional moves by the net exposure, the stored net exposure is zero, the ledger stays
  readable and the trade then classifies as healthy. This holds for a hedged paper trade with
  an exposure above the limit when the ledger and the order reports are readable and
  \<^item> its net exposure has at most four decimals (the suggested delta is rounded to four);
  \<^item> one of its reports gives a reference price, which is positive;
  \<^item> the quantity at that price, as it is rounded, is not zero;
  \<^item> the perp notional that results is not negative (the record could not be read again).
\<close>

theorem hedge_plan_neutralises:
  assumes "readable w" "ledger_map w k = Some r" "lr_mode r = Paper" "lr_status r = Hedged" "0 \<le> limit"
    and "limit < exposure_bps r" "py_round (lr_net_exposure r) 4 = lr_net_exposure r"
    and "reports_readable w" "reference_report (w_reports w) k = Some p"
    and "0 < rebalance_quantity (lr_net_exposure r) (fdiv (er_cum_quote_qty p) (er_executed_qty p))"
    and "0 < fdiv (er_cum_quote_qty p) (er_executed_qty p)"
    and "0 \<le> py_round (fadd (lr_perp_notional r) (lr_net_exposure r)) 4"
  shows "\<exists>res w' r'. execute_rebalance_plan e c k limit notes w = (Inr res, w') \<and> readable w'
    \<and> ledger_map w' k = Some r' \<and> lr_status r' = Hedged \<and> lr_net_exposure r' = 0
    \<and> lr_perp_notional r' = py_round (fadd (lr_perp_notional r) (lr_net_exposure r)) 4
    \<and> classify_health r' (exposure_bps r') limit = Healthy"
proof -
  let ?d = "lr_net_exposure r"
  have reb: "rebalances (hp_recommended_action (plan_of r limit))"
    using assms(4,6) by (simp add: plan_rebalances recovery_statuses_def monitoring_statuses_def)
  have delta: "hp_suggested_perp_notional_delta (plan_of r limit) = ?d" using plan_delta[OF reb] assms(7) by simp
  have d: "?d \<noteq> 0" using assms(5,6) exposure_zero[of r] by auto
  let ?q = "rebalance_quantity ?d (fdiv (er_cum_quote_qty p) (er_executed_qty p))"
  let ?r' = "rebalanced r ?d notes"
  have id: "lr_trade_id r = k" "valid_ledger_record r" using readable_valid[OF assms(1,2)] by auto
  have found: "get_record k (tick w) = (Inr (Some r), tick w)"
    using assms(1,2) by (simp add: get_record_run ledger_map_def)
  have net: "lr_net_exposure ?r' = 0" by (simp add: rebalanced_def)
  have val: "valid_ledger_record ?r'" using id(2) assms(12) by (simp add: rebalanced_def valid_ledger_record_def)
  obtain x w' where run: "rebalance_hedge e c k ?d ?q notes w = (Inr x, w')"
    "ledger_map w' = (ledger_map w)(k \<mapsto> ?r')" "readable w'"
    using assms(1,3,4,10) d id found val
    by (auto simp: rebalance_hedge_def bnd_run utc_now_run thn_run require_run Let_def orch_event_run
        save_record_run ret_run rebalanced_def simp flip: tick_def)
  have "execute_rebalance_plan e c k limit notes w = (Inr x, w')"
    using assms(1,2,5,8-11) reb delta d run(1)
    by (simp add: execute_rebalance_plan_def bnd_run build_plan_run thn_run require_run reference_price_def
        report_list_run ret_run Let_def)
  moreover have "classify_health ?r' (exposure_bps ?r') limit = Healthy"
    using exposure_zero[OF net] assms(5)
    by (simp add: classify_health_def rebalanced_def recovery_statuses_def monitoring_statuses_def)
  ultimately show ?thesis using run(2,3) net by (auto simp: rebalanced_def)
qed

definition tilted_record :: ledger_record where
  "tilted_record = (sample_record ''t1'' Hedged)\<lparr>lr_spot_notional := 1500, lr_net_exposure := 500\<rparr>"

definition perp_report :: order_report where
  "perp_report = \<lparr>er_report_id = ''r1'', er_venue = ''binance'', er_order_id = ''7'',
     er_client_order_id = None, er_trade_id = Some ''t1'', er_symbol = ''BTCUSDT'', er_leg = Perp,
     er_status = ''FILLED'', er_executed_qty = 10, er_cum_quote_qty = 1000, er_updated_at = 0\<rparr>"

definition tilted_world :: world where
  "tilted_world = (sample_world [tilted_record])\<lparr>w_reports := [perp_report]\<rparr>"

theorem hedge_plan_neutralises_witness:
  "\<exists>res w' r'. execute_rebalance_plan sample_env sample_orchestrator ''t1'' 50 None tilted_world = (Inr res, w')
    \<and> ledger_map w' ''t1'' = Some r' \<and> lr_net_exposure r' = 0 \<and> lr_perp_notional r' = 1500"
proof -
  have t: "lr_trade_id tilted_record = ''t1''" "lr_mode tilted_record = Paper" "lr_status tilted_record = Hedged"
    "lr_net_exposure tilted_record = 500" "lr_spot_notional tilted_record = 1500" "lr_perp_notional tilted_record = 1000"
    by (simp_all add: tilted_record_def)
  have w: "readable tilted_world" "ledger_map tilted_world ''t1'' = Some tilted_record"
    "reports_readable tilted_world" "reference_report (w_reports tilted_world) ''t1'' = Some perp_report"
    by (simp_all add: tilted_world_def readable_def valid_ledger_record_def t ledger_map_def lookup_def
        reports_readable_def valid_order_report_def perp_report_def reference_report_def)
  have "exposure_bps tilted_record = py_round (fmul (fdiv 500 1500) 10000) 2"
    by (simp add: exposure_bps_def t)
  moreover have "50 < py_round (fmul (fdiv 500 1500) 10000) 2" "py_round 500 4 = 500" "fdiv 1000 10 = 100"
    "0 < rebalance_quantity 500 100" "py_round (fadd 1000 500) 4 = 1500"
    by code_simp+
  ultimately show ?thesis
    using hedge_plan_neutralises[OF w(1,2) t(2,3) _ _ _ w(3,4), of 50 sample_env sample_orchestrator None]
    by (auto simp: t perp_report_def)
qed

text \<open>
  Automatic rebalancing accounts for every plan: results are as many as plans, executed,
  skipped and failed add up to the attempted, at most \<open>limit\<close> are attempted, and only
  increase and reduce actions are.
\<close>

lemma outcome_counts: "count_outcome Executed its + count_outcome Skipped its + count_outcome OutcomeFailed its = length its"
proof (induction its)
  case (Cons it its)
  then show ?case by (cases "ri_outcome it") (simp_all add: count_outcome_def)
qed (simp add: count_outcome_def)

lemma auto_plans_rebalance:
  assumes "auto_rebalance_plans symbol limit x w = (Inr plans, w')"
  shows "(\<forall>p\<in>set plans. rebalances (hp_recommended_action p))
    \<and> (\<forall>n. limit = Some n \<longrightarrow> 0 \<le> n \<longrightarrow> length plans \<le> nat n)"
  using assms limited_subset[of limit] length_limited
  by (fastforce simp: auto_rebalance_plans_def py_simps split: sum.splits prod.splits)

theorem auto_rebalance_accounts:
  assumes "execute_auto_rebalance_actions e c symbol (Some n) x w = (Inr s, w')"
  shows "length (rs_results s) = rs_attempted_count s
    \<and> rs_executed_count s + rs_skipped_count s + rs_failed_count s = rs_attempted_count s
    \<and> (0 \<le> n \<longrightarrow> rs_attempted_count s \<le> nat n)
    \<and> list_all (\<lambda>it. rebalances (ri_action it)) (rs_results s)"
proof -
  obtain plans w1 where plans: "auto_rebalance_plans symbol (Some n) x w = (Inr plans, w1)"
    using assms by (cases "auto_rebalance_plans symbol (Some n) x w")
      (auto simp: execute_auto_rebalance_actions_def py_simps split: sum.splits)
  obtain results w2 where results: "for_map (execute_plan_item e c) plans w1 = (Inr results, w2)"
    using assms plans by (cases "for_map (execute_plan_item e c) plans w1")
      (auto simp: execute_auto_rebalance_actions_def py_simps split: sum.splits)
  have s: "rs_results s = results" "rs_attempted_count s = length plans"
    "rs_executed_count s = count_outcome Executed results" "rs_skipped_count s = count_outcome Skipped results"
    "rs_failed_count s = count_outcome OutcomeFailed results"
    using assms plans results by (auto simp: execute_auto_rebalance_actions_def py_simps)
  have rel: "list_all2 (\<lambda>p it. ri_action it = hp_recommended_action p) plans results"
    by (rule for_map_rel[OF results]) (simp add: execute_plan_item_fields)
  have "list_all (\<lambda>it. rebalances (ri_action it)) results"
    using rel auto_plans_rebalance[OF plans] by (auto simp: list_all_length list_all2_conv_all_nth)
  then show ?thesis
    using s outcome_counts[of results] list_all2_lengthD[OF rel] auto_plans_rebalance[OF plans] by simp
qed

theorem auto_rebalance_accounts_witness:
  "\<exists>s w'. execute_auto_rebalance_actions sample_env sample_orchestrator None (Some 3) 50 (sample_world []) = (Inr s, w')
     \<and> rs_attempted_count s \<le> 3"
proof -
  obtain s w' where "execute_auto_rebalance_actions sample_env sample_orchestrator None (Some 3) 50 (sample_world []) = (Inr s, w')"
    by (simp add: execute_auto_rebalance_actions_def auto_rebalance_plans_def py_simps sample_readable
        sorted_desc_def limited_def slice_to_def)
  then show ?thesis using auto_rebalance_accounts by fastforce
qed

text \<open>
  The overview lists every active trade of the ledger once, worst health first, and its
  four counters add up to the number of active trades.
\<close>

lemma health_counts:
  "count_health Healthy its + count_health Monitoring its + count_health RebalanceRequired its
   + count_health RecoveryRequired its = length its"
proof (induction its)
  case (Cons it its)
  then show ?case by (cases "hi_health it") (simp_all add: count_health_def)
qed (simp add: count_health_def)

lemma sorted_by_fst:
  assumes "sorted (map (\<lambda>x. (f x, g x)) xs)"
  shows "sorted (map f xs)"
  using assms by (auto simp: sorted_iff_nth_mono less_eq_prod_def) (metis le_less order_refl)

theorem overview_complete:
  assumes "readable w" "0 \<le> limit"
  shows "\<exists>ov w'. hedge_overview_of e limit w = (Inr ov, w')
    \<and> mset (map hi_trade_id (ho_items ov))
        = mset (map lr_trade_id (filter (\<lambda>r. lr_status r \<in> active_statuses) (w_ledger w)))
    \<and> sorted (map (\<lambda>it. health_order (hi_health it)) (ho_items ov))
    \<and> ho_healthy_count ov + ho_monitoring_count ov + ho_rebalance_required_count ov
        + ho_recovery_required_count ov = ho_active_trade_count ov
    \<and> ho_active_trade_count ov = length (ho_items ov)"
proof -
  obtain evs where evs: "list_events None (Some ''execution-orchestrator'') None w = (Inr evs, w)"
    by (simp add: list_events_def gets_run)
  let ?items = "map (\<lambda>r. hedge_build_item r (latest_event evs (lr_trade_id r)) limit)
      (filter (\<lambda>r. lr_status r \<in> active_statuses) (w_ledger w))"
  let ?key = "\<lambda>it. (health_order (hi_health it), hi_opened_at it, hi_trade_id it)"
  let ?ordered = "sorted_by ?key ?items"
  have run: "\<exists>ov. hedge_overview_of e limit w = (Inr ov, tick w) \<and> ho_items ov = ?ordered
      \<and> ho_active_trade_count ov = length ?ordered
      \<and> ho_healthy_count ov = count_health Healthy ?ordered \<and> ho_monitoring_count ov = count_health Monitoring ?ordered
      \<and> ho_rebalance_required_count ov = count_health RebalanceRequired ?ordered
      \<and> ho_recovery_required_count ov = count_health RecoveryRequired ?ordered"
    using assms by (simp add: hedge_overview_of_def bnd_run list_records_all evs Let_def thn_run require_run
        utc_now_run ret_run tick_def)
  have "mset (map hi_trade_id ?ordered) = mset (map hi_trade_id ?items)"
    by (simp only: mset_map sorted_by_def mset_sort)
  also have "map hi_trade_id ?items = map lr_trade_id (filter (\<lambda>r. lr_status r \<in> active_statuses) (w_ledger w))"
    by (simp add: hedge_build_item_def Let_def)
  finally have ids: "mset (map hi_trade_id ?ordered)
      = mset (map lr_trade_id (filter (\<lambda>r. lr_status r \<in> active_statuses) (w_ledger w)))" .
  have srt: "sorted (map (\<lambda>it. health_order (hi_health it)) ?ordered)"
    by (rule sorted_by_fst[where g = "\<lambda>it. (hi_opened_at it, hi_trade_id it)"]) (rule sorted_sorted_by)
  obtain ov where ov: "hedge_overview_of e limit w = (Inr ov, tick w)" "ho_items ov = ?ordered"
      "ho_active_trade_count ov = length ?ordered"
      "ho_healthy_count ov = count_health Healthy ?ordered" "ho_monitoring_count ov = count_health Monitoring ?ordered"
      "ho_rebalance_required_count ov = count_health RebalanceRequired ?ordered"
      "ho_recovery_required_count ov = count_health RecoveryRequired ?ordered"
    using run by blast
  show ?thesis
    by (intro exI conjI, rule ov(1)) (simp_all only: ov(2-) ids srt health_counts)
qed

theorem overview_complete_witness:
  "\<exists>ov w'. hedge_overview_of sample_env 50 tilted_world = (Inr ov, w') \<and> ho_active_trade_count ov = length (ho_items ov)"
proof -
  have "readable tilted_world"
    by (simp add: tilted_world_def readable_def valid_ledger_record_def tilted_record_def)
  then show ?thesis using overview_complete[of tilted_world 50 sample_env] by auto
qed

end
