(* ===== verification/Recovery.thy ===== *)
theory Recovery
  imports Reconciliation Hedge
begin

section \<open>Recovery planner\<close>

text \<open>
  \<open>app/recovery/service.py\<close>: a plan for every failed or recovery-pending trade, from the
  audit log and the reconciliation candidates, and the execution of the actionable plans
  through the orchestrator's \<open>recover\<close>.
\<close>

datatype recommended = RecResumeOpen | RecResumeClose | ManualReview

fun recommended_str :: "recommended \<Rightarrow> string" where
  "recommended_str RecResumeOpen = ''resume_open''"
| "recommended_str RecResumeClose = ''resume_close''"
| "recommended_str ManualReview = ''manual_review''"

record recovery_plan =
  rp_trade_id :: string
  rp_mode :: trade_mode
  rp_symbol :: string
  rp_status :: trade_status
  rp_recommended_action :: recommended
  rp_auto_executable :: bool
  rp_latest_event_type :: "string option"
  rp_latest_event_summary :: "string option"
  rp_missing_order_ids :: "string list"
  rp_exchange_statuses :: "string list"
  rp_reasons :: "string list"

record recovery_skip =
  rk_trade_id :: string
  rk_reason :: string

record recovery_summary =
  ry_generated_at :: datetime
  ry_attempted_count :: nat
  ry_executed_count :: nat
  ry_skipped_count :: nat
  ry_results :: "execution_result list"
  ry_skipped :: "recovery_skip list"

definition recoverable_statuses :: "trade_status set" where
  "recoverable_statuses = {Failed, RecoveryPending}"

definition recovery_latest_event :: "audit_event list \<Rightarrow> string \<Rightarrow> audit_event option" where
  \<comment> \<open>\<open>_build_latest_event_index\<close>: of several events at the latest time, the first\<close>
  "recovery_latest_event evs k =
     fold (\<lambda>ev prev. if event_trade ev \<noteq> Some k then prev
             else (case prev of None \<Rightarrow> Some ev
               | Some p \<Rightarrow> if ev_occurred_at p < ev_occurred_at ev then Some ev else prev)) evs None"

definition event_action :: "audit_event \<Rightarrow> string option" where
  "event_action ev = (case map_of (ev_payload ev) ''action'' of Some (PStr a) \<Rightarrow> Some a | _ \<Rightarrow> None)"

definition intent_action :: "audit_event list \<Rightarrow> string \<Rightarrow> string option" where
  \<comment> \<open>\<open>_build_intent_action_index\<close>\<close>
  "intent_action evs k =
     map_option snd (fold (\<lambda>ev prev.
       if ev_event_type ev \<noteq> ''execution.intent.received'' \<or> event_trade ev \<noteq> Some k then prev
       else (case event_action ev of None \<Rightarrow> prev
         | Some a \<Rightarrow> (case prev of None \<Rightarrow> Some (ev_occurred_at ev, a)
             | Some (t, _) \<Rightarrow> if t < ev_occurred_at ev then Some (ev_occurred_at ev, a) else prev))) evs None)"

definition infer_recovery_action :: "string option \<Rightarrow> audit_event option \<Rightarrow> recommended" where
  "infer_recovery_action latest_intent latest =
     (if latest_intent = Some ''close_hedge'' then RecResumeClose
      else if (case latest of None \<Rightarrow> False | Some ev \<Rightarrow> contains ''close'' (ev_event_type ev)) then RecResumeClose
      else RecResumeOpen)"

definition recovery_build_plan ::
  "ledger_record \<Rightarrow> audit_event option \<Rightarrow> string option \<Rightarrow> candidate option \<Rightarrow> recovery_plan" where
  "recovery_build_plan r latest latest_intent cand =
     (let plan = (\<lambda>action auto missing statuses reasons.
        \<lparr>rp_trade_id = lr_trade_id r, rp_mode = lr_mode r, rp_symbol = lr_symbol r,
         rp_status = lr_status r, rp_recommended_action = action, rp_auto_executable = auto,
         rp_latest_event_type = map_option ev_event_type latest,
         rp_latest_event_summary = map_option ev_summary latest,
         rp_missing_order_ids = missing, rp_exchange_statuses = statuses, rp_reasons = reasons\<rparr>) in
      if lr_mode r = Paper then
        plan (infer_recovery_action latest_intent latest) True [] []
          [''paper trade can use deterministic recovery flow'']
      else (case cand of
          None \<Rightarrow> plan ManualReview False [] []
            [''live trade requires reconciliation context before auto recovery'']
        | Some cd \<Rightarrow>
            let missing = rc_missing_order_ids cd; statuses = rc_exchange_statuses cd in
            if missing \<noteq> [] then
              plan ManualReview False missing statuses [''missing exchange reports require operator review'']
            else (case rc_suggested_action cd of
                InspectExchange \<Rightarrow> plan ManualReview False missing statuses
                  [''exchange or local status mismatch requires operator review'']
              | SuggestResumeOpen \<Rightarrow> plan RecResumeOpen True missing statuses
                  [''reconciliation suggests resume_open'']
              | SuggestResumeClose \<Rightarrow> plan RecResumeClose True missing statuses
                  [''reconciliation suggests resume_close'']
              | SuggestNone \<Rightarrow> plan ManualReview False missing statuses
                  [''live trade requires explicit reconciliation recovery action''])))"

definition plan_key :: "recovery_plan \<Rightarrow> bool \<times> bool \<times> string" where
  "plan_key p = (\<not> rp_auto_executable p, rp_mode p \<noteq> Paper, rp_trade_id p)"

definition recovery_list_plans :: "string option \<Rightarrow> bool \<Rightarrow> (world, recovery_plan list) py" where
  "recovery_list_plans symbol only_actionable =
     bnd (list_records None None None symbol) (\<lambda>rs.
     bnd (list_events None (Some ''execution-orchestrator'') None) (\<lambda>evs.
     bnd (list_candidates None False) (\<lambda>cds.
     let records = filter (\<lambda>r. lr_status r \<in> recoverable_statuses) rs;
         cand = map_of (dict_of rc_trade_id cds);
         plans = map (\<lambda>r. recovery_build_plan r (recovery_latest_event evs (lr_trade_id r))
                   (intent_action evs (lr_trade_id r)) (cand (lr_trade_id r))) records
     in ret (sorted_by plan_key (filter (\<lambda>p. only_actionable \<longrightarrow> rp_auto_executable p) plans)))))"

definition recovery_action_of :: "recommended \<Rightarrow> (world, recovery_action) py" where
  \<comment> \<open>the \<open>action\<close> field of \<open>ExecutionRecoveryRequest\<close>\<close>
  "recovery_action_of a = (case a of RecResumeOpen \<Rightarrow> ret ResumeOpen | RecResumeClose \<Rightarrow> ret ResumeClose
     | ManualReview \<Rightarrow> raise (ValidationError ''ExecutionRecoveryRequest''))"

definition execute_recovery_plan ::
  "env \<Rightarrow> recovery_plan \<Rightarrow> (world, recovery_skip + execution_result) py" where
  "execute_recovery_plan e p =
     catch (bnd (recovery_action_of (rp_recommended_action p)) (\<lambda>a.
            bnd (recover e \<lparr>rr_trade_id = rp_trade_id p, rr_action = a,
                   rr_notes = Some ''auto recovery from recovery planner''\<rparr>) (\<lambda>x. ret (Inr x))))
       is_value_error
       (\<lambda>exc. ret (Inl \<lparr>rk_trade_id = rp_trade_id p, rk_reason = exc_str exc\<rparr>))"

definition lefts :: "('a + 'b) list \<Rightarrow> 'a list" where
  "lefts xs = List.map_filter (\<lambda>x. case x of Inl a \<Rightarrow> Some a | Inr _ \<Rightarrow> None) xs"

definition rights :: "('a + 'b) list \<Rightarrow> 'b list" where
  "rights xs = List.map_filter (\<lambda>x. case x of Inl _ \<Rightarrow> None | Inr b \<Rightarrow> Some b) xs"

definition execute_actionable_plans ::
  "env \<Rightarrow> int option \<Rightarrow> string option \<Rightarrow> string set option \<Rightarrow> (world, recovery_summary) py" where
  "execute_actionable_plans e limit symbol trade_ids =
     bnd (recovery_list_plans symbol True) (\<lambda>plans.
     let plans = (case trade_ids of None \<Rightarrow> plans | Some ks \<Rightarrow> filter (\<lambda>p. rp_trade_id p \<in> ks) plans);
         plans = limited limit plans in
     bnd (for_map (execute_recovery_plan e) plans) (\<lambda>outcomes.
     bnd (utc_now e) (\<lambda>t.
     ret \<lparr>ry_generated_at = t, ry_attempted_count = length plans,
          ry_executed_count = length (rights outcomes), ry_skipped_count = length (lefts outcomes),
          ry_results = rights outcomes, ry_skipped = lefts outcomes\<rparr>)))"

subsection \<open>Facts about plans\<close>

lemma lefts_rights: "length (lefts xs) + length (rights xs) = length xs"
  by (induction xs) (auto simp: lefts_def rights_def map_filter_simps split: sum.splits)

lemma plan_auto:
  "rp_auto_executable (recovery_build_plan r latest li cand) \<longleftrightarrow>
     rp_recommended_action (recovery_build_plan r latest li cand) \<noteq> ManualReview"
  by (auto simp: recovery_build_plan_def Let_def infer_recovery_action_def
      split: option.splits suggested_action.splits)

lemma recovery_plan_fields [simp]:
  "rp_trade_id (recovery_build_plan r latest li cand) = lr_trade_id r"
  "rp_status (recovery_build_plan r latest li cand) = lr_status r"
  "rp_mode (recovery_build_plan r latest li cand) = lr_mode r"
  by (auto simp: recovery_build_plan_def Let_def split: option.splits suggested_action.splits)

lemma candidate_suggests:
  "rc_suggested_action (candidate_for ix evs r) = SuggestResumeClose \<Longrightarrow> lr_status r = Closed"
  "rc_suggested_action (candidate_for ix evs r) = SuggestResumeOpen \<Longrightarrow>
     lr_status r \<in> {Failed, RecoveryPending}
     \<and> normalized_statuses (rc_exchange_statuses (candidate_for ix evs r)) = {''filled''}"
  by (auto simp: candidate_for_def Let_def suggest_action_def split: if_splits)

lemma steps_list_candidates [steps]:
  "steps_in log_grows (list_candidates a b)" "steps_in silent (list_candidates a b)"
  "steps_in ledger_kept (list_candidates a b)" "steps_in safety_kept (list_candidates a b)"
  unfolding list_candidates_def reconciliation_records_def Let_def by (intro steps)+

lemma steps_recovery [steps]:
  "steps_in log_grows (recovery_list_plans a b)" "steps_in silent (recovery_list_plans a b)"
  "steps_in ledger_kept (recovery_list_plans a b)" "steps_in safety_kept (recovery_list_plans a b)"
  unfolding recovery_list_plans_def Let_def by (intro steps)+

lemma steps_execute_recovery [steps]:
  "steps_in log_grows (execute_actionable_plans e l s ts)" "steps_in silent (execute_actionable_plans e l s ts)"
  "steps_in safety_kept (execute_actionable_plans e l s ts)"
  unfolding execute_actionable_plans_def execute_recovery_plan_def recovery_action_of_def Let_def
  by (intro steps; (rule log_fx.steps_catch silent_fx.steps_catch safety_fx.steps_catch)?;
      (intro steps)?; (auto split: recommended.split intro: steps)?)+


lemma candidate_trade_id [simp]: "rc_trade_id (candidate_for ix evs r) = lr_trade_id r"
  by (simp add: candidate_for_def Let_def)

lemma same_trade: "one_per_trade w \<Longrightarrow> r \<in> set (w_ledger w) \<Longrightarrow> r' \<in> set (w_ledger w) \<Longrightarrow>
    lr_trade_id r = lr_trade_id r' \<Longrightarrow> r = r'"
  unfolding one_per_trade_def distinct_map inj_on_def by blast

definition plan_sound :: "recovery_plan \<Rightarrow> bool" where
  "plan_sound p \<longleftrightarrow> rp_status p \<in> recoverable_statuses
     \<and> (rp_auto_executable p \<longleftrightarrow> rp_recommended_action p \<noteq> ManualReview)
     \<and> (if rp_mode p = Live \<and> rp_auto_executable p
        then rp_recommended_action p = RecResumeOpen \<and> rp_missing_order_ids p = []
          \<and> normalized_statuses (rp_exchange_statuses p) = {''filled''} else True)"

lemma plan_sound_of:
  assumes "lr_status r \<in> recoverable_statuses" "cand = None \<or> cand = Some cd"
    and "rc_suggested_action cd \<noteq> SuggestResumeClose"
    and "rc_suggested_action cd = SuggestResumeOpen \<Longrightarrow> normalized_statuses (rc_exchange_statuses cd) = {''filled''}"
  shows "plan_sound (recovery_build_plan r latest li cand)"
proof (cases "lr_mode r")
  case Paper
  then show ?thesis using assms(1) by (simp add: plan_sound_def plan_auto[symmetric])
next
  case Live
  show ?thesis
  proof (cases cand)
    case None
    then show ?thesis using assms(1) Live by (simp add: plan_sound_def recovery_build_plan_def)
  next
    case (Some cd')
    then have "cd' = cd" using assms(2) by simp
    then show ?thesis using assms(1,3,4) Live Some
      by (cases "rc_suggested_action cd"; cases "rc_missing_order_ids cd")
        (simp_all add: plan_sound_def recovery_build_plan_def Let_def)
  qed
qed

lemma live_plan_sound:
  assumes "lr_status r \<in> recoverable_statuses" "cand = None \<or> cand = Some (candidate_for ix evs r)"
  shows "plan_sound (recovery_build_plan r latest li cand)"
proof (rule plan_sound_of[OF assms])
  show "rc_suggested_action (candidate_for ix evs r) \<noteq> SuggestResumeClose"
    using assms(1) candidate_suggests(1)[of ix evs r] by (auto simp: recoverable_statuses_def)
  show "rc_suggested_action (candidate_for ix evs r) = SuggestResumeOpen \<Longrightarrow>
      normalized_statuses (rc_exchange_statuses (candidate_for ix evs r)) = {''filled''}"
    using candidate_suggests(2) by blast
qed

lemma recovery_list_plans_run:
  assumes "readable w" "reports_readable w"
  shows "recovery_list_plans None only w = (Inr (sorted_by plan_key (filter (\<lambda>p. only \<longrightarrow> rp_auto_executable p)
      (map (\<lambda>r. recovery_build_plan r (recovery_latest_event (orch_events w) (lr_trade_id r))
              (intent_action (orch_events w) (lr_trade_id r))
              (map_of (dict_of rc_trade_id (sorted_desc candidate_key
                (map (candidate_for (report_index (w_reports w)) (orch_events w)) (live_trades w)))) (lr_trade_id r)))
        (filter (\<lambda>r. lr_status r \<in> recoverable_statuses) (w_ledger w))))), w)"
  using assms by (simp add: recovery_list_plans_def bnd_run list_records_all list_orch_events
      list_candidates_run ret_run Let_def)

lemma indexed_candidate:
  assumes "one_per_trade w" "r \<in> set (w_ledger w)"
    and "map_of (dict_of rc_trade_id (sorted_desc candidate_key
                (map (candidate_for ix evs) (live_trades w)))) (lr_trade_id r) = c"
  shows "c = None \<or> c = Some (candidate_for ix evs r)"
proof (cases c)
  case (Some cd)
  then have "cd \<in> set (map (candidate_for ix evs) (live_trades w))" "rc_trade_id cd = lr_trade_id r"
    using dict_of_Some[of rc_trade_id _ "lr_trade_id r" cd] assms(3) by fastforce+
  then obtain r' where "r' \<in> set (live_trades w)" "cd = candidate_for ix evs r'" "lr_trade_id r' = lr_trade_id r"
    by auto
  then have "r' = r" using same_trade[OF assms(1), of r' r] assms(2) by (simp add: live_trades_def)
  then show ?thesis using Some \<open>cd = candidate_for ix evs r'\<close> by simp
qed simp

lemma recovery_plans_sound:
  assumes "readable w" "reports_readable w" "one_per_trade w" "recovery_list_plans None only w = (Inr plans, w')"
  shows "list_all plan_sound plans"
proof -
  have "plan_sound (recovery_build_plan r (recovery_latest_event (orch_events w) (lr_trade_id r))
              (intent_action (orch_events w) (lr_trade_id r))
              (map_of (dict_of rc_trade_id (sorted_desc candidate_key
                (map (candidate_for (report_index (w_reports w)) (orch_events w)) (live_trades w)))) (lr_trade_id r)))"
    if "r \<in> set (w_ledger w)" "lr_status r \<in> recoverable_statuses" for r
    using that by (intro live_plan_sound[OF _ indexed_candidate[OF assms(3) _ refl]]) auto
  then show ?thesis
    using assms(4) recovery_list_plans_run[OF assms(1,2), of only] by (auto simp: list_all_iff)
qed

subsection \<open>Properties\<close>

text \<open>
  C27: On a ledger with one record per trade, recovery plans exist exactly for the failed
  and recovery-pending trades, sorted with the automatic ones first. A plan is automatic
  exactly when it is not a manual review; an automatic plan of a live trade always resumes
  the open, with every expected report present and filled, even when the failed intent was
  a close.
\<close>

theorem recovery_plans_correct:
  assumes "readable w" "reports_readable w" "one_per_trade w"
  shows "\<exists>plans. recovery_list_plans None False w = (Inr plans, w)
    \<and> mset (map rp_trade_id plans)
        = mset (map lr_trade_id (filter (\<lambda>r. lr_status r \<in> recoverable_statuses) (w_ledger w)))
    \<and> sorted (map plan_key plans) \<and> list_all plan_sound plans"
proof -
  let ?plan = "\<lambda>r. recovery_build_plan r (recovery_latest_event (orch_events w) (lr_trade_id r))
              (intent_action (orch_events w) (lr_trade_id r))
              (map_of (dict_of rc_trade_id (sorted_desc candidate_key
                (map (candidate_for (report_index (w_reports w)) (orch_events w)) (live_trades w)))) (lr_trade_id r))"
  let ?rs = "filter (\<lambda>r. lr_status r \<in> recoverable_statuses) (w_ledger w)"
  have run: "recovery_list_plans None False w = (Inr (sorted_by plan_key (map ?plan ?rs)), w)"
    using recovery_list_plans_run[OF assms(1,2), of False] by simp
  have sound: "list_all plan_sound (sorted_by plan_key (map ?plan ?rs))"
    using recovery_plans_sound[OF assms run] .
  have "mset (map rp_trade_id (sorted_by plan_key (map ?plan ?rs))) = mset (map rp_trade_id (map ?plan ?rs))"
    by (simp only: mset_map sorted_by_def mset_sort)
  also have "map rp_trade_id (map ?plan ?rs) = map lr_trade_id ?rs" by simp
  finally show ?thesis using run sound sorted_sorted_by by blast
qed

theorem recovery_plans_correct_witness:
  "\<exists>plans. recovery_list_plans None False (sample_world [sample_record ''t1'' Failed]) = (Inr plans, sample_world [sample_record ''t1'' Failed])
    \<and> list_all plan_sound plans"
proof -
  have "reports_readable (sample_world rs)" "one_per_trade (sample_world [r])" for rs r
    by (simp_all add: reports_readable_def one_per_trade_def)
  then show ?thesis using recovery_plans_correct[OF sample_readable(2)] by blast
qed

text \<open>
  Executing the actionable plans sends nothing to the exchange; what was attempted is
  what was executed and what was skipped; every executed trade ends hedged or closed, and at
  most \<open>limit\<close> trades are attempted.
\<close>

lemma recover_status:
  assumes "recover e q w = (Inr x, w')"
  shows "ex_status x \<in> {Hedged, Closed}"
proof (cases "readable w")
  case True
  then show ?thesis
    using recover_outcome[OF True, of e q] assms
    by (auto simp: recovered_record_def split: option.splits if_splits recovery_action.splits)
next
  case False
  then have "get_record (rr_trade_id q) (tick w) = (Inl (ValidationError ''TradeLedgerRecord''), tick w)"
    by (simp add: get_record_run)
  then show ?thesis using assms by (simp add: recover_def bnd_run utc_now_run flip: tick_def)
qed

theorem recovery_execution_accounts:
  assumes "execute_actionable_plans e (Some n) symbol trade_ids w = (Inr s, w')"
  shows "w_sent w' = w_sent w \<and> ry_attempted_count s = ry_executed_count s + ry_skipped_count s
    \<and> list_all (\<lambda>x. ex_status x \<in> {Hedged, Closed}) (ry_results s)
    \<and> (0 \<le> n \<longrightarrow> ry_attempted_count s \<le> nat n)"
proof -
  obtain plans w1 where plans: "recovery_list_plans symbol True w = (Inr plans, w1)"
    using assms by (cases "recovery_list_plans symbol True w")
      (auto simp: execute_actionable_plans_def py_simps split: sum.splits)
  define ps where "ps = limited (Some n) (case trade_ids of None \<Rightarrow> plans | Some ks \<Rightarrow> filter (\<lambda>p. rp_trade_id p \<in> ks) plans)"
  obtain outcomes w2 where loop: "for_map (execute_recovery_plan e) ps w1 = (Inr outcomes, w2)"
    using assms plans by (cases "for_map (execute_recovery_plan e) ps w1")
      (auto simp: execute_actionable_plans_def py_simps Let_def ps_def split: sum.splits)
  have s: "ry_attempted_count s = length ps" "ry_executed_count s = length (rights outcomes)"
    "ry_skipped_count s = length (lefts outcomes)" "ry_results s = rights outcomes"
    using assms plans loop by (auto simp: execute_actionable_plans_def py_simps Let_def simp flip: ps_def)
  have rel: "list_all2 (\<lambda>p r. case r of Inr x \<Rightarrow> ex_status x \<in> {Hedged, Closed} | Inl _ \<Rightarrow> True) ps outcomes"
  proof (rule for_map_rel[OF loop])
    fix p u y u' assume "execute_recovery_plan e p u = (Inr y, u')"
    then show "case y of Inr x \<Rightarrow> ex_status x \<in> {Hedged, Closed} | Inl _ \<Rightarrow> True"
      using recover_status
      by (fastforce simp: execute_recovery_plan_def recovery_action_of_def py_simps
          split: recommended.splits sum.splits prod.splits if_splits)
  qed
  have "list_all (\<lambda>x. ex_status x \<in> {Hedged, Closed}) (rights outcomes)"
    using rel by (induction rule: list_all2_induct) (auto simp: rights_def map_filter_simps split: sum.splits)
  moreover have "0 \<le> n \<Longrightarrow> length ps \<le> nat n" unfolding ps_def by (rule length_limited)
  moreover have "w_sent w' = w_sent w"
    using steps_inD[OF steps_execute_recovery(2) assms] by (simp add: silent_def)
  ultimately show ?thesis
    using s list_all2_lengthD[OF rel] lefts_rights[of outcomes] by simp
qed

theorem recovery_execution_accounts_witness:
  "\<exists>s w'. execute_actionable_plans sample_env (Some 3) None None (sample_world []) = (Inr s, w') \<and> w_sent w' = []"
proof -
  have rd: "reports_readable (sample_world [])" by (simp add: reports_readable_def)
  obtain s w' where "execute_actionable_plans sample_env (Some 3) None None (sample_world []) = (Inr s, w')"
    by (simp add: execute_actionable_plans_def bnd_run recovery_list_plans_run[OF sample_readable(1) rd]
        sorted_by_def limited_def slice_to_def py_simps Let_def)
  then show ?thesis using recovery_execution_accounts by fastforce
qed

end
