(* ===== verification/Compensation.thy ===== *)
theory Compensation
  imports Recovery
begin

section \<open>Compensation\<close>

text \<open>
  \<open>app/compensation/service.py\<close>: one plan per live trade (synchronise reports, recover,
  rebalance, review or nothing) and the execution of the actionable plans. Dictionaries
  keyed by trade are association lists with the insertion order of Python.
\<close>

datatype comp_action = CompNone | SyncReports | CompResumeOpen | CompResumeClose | CompRebalance
  | CompManualReview | FlattenSpot | FlattenPerp

datatype priority = PLow | PMedium | PHigh | PCritical

fun priority_order :: "priority \<Rightarrow> int" where
  "priority_order PCritical = 0"
| "priority_order PHigh = 1"
| "priority_order PMedium = 2"
| "priority_order PLow = 3"

record comp_plan =
  cp_trade_id :: string
  cp_symbol :: string
  cp_mode :: trade_mode
  cp_local_status :: trade_status
  cp_recommended_action :: comp_action
  cp_priority :: priority
  cp_actionable :: bool
  cp_reason :: string
  cp_details :: pydict

record comp_item =
  ci_trade_id :: string
  ci_symbol :: string
  ci_action :: comp_action
  ci_outcome :: outcome
  ci_reason :: string
  ci_details :: pydict

record comp_summary =
  cs_generated_at :: datetime
  cs_attempted_count :: nat
  cs_executed_count :: nat
  cs_skipped_count :: nat
  cs_failed_count :: nat
  cs_results :: "comp_item list"

definition str_list :: "string list \<Rightarrow> pyval" where
  "str_list ss = PList (map PStr ss)"

subsection \<open>Plans\<close>

definition comp_plan_for ::
  "ledger_record \<Rightarrow> comp_action \<Rightarrow> priority \<Rightarrow> bool \<Rightarrow> string \<Rightarrow> pydict \<Rightarrow> comp_plan" where
  "comp_plan_for r action prio act reason details =
     \<lparr>cp_trade_id = lr_trade_id r, cp_symbol = lr_symbol r, cp_mode = lr_mode r,
      cp_local_status = lr_status r, cp_recommended_action = action, cp_priority = prio,
      cp_actionable = act, cp_reason = reason, cp_details = details\<rparr>"

definition recovery_details :: "recovery_plan \<Rightarrow> pydict" where
  "recovery_details p = [(''exchange_statuses'', str_list (rp_exchange_statuses p)),
     (''missing_order_ids'', str_list (rp_missing_order_ids p)), (''reasons'', str_list (rp_reasons p))]"

definition hedge_comp_plan :: "ledger_record \<Rightarrow> hedge_plan \<Rightarrow> comp_plan" where
  "hedge_comp_plan r h =
     (if rebalances (hp_recommended_action h) then
        comp_plan_for r CompRebalance PMedium True ''net exposure drift exceeds tolerance''
          [(''hedge_action'', PStr (rebalance_action_str (hp_recommended_action h))),
           (''suggested_perp_notional_delta'', PFloat (hp_suggested_perp_notional_delta h)),
           (''estimated_post_rebalance_exposure_bps'', PFloat (hp_estimated_post_exposure_bps h))]
      else comp_plan_for r CompNone PLow False ''no compensation action required'' [])"

definition comp_after_recovery :: "ledger_record \<Rightarrow> recovery_plan option \<Rightarrow> float64 \<Rightarrow> (world, comp_plan) py" where
  \<comment> \<open>\<open>_build_plan\<close> once no expected report is missing\<close>
  "comp_after_recovery r rec limit =
     (case rec of
        Some p \<Rightarrow>
          (case rp_recommended_action p of
             RecResumeOpen \<Rightarrow> ret (comp_plan_for r CompResumeOpen
               (if rp_auto_executable p then PCritical else PHigh) (rp_auto_executable p)
               (if rp_auto_executable p then ''recovery plan is actionable'' else ''recovery requires operator decision'')
               (recovery_details p))
           | RecResumeClose \<Rightarrow> ret (comp_plan_for r CompResumeClose
               (if rp_auto_executable p then PCritical else PHigh) (rp_auto_executable p)
               (if rp_auto_executable p then ''recovery plan is actionable'' else ''recovery requires operator decision'')
               (recovery_details p))
           | ManualReview \<Rightarrow> ret (comp_plan_for r CompManualReview
               (if lr_status r \<in> {Failed, RecoveryPending} then PHigh else PLow) False
               ''recovery context is ambiguous'' (recovery_details p)))
      | None \<Rightarrow> bnd (build_rebalance_plan (lr_trade_id r) limit) (\<lambda>h. ret (hedge_comp_plan r h)))"

definition comp_build_plan ::
  "ledger_record \<Rightarrow> candidate option \<Rightarrow> recovery_plan option \<Rightarrow> float64 \<Rightarrow> (world, comp_plan) py" where
  "comp_build_plan r cand rec limit =
     (case cand of
        Some cd \<Rightarrow>
          if rc_missing_order_ids cd \<noteq> [] then
            ret (comp_plan_for r SyncReports PCritical True ''missing exchange reports''
              [(''missing_order_ids'', str_list (rc_missing_order_ids cd)),
               (''expected_order_ids'', str_list (rc_expected_order_ids cd))])
          else comp_after_recovery r rec limit
      | None \<Rightarrow> comp_after_recovery r rec limit)"

definition comp_list_plans :: "string option \<Rightarrow> bool \<Rightarrow> float64 \<Rightarrow> (world, comp_plan list) py" where
  "comp_list_plans symbol only_actionable limit =
     bnd (list_records (Some Live) None None symbol) (\<lambda>rs.
     bnd (list_candidates symbol False) (\<lambda>cds.
     bnd (recovery_list_plans symbol False) (\<lambda>rps.
     bnd (for_map (\<lambda>r. comp_build_plan r (map_of (dict_of rc_trade_id cds) (lr_trade_id r))
            (map_of (dict_of rp_trade_id rps) (lr_trade_id r)) limit) rs) (\<lambda>plans.
     ret (sorted_by (\<lambda>p. (priority_order (cp_priority p), cp_trade_id p))
       (filter (\<lambda>p. only_actionable \<longrightarrow> cp_actionable p) plans))))))"

definition comp_response ::
  "env \<Rightarrow> string option \<Rightarrow> bool \<Rightarrow> float64 \<Rightarrow> (world, datetime \<times> comp_plan list) py" where
  \<comment> \<open>\<open>CompensationPlanListResponse\<close>\<close>
  "comp_response e symbol only_actionable limit =
     bnd (utc_now e) (\<lambda>t. bnd (comp_list_plans symbol only_actionable limit) (\<lambda>ps. ret (t, ps)))"

subsection \<open>Execution\<close>

definition comp_item_for :: "comp_plan \<Rightarrow> outcome \<Rightarrow> string \<Rightarrow> pydict \<Rightarrow> comp_item" where
  "comp_item_for p oc reason details =
     \<lparr>ci_trade_id = cp_trade_id p, ci_symbol = cp_symbol p, ci_action = cp_recommended_action p,
      ci_outcome = oc, ci_reason = reason, ci_details = details\<rparr>"

definition execute_direct_safe_action :: "env \<Rightarrow> client \<Rightarrow> comp_plan \<Rightarrow> (world, comp_item) py" where
  "execute_direct_safe_action e cl p =
     catch (bnd (sync_reports_for_trade e cl (cp_trade_id p)) (\<lambda>rs.
              ret (comp_item_for p Executed ''synced exchange reports''
                [(''synced_report_count'', PInt (int (length rs)))])))
       is_value_error (\<lambda>exc. ret (comp_item_for p OutcomeFailed (exc_str exc) []))"

definition comp_delta :: "comp_plan \<Rightarrow> py_error + float64" where
  \<comment> \<open>\<open>float(plan.details.get("suggested_perp_notional_delta") or 0.0)\<close>\<close>
  "comp_delta p = py_float (py_or (get_or ''suggested_perp_notional_delta'' PNone (cp_details p)) (PFloat 0))"

definition execute_rebalance_action :: "env \<Rightarrow> orchestrator \<Rightarrow> comp_plan \<Rightarrow> (world, comp_item) py" where
  "execute_rebalance_action e c p =
     bnd (lift (comp_delta p)) (\<lambda>delta.
     if delta = 0 then
       ret (comp_item_for p Skipped ''missing suggested_perp_notional_delta for rebalance action'' [])
     else bnd (reference_price (cp_trade_id p)) (\<lambda>price. case price of
         None \<Rightarrow> ret (comp_item_for p Skipped ''cannot infer perp reference price for rebalance action'' [])
       | Some px \<Rightarrow>
           if px \<le> 0 then
             ret (comp_item_for p Skipped ''cannot infer perp reference price for rebalance action'' [])
           else
             let quantity = rebalance_quantity delta px;
                 priced = [(''reference_price'', PFloat px)];
                 details = priced @ [(''perp_quantity'', PFloat quantity)] in
             if quantity \<le> 0 then ret (comp_item_for p Skipped ''calculated perp quantity is zero'' priced)
             else catch
               (bnd (rebalance_hedge e c (cp_trade_id p) delta quantity (Some ''auto compensation rebalance'')) (\<lambda>x.
                  ret (comp_item_for p Executed ''executed hedge rebalance''
                    (details @ [(''status'', PStr (status_str (ex_status x)))]))))
               is_value_error
               (\<lambda>exc. ret (comp_item_for p OutcomeFailed (exc_str exc) details))))"

definition recovery_item :: "recovery_summary \<Rightarrow> comp_plan \<Rightarrow> comp_item" where
  "recovery_item s p =
     (case map_of (dict_of ex_trade_id (ry_results s)) (cp_trade_id p) of
        Some x \<Rightarrow> comp_item_for p Executed ''delegated to recovery safe auto execution''
          [(''execution_action'', PStr (action_str (ex_action x))), (''status'', PStr (status_str (ex_status x)))]
      | None \<Rightarrow>
          (case map_of (dict_of rk_trade_id (ry_skipped s)) (cp_trade_id p) of
             Some k \<Rightarrow> comp_item_for p Skipped (rk_reason k) []
           | None \<Rightarrow> comp_item_for p OutcomeFailed ''recovery execution returned no result for actionable plan'' []))"

definition execute_recovery_actions :: "env \<Rightarrow> comp_plan list \<Rightarrow> (world, (string \<times> comp_item) list) py" where
  "execute_recovery_actions e plans =
     catch (bnd (execute_actionable_plans e None None (Some (set (map cp_trade_id plans)))) (\<lambda>s.
              ret (dict_of ci_trade_id (map (recovery_item s) plans))))
       is_value_error
       (\<lambda>exc. ret (dict_of ci_trade_id (map (\<lambda>p. comp_item_for p OutcomeFailed (exc_str exc) []) plans)))"

type_synonym comp_results = "(string \<times> comp_item) list"

definition comp_step ::
  "env \<Rightarrow> client \<Rightarrow> orchestrator \<Rightarrow> comp_plan \<Rightarrow> comp_results \<times> comp_plan list \<Rightarrow>
   (world, comp_results \<times> comp_plan list) py" where
  \<comment> \<open>one turn of the loop of \<open>execute_safe_actions\<close>\<close>
  "comp_step e cl c p st =
     (case st of (results, recovery) \<Rightarrow>
       let put = (\<lambda>it. ret (AList.update (cp_trade_id p) it results, recovery)) in
       case cp_recommended_action p of
         SyncReports \<Rightarrow> bnd (execute_direct_safe_action e cl p) put
       | CompResumeOpen \<Rightarrow> ret (results, recovery @ [p])
       | CompResumeClose \<Rightarrow> ret (results, recovery @ [p])
       | CompRebalance \<Rightarrow> bnd (execute_rebalance_action e c p) put
       | _ \<Rightarrow> put (comp_item_for p Skipped ''action is not in compensation safe execute allowlist'' []))"

definition comp_count :: "outcome \<Rightarrow> comp_item list \<Rightarrow> nat" where
  "comp_count oc its = length (filter (\<lambda>it. ci_outcome it = oc) its)"

definition merge_results :: "comp_results \<Rightarrow> comp_results \<Rightarrow> comp_results" where
  \<comment> \<open>\<open>result_by_trade.update(more)\<close>\<close>
  "merge_results results extra = fold (\<lambda>(k, it). AList.update k it) extra results"

definition execute_safe_actions ::
  "env \<Rightarrow> client \<Rightarrow> orchestrator \<Rightarrow> string option \<Rightarrow> int option \<Rightarrow> float64 \<Rightarrow> (world, comp_summary) py" where
  "execute_safe_actions e cl c symbol limit exposure_limit =
     bnd (comp_list_plans symbol True exposure_limit) (\<lambda>plans.
     let plans = limited limit plans in
     bnd (for_loop (comp_step e cl c) plans ([], [])) (\<lambda>(results, recovery).
     bnd (if recovery = [] then ret results
          else bnd (execute_recovery_actions e recovery) (\<lambda>more.
            ret (merge_results results more))) (\<lambda>by_trade.
     let ordered = List.map_filter (\<lambda>p. map_of by_trade (cp_trade_id p)) plans in
     bnd (utc_now e) (\<lambda>t.
     ret \<lparr>cs_generated_at = t, cs_attempted_count = length plans,
          cs_executed_count = comp_count Executed ordered, cs_skipped_count = comp_count Skipped ordered,
          cs_failed_count = comp_count OutcomeFailed ordered, cs_results = ordered\<rparr>))))"


subsection \<open>Facts about compensation\<close>

lemma comp_plan_for_simps [simp]:
  "cp_trade_id (comp_plan_for r a pr act re d) = lr_trade_id r"
  "cp_recommended_action (comp_plan_for r a pr act re d) = a"
  "cp_priority (comp_plan_for r a pr act re d) = pr"
  "cp_actionable (comp_plan_for r a pr act re d) = act"
  by (simp_all add: comp_plan_for_def)

lemma comp_item_for_simps [simp]:
  "ci_trade_id (comp_item_for p oc re d) = cp_trade_id p"
  "ci_action (comp_item_for p oc re d) = cp_recommended_action p"
  "ci_outcome (comp_item_for p oc re d) = oc"
  by (simp_all add: comp_item_for_def)

text \<open>What every plan of a live trade satisfies.\<close>

definition comp_sound :: "comp_plan \<Rightarrow> bool" where
  "comp_sound p \<longleftrightarrow>
     cp_recommended_action p \<in> {CompNone, SyncReports, CompResumeOpen, CompRebalance, CompManualReview}
     \<and> cp_actionable p = (cp_recommended_action p \<in> {SyncReports, CompResumeOpen, CompRebalance})
     \<and> (cp_priority p = PCritical) = (cp_recommended_action p \<in> {SyncReports, CompResumeOpen})
     \<and> (cp_priority p = PMedium) = (cp_recommended_action p = CompRebalance)"

lemma hedge_comp_sound: "comp_sound (hedge_comp_plan r h) \<and> cp_trade_id (hedge_comp_plan r h) = lr_trade_id r"
  by (simp add: hedge_comp_plan_def comp_sound_def)

lemma comp_after_recovery_run:
  assumes "readable w" "ledger_map w (lr_trade_id r) \<noteq> None" "0 \<le> limit"
    and "\<And>p. rec = Some p \<Longrightarrow> plan_sound p \<and> rp_mode p = Live"
  shows "\<exists>p. comp_after_recovery r rec limit w = (Inr p, w) \<and> comp_sound p \<and> cp_trade_id p = lr_trade_id r"
proof (cases rec)
  case None
  then show ?thesis using assms(1-3) hedge_comp_sound
    by (auto simp: comp_after_recovery_def bnd_run build_plan_run ret_run)
next
  case (Some p)
  then show ?thesis using assms(4)[OF Some]
    by (cases "rp_recommended_action p") (auto simp: comp_after_recovery_def ret_run comp_sound_def plan_sound_def)
qed

lemma comp_build_plan_run:
  assumes "readable w" "ledger_map w (lr_trade_id r) \<noteq> None" "0 \<le> limit"
    and "\<And>p. rec = Some p \<Longrightarrow> plan_sound p \<and> rp_mode p = Live"
  shows "\<exists>p. comp_build_plan r cand rec limit w = (Inr p, w) \<and> comp_sound p \<and> cp_trade_id p = lr_trade_id r
    \<and> (cp_recommended_action p = SyncReports \<longleftrightarrow> (\<exists>cd. cand = Some cd \<and> rc_missing_order_ids cd \<noteq> []))"
proof -
  obtain p where p: "comp_after_recovery r rec limit w = (Inr p, w)" "comp_sound p" "cp_trade_id p = lr_trade_id r"
    using comp_after_recovery_run[OF assms] by auto
  have "cp_recommended_action p \<noteq> SyncReports"
    using p(1) by (auto simp: comp_after_recovery_def hedge_comp_plan_def py_simps
        split: option.splits recommended.splits sum.splits prod.splits if_splits)
  then show ?thesis using p
    by (cases cand) (auto simp: comp_build_plan_def ret_run comp_sound_def)
qed

text \<open>The recovery plan indexed under a live trade is that trade's own plan.\<close>

lemma recovery_plan_of_trade:
  assumes "readable w" "reports_readable w" "one_per_trade w" "r \<in> set (w_ledger w)" "lr_mode r = Live"
    and "recovery_list_plans None False w = (Inr rps, w')" "map_of (dict_of rp_trade_id rps) (lr_trade_id r) = Some p"
  shows "plan_sound p \<and> rp_mode p = Live"
proof -
  have p: "p \<in> set rps" "rp_trade_id p = lr_trade_id r" using dict_of_Some[OF assms(7)] by auto
  have "list_all plan_sound rps" using recovery_plans_sound[OF assms(1-3)] assms(6) by auto
  moreover obtain r' where r': "r' \<in> set (w_ledger w)" "rp_trade_id p = lr_trade_id r'" "rp_mode p = lr_mode r'"
    using p(1) assms(6) recovery_list_plans_run[OF assms(1,2), of False] by auto
  moreover have "r' = r" using same_trade[OF assms(3) r'(1) assms(4)] r'(2) p(2) by simp
  ultimately show ?thesis using p(1) assms(5) by (simp add: list_all_iff)
qed


subsection \<open>Every plan gets a result\<close>

lemma comp_counts: "comp_count Executed its + comp_count Skipped its + comp_count OutcomeFailed its = length its"
proof (induction its)
  case (Cons it its)
  then show ?case by (cases "ci_outcome it") (simp_all add: comp_count_def)
qed (simp add: comp_count_def)

text \<open>The results gathered so far: one per trade, under its own id.\<close>

definition covers :: "comp_plan list \<Rightarrow> comp_results \<Rightarrow> bool" where
  "covers ps results \<longleftrightarrow> (\<forall>x\<in>set results. ci_trade_id (snd x) = fst x)
     \<and> (\<forall>p\<in>set ps. map_of results (cp_trade_id p) \<noteq> None)"

lemma set_update_subset: "set (AList.update k v xs) \<subseteq> insert (k, v) (set xs)"
  by (induction xs) auto

lemma covers_empty: "covers [] []"
  by (simp add: covers_def)

lemma covers_update:
  "covers ps results \<Longrightarrow> ci_trade_id it = k \<Longrightarrow> covers ps (AList.update k it results)"
  using set_update_subset[of k it results] by (fastforce simp: covers_def update_conv')

lemma covers_put:
  "covers ps results \<Longrightarrow> ci_trade_id it = cp_trade_id p \<Longrightarrow>
   covers (ps @ [p]) (AList.update (cp_trade_id p) it results)"
  using covers_update[of ps results it "cp_trade_id p"] by (auto simp: covers_def update_conv')

lemma merge_dom: "map_of results k \<noteq> None \<or> map_of extra k \<noteq> None \<Longrightarrow> map_of (merge_results results extra) k \<noteq> None"
  unfolding merge_results_def
  by (induction extra arbitrary: results) (auto simp: update_conv' split: if_splits)

lemma covers_merge:
  assumes "covers ps results" "covers qs extra"
  shows "covers (ps @ qs) (merge_results results extra)"
proof -
  have "\<forall>x\<in>set extra. ci_trade_id (snd x) = fst x" using assms(2) by (simp add: covers_def)
  then have "covers ps (merge_results results extra)"
    using assms(1) unfolding merge_results_def
    by (induction extra arbitrary: results) (auto simp: covers_update)
  moreover have "\<forall>q\<in>set qs. map_of (merge_results results extra) (cp_trade_id q) \<noteq> None"
    using assms(2) merge_dom by (fastforce simp: covers_def)
  ultimately show ?thesis by (auto simp: covers_def)
qed

lemma dict_of_keys: "x \<in> set (dict_of key xs) \<Longrightarrow> key (snd x) = fst x"
proof (induction xs rule: rev_induct)
  case (snoc y ys)
  then show ?case
    using set_update_subset[of "key y" y "dict_of key ys"] by (auto simp: dict_of_def)
qed (simp add: dict_of_def)

lemma covers_dict:
  assumes "\<And>p. p \<in> set ps \<Longrightarrow> ci_trade_id (f p) = cp_trade_id p"
  shows "covers ps (dict_of ci_trade_id (map f ps))"
proof -
  have "map_of (dict_of ci_trade_id (map f ps)) (cp_trade_id p) \<noteq> None" if "p \<in> set ps" for p
    using that assms by (auto simp: dict_of_get find_None_iff)
  then show ?thesis using dict_of_keys by (fastforce simp: covers_def)
qed

lemma comp_direct_trade:
  "execute_direct_safe_action e cl p w = (Inr it, w') \<Longrightarrow> ci_trade_id it = cp_trade_id p"
  by (auto simp: execute_direct_safe_action_def py_simps split: sum.splits prod.splits if_splits)

lemma comp_rebalance_trade:
  "execute_rebalance_action e c p w = (Inr it, w') \<Longrightarrow> ci_trade_id it = cp_trade_id p"
  by (auto simp: execute_rebalance_action_def lift_def Let_def py_simps
      split: sum.splits prod.splits if_splits option.splits)

lemma recovery_item_trade [simp]: "ci_trade_id (recovery_item s p) = cp_trade_id p"
  by (simp add: recovery_item_def split: option.splits)

lemma comp_recovery_covers:
  "execute_recovery_actions e ps w = (Inr extra, w') \<Longrightarrow> covers ps extra"
  by (auto simp: execute_recovery_actions_def py_simps covers_dict
      split: sum.splits prod.splits if_splits)

lemma comp_step_covers:
  assumes "comp_step e cl c p (results, recovery) w = (Inr (results', recovery'), w')" "covers ps results"
  shows "recovery' = recovery @ [p] \<and> results' = results \<or> recovery' = recovery \<and> covers (ps @ [p]) results'"
  using assms covers_put
  by (auto simp: comp_step_def Let_def py_simps dest: comp_direct_trade comp_rebalance_trade
      split: comp_action.splits sum.splits prod.splits)

subsection \<open>Properties\<close>

text \<open>
  C29: Every live trade of the ledger has exactly one compensation plan, the list sorted by
  priority. A plan is actionable exactly when it synchronises reports, resumes an open or
  rebalances; resuming a close is never proposed; critical and medium stand for the first two
  and the third.
\<close>

abbreviation comp_key :: "comp_plan \<Rightarrow> int \<times> string" where
  "comp_key p \<equiv> (priority_order (cp_priority p), cp_trade_id p)"

lemma list_live_records [py_simps]:
  "list_records (Some Live) None None None w = (if readable w
     then (Inr (filter (\<lambda>r. lr_mode r = Live) (w_ledger w)), w) else (Inl (ValidationError ''TradeLedgerRecord''), w))"
  by (simp add: list_records_def ledger_list_run py_simps)

theorem comp_plans_correct:
  assumes "readable w" "reports_readable w" "one_per_trade w" "0 \<le> limit"
  shows "\<exists>plans. comp_list_plans None False limit w = (Inr plans, w)
    \<and> mset (map cp_trade_id plans) = mset (map lr_trade_id (filter (\<lambda>r. lr_mode r = Live) (w_ledger w)))
    \<and> sorted (map comp_key plans) \<and> list_all comp_sound plans"
proof -
  let ?live = "filter (\<lambda>r. lr_mode r = Live) (w_ledger w)"
  obtain cds where cds: "list_candidates None False w = (Inr cds, w)"
    using list_candidates_run[OF assms(1,2)] by blast
  obtain rps where rps: "recovery_list_plans None False w = (Inr rps, w)"
    using recovery_list_plans_run[OF assms(1,2)] by blast
  let ?build = "\<lambda>r. comp_build_plan r (map_of (dict_of rc_trade_id cds) (lr_trade_id r))
      (map_of (dict_of rp_trade_id rps) (lr_trade_id r)) limit"
  have ok: "\<exists>p. ?build r w = (Inr p, w) \<and> comp_sound p \<and> cp_trade_id p = lr_trade_id r" if r: "r \<in> set ?live" for r
  proof -
    have "ledger_map w (lr_trade_id r) \<noteq> None" using r by (auto simp: ledger_map_def lookup_None)
    moreover have "plan_sound p \<and> rp_mode p = Live"
      if "map_of (dict_of rp_trade_id rps) (lr_trade_id r) = Some p" for p
      using recovery_plan_of_trade[OF assms(1-3) _ _ rps that] r by simp
    ultimately show ?thesis using comp_build_plan_run[OF assms(1) _ assms(4)] by blast
  qed
  define g where "g r = projr (fst (?build r w))" for r
  have g: "?build r w = (Inr (g r), w)" "comp_sound (g r)" "cp_trade_id (g r) = lr_trade_id r" if "r \<in> set ?live" for r
    using ok[OF that] by (auto simp: g_def)
  have run: "comp_list_plans None False limit w = (Inr (sorted_by comp_key (map g ?live)), w)"
    using assms(1) for_map_pure[of ?live ?build w g] g(1)
    by (simp add: comp_list_plans_def bnd_run list_live_records cds rps ret_run)
  have "map cp_trade_id (map g ?live) = map lr_trade_id ?live" using g(3) by simp
  moreover have "mset (map cp_trade_id (sorted_by comp_key (map g ?live))) = mset (map cp_trade_id (map g ?live))"
    by (simp only: mset_map sorted_by_def mset_sort)
  moreover have "list_all comp_sound (sorted_by comp_key (map g ?live))" using g(2) by (auto simp: list_all_iff)
  ultimately show ?thesis using run sorted_sorted_by by (metis (no_types, lifting))
qed

theorem comp_plans_correct_witness:
  "\<exists>plans. comp_list_plans None False 50 (sample_world [(sample_record ''t1'' Hedged)\<lparr>lr_mode := Live\<rparr>])
      = (Inr plans, sample_world [(sample_record ''t1'' Hedged)\<lparr>lr_mode := Live\<rparr>])
    \<and> map cp_trade_id plans = [''t1'']"
proof -
  let ?w = "sample_world [(sample_record ''t1'' Hedged)\<lparr>lr_mode := Live\<rparr>]"
  have "readable ?w" "reports_readable ?w" "one_per_trade ?w"
    by (simp_all add: reports_readable_def one_per_trade_def readable_def valid_ledger_record_def)
  then obtain plans where "comp_list_plans None False 50 ?w = (Inr plans, ?w)"
    "mset (map cp_trade_id plans) = mset [''t1'']"
    using comp_plans_correct[of ?w 50] by auto
  moreover from this(2) have "map cp_trade_id plans = [''t1'']"
    by (cases "map cp_trade_id plans") auto
  ultimately show ?thesis by auto
qed

text \<open>
  Executing the safe actions answers for every plan it takes up, in the order of the
  plans: one result per plan under its trade, executed, skipped and failed adding up to the
  attempted, which are at most \<open>limit\<close>.
\<close>

lemma comp_loop_covers:
  assumes "for_loop (comp_step e cl c) ps ([], []) w = (Inr (results, recovery), w')"
  shows "\<forall>p\<in>set ps. p \<in> set recovery \<or> map_of results (cp_trade_id p) \<noteq> None"
    and "covers [] results"
proof -
  define Q where "Q ys st = (\<exists>qs. covers qs (fst st) \<and> set ys \<subseteq> set qs \<union> set (snd st))"
    for ys and st :: "comp_results \<times> comp_plan list"
  have "Q ps (results, recovery)"
  proof (rule for_loop_induct[OF assms])
    show "Q [] ([], [])" using covers_empty by (auto simp: Q_def)
    fix ys x s u t u' assume "Q ys s" and step: "comp_step e cl c x s u = (Inr t, u')"
    then obtain qs where qs: "covers qs (fst s)" "set ys \<subseteq> set qs \<union> set (snd s)" by (auto simp: Q_def)
    have "snd t = snd s @ [x] \<and> fst t = fst s \<or> snd t = snd s \<and> covers (qs @ [x]) (fst t)"
      using comp_step_covers[of e cl c x "fst s" "snd s" u "fst t" "snd t" u'] step qs(1) by simp
    then show "Q (ys @ [x]) t"
    proof
      assume "snd t = snd s @ [x] \<and> fst t = fst s"
      then show ?thesis using qs unfolding Q_def by (intro exI[of _ qs]) auto
    next
      assume "snd t = snd s \<and> covers (qs @ [x]) (fst t)"
      then show ?thesis using qs unfolding Q_def by (intro exI[of _ "qs @ [x]"]) auto
    qed
  qed
  then obtain qs where "covers qs results" "set ps \<subseteq> set qs \<union> set recovery" by (auto simp: Q_def)
  then show "\<forall>p\<in>set ps. p \<in> set recovery \<or> map_of results (cp_trade_id p) \<noteq> None" "covers [] results"
    by (auto simp: covers_def)
qed

lemma covered_results:
  assumes "covers ps results"
  shows "map ci_trade_id (List.map_filter (\<lambda>p. map_of results (cp_trade_id p)) ps) = map cp_trade_id ps"
proof -
  have "map ci_trade_id (List.map_filter (\<lambda>p. map_of results (cp_trade_id p)) qs) = map cp_trade_id qs"
    if "set qs \<subseteq> set ps" for qs
    using that assms
    by (induction qs) (fastforce simp: map_filter_simps covers_def dest: map_of_SomeD)+
  then show ?thesis by simp
qed

theorem compensation_accounts:
  assumes "comp_list_plans symbol True x w = (Inr plans, w1)"
    and "execute_safe_actions e cl c symbol (Some n) x w = (Inr s, w')"
  shows "map ci_trade_id (cs_results s) = map cp_trade_id (limited (Some n) plans)
    \<and> cs_attempted_count s = length (cs_results s)
    \<and> cs_executed_count s + cs_skipped_count s + cs_failed_count s = cs_attempted_count s
    \<and> (0 \<le> n \<longrightarrow> cs_attempted_count s \<le> nat n)"
proof -
  let ?ps = "limited (Some n) plans"
  obtain results recovery w2 where loop: "for_loop (comp_step e cl c) ?ps ([], []) w1 = (Inr (results, recovery), w2)"
    using assms by (cases "for_loop (comp_step e cl c) ?ps ([], []) w1")
      (auto simp: execute_safe_actions_def py_simps Let_def split: sum.splits)
  obtain by_trade w3 where got: "(if recovery = [] then ret results
          else bnd (execute_recovery_actions e recovery) (\<lambda>more. ret (merge_results results more))) w2 = (Inr by_trade, w3)"
    using assms loop
    by (cases "(if recovery = [] then ret results
          else bnd (execute_recovery_actions e recovery) (\<lambda>more. ret (merge_results results more))) w2")
      (auto simp: execute_safe_actions_def bnd_run Let_def split: sum.splits)
  define ordered where "ordered = List.map_filter (\<lambda>p. map_of by_trade (cp_trade_id p)) ?ps"
  have s: "cs_results s = ordered" "cs_attempted_count s = length ?ps"
    "cs_executed_count s = comp_count Executed ordered" "cs_skipped_count s = comp_count Skipped ordered"
    "cs_failed_count s = comp_count OutcomeFailed ordered"
    using assms loop got
    by (auto simp: execute_safe_actions_def bnd_run Let_def utc_now_run ret_run simp flip: ordered_def)
  note seen = comp_loop_covers[OF loop]
  have "covers ?ps by_trade"
  proof (cases "recovery = []")
    case True
    then show ?thesis using seen got by (auto simp: covers_def ret_run)
  next
    case False
    then obtain extra where "execute_recovery_actions e recovery w2 = (Inr extra, w3)"
        "by_trade = merge_results results extra"
      using got by (auto simp: py_simps split: sum.splits prod.splits)
    moreover from this(1) have "covers recovery extra" by (rule comp_recovery_covers)
    ultimately have "covers recovery extra" "by_trade = merge_results results extra" by simp_all
    then show ?thesis using covers_merge[OF seen(2)] seen(1) merge_dom by (fastforce simp: covers_def)
  qed
  from covered_results[OF this] have ids: "map ci_trade_id ordered = map cp_trade_id ?ps"
    by (simp only: ordered_def)
  then have "length ordered = length ?ps" by (metis length_map)
  then show ?thesis using s ids comp_counts[of ordered] length_limited[of n plans] by simp
qed

definition drifted_live :: ledger_record where
  "drifted_live = tilted_record\<lparr>lr_mode := Live\<rparr>"

lemma drifted_plan: "comp_list_plans None True 50 (sample_world [drifted_live])
    = (Inr [hedge_comp_plan drifted_live (plan_of drifted_live 50)], sample_world [drifted_live])"
  and drifted_rebalances: "rebalances (hp_recommended_action (plan_of drifted_live 50))"
proof -
  let ?w = "sample_world [drifted_live]"
  have t: "lr_trade_id drifted_live = ''t1''" "lr_mode drifted_live = Live" "lr_status drifted_live = Hedged"
    "lr_net_exposure drifted_live = 500" "lr_spot_notional drifted_live = 1500" "lr_perp_notional drifted_live = 1000"
    by (simp_all add: drifted_live_def tilted_record_def)
  have rd: "readable ?w" "reports_readable ?w"
    by (simp_all add: reports_readable_def readable_def valid_ledger_record_def t)
  have ex: "exposure_bps drifted_live = py_round (fmul (fdiv 500 1500) 10000) 2"
    by (simp add: exposure_bps_def t)
  have "50 < py_round (fmul (fdiv 500 1500) 10000) 2" by code_simp
  then show reb: "rebalances (hp_recommended_action (plan_of drifted_live 50))"
    by (simp add: plan_rebalances t ex recovery_statuses_def monitoring_statuses_def)
  have miss: "rc_missing_order_ids (candidate_for (report_index (w_reports ?w)) (orch_events ?w) drifted_live) = []"
    by (simp add: candidate_for_def Let_def missing_ids_def expected_order_ids_def orch_events_def sorted_by_def)
  have c: "comp_build_plan drifted_live cand None 50 ?w = (Inr (hedge_comp_plan drifted_live (plan_of drifted_live 50)), ?w)"
    if "cand = None \<or> (\<exists>cd. cand = Some cd \<and> rc_missing_order_ids cd = [])" for cand
    using that rd t by (auto simp: comp_build_plan_def comp_after_recovery_def bnd_run build_plan_run ledger_map_def lookup_def ret_run)
  have lc: "list_candidates None False ?w = (Inr (sorted_desc candidate_key
      (map (candidate_for (report_index (w_reports ?w)) (orch_events ?w)) (live_trades ?w))), ?w)"
    using list_candidates_run[OF rd, of False] by simp
  have "map_of (dict_of rc_trade_id (sorted_desc candidate_key
      (map (candidate_for (report_index (w_reports ?w)) (orch_events ?w)) (live_trades ?w)))) ''t1'' = Some cd
      \<Longrightarrow> rc_missing_order_ids cd = []" for cd
    using dict_of_Some miss by (fastforce simp: live_trades_def split: if_splits)
  then have cand: "comp_build_plan drifted_live (map_of (dict_of rc_trade_id (sorted_desc candidate_key
      (map (candidate_for (report_index (w_reports ?w)) (orch_events ?w)) (live_trades ?w)))) ''t1'') None 50 ?w
      = (Inr (hedge_comp_plan drifted_live (plan_of drifted_live 50)), ?w)"
    by (intro c) (metis option.exhaust)
  have rl: "recovery_list_plans None False ?w = (Inr [], ?w)"
    using recovery_list_plans_run[OF rd, of False] by (simp add: t recoverable_statuses_def sorted_by_def)
  have act: "cp_actionable (hedge_comp_plan drifted_live (plan_of drifted_live 50))"
    using reb by (simp add: hedge_comp_plan_def)
  show "comp_list_plans None True 50 ?w = (Inr [hedge_comp_plan drifted_live (plan_of drifted_live 50)], ?w)"
    using rd t(1,2) cand act
    by (simp add: comp_list_plans_def bnd_run list_live_records lc rl ret_run sorted_by_def dict_of_def[of rp_trade_id])
qed

theorem compensation_accounts_witness:
  "\<exists>s w'. execute_safe_actions sample_env sample_client sample_orchestrator None (Some 5) 50 (sample_world [drifted_live]) = (Inr s, w')
     \<and> map ci_trade_id (cs_results s) = [''t1''] \<and> cs_attempted_count s = 1"
proof -
  have lim: "limited (Some 5) [p] = [p]" for p :: comp_plan by (simp add: limited_def slice_to_def)
  let ?p = "hedge_comp_plan drifted_live (plan_of drifted_live 50)" let ?w = "sample_world [drifted_live]"
  have p: "cp_recommended_action ?p = CompRebalance" "cp_trade_id ?p = ''t1''"
    using drifted_rebalances by (simp_all add: hedge_comp_plan_def drifted_live_def tilted_record_def)
  have "\<exists>d. comp_delta ?p = Inr d"
    using drifted_rebalances by (auto simp: comp_delta_def hedge_comp_plan_def comp_plan_for_def get_or_def py_or_def py_float_def)
  then obtain d where "comp_delta ?p = Inr d" ..
  moreover have "reference_price ''t1'' ?w = (Inr None, ?w)"
    by (simp add: reference_price_def py_simps reports_readable_def reference_report_def)
  ultimately have "\<exists>it. execute_rebalance_action sample_env sample_orchestrator ?p ?w = (Inr it, ?w)"
    by (cases "d = 0") (simp_all add: execute_rebalance_action_def lift_def bnd_run ret_run p(2))
  then obtain it where "execute_rebalance_action sample_env sample_orchestrator ?p ?w = (Inr it, ?w)" ..
  then obtain s w' where run: "execute_safe_actions sample_env sample_client sample_orchestrator None (Some 5) 50 ?w = (Inr s, w')"
    using p drifted_plan by (simp add: execute_safe_actions_def bnd_run Let_def lim comp_step_def py_simps)
  show ?thesis
    using compensation_accounts[OF drifted_plan run] run p(2) by (auto simp: lim dest: arg_cong[where f = length])
qed

end
