(* ===== verification/SafetyOps.thy ===== *)
theory SafetyOps
  imports OrchestratorProps
begin

section \<open>Emergency closing and the safety routes\<close>

text \<open>
  The operations of \<open>app/safety/service.py\<close> that close positions, the routes of
  \<open>app/safety/router.py\<close>, and the construction of an \<open>ExecutionIntentRequest\<close> by a
  caller inside the backend (\<open>intent_request\<close>), which the scheduler, the monitor and the
  trading service share.
\<close>

subsection \<open>Building an intent\<close>

definition mode_of :: "string \<Rightarrow> trade_mode option" where
  "mode_of s = (if s = ''paper'' then Some Paper else if s = ''live'' then Some Live else None)"

definition intent_request ::
  "string \<Rightarrow> string \<Rightarrow> string option \<Rightarrow> string \<Rightarrow> execution_action \<Rightarrow> float64 \<Rightarrow> float64 \<Rightarrow> py_error + intent" where
  \<comment> \<open>\<open>ExecutionIntentRequest(trade_id, mode, strategy_id, symbol, action, spot_notional, perp_notional)\<close>;
     no \<open>strategy_id\<close> is a missing required field\<close>
  "intent_request trade_id mode strategy_id symbol action spot perp =
     (case (mode_of mode, strategy_id) of
        (Some m, Some sid) \<Rightarrow>
          if 0 \<le> spot \<and> 0 \<le> perp then
            Inr \<lparr>it_trade_id = trade_id, it_mode = m, it_strategy_id = sid, it_symbol = symbol,
                 it_action = action, it_spot_notional = spot, it_perp_notional = perp,
                 it_spot_quantity = None, it_perp_quantity = None, it_realized_pnl = 0,
                 it_net_exposure = None, it_notes = None, it_simulate_perp_leg_failure = False\<rparr>
          else Inl (ValidationError ''ExecutionIntentRequest'')
      | _ \<Rightarrow> Inl (ValidationError ''ExecutionIntentRequest''))"

lemma mode_of_str [simp]: "mode_of (mode_str m) = Some m"
  by (cases m) (simp_all add: mode_of_def)

lemma intent_request_Inr:
  "intent_request k m sid smb a x y = Inr i \<Longrightarrow>
   valid_intent i \<and> it_trade_id i = k \<and> it_symbol i = smb \<and> it_action i = a
   \<and> it_spot_notional i = x \<and> it_perp_notional i = y \<and> mode_of m = Some (it_mode i)
   \<and> it_spot_quantity i = None \<and> it_perp_quantity i = None"
  by (auto simp: intent_request_def valid_intent_def split: option.splits if_splits)

lemma intent_request_missing [simp]:
  "intent_request k m None smb a x y = Inl (ValidationError ''ExecutionIntentRequest'')"
  by (simp add: intent_request_def split: option.splits)

subsection \<open>Emergency closing\<close>

record emergency_result =
  em_closed_count :: nat
  em_failed_count :: nat
  em_skipped_count :: nat
  em_results :: "pydict list"

definition empty_emergency :: emergency_result where
  "empty_emergency = \<lparr>em_closed_count = 0, em_failed_count = 0, em_skipped_count = 0, em_results = []\<rparr>"

definition em_row :: "string \<Rightarrow> string \<Rightarrow> pydict" where
  "em_row trade_id outcome = [(''trade_id'', PStr trade_id), (''outcome'', PStr outcome)]"

definition closable :: "ledger_record \<Rightarrow> bool" where
  "closable r \<longleftrightarrow> lr_status r \<in> {Hedged, Open}"

definition emergency_step ::
  "env \<Rightarrow> orchestrator \<Rightarrow> ledger_record \<Rightarrow> emergency_result \<Rightarrow> (world, emergency_result) py" where
  \<comment> \<open>one turn of the loop of \<open>emergency_close_all\<close>; the request has no \<open>strategy_id\<close>\<close>
  "emergency_step e c r res =
     bnd (attempt (thn (check_can_operate (lr_trade_id r))
            (bnd (lift (intent_request (lr_trade_id r) (mode_str (lr_mode r)) None (lr_symbol r) CloseHedge 0 0))
              (execute e c)))) (\<lambda>outcome.
     ret (case outcome of
        Inr _ \<Rightarrow> res\<lparr>em_closed_count := em_closed_count res + 1,
                   em_results := em_results res @ [em_row (lr_trade_id r) ''closed'']\<rparr>
      | Inl exc \<Rightarrow>
          if is_value_error exc then
            res\<lparr>em_skipped_count := em_skipped_count res + 1,
                em_results := em_results res @ [em_row (lr_trade_id r) ''skipped'' @ [(''reason'', PStr (exc_str exc))]]\<rparr>
          else
            res\<lparr>em_failed_count := em_failed_count res + 1,
                em_results := em_results res @ [em_row (lr_trade_id r) ''failed'' @ [(''reason'', PStr (exc_str exc))]]\<rparr>))"

definition emergency_close_all :: "env \<Rightarrow> orchestrator \<Rightarrow> (world, emergency_result) py" where
  "emergency_close_all e c =
     bnd (list_records None None None None) (\<lambda>rs.
     let active = filter closable rs in
     if active = [] then
       thn (safety_record e ''safety.emergency_close_all'' (utf8 [231, 180, 167, 230, 128, 165, 229, 185, 179, 228, 187, 147, 58, 32, 230, 151, 160, 230, 180, 187, 232, 183, 131, 230, 140, 129, 228, 187, 147]) Warning [])
         (ret empty_emergency)
     else
       thn (safety_record e ''safety.emergency_close_all''
              (utf8 [231, 180, 167, 230, 128, 165, 229, 185, 179, 228, 187, 147, 58, 32, 229, 188, 128, 229, 167, 139, 229, 185, 179, 228, 187, 147, 32]
               @ show_nat (length active) @ utf8 [32, 228, 184, 170, 230, 140, 129, 228, 187, 147]) Critical [])
         (for_loop (emergency_step e c) active empty_emergency))"

definition panic_sell :: "env \<Rightarrow> orchestrator \<Rightarrow> string \<Rightarrow> (world, emergency_result) py" where
  "panic_sell e c trade_id =
     bnd (get_record trade_id) (\<lambda>found. case found of
        None \<Rightarrow> raise (ValueError (''trade '' @ quoted trade_id @ '' not found''))
      | Some r \<Rightarrow>
          if \<not> closable r then
            ret (empty_emergency\<lparr>em_skipped_count := 1,
              em_results := [em_row trade_id ''skipped'' @ [(''reason'', PStr (''status is '' @ status_str (lr_status r)))]]\<rparr>)
          else
            thn (safety_record e ''safety.panic_sell''
                   (utf8 [229, 188, 186, 229, 136, 182, 229, 185, 179, 228, 187, 147, 58, 32] @ trade_id @ '' ('' @ lr_symbol r @ '')'')
                   Critical [(''trade_id'', PStr trade_id)])
            (bnd (lift (intent_request trade_id (mode_str (lr_mode r)) None (lr_symbol r) CloseHedge 0 0)) (\<lambda>req.
             thn (execute e c req)
               (ret (empty_emergency\<lparr>em_closed_count := 1, em_results := [em_row trade_id ''closed'']\<rparr>)))))"

subsection \<open>Routes\<close>

text \<open>
  A route gets its trade from the body, and the orchestrator from \<open>app.state\<close>: the
  argument is \<open>None\<close> when \<open>app.state.execution_orchestrator\<close> was not set, which is
  always the case, as \<open>app/main.py\<close> never sets it.
\<close>

definition with_trade_id :: "string option \<Rightarrow> (string \<Rightarrow> (world, 'a) py) \<Rightarrow> (world, 'a) py" where
  \<comment> \<open>\<open>if not body.trade_id: raise ValueError\<close>\<close>
  "with_trade_id k f = (case or_text k None of
     Some t \<Rightarrow> if t = [] then raise (ValueError ''trade_id is required'') else f t
   | None \<Rightarrow> raise (ValueError ''trade_id is required''))"

definition with_orchestrator :: "orchestrator option \<Rightarrow> (orchestrator \<Rightarrow> (world, 'a) py) \<Rightarrow> (world, 'a) py" where
  "with_orchestrator c f = (case c of
     None \<Rightarrow> raise (ValueError ''execution orchestrator not available'') | Some oc \<Rightarrow> f oc)"

definition route_reduce_only :: "env \<Rightarrow> string option \<Rightarrow> string option \<Rightarrow> (world, safety_snapshot) py" where
  "route_reduce_only e k reason = with_trade_id k (\<lambda>t. set_reduce_only e t reason)"

definition route_clear_reduce_only :: "env \<Rightarrow> string option \<Rightarrow> string option \<Rightarrow> (world, safety_snapshot) py" where
  "route_clear_reduce_only e k reason = with_trade_id k (\<lambda>t. unset_reduce_only e t reason)"

definition route_pause :: "env \<Rightarrow> string option \<Rightarrow> string option \<Rightarrow> (world, safety_snapshot) py" where
  "route_pause e k reason = with_trade_id k (\<lambda>t. pause_trade e t reason)"

definition route_unpause :: "env \<Rightarrow> string option \<Rightarrow> string option \<Rightarrow> (world, safety_snapshot) py" where
  "route_unpause e k reason = with_trade_id k (\<lambda>t. unpause_trade e t reason)"

definition route_emergency_close_all :: "env \<Rightarrow> orchestrator option \<Rightarrow> (world, emergency_result) py" where
  "route_emergency_close_all e c = with_orchestrator c (emergency_close_all e)"

definition route_panic_sell :: "env \<Rightarrow> orchestrator option \<Rightarrow> string option \<Rightarrow> (world, emergency_result) py" where
  "route_panic_sell e c k = with_trade_id k (\<lambda>t. with_orchestrator c (\<lambda>oc. panic_sell e oc t))"

subsection \<open>Properties\<close>

text \<open>
  C31: An emergency close closes nothing. On every readable ledger \<open>emergency_close_all\<close>
  raises, the ledger, the log, the breaker and the exchange as before; so does
  \<open>panic_sell\<close> of a trade that could be closed. The fault is not only the missing audit
  method: the loop itself skips every trade without touching the state, because its request
  has no strategy.
\<close>

lemma emergency_loop_skips:
  "\<exists>res. for_loop (emergency_step e c) rs res0 w = (Inr res, w)
    \<and> em_closed_count res = em_closed_count res0 \<and> em_failed_count res = em_failed_count res0
    \<and> em_skipped_count res = em_skipped_count res0 + length rs"
proof (induction rs arbitrary: res0)
  case (Cons r rs)
  obtain m where chk: "check_can_operate (lr_trade_id r) w
      = (if may_operate (lr_trade_id r) (w_safety w) then Inr () else Inl (ValueError m), w)"
    using check_can_operate_run by blast
  have "\<exists>res1. emergency_step e c r res0 w = (Inr res1, w)
      \<and> em_closed_count res1 = em_closed_count res0 \<and> em_failed_count res1 = em_failed_count res0
      \<and> em_skipped_count res1 = em_skipped_count res0 + 1"
    by (cases "may_operate (lr_trade_id r) (w_safety w)")
      (simp_all add: emergency_step_def bnd_run attempt_run thn_run lift_run ret_run chk)
  then obtain res1 where "emergency_step e c r res0 w = (Inr res1, w)"
    "em_closed_count res1 = em_closed_count res0" "em_failed_count res1 = em_failed_count res0"
    "em_skipped_count res1 = em_skipped_count res0 + 1"
    by blast
  then show ?case using Cons[of res1] by (auto simp: py_simps)
qed (simp add: py_simps)

definition nothing_closed :: "world \<Rightarrow> world \<Rightarrow> bool" where
  "nothing_closed w w' \<longleftrightarrow> w_ledger w' = w_ledger w \<and> w_events w' = w_events w
     \<and> w_breaker w' = w_breaker w \<and> w_sent w' = w_sent w"

theorem emergency_closes_nothing:
  assumes "readable w"
  shows "(\<exists>m w'. emergency_close_all e c w = (Inl (AttributeError m), w') \<and> nothing_closed w w')
    \<and> (case ledger_map w k of None \<Rightarrow> True | Some r \<Rightarrow> \<not> closable r
        \<or> (\<exists>m w'. panic_sell e c k w = (Inl (AttributeError m), w') \<and> nothing_closed w w'))
    \<and> (\<exists>res. for_loop (emergency_step e c) (filter closable (w_ledger w)) empty_emergency w = (Inr res, w)
        \<and> em_closed_count res = 0 \<and> em_skipped_count res = length (filter closable (w_ledger w)))"
proof (intro conjI)
  show "\<exists>m w'. emergency_close_all e c w = (Inl (AttributeError m), w') \<and> nothing_closed w w'"
    using assms by (simp add: emergency_close_all_def Let_def py_simps nothing_closed_def)
  show "case ledger_map w k of None \<Rightarrow> True | Some r \<Rightarrow> \<not> closable r
      \<or> (\<exists>m w'. panic_sell e c k w = (Inl (AttributeError m), w') \<and> nothing_closed w w')"
    using assms by (simp add: panic_sell_def ledger_map_def py_simps nothing_closed_def split: option.split)
  show "\<exists>res. for_loop (emergency_step e c) (filter closable (w_ledger w)) empty_emergency w = (Inr res, w)
      \<and> em_closed_count res = 0 \<and> em_skipped_count res = length (filter closable (w_ledger w))"
    using emergency_loop_skips[of e c "filter closable (w_ledger w)" empty_emergency w]
    by (auto simp: empty_emergency_def)
qed

theorem emergency_closes_nothing_witness:
  "(\<exists>m w'. panic_sell sample_env sample_orchestrator ''t1'' (sample_world [sample_record ''t1'' Hedged])
      = (Inl (AttributeError m), w') \<and> w_ledger w' = [sample_record ''t1'' Hedged])
   \<and> (\<exists>m w'. emergency_close_all sample_env sample_orchestrator (sample_world [sample_record ''t1'' Hedged])
      = (Inl (AttributeError m), w') \<and> w_sent w' = [])"
proof -
  have "closable (sample_record ''t1'' Hedged)" by (simp add: closable_def)
  then show ?thesis
    using emergency_closes_nothing[OF sample_readable(2)[of "''t1''" Hedged], of sample_env sample_orchestrator "''t1''"]
    by (fastforce simp: nothing_closed_def sample_map)
qed

end
