(* ===== verification/Market.thy ===== *)
theory Market
  imports Prelude
begin

section \<open>Market data and the opportunity scorer\<close>

text \<open>
  \<open>app/schemas/market.py\<close> (the snapshot and the score), \<open>app/opportunity/scorer.py\<close>
  (\<open>score_snapshot\<close>) and the ranking of \<open>app/strategy/funding_arb.py\<close>. Every
  float operation of the scorer is the rounded operation of \<open>Float64\<close>, in the source's
  order. The lemmas bound each component of the score and show how they move with the
  spreads.
\<close>

subsection \<open>Schemas\<close>

record market_snapshot =
  ms_symbol :: string
  ms_funding_rate :: float64
  ms_perp_bid :: float64
  ms_perp_ask :: float64
  ms_spot_bid :: float64
  ms_spot_ask :: float64
  ms_perp_mid :: float64
  ms_spot_mid :: float64
  ms_perp_spread_bps :: float64
  ms_spot_spread_bps :: float64

record score_breakdown =
  sb_carry_component :: float64
  sb_annualized_component :: float64
  sb_cost_penalty :: float64
  sb_basis_penalty :: float64
  sb_projected_edge_bps :: float64
  sb_base_edge_score :: float64
  sb_basis_penalty_score :: float64
  sb_basis_penalty_bps :: float64
  sb_final_score :: float64

record opportunity_score =
  os_symbol :: string
  os_funding_rate :: float64
  os_net_edge_bps :: float64
  os_score :: float64
  os_risk_tag :: string
  os_perp_bid :: float64
  os_perp_ask :: float64
  os_spot_bid :: float64
  os_spot_ask :: float64
  os_perp_mid :: float64
  os_spot_mid :: float64
  os_perp_spread_bps :: float64
  os_spot_spread_bps :: float64
  os_gross_edge_bps :: float64
  os_trading_cost_bps :: float64
  os_annualized_funding_rate_pct :: float64
  os_basis_bps :: float64
  os_projected_net_edge_bps :: float64
  os_payback_periods :: float64
  os_expected_hold_periods :: int
  os_score_breakdown :: score_breakdown

record score_config =
  sc_taker_fee_bps :: float64
  sc_funding_periods_per_day :: int
  sc_expected_hold_periods :: int
  sc_basis_soft_limit_bps :: float64
  sc_basis_guarded_bps :: float64
  sc_payback_guarded_periods :: float64
  sc_trading_cost_guarded_bps :: float64
  sc_carry_weight :: float64
  sc_annualized_weight :: float64
  sc_cost_soft_limit_bps :: float64
  sc_cost_penalty_weight :: float64
  sc_basis_penalty_weight :: float64

definition default_score_config :: score_config where
  "default_score_config = \<lparr>
     sc_taker_fee_bps = rnd (4 / 10),
     sc_funding_periods_per_day = 3,
     sc_expected_hold_periods = 6,
     sc_basis_soft_limit_bps = 2,
     sc_basis_guarded_bps = 8,
     sc_payback_guarded_periods = 1,
     sc_trading_cost_guarded_bps = 3,
     sc_carry_weight = 20,
     sc_annualized_weight = rnd (15 / 100),
     sc_cost_soft_limit_bps = rnd (3 / 2),
     sc_cost_penalty_weight = 1,
     sc_basis_penalty_weight = rnd (3 / 2)\<rparr>"

subsection \<open>The scorer\<close>

definition float_of_int :: "int \<Rightarrow> float64" where
  "float_of_int n = rnd (of_int n)"

definition compute_basis_bps :: "market_snapshot \<Rightarrow> float64" where
  "compute_basis_bps s =
     (if ms_spot_mid s \<le> 0 then 0
      else py_round (fmul \<bar>fdiv (fsub (ms_perp_mid s) (ms_spot_mid s)) (ms_spot_mid s)\<bar> 10000) 4)"

definition gross_edge_of :: "market_snapshot \<Rightarrow> float64" where
  "gross_edge_of s = py_round (fmul (ms_funding_rate s) 10000) 4"

definition trading_cost_of :: "score_config \<Rightarrow> market_snapshot \<Rightarrow> float64" where
  "trading_cost_of c s =
     py_round (fadd (fadd (fmul (sc_taker_fee_bps c) 2) (ms_perp_spread_bps s)) (ms_spot_spread_bps s)) 4"

definition annualized_of :: "score_config \<Rightarrow> market_snapshot \<Rightarrow> float64" where
  "annualized_of c s =
     py_round (fmul (fmul (fmul (ms_funding_rate s) (float_of_int (sc_funding_periods_per_day c))) 365) 100) 4"

definition projected_edge_of :: "score_config \<Rightarrow> market_snapshot \<Rightarrow> float64" where
  "projected_edge_of c s =
     py_round (fsub (fmul (gross_edge_of s) (float_of_int (sc_expected_hold_periods c))) (trading_cost_of c s)) 4"

definition risk_tag_of :: "score_config \<Rightarrow> float64 \<Rightarrow> float64 \<Rightarrow> float64 \<Rightarrow> float64 \<Rightarrow> float64 \<Rightarrow> float64 \<Rightarrow> string" where
  "risk_tag_of c gross projected net payback basis cost =
     (if gross \<le> 0 \<or> projected \<le> 0 then ''thin-edge''
      else if net \<le> 0 \<or> sc_payback_guarded_periods c < payback
              \<or> sc_basis_guarded_bps c \<le> basis
              \<or> sc_trading_cost_guarded_bps c \<le> cost then ''guarded''
      else ''normal'')"

definition breakdown_of :: "score_config \<Rightarrow> float64 \<Rightarrow> float64 \<Rightarrow> float64 \<Rightarrow> float64 \<Rightarrow> score_breakdown" where
  "breakdown_of c projected annualized cost basis =
     (let basis_penalty_bps = py_round (max (fsub basis (sc_basis_soft_limit_bps c)) 0) 4;
          carry = py_round (fmul (max projected 0) (sc_carry_weight c)) 4;
          ann = py_round (fmul (max annualized 0) (sc_annualized_weight c)) 4;
          cost_penalty = py_round (fmul (max (fsub cost (sc_cost_soft_limit_bps c)) 0) (sc_cost_penalty_weight c)) 4;
          basis_penalty = py_round (fmul basis_penalty_bps (sc_basis_penalty_weight c)) 4;
          base = py_round (fadd carry ann) 4;
          score = py_round (max (fsub (fsub base cost_penalty) basis_penalty) 0) 4
      in \<lparr>sb_carry_component = carry, sb_annualized_component = ann,
          sb_cost_penalty = cost_penalty, sb_basis_penalty = basis_penalty,
          sb_projected_edge_bps = projected, sb_base_edge_score = base,
          sb_basis_penalty_score = basis_penalty, sb_basis_penalty_bps = basis_penalty_bps,
          sb_final_score = score\<rparr>)"

definition score_snapshot :: "score_config \<Rightarrow> market_snapshot \<Rightarrow> opportunity_score" where
  "score_snapshot c s =
     (let gross = gross_edge_of s;
          cost = trading_cost_of c s;
          net = py_round (fsub gross cost) 4;
          annualized = annualized_of c s;
          basis = compute_basis_bps s;
          projected = projected_edge_of c s;
          payback = (if 0 < gross then py_round (fdiv cost gross) 4 else 0);
          b = breakdown_of c projected annualized cost basis
      in \<lparr>os_symbol = ms_symbol s, os_funding_rate = ms_funding_rate s,
          os_net_edge_bps = net, os_score = sb_final_score b,
          os_risk_tag = risk_tag_of c gross projected net payback basis cost,
          os_perp_bid = ms_perp_bid s, os_perp_ask = ms_perp_ask s,
          os_spot_bid = ms_spot_bid s, os_spot_ask = ms_spot_ask s,
          os_perp_mid = ms_perp_mid s, os_spot_mid = ms_spot_mid s,
          os_perp_spread_bps = ms_perp_spread_bps s, os_spot_spread_bps = ms_spot_spread_bps s,
          os_gross_edge_bps = gross, os_trading_cost_bps = cost,
          os_annualized_funding_rate_pct = annualized, os_basis_bps = basis,
          os_projected_net_edge_bps = projected, os_payback_periods = payback,
          os_expected_hold_periods = sc_expected_hold_periods c,
          os_score_breakdown = b\<rparr>)"

text \<open>
  \<open>score_snapshot(snapshot, taker_fee_bps, config)\<close> uses \<open>ScoreConfig(taker_fee_bps=...)\<close>
  when no configuration is given.
\<close>

definition active_config :: "float64 \<Rightarrow> score_config option \<Rightarrow> score_config" where
  "active_config taker_fee_bps config =
     (case config of None \<Rightarrow> default_score_config\<lparr>sc_taker_fee_bps := taker_fee_bps\<rparr> | Some c \<Rightarrow> c)"

text \<open>\<open>FundingArbStrategy.score_snapshots\<close>: score every snapshot, best score first.\<close>

definition score_snapshots :: "score_config option \<Rightarrow> market_snapshot list \<Rightarrow> opportunity_score list" where
  "score_snapshots config snapshots =
     sorted_desc os_score (map (score_snapshot (active_config (rnd (4 / 10)) config)) snapshots)"

subsection \<open>Integers as floats\<close>

lemma float_of_int_nonneg: "0 \<le> n \<Longrightarrow> 0 \<le> float_of_int n"
  unfolding float_of_int_def by (rule f64.rd_nonneg) simp

lemma float_of_int_mono: "m \<le> n \<Longrightarrow> float_of_int m \<le> float_of_int n"
  unfolding float_of_int_def by (rule rnd_mono) simp

lemma float_of_int_1 [simp]: "float_of_int 1 = 1"
  by (simp add: float_of_int_def)

subsection \<open>Shape and bounds of a score\<close>

definition score_config_ok :: "score_config \<Rightarrow> bool" where
  "score_config_ok c \<longleftrightarrow> 1 \<le> sc_expected_hold_periods c \<and> 0 \<le> sc_funding_periods_per_day c
     \<and> 0 \<le> sc_carry_weight c \<and> 0 \<le> sc_annualized_weight c
     \<and> 0 \<le> sc_cost_penalty_weight c \<and> 0 \<le> sc_basis_penalty_weight c"

lemma default_score_config_ok: "score_config_ok default_score_config"
  by (simp add: score_config_ok_def default_score_config_def f64.rd_nonneg)

lemma breakdown_nonneg:
  assumes "score_config_ok c" and b: "b = breakdown_of c projected annualized cost basis"
  shows "0 \<le> sb_carry_component b" "0 \<le> sb_annualized_component b"
    "0 \<le> sb_cost_penalty b" "0 \<le> sb_basis_penalty b" "0 \<le> sb_basis_penalty_bps b"
    "0 \<le> sb_base_edge_score b" "0 \<le> sb_final_score b"
  using assms(1) unfolding b breakdown_of_def Let_def score_config_ok_def
  by (auto intro!: float_nonneg)

lemma breakdown_final_mono:
  assumes "score_config_ok c" "projected \<le> projected'" "annualized \<le> annualized'"
    "cost' \<le> cost" "basis' \<le> basis"
  shows "sb_final_score (breakdown_of c projected annualized cost basis)
       \<le> sb_final_score (breakdown_of c projected' annualized' cost' basis')"
  using assms unfolding breakdown_of_def Let_def score_config_ok_def
  by (auto intro!: float_mono)

lemma score_snapshot_fields:
  "os_score (score_snapshot c s) = sb_final_score (os_score_breakdown (score_snapshot c s))"
  "os_gross_edge_bps (score_snapshot c s) = gross_edge_of s"
  "os_trading_cost_bps (score_snapshot c s) = trading_cost_of c s"
  "os_projected_net_edge_bps (score_snapshot c s) = projected_edge_of c s"
  "os_net_edge_bps (score_snapshot c s) = py_round (fsub (gross_edge_of s) (trading_cost_of c s)) 4"
  "os_symbol (score_snapshot c s) = ms_symbol s"
  by (simp_all add: score_snapshot_def Let_def)

lemma trading_cost_mono:
  "ms_perp_spread_bps s \<le> ms_perp_spread_bps s' \<Longrightarrow> ms_spot_spread_bps s \<le> ms_spot_spread_bps s' \<Longrightarrow>
   trading_cost_of c s \<le> trading_cost_of c s'"
  unfolding trading_cost_of_def by (auto intro!: float_mono)

lemma gross_edge_mono: "ms_funding_rate s \<le> ms_funding_rate s' \<Longrightarrow> gross_edge_of s \<le> gross_edge_of s'"
  unfolding gross_edge_of_def by (auto intro!: float_mono)

lemma projected_edge_mono:
  assumes "score_config_ok c" "gross_edge_of s \<le> gross_edge_of s'" "trading_cost_of c s' \<le> trading_cost_of c s"
  shows "projected_edge_of c s \<le> projected_edge_of c s'"
  using assms float_of_int_nonneg[of "sc_expected_hold_periods c"]
  unfolding projected_edge_of_def score_config_ok_def by (auto intro!: float_mono)

lemma annualized_mono:
  assumes "score_config_ok c" "ms_funding_rate s \<le> ms_funding_rate s'"
  shows "annualized_of c s \<le> annualized_of c s'"
  using assms float_of_int_nonneg[of "sc_funding_periods_per_day c"]
  unfolding annualized_of_def score_config_ok_def by (auto intro!: float_mono)

text \<open>
  With at least one expected holding period, the projected edge dominates the net edge of a
  profitable funding rate.
\<close>

lemma net_le_projected:
  assumes "score_config_ok c" "0 \<le> gross_edge_of s"
  shows "py_round (fsub (gross_edge_of s) (trading_cost_of c s)) 4 \<le> projected_edge_of c s"
proof -
  have "1 \<le> float_of_int (sc_expected_hold_periods c)"
    using float_of_int_mono[of 1 "sc_expected_hold_periods c"] assms(1)
    by (simp add: score_config_ok_def)
  then have "gross_edge_of s * 1 \<le> gross_edge_of s * float_of_int (sc_expected_hold_periods c)"
    using assms(2) by (rule mult_left_mono)
  then have "rnd (gross_edge_of s) \<le> fmul (gross_edge_of s) (float_of_int (sc_expected_hold_periods c))"
    unfolding fmul_def by (intro rnd_mono) simp
  then have "gross_edge_of s \<le> fmul (gross_edge_of s) (float_of_int (sc_expected_hold_periods c))"
    by (simp add: gross_edge_of_def rnd_f64)
  then show ?thesis unfolding projected_edge_of_def by (intro float_mono) auto
qed

subsection \<open>Ranking\<close>

lemma score_snapshots_set:
  "set (score_snapshots config ss) = score_snapshot (active_config (rnd (4 / 10)) config) ` set ss"
  by (simp add: score_snapshots_def)

lemma score_snapshots_sorted:
  "sorted_wrt (\<lambda>x y. os_score y \<le> os_score x) (score_snapshots config ss)"
  unfolding score_snapshots_def by (rule sorted_sorted_desc)

lemma length_score_snapshots [simp]: "length (score_snapshots config ss) = length ss"
  by (simp add: score_snapshots_def)

lemma score_nonneg: "score_config_ok c \<Longrightarrow> 0 \<le> os_score (score_snapshot c s)"
  by (simp add: score_snapshot_def Let_def breakdown_nonneg(7)[OF _ refl])

lemma score_mono:
  assumes ok: "score_config_ok c"
    and rate: "ms_funding_rate s \<le> ms_funding_rate s'"
    and perp: "ms_perp_spread_bps s' \<le> ms_perp_spread_bps s"
    and spot: "ms_spot_spread_bps s' \<le> ms_spot_spread_bps s"
    and basis: "compute_basis_bps s' \<le> compute_basis_bps s"
  shows "os_score (score_snapshot c s) \<le> os_score (score_snapshot c s')"
proof -
  have cost: "trading_cost_of c s' \<le> trading_cost_of c s" by (rule trading_cost_mono[OF perp spot])
  have "projected_edge_of c s \<le> projected_edge_of c s'"
    by (rule projected_edge_mono[OF ok gross_edge_mono[OF rate] cost])
  then show ?thesis
    using breakdown_final_mono[OF ok _ annualized_mono[OF ok rate] cost basis]
    by (simp add: score_snapshot_def Let_def)
qed

subsection \<open>Properties\<close>

text \<open>
  C1: A larger funding rate, narrower spreads and a smaller basis never lower the score of
  an opportunity, although every intermediate value is rounded twice (to binary64 and to
  four decimals). The configuration only needs non-negative weights and one expected
  holding period.
\<close>

theorem score_monotone:
  assumes "score_config_ok c"
    and "ms_funding_rate s \<le> ms_funding_rate s'"
    and "ms_perp_spread_bps s' \<le> ms_perp_spread_bps s"
    and "ms_spot_spread_bps s' \<le> ms_spot_spread_bps s"
    and "compute_basis_bps s' \<le> compute_basis_bps s"
  shows "os_score (score_snapshot c s) \<le> os_score (score_snapshot c s')
    \<and> 0 \<le> os_score (score_snapshot c s)"
  using assms by (simp add: score_mono score_nonneg)

definition sample_snapshot :: "float64 \<Rightarrow> market_snapshot" where
  "sample_snapshot rate = \<lparr>ms_symbol = ''BTCUSDT'', ms_funding_rate = rate,
     ms_perp_bid = 100, ms_perp_ask = 100, ms_spot_bid = 100, ms_spot_ask = 100,
     ms_perp_mid = 100, ms_spot_mid = 100, ms_perp_spread_bps = 1, ms_spot_spread_bps = 1\<rparr>"

theorem score_monotone_witness:
  "os_score (score_snapshot default_score_config (sample_snapshot 0))
   \<le> os_score (score_snapshot default_score_config (sample_snapshot 1))
   \<and> 0 \<le> os_score (score_snapshot default_score_config (sample_snapshot 0))"
  by (rule score_monotone)
    (simp_all add: default_score_config_ok sample_snapshot_def compute_basis_bps_def)

text \<open>
  The funding strategy returns exactly one score per snapshot, best first, and with
  the default configuration no score is negative.
\<close>

theorem ranking_correct:
  "mset (score_snapshots config ss)
     = image_mset (score_snapshot (active_config (rnd (4 / 10)) config)) (mset ss)
   \<and> sorted_wrt (\<lambda>x y. os_score y \<le> os_score x) (score_snapshots config ss)
   \<and> sum_list (map (\<lambda>x. if os_score x < 0 then 1 else 0) (score_snapshots None ss)) = (0::nat)"
proof -
  have "active_config (rnd (4 / 10)) None = default_score_config"
    by (simp add: active_config_def default_score_config_def)
  then have "\<not> os_score x < 0" if "x \<in> set (score_snapshots None ss)" for x
    using that by (auto simp: score_snapshots_set not_less score_nonneg default_score_config_ok)
  then have "map (\<lambda>x. if os_score x < 0 then 1 else (0::nat)) (score_snapshots None ss)
      = map (\<lambda>x. 0) (score_snapshots None ss)" by simp
  then show ?thesis
    using score_snapshots_sorted[of config ss]
    by (simp add: score_snapshots_def[of config] sum_list_triv)
qed

end
