(* ===== verification/RiskPolicy.thy ===== *)
theory RiskPolicy
  imports Market
begin

section \<open>The opportunity risk policy\<close>

text \<open>
  \<open>app/risk/policy.py\<close>: \<open>OpportunityRiskPolicy.evaluate\<close> turns a score into
  allow, review or block, with its reasons, position fraction and confidence. The lemmas
  characterise each decision by the thresholds and show that the fields stay within the
  ranges the pydantic model demands, so building the decision never raises.
\<close>

datatype decision = Allow | Review | Block

fun decision_str :: "decision \<Rightarrow> string" where
  "decision_str Allow = ''allow''"
| "decision_str Review = ''review''"
| "decision_str Block = ''block''"

record risk_decision =
  rd_decision :: decision
  rd_reasons :: "string list"
  rd_max_position_fraction :: float64
  rd_confidence :: float64

record risk_config =
  rc_min_allow_score :: float64
  rc_min_review_score :: float64
  rc_min_allow_net_edge_bps :: float64
  rc_min_allow_projected_edge_bps :: float64
  rc_max_allow_basis_bps :: float64
  rc_max_review_basis_bps :: float64
  rc_max_allow_trading_cost_bps :: float64
  rc_max_allow_payback_periods :: float64

definition default_risk_config :: risk_config where
  "default_risk_config = \<lparr>
     rc_min_allow_score = 100, rc_min_review_score = 10,
     rc_min_allow_net_edge_bps = 4, rc_min_allow_projected_edge_bps = 2,
     rc_max_allow_basis_bps = 7, rc_max_review_basis_bps = 100,
     rc_max_allow_trading_cost_bps = 3, rc_max_allow_payback_periods = 1\<rparr>"

definition or_float :: "float64 \<Rightarrow> float64 \<Rightarrow> float64" where
  \<comment> \<open>\<open>a or b\<close> on floats: zero is falsy\<close>
  "or_float a b = (if a = 0 then b else a)"

definition policy_reasons :: "risk_config \<Rightarrow> opportunity_score \<Rightarrow> float64 \<Rightarrow> string list" where
  "policy_reasons c s projected =
     (if os_risk_tag s = ''guarded'' \<or> rc_max_allow_basis_bps c < os_basis_bps s
      then [''basis_wide''] else [])
   @ (if rc_max_allow_trading_cost_bps c < os_trading_cost_bps s then [''elevated_cost''] else [])
   @ (if os_score s < rc_min_allow_score c then [''low_score''] else [])
   @ (if rc_max_allow_payback_periods c < os_payback_periods s \<or> os_net_edge_bps s \<le> 0
      then [''slow_payback''] else [])
   @ (if projected < rc_min_allow_projected_edge_bps c then [''low_edge'']
      else if os_net_edge_bps s < rc_min_allow_net_edge_bps c then [''low_edge''] else [])"

definition evaluate :: "risk_config \<Rightarrow> opportunity_score \<Rightarrow> risk_decision" where
  "evaluate c s =
     (let projected = or_float (os_projected_net_edge_bps s) (os_net_edge_bps s) in
      if projected \<le> 0 \<or> os_score s \<le> 0 \<or> os_gross_edge_bps s \<le> 0 then
        \<lparr>rd_decision = Block, rd_reasons = [''negative_edge''],
         rd_max_position_fraction = 0, rd_confidence = rnd (5 / 100)\<rparr>
      else if rc_max_review_basis_bps c < os_basis_bps s then
        \<lparr>rd_decision = Block, rd_reasons = [''basis_extreme''],
         rd_max_position_fraction = 0, rd_confidence = rnd (1 / 10)\<rparr>
      else
        let reasons = policy_reasons c s projected in
        if reasons \<noteq> [] then
          if os_score s < rc_min_review_score c then
            \<lparr>rd_decision = Block, rd_reasons = sort (remdups reasons),
             rd_max_position_fraction = 0, rd_confidence = rnd (2 / 10)\<rparr>
          else
            \<lparr>rd_decision = Review, rd_reasons = sort (remdups reasons),
             rd_max_position_fraction = rnd (35 / 100),
             rd_confidence = min (max (fdiv (os_score s) 200) (rnd (35 / 100))) (rnd (75 / 100))\<rparr>
        else
          \<lparr>rd_decision = Allow, rd_reasons = [], rd_max_position_fraction = 1,
           rd_confidence = min (max (fdiv (os_score s) 160) (rnd (55 / 100))) 1\<rparr>)"

subsection \<open>The decisions\<close>

text \<open>What an allowed opportunity has to meet, threshold by threshold.\<close>

definition allow_spec :: "risk_config \<Rightarrow> opportunity_score \<Rightarrow> bool" where
  "allow_spec c s \<longleftrightarrow>
     (let projected = or_float (os_projected_net_edge_bps s) (os_net_edge_bps s) in
      0 < projected \<and> 0 < os_score s \<and> 0 < os_gross_edge_bps s \<and> 0 < os_net_edge_bps s
      \<and> os_basis_bps s \<le> rc_max_review_basis_bps c \<and> os_basis_bps s \<le> rc_max_allow_basis_bps c
      \<and> os_risk_tag s \<noteq> ''guarded''
      \<and> os_trading_cost_bps s \<le> rc_max_allow_trading_cost_bps c
      \<and> rc_min_allow_score c \<le> os_score s
      \<and> os_payback_periods s \<le> rc_max_allow_payback_periods c
      \<and> rc_min_allow_projected_edge_bps c \<le> projected
      \<and> rc_min_allow_net_edge_bps c \<le> os_net_edge_bps s)"

lemma policy_reasons_empty:
  "policy_reasons c s projected = [] \<longleftrightarrow>
     os_risk_tag s \<noteq> ''guarded'' \<and> os_basis_bps s \<le> rc_max_allow_basis_bps c
     \<and> os_trading_cost_bps s \<le> rc_max_allow_trading_cost_bps c
     \<and> rc_min_allow_score c \<le> os_score s
     \<and> os_payback_periods s \<le> rc_max_allow_payback_periods c \<and> 0 < os_net_edge_bps s
     \<and> rc_min_allow_projected_edge_bps c \<le> projected
     \<and> rc_min_allow_net_edge_bps c \<le> os_net_edge_bps s"
  by (auto simp: policy_reasons_def not_le not_less)

lemma evaluate_allow: "rd_decision (evaluate c s) = Allow \<longleftrightarrow> allow_spec c s"
  by (auto simp: evaluate_def allow_spec_def Let_def policy_reasons_empty not_le not_less)

lemma evaluate_fraction:
  "rd_max_position_fraction (evaluate c s) =
    (case rd_decision (evaluate c s) of Allow \<Rightarrow> 1 | Review \<Rightarrow> rnd (35 / 100) | Block \<Rightarrow> 0)"
  by (simp add: evaluate_def Let_def)

lemma rnd_unit: "0 \<le> x \<Longrightarrow> x \<le> 1 \<Longrightarrow> 0 \<le> rnd x \<and> rnd x \<le> 1"
  using rnd_mono[of x 1] f64.rd_nonneg[of x] by simp

lemma evaluate_ranges:
  "0 \<le> rd_max_position_fraction (evaluate c s)" "rd_max_position_fraction (evaluate c s) \<le> 1"
  "0 \<le> rd_confidence (evaluate c s)" "rd_confidence (evaluate c s) \<le> 1"
  using rnd_unit[of "35 / 100"] rnd_unit[of "5 / 100"] rnd_unit[of "1 / 10"] rnd_unit[of "2 / 10"]
    rnd_unit[of "75 / 100"] rnd_unit[of "55 / 100"]
  by (auto simp: evaluate_def Let_def min_def max_def)

subsection \<open>The policy on the scorer's output\<close>

lemma reasons_empty_iff: "rd_reasons (evaluate c s) = [] \<longleftrightarrow> rd_decision (evaluate c s) = Allow"
proof -
  have "xs \<noteq> [] \<Longrightarrow> sort (remdups xs) \<noteq> []" for xs :: "string list"
    by (metis remdups_eq_nil_iff set_empty set_sort)
  then show ?thesis by (auto simp: evaluate_def Let_def)
qed

lemma block_of_edge:
  "or_float (os_projected_net_edge_bps s) (os_net_edge_bps s) \<le> 0 \<or> os_gross_edge_bps s \<le> 0 \<Longrightarrow>
   rd_decision (evaluate c s) = Block"
  by (auto simp: evaluate_def Let_def)

lemma risk_tag_thin:
  "os_risk_tag (score_snapshot c s) = ''thin-edge'' \<longleftrightarrow>
     gross_edge_of s \<le> 0 \<or> projected_edge_of c s \<le> 0"
  by (simp add: score_snapshot_def Let_def risk_tag_of_def)

lemma risk_tag_cases:
  "os_risk_tag (score_snapshot c s) \<in> {''thin-edge'', ''guarded'', ''normal''}"
  by (simp add: score_snapshot_def Let_def risk_tag_of_def)

lemma thin_edge_block:
  assumes ok: "score_config_ok c" and thin: "os_risk_tag (score_snapshot c s) = ''thin-edge''"
  shows "rd_decision (evaluate rc (score_snapshot c s)) = Block"
proof (cases "gross_edge_of s \<le> 0")
  case True
  then show ?thesis by (intro block_of_edge) (simp add: score_snapshot_fields)
next
  case False
  then have "projected_edge_of c s \<le> 0" using thin by (simp add: risk_tag_thin)
  moreover have "py_round (fsub (gross_edge_of s) (trading_cost_of c s)) 4 \<le> projected_edge_of c s"
    using False by (intro net_le_projected[OF ok]) simp
  ultimately show ?thesis
    by (intro block_of_edge) (auto simp: score_snapshot_fields or_float_def)
qed

text \<open>A configuration without fees, and the values of a snapshot under it.\<close>

definition fee_free_config :: score_config where
  "fee_free_config = default_score_config\<lparr>sc_taker_fee_bps := 0, sc_annualized_weight := 0,
     sc_cost_penalty_weight := 0, sc_basis_penalty_weight := 0\<rparr>"

lemma fee_free_values:
  "gross_edge_of (sample_snapshot (1 / 128)) = 625 / 8"
  "trading_cost_of fee_free_config (sample_snapshot (1 / 128)) = 2"
  "projected_edge_of fee_free_config (sample_snapshot (1 / 128)) = 1867 / 4"
  "py_round (fsub (625 / 8) 2) 4 = 609 / 8"
  "\<not> 1 < py_round (fdiv 2 (625 / 8)) 4"
  by code_simp+

lemma fee_free_score:
  "compute_basis_bps (sample_snapshot (1 / 128)) = 0"
  "sb_final_score (breakdown_of fee_free_config (1867 / 4) x 2 0) = 9335"
proof -
  show "compute_basis_bps (sample_snapshot (1 / 128)) = 0"
    by (simp add: compute_basis_bps_def sample_snapshot_def fsub_def fdiv_def fmul_def)
  have "py_round (fmul (1867 / 4) 20) 4 = 9335" "py_round 9335 4 = 9335" "fsub 9335 0 = 9335"
    by code_simp+
  then show "sb_final_score (breakdown_of fee_free_config (1867 / 4) x 2 0) = 9335"
    by (simp add: breakdown_of_def Let_def fee_free_config_def default_score_config_def max_def)
qed

lemma fee_free_fields:
  "sc_payback_guarded_periods fee_free_config = 1"
  "sc_basis_guarded_bps fee_free_config = 8"
  "sc_trading_cost_guarded_bps fee_free_config = 3"
  by (simp_all add: fee_free_config_def default_score_config_def)

subsection \<open>Properties\<close>

text \<open>
  C3: The policy allows an opportunity exactly when every threshold holds (\<open>allow_spec\<close>);
  it gives reasons exactly when it does not allow; the position fraction is determined by
  the decision; and fraction and confidence lie in [0, 1], so constructing the decision
  passes pydantic's range checks.
\<close>

theorem policy_correct:
  "(rd_decision (evaluate c s) = Allow \<longleftrightarrow> allow_spec c s)
   \<and> (rd_reasons (evaluate c s) = [] \<longleftrightarrow> rd_decision (evaluate c s) = Allow)
   \<and> rd_max_position_fraction (evaluate c s)
       = (case rd_decision (evaluate c s) of Allow \<Rightarrow> 1 | Review \<Rightarrow> rnd (35 / 100) | Block \<Rightarrow> 0)
   \<and> 0 \<le> rd_max_position_fraction (evaluate c s) \<and> rd_max_position_fraction (evaluate c s) \<le> 1
   \<and> 0 \<le> rd_confidence (evaluate c s) \<and> rd_confidence (evaluate c s) \<le> 1"
  using evaluate_allow[of c s] reasons_empty_iff[of c s] evaluate_fraction[of c s]
    evaluate_ranges[of c s] by blast

text \<open>
  C4: Scorer and policy agree: an opportunity the scorer tags thin-edge is always blocked,
  and one the policy allows carries the tag normal.
\<close>

theorem scorer_policy_agree:
  assumes "score_config_ok c"
  shows "(os_risk_tag (score_snapshot c s) = ''thin-edge''
           \<longrightarrow> rd_decision (evaluate rc (score_snapshot c s)) = Block)
    \<and> (rd_decision (evaluate rc (score_snapshot c s)) = Allow
           \<longrightarrow> os_risk_tag (score_snapshot c s) = ''normal'')"
proof (intro conjI impI)
  show "os_risk_tag (score_snapshot c s) = ''thin-edge'' \<Longrightarrow>
      rd_decision (evaluate rc (score_snapshot c s)) = Block"
    by (rule thin_edge_block[OF assms])
  assume allow: "rd_decision (evaluate rc (score_snapshot c s)) = Allow"
  then have "os_risk_tag (score_snapshot c s) \<noteq> ''thin-edge''"
    using thin_edge_block[OF assms, of s rc] by auto
  moreover have "os_risk_tag (score_snapshot c s) \<noteq> ''guarded''"
    using allow by (simp add: evaluate_allow allow_spec_def Let_def)
  ultimately show "os_risk_tag (score_snapshot c s) = ''normal''"
    using risk_tag_cases[of c s] by simp
qed

theorem scorer_policy_agree_witness:
  "rd_decision (evaluate default_risk_config (score_snapshot fee_free_config (sample_snapshot 0))) = Block
   \<and> os_risk_tag (score_snapshot fee_free_config (sample_snapshot (1 / 128))) = ''normal''"
proof -
  have ok: "score_config_ok fee_free_config"
    using default_score_config_ok by (simp add: score_config_ok_def fee_free_config_def)
  have "os_risk_tag (score_snapshot fee_free_config (sample_snapshot 0)) = ''thin-edge''"
    by (simp add: risk_tag_thin gross_edge_of_def sample_snapshot_def fmul_def)
  moreover have "rd_decision (evaluate default_risk_config
      (score_snapshot fee_free_config (sample_snapshot (1 / 128)))) = Allow"
    by (simp add: evaluate_allow allow_spec_def Let_def score_snapshot_def fee_free_values
        fee_free_score fee_free_fields risk_tag_of_def default_risk_config_def or_float_def fee_free_values(5)[unfolded not_less])
  ultimately show ?thesis using scorer_policy_agree[OF ok] by blast
qed

end
