(* ===== verification/Scheduler.thy ===== *)
theory Scheduler
  imports SafetyOps RiskPolicy
begin

section \<open>Strategy scheduler\<close>

text \<open>
  \<open>app/scheduler/service.py\<close>: one cycle scores the snapshots, opens positions for allowed
  opportunities while the limits and the safety switch permit, and closes hedged positions
  whose signal turned. The early \<open>check_can_open\<close> of the source has no effect and is left
  out. The last step of a cycle is the audit call with the missing method.
\<close>

record cycle_action =
  ya_action :: execution_action
  ya_symbol :: string
  ya_trade_id :: string
  ya_score :: float64
  ya_risk_decision :: string
  ya_reason :: string

record cycle_result =
  yr_started_at :: datetime
  yr_finished_at :: datetime
  yr_snapshots_evaluated :: nat
  yr_positions_evaluated :: nat
  yr_actions_generated :: nat
  yr_actions_executed :: nat
  yr_actions_skipped :: nat
  yr_actions_failed :: nat
  yr_actions :: "cycle_action list"

record scheduler =
  sd_score_config :: "score_config option" \<comment> \<open>of the strategy\<close>
  sd_risk_config :: risk_config

record cycle_state =
  cy_actions :: "cycle_action list"
  cy_executed :: nat
  cy_failed :: nat
  cy_count :: int
  cy_notional :: float64

definition trade_notional :: float64 where
  "trade_notional = 1000"

definition cycle_done :: "cycle_action \<Rightarrow> cycle_state \<Rightarrow> cycle_state" where
  \<comment> \<open>\<open>executed += 1\<close> and the action appended\<close>
  "cycle_done a st = st\<lparr>cy_executed := cy_executed st + 1, cy_actions := cy_actions st @ [a]\<rparr>"

definition cycle_failed :: "cycle_action \<Rightarrow> py_error \<Rightarrow> cycle_state \<Rightarrow> cycle_state" where
  \<comment> \<open>\<open>failed += 1\<close> and the action appended with its reason\<close>
  "cycle_failed a exc st = st\<lparr>cy_failed := cy_failed st + 1,
     cy_actions := cy_actions st @ [a\<lparr>ya_reason := ''failed: '' @ exc_str exc\<rparr>]\<rparr>"

definition open_trade ::
  "env \<Rightarrow> orchestrator \<Rightarrow> string \<Rightarrow> opportunity_score \<Rightarrow> risk_decision \<Rightarrow> cycle_state \<Rightarrow> (world, cycle_state) py" where
  "open_trade e c app_mode s d st =
     bnd (uuid_hex e) (\<lambda>u.
     let k = ''sch-'' @ slice_to u 8;
         a = \<lparr>ya_action = OpenHedge, ya_symbol = os_symbol s, ya_trade_id = k, ya_score = os_score s,
              ya_risk_decision = decision_str (rd_decision d), ya_reason = ''scheduler auto-open''\<rparr> in
     bnd (attempt (bnd (lift (intent_request k app_mode (Some ''funding-arb'') (os_symbol s) OpenHedge
                               trade_notional trade_notional)) (execute e c))) (\<lambda>r.
     ret (case r of
        Inr _ \<Rightarrow> (cycle_done a st)\<lparr>cy_count := cy_count st + 1,
                   cy_notional := fadd (cy_notional st) trade_notional\<rparr>
      | Inl exc \<Rightarrow> cycle_failed a exc st)))"

primrec open_loop ::
  "env \<Rightarrow> orchestrator \<Rightarrow> risk_config \<Rightarrow> string \<Rightarrow> int \<Rightarrow> float64 \<Rightarrow> opportunity_score list \<Rightarrow>
   cycle_state \<Rightarrow> (world, cycle_state) py" where
  \<comment> \<open>step 4 of \<open>run_cycle\<close>; not recursing is \<open>break\<close>\<close>
  "open_loop e c rc app_mode max_open max_notional [] st = ret st"
| "open_loop e c rc app_mode max_open max_notional (s # ss) st =
     (let d = evaluate rc s in
      if os_risk_tag s = ''blocked'' then open_loop e c rc app_mode max_open max_notional ss st
      else if rd_decision d \<noteq> Allow then open_loop e c rc app_mode max_open max_notional ss st
      else if max_open \<le> cy_count st then ret st
      else if max_notional \<le> cy_notional st then ret st
      else bnd (attempt check_can_open) (\<lambda>g. case g of
          Inl exc \<Rightarrow> if is_value_error exc then ret st else raise exc
        | Inr _ \<Rightarrow> bnd (open_trade e c app_mode s d st)
                     (open_loop e c rc app_mode max_open max_notional ss)))"

definition close_signal :: "opportunity_score \<Rightarrow> string option" where
  \<comment> \<open>\<open>_evaluate_close_signal\<close>\<close>
  "close_signal s = (if os_funding_rate s < 0 then Some ''funding_rate_reversed''
     else if os_net_edge_bps s < 0 then Some ''net_edge_negative'' else None)"

definition close_trade ::
  "env \<Rightarrow> orchestrator \<Rightarrow> ledger_record \<Rightarrow> opportunity_score \<Rightarrow> string \<Rightarrow> cycle_state \<Rightarrow> (world, cycle_state) py" where
  "close_trade e c r s reason st =
     (let a = \<lparr>ya_action = CloseHedge, ya_symbol = lr_symbol r, ya_trade_id = lr_trade_id r,
               ya_score = os_score s, ya_risk_decision = ''auto'', ya_reason = reason\<rparr> in
      bnd (attempt (bnd (lift (intent_request (lr_trade_id r) (mode_str (lr_mode r)) (Some ''funding-arb'')
                                (lr_symbol r) CloseHedge 0 0)) (execute e c))) (\<lambda>x.
      ret (case x of Inr _ \<Rightarrow> cycle_done a st | Inl exc \<Rightarrow> cycle_failed a exc st)))"

definition close_step ::
  "env \<Rightarrow> orchestrator \<Rightarrow> (string \<Rightarrow> opportunity_score option) \<Rightarrow> ledger_record \<Rightarrow> cycle_state \<Rightarrow> (world, cycle_state) py" where
  \<comment> \<open>step 5 of \<open>run_cycle\<close>, one position\<close>
  "close_step e c scores r st =
     (if lr_status r \<noteq> Hedged then ret st
      else case scores (lr_symbol r) of
          None \<Rightarrow> ret st
        | Some s \<Rightarrow>
            bnd (attempt (check_can_operate (lr_trade_id r))) (\<lambda>g. case g of
              Inl exc \<Rightarrow> if is_value_error exc then ret st else raise exc
            | Inr _ \<Rightarrow> (case close_signal s of
                None \<Rightarrow> ret st
              | Some reason \<Rightarrow> close_trade e c r s reason st)))"

definition active_notional :: "ledger_record list \<Rightarrow> float64" where
  "active_notional rs = py_sum (map (\<lambda>r. max (lr_spot_notional r) (lr_perp_notional r)) rs)"

definition cycle_audit :: "datetime \<Rightarrow> datetime \<Rightarrow> nat \<Rightarrow> nat \<Rightarrow> nat \<Rightarrow> audit_event" where
  "cycle_audit started finished evaluated executed failed =
     \<lparr>ev_event_id = ''scheduler-cycle-'' @ isoformat started,
      ev_event_type = ''scheduler.cycle.completed'', ev_severity = Info,
      ev_source = ''strategy-scheduler'', ev_occurred_at = finished,
      ev_summary = utf8 [232, 176, 131, 229, 186, 166, 229, 145, 168, 230, 156, 159, 229, 174, 140, 230, 136, 144, 58, 32, 232, 175, 132, 228, 188, 176]
        @ show_nat evaluated @ utf8 [228, 184, 170, 230, 160, 135, 231, 154, 132, 44, 32, 230, 137, 167, 232, 161, 140]
        @ show_nat executed @ utf8 [228, 184, 170, 229, 138, 168, 228, 189, 156],
      ev_payload = [(''evaluated'', PInt (int evaluated)), (''executed'', PInt (int executed)),
                    (''failed'', PInt (int failed))],
      ev_tags = [''scheduler'']\<rparr>"

definition run_cycle ::
  "env \<Rightarrow> scheduler \<Rightarrow> orchestrator \<Rightarrow> market_snapshot list \<Rightarrow> string \<Rightarrow> int \<Rightarrow> float64 \<Rightarrow> (world, cycle_result) py" where
  "run_cycle e sd c snapshots app_mode max_open max_notional =
     bnd (utc_now e) (\<lambda>started.
     let scored = score_snapshots (sd_score_config sd) snapshots;
         scores = map_of (dict_of os_symbol scored) in
     bnd (list_records None None None None) (\<lambda>rs.
     let active = filter closable rs in
     bnd (open_loop e c (sd_risk_config sd) app_mode max_open max_notional scored
            \<lparr>cy_actions = [], cy_executed = 0, cy_failed = 0, cy_count = int (length active),
             cy_notional = active_notional active\<rparr>) (\<lambda>st.
     bnd (for_loop (close_step e c scores) active st) (\<lambda>st.
     bnd (utc_now e) (\<lambda>finished.
     let result = \<lparr>yr_started_at = started, yr_finished_at = finished,
           yr_snapshots_evaluated = length scored, yr_positions_evaluated = length active,
           yr_actions_generated = length (cy_actions st), yr_actions_executed = cy_executed st,
           yr_actions_skipped = 0, yr_actions_failed = cy_failed st, yr_actions = cy_actions st\<rparr> in
     thn (audit_service_save_record (cycle_audit started finished (length scored) (cy_executed st) (cy_failed st)))
       (ret result))))))"

subsection \<open>Active trades\<close>

definition active_trades :: "world \<Rightarrow> nat" where
  "active_trades w = length (filter closable (w_ledger w))"

lemma active_cong: "w_ledger w' = w_ledger w \<Longrightarrow> active_trades w' = active_trades w"
  by (simp add: active_trades_def)

lemma filter_upsert: "length (filter P (upsert key x xs)) \<le> length (filter P xs) + (if P x then 1 else 0)"
  by (induction xs) auto

lemma active_upsert:
  "w_ledger w' = upsert lr_trade_id r (w_ledger w) \<Longrightarrow>
   active_trades w' \<le> active_trades w + (if closable r then 1 else 0)"
  using filter_upsert[of closable lr_trade_id r "w_ledger w"] by (simp add: active_trades_def)

text \<open>
  What a paper intent can do: nothing is sent, the switch is kept, the ledger stays
  readable, and only an open adds an active trade, at most one. An open that the gate lets
  through always returns.
\<close>

lemma paper_execute_effect:
  assumes "readable w" "valid_intent i" "it_mode i = Paper" "execute e c i w = (r, w')"
  shows "readable w' \<and> w_sent w' = w_sent w \<and> w_safety w' = w_safety w
    \<and> active_trades w' \<le> active_trades w + (if it_action i = OpenHedge then 1 else 0)
    \<and> (it_action i = OpenHedge \<longrightarrow> gate_open c i (w_safety w) \<longrightarrow> (\<exists>res. r = Inr res))"
proof (cases "replays i w")
  case True
  then obtain x where x: "ledger_map w (it_trade_id i) = Some x" "replay_status (it_action i) (lr_status x)"
    by (auto simp: replays_def split: option.splits)
  obtain ev res where "idempotent_replay e i (env_now e (w_ticks w)) (tick w) = (Inr (Some res), log_event ev (tick w))"
    using replay_some[OF _ _ x(2), of "tick w" e "env_now e (w_ticks w)"] x(1) assms(1) by auto
  then have "execute e c i w = (Inr res, log_event ev (tick w))"
    by (simp add: execute_def bnd_run utc_now_run ret_run flip: tick_def)
  then show ?thesis using assms by (auto simp: active_trades_def)
next
  case False
  note ex = execute_fresh[OF assms(1) False, of e c]
  have mode: "it_mode i \<noteq> Live" using assms(3) by simp
  show ?thesis
  proof (cases "gate_open c i (w_safety w)")
    case False
    then obtain m where "safety_gate c i (tick w) = (Inl (ValueError m), tick w)"
      using safety_gate_run[of c i "tick w"] by auto
    then show ?thesis using assms False ex by (auto simp: thn_run active_trades_def)
  next
    case True
    then have gate: "safety_gate c i (tick w) = (Inr (), tick w)" by (simp add: safety_gate_ok)
    let ?t = "env_now e (w_ticks w)"
    show ?thesis
    proof (cases "it_action i = OpenHedge")
      case True
      obtain res u where run: "execute_open e i ?t (tick w) = (Inr res, u)"
        "w_ledger u = upsert lr_trade_id (paper_open_record i ?t) (w_ledger (tick w))"
        "w_safety u = w_safety w" "w_sent u = w_sent w"
        using execute_open_run[of "tick w" i e ?t] assms(1-3) by auto
      have "readable u"
        using readable_upsert[OF _ run(2)] assms(1,2) by (simp add: paper_open_record_def)
      moreover have "execute e c i w = (Inr res, u)"
        using run(1) gate ex mode True by (simp add: thn_run dispatch_def)
      ultimately show ?thesis using assms(4) run active_upsert[OF run(2)] True active_cong[OF tick_fields(1)]
        by (auto split: if_splits)
    next
      case False
      have run: "execute e c i w = execute_close e i ?t (tick w)"
        using gate ex mode False by (simp add: thn_run dispatch_def)
      show ?thesis
      proof (cases "ledger_map w (it_trade_id i)")
        case None
        then have "execute e c i w = (Inl (ValueError (''trade '' @ quoted (it_trade_id i) @ '' not found in ledger'')), tick w)"
          using run assms(1) by (simp add: execute_close_def Let_def bnd_run get_record_run raise_run ledger_map_def)
        then show ?thesis using assms False by (auto simp: active_trades_def)
      next
        case (Some x)
        then obtain res u where u: "execute_close e i ?t (tick w) = (Inr res, u)"
          "w_ledger u = upsert lr_trade_id (paper_close_record i ?t x) (w_ledger (tick w))"
          "w_safety u = w_safety w" "w_sent u = w_sent w"
          using execute_close_run[of "tick w" i x e ?t] assms(1) by auto
        have "\<not> closable (paper_close_record i ?t x)" by (simp add: closable_def paper_close_record_def)
        moreover have "readable u"
          using readable_upsert[OF _ u(2)] assms(1) readable_valid[OF assms(1) Some]
          by (simp add: paper_close_record_def)
        ultimately show ?thesis using assms(4) run u active_upsert[OF u(2)] False active_cong[OF tick_fields(1)]
          by auto
      qed
    qed
  qed
qed


subsection \<open>Properties\<close>

lemma open_trade_paper:
  assumes "readable w" "may_open (w_safety w)" "mode_of app_mode = Some Paper"
  shows "\<exists>st' w'. open_trade e c app_mode s d st w = (Inr st', w')
    \<and> cy_failed st' = cy_failed st \<and> cy_count st' = cy_count st + 1
    \<and> readable w' \<and> w_sent w' = w_sent w \<and> w_safety w' = w_safety w
    \<and> active_trades w' \<le> active_trades w + 1"
proof -
  let ?u = "w\<lparr>w_uuids := Suc (w_uuids w)\<rparr>"
  let ?k = "''sch-'' @ slice_to (env_uuid e (w_uuids w)) 8"
  obtain i where i: "intent_request ?k app_mode (Some ''funding-arb'') (os_symbol s) OpenHedge trade_notional trade_notional = Inr i"
    using assms(3) by (simp add: intent_request_def trade_notional_def)
  have iv: "valid_intent i" "it_mode i = Paper" "it_action i = OpenHedge"
    using intent_request_Inr[OF i] assms(3) by auto
  obtain r w' where x: "execute e c i ?u = (r, w')" by (cases "execute e c i ?u")
  have u: "readable ?u" "w_ledger ?u = w_ledger w" using assms(1) by (simp_all add: readable_def)
  have "gate_open c i (w_safety ?u)" using assms(2) iv(3) by (simp add: gate_open_def)
  then have eff: "readable w'" "w_sent w' = w_sent w" "w_safety w' = w_safety w"
    "active_trades w' \<le> active_trades w + 1" "\<exists>res. r = Inr res"
    using paper_execute_effect[OF u(1) iv(1,2) x] iv(3) active_cong[OF u(2)] by simp_all
  then obtain res where "r = Inr res" by blast
  then show ?thesis using x i eff
    by (simp add: open_trade_def bnd_run uuid_hex_run Let_def attempt_run lift_run ret_run cycle_done_def)
qed

lemma open_loop_paper:
  assumes "readable w" "mode_of app_mode = Some Paper" "int (active_trades w) \<le> cy_count st"
    and "cy_count st \<le> max n max_open"
  shows "\<exists>st' w'. open_loop e c rc app_mode max_open max_notional ss st w = (Inr st', w')
    \<and> cy_failed st' = cy_failed st \<and> cy_count st' \<le> max n max_open
    \<and> readable w' \<and> w_sent w' = w_sent w \<and> w_safety w' = w_safety w \<and> int (active_trades w') \<le> cy_count st'"
  using assms(1,3-)
proof (induction ss arbitrary: st w)
  case Nil
  then show ?case by (simp add: ret_run)
next
  case (Cons s ss)
  show ?case
  proof (cases "os_risk_tag s = ''blocked'' \<or> rd_decision (evaluate rc s) \<noteq> Allow")
    case True
    then have "open_loop e c rc app_mode max_open max_notional (s # ss) st w
        = open_loop e c rc app_mode max_open max_notional ss st w" by (auto simp: Let_def)
    then show ?thesis using Cons.IH[OF Cons.prems] by (simp only:)
  next
    case ok: False
    show ?thesis
    proof (cases "max_open \<le> cy_count st \<or> max_notional \<le> cy_notional st")
      case True
      then have "open_loop e c rc app_mode max_open max_notional (s # ss) st w = (Inr st, w)"
        using ok by (auto simp: Let_def ret_run)
      then show ?thesis using Cons.prems by simp
    next
      case room: False
      obtain msg where gate: "check_can_open w = (if may_open (w_safety w) then Inr () else Inl (ValueError msg), w)"
        using check_can_open_run by blast
      show ?thesis
      proof (cases "may_open (w_safety w)")
        case False
        then have "open_loop e c rc app_mode max_open max_notional (s # ss) st w = (Inr st, w)"
          using ok room gate by (simp add: Let_def bnd_run attempt_run ret_run)
        then show ?thesis using Cons.prems by simp
      next
        case True
        obtain st' u where o: "open_trade e c app_mode s (evaluate rc s) st w = (Inr st', u)"
          "cy_failed st' = cy_failed st" "cy_count st' = cy_count st + 1"
          "readable u" "w_sent u = w_sent w" "w_safety u = w_safety w"
          "active_trades u \<le> active_trades w + 1"
          using open_trade_paper[OF Cons.prems(1) True assms(2)] by blast
        have "int (active_trades u) \<le> cy_count st'" using o(3,7) Cons.prems(2) by linarith
        moreover have "cy_count st' \<le> max n max_open" using o(3) room by (simp add: max_def)
        ultimately have "\<exists>st'' w'. open_loop e c rc app_mode max_open max_notional ss st' u = (Inr st'', w')
            \<and> cy_failed st'' = cy_failed st' \<and> cy_count st'' \<le> max n max_open
            \<and> readable w' \<and> w_sent w' = w_sent u \<and> w_safety w' = w_safety u \<and> int (active_trades w') \<le> cy_count st''"
          by (intro Cons.IH o(4))
        moreover have "open_loop e c rc app_mode max_open max_notional (s # ss) st w
            = open_loop e c rc app_mode max_open max_notional ss st' u"
          using o(1) ok room gate True by (simp add: Let_def bnd_run attempt_run)
        ultimately show ?thesis using o(2,5,6) by simp
      qed
    qed
  qed
qed

lemma close_step_paper:
  assumes "readable w" "lr_mode r = Paper"
  shows "\<exists>st' w'. close_step e c scores r st w = (Inr st', w')
    \<and> readable w' \<and> w_sent w' = w_sent w \<and> active_trades w' \<le> active_trades w"
proof (cases "lr_status r = Hedged \<and> scores (lr_symbol r) \<noteq> None
      \<and> close_signal (the (scores (lr_symbol r))) \<noteq> None \<and> may_operate (lr_trade_id r) (w_safety w)")
  case False
  obtain m where "check_can_operate (lr_trade_id r) w
      = (if may_operate (lr_trade_id r) (w_safety w) then Inr () else Inl (ValueError m), w)"
    using check_can_operate_run by blast
  then have "close_step e c scores r st w = (Inr st, w)"
    using False by (auto simp: close_step_def bnd_run attempt_run ret_run split: option.splits)
  then show ?thesis using assms(1) by simp
next
  case True
  then obtain s reason where s: "scores (lr_symbol r) = Some s" "close_signal s = Some reason" by auto
  obtain i where i: "intent_request (lr_trade_id r) (mode_str (lr_mode r)) (Some ''funding-arb'')
      (lr_symbol r) CloseHedge 0 0 = Inr i" by (simp add: intent_request_def)
  have iv: "valid_intent i" "it_mode i = Paper" "it_action i = CloseHedge"
    using intent_request_Inr[OF i] assms(2) mode_of_str[of Paper] by auto
  obtain x w' where x: "execute e c i w = (x, w')" by (cases "execute e c i w")
  have "readable w' \<and> w_sent w' = w_sent w \<and> active_trades w' \<le> active_trades w"
    using paper_execute_effect[OF assms(1) iv(1,2) x] iv(3) by simp
  moreover have "\<exists>st'. close_step e c scores r st w = (Inr st', w')"
    using True s i x
    by (simp add: close_step_def close_trade_def Let_def bnd_run attempt_run check_can_operate_ok lift_run ret_run)
  ultimately show ?thesis by blast
qed

lemma close_loop_paper:
  assumes "readable w" "list_all (\<lambda>r. lr_mode r = Paper) rs"
  shows "\<exists>st' w'. for_loop (close_step e c scores) rs st w = (Inr st', w')
    \<and> readable w' \<and> w_sent w' = w_sent w \<and> active_trades w' \<le> active_trades w"
  using assms
proof (induction rs arbitrary: st w)
  case (Cons r rs)
  obtain st' u where u: "close_step e c scores r st w = (Inr st', u)" "readable u" "w_sent u = w_sent w"
      "active_trades u \<le> active_trades w"
    using close_step_paper[OF Cons.prems(1)] Cons.prems(2) by fastforce
  then show ?case using Cons.IH[OF u(2), of st'] Cons.prems(2) by (fastforce simp: bnd_run)
qed (simp add: ret_run)

text \<open>
  C32: A paper cycle never holds more active trades than the configured maximum (or than it
  found), whatever the scores, the switch and the clock, sends nothing and keeps the ledger
  readable. Yet every cycle ends in \<open>AttributeError\<close>, after its trades were made, because
  the audit method it calls at the end does not exist: no cycle ever returns its result.
\<close>

theorem scheduler_respects_limits:
  assumes "readable w" "list_all (\<lambda>r. lr_mode r = Paper) (w_ledger w)"
  shows "\<exists>m w'. run_cycle e sd c snapshots ''paper'' max_open max_notional w = (Inl (AttributeError m), w')
    \<and> int (active_trades w') \<le> max (int (active_trades w)) max_open
    \<and> readable w' \<and> w_sent w' = w_sent w"
proof -
  let ?scored = "score_snapshots (sd_score_config sd) snapshots" and ?active = "filter closable (w_ledger w)"
  let ?st0 = "\<lparr>cy_actions = [], cy_executed = 0, cy_failed = 0, cy_count = int (length ?active),
     cy_notional = active_notional ?active\<rparr>"
  have tick: "active_trades (tick w) = active_trades w" by (rule active_cong) simp
  have paper: "mode_of ''paper'' = Some Paper" by (simp add: mode_of_def)
  obtain st u where o: "open_loop e c (sd_risk_config sd) ''paper'' max_open max_notional ?scored ?st0 (tick w) = (Inr st, u)"
    "cy_count st \<le> max (int (active_trades w)) max_open" "readable u" "w_sent u = w_sent w"
    "int (active_trades u) \<le> cy_count st"
    using open_loop_paper[of "tick w" "''paper''" ?st0 "int (active_trades w)" max_open e c "sd_risk_config sd" max_notional ?scored]
      assms(1) tick paper
    by (auto simp: active_trades_def)
  have "list_all (\<lambda>r. lr_mode r = Paper) ?active" using assms(2) by (auto simp: list_all_iff)
  then obtain st' v where c: "for_loop (close_step e c (map_of (dict_of os_symbol ?scored))) ?active st u = (Inr st', v)"
    "readable v" "w_sent v = w_sent u" "active_trades v \<le> active_trades u"
    using close_loop_paper[OF o(3)] by blast
  have "\<exists>m. run_cycle e sd c snapshots ''paper'' max_open max_notional w = (Inl (AttributeError m), tick v)"
    using assms(1) o(1) c(1)
    by (simp add: run_cycle_def Let_def bnd_run utc_now_run list_records_all thn_run
        audit_service_save_record_def raise_run flip: tick_def)
  moreover have "active_trades (tick v) = active_trades v" by (rule active_cong) simp
  moreover have "readable (tick v)" "w_sent (tick v) = w_sent w" using c(2,3) o(4) by simp_all
  moreover have "int (active_trades (tick v)) \<le> max (int (active_trades w)) max_open"
    using calculation(2) c(4) o(2,5) by linarith
  ultimately show ?thesis by blast
qed

definition sample_scheduler :: scheduler where
  "sample_scheduler = \<lparr>sd_score_config = None, sd_risk_config = default_risk_config\<rparr>"

theorem scheduler_respects_limits_witness:
  "\<exists>m w'. run_cycle sample_env sample_scheduler sample_orchestrator [sample_snapshot (rnd (1 / 1000))] ''paper'' 3 25000
      (sample_world [sample_record ''t1'' Hedged]) = (Inl (AttributeError m), w')
    \<and> int (active_trades w') \<le> 3 \<and> w_sent w' = []"
proof -
  have "list_all (\<lambda>r. lr_mode r = Paper) (w_ledger (sample_world [sample_record ''t1'' Hedged]))"
    by (simp add: sample_record_def)
  from scheduler_respects_limits[OF sample_readable(2) this, of sample_env sample_scheduler sample_orchestrator
      "[sample_snapshot (rnd (1 / 1000))]" 3 25000]
  show ?thesis by (fastforce simp: active_trades_def closable_def)
qed

end
