(* ===== verification/Monitor.thy ===== *)
theory Monitor
  imports Scheduler Hedge
begin

section \<open>Holding monitor\<close>

text \<open>
  \<open>app/monitor/service.py\<close>: one cycle looks at every hedged position, raises an alert for
  a reversed funding rate, an exceeded holding time, a negative edge (critical) or a low
  score (warning), and closes the positions with a critical alert.
\<close>

datatype alert_severity = AlertWarning | AlertCritical

record holding_alert =
  ha_trade_id :: string
  ha_symbol :: string
  ha_alert_type :: string
  ha_severity :: alert_severity
  ha_detail :: string
  ha_entry_funding_rate :: float64
  ha_current_funding_rate :: float64
  ha_hold_periods :: float64
  ha_max_hold_periods :: float64

record monitor_action =
  mo_trade_id :: string
  mo_symbol :: string
  mo_action :: string
  mo_alert :: "holding_alert option"
  mo_outcome :: outcome
  mo_reason :: "string option"

record monitor_result =
  mr_evaluated_count :: nat
  mr_alert_count :: nat
  mr_close_executed :: nat
  mr_close_skipped :: nat
  mr_close_failed :: nat
  mr_actions :: "monitor_action list"
  mr_started_at :: datetime
  mr_finished_at :: datetime

record monitor_state =
  mn_actions :: "monitor_action list"
  mn_executed :: nat
  mn_skipped :: nat
  mn_failed :: nat

definition alert_for ::
  "ledger_record \<Rightarrow> opportunity_score option \<Rightarrow> float64 \<Rightarrow> datetime \<Rightarrow> holding_alert option" where
  \<comment> \<open>\<open>_check_position\<close> at the time \<open>now\<close>\<close>
  "alert_for r cs max_hold now =
     (let hold = fdiv (total_seconds (now - lr_opened_at r)) 28800;
          funding = (case cs of Some s \<Rightarrow> os_funding_rate s | None \<Rightarrow> 0);
          alert = (\<lambda>ty sev detail. Some \<lparr>ha_trade_id = lr_trade_id r, ha_symbol = lr_symbol r,
             ha_alert_type = ty, ha_severity = sev, ha_detail = detail, ha_entry_funding_rate = 0,
             ha_current_funding_rate = funding, ha_hold_periods = hold, ha_max_hold_periods = max_hold\<rparr>) in
      if funding < 0 \<and> 1 < hold then
        alert ''funding_reversed'' AlertCritical
          (utf8 [232, 181, 132, 233, 135, 145, 232, 180, 185, 231, 142, 135, 229, 143, 141, 232, 189, 172, 58, 32, 229, 189, 147, 229, 137, 141, 32]
           @ fmt_f 6 funding)
      else if max_hold < hold then
        alert ''max_hold_exceeded'' AlertCritical
          (utf8 [232, 182, 133, 232, 191, 135, 230, 156, 128, 229, 164, 167, 230, 140, 129, 228, 187, 147, 229, 145, 168, 230, 156, 159, 58, 32]
           @ fmt_f 1 hold @ ''/'' @ fmt_f 0 max_hold)
      else case cs of
          None \<Rightarrow> None
        | Some s \<Rightarrow>
            if os_net_edge_bps s < 0 then
              alert ''negative_edge'' AlertCritical
                (utf8 [229, 135, 128, 232, 190, 185, 231, 188, 152, 232, 189, 172, 232, 180, 159, 58, 32]
                 @ fmt_f 1 (os_net_edge_bps s) @ '' bps'')
            else if os_score s < 10 then
              alert ''score_deteriorated'' AlertWarning
                (utf8 [232, 175, 132, 229, 136, 134, 230, 129, 182, 229, 140, 150, 58, 32] @ fmt_f 1 (os_score s))
            else None)"

definition monitor_row ::
  "ledger_record \<Rightarrow> string \<Rightarrow> holding_alert \<Rightarrow> outcome \<Rightarrow> string \<Rightarrow> monitor_action" where
  "monitor_row r act al oc reason =
     \<lparr>mo_trade_id = lr_trade_id r, mo_symbol = lr_symbol r, mo_action = act, mo_alert = Some al,
      mo_outcome = oc, mo_reason = Some reason\<rparr>"

definition monitor_close ::
  "env \<Rightarrow> orchestrator \<Rightarrow> ledger_record \<Rightarrow> holding_alert \<Rightarrow> monitor_state \<Rightarrow> (world, monitor_state) py" where
  \<comment> \<open>a critical alert: the gate, then the close\<close>
  "monitor_close e c r al st =
     bnd (attempt (check_can_operate (lr_trade_id r))) (\<lambda>g. case g of
       Inl exc \<Rightarrow>
         if is_value_error exc then
           ret (st\<lparr>mn_skipped := mn_skipped st + 1,
                   mn_actions := mn_actions st @ [monitor_row r ''close_hedge'' al Skipped (exc_str exc)]\<rparr>)
         else raise exc
     | Inr _ \<Rightarrow>
         bnd (attempt (bnd (lift (intent_request (lr_trade_id r) (mode_str (lr_mode r)) (Some ''holding-monitor'')
                                   (lr_symbol r) CloseHedge 0 0)) (execute e c))) (\<lambda>x.
         ret (case x of
            Inr _ \<Rightarrow> st\<lparr>mn_executed := mn_executed st + 1,
                       mn_actions := mn_actions st @ [monitor_row r ''close_hedge'' al Executed (ha_detail al)]\<rparr>
          | Inl exc \<Rightarrow> st\<lparr>mn_failed := mn_failed st + 1,
                       mn_actions := mn_actions st @ [monitor_row r ''close_hedge'' al OutcomeFailed (exc_str exc)]\<rparr>)))"

definition monitor_step ::
  "env \<Rightarrow> orchestrator \<Rightarrow> (string \<Rightarrow> opportunity_score option) \<Rightarrow> float64 \<Rightarrow> ledger_record \<Rightarrow>
   monitor_state \<Rightarrow> (world, monitor_state) py" where
  "monitor_step e c scores max_hold r st =
     bnd (utc_now e) (\<lambda>now. case alert_for r (scores (lr_symbol r)) max_hold now of
       None \<Rightarrow> ret st
     | Some al \<Rightarrow>
         if ha_severity al = AlertWarning then
           ret (st\<lparr>mn_actions := mn_actions st @ [monitor_row r ''monitor'' al Skipped ''warning only'']\<rparr>)
         else monitor_close e c r al st)"

definition monitor_audit :: "datetime \<Rightarrow> datetime \<Rightarrow> nat \<Rightarrow> nat \<Rightarrow> nat \<Rightarrow> audit_event" where
  "monitor_audit started finished evaluated alerts executed =
     \<lparr>ev_event_id = ''monitor-cycle-'' @ isoformat started,
      ev_event_type = ''monitor.cycle.completed'', ev_severity = Info,
      ev_source = ''holding-monitor'', ev_occurred_at = finished,
      ev_summary = utf8 [231, 155, 145, 230, 142, 167, 229, 145, 168, 230, 156, 159, 229, 174, 140, 230, 136, 144, 58, 32, 232, 175, 132, 228, 188, 176]
        @ show_nat evaluated @ utf8 [228, 184, 170, 230, 140, 129, 228, 187, 147, 44, 32]
        @ show_nat alerts @ utf8 [228, 184, 170, 229, 145, 138, 232, 173, 166, 44, 32, 230, 137, 167, 232, 161, 140]
        @ show_nat executed @ utf8 [228, 184, 170, 229, 185, 179, 228, 187, 147],
      ev_payload = [(''evaluated'', PInt (int evaluated)), (''alerts'', PInt (int alerts)),
                    (''executed'', PInt (int executed))],
      ev_tags = [''monitor'']\<rparr>"

definition run_monitor_cycle ::
  "env \<Rightarrow> orchestrator \<Rightarrow> opportunity_score list \<Rightarrow> float64 \<Rightarrow> (world, monitor_result) py" where
  "run_monitor_cycle e c current_scores max_hold =
     bnd (utc_now e) (\<lambda>started.
     bnd (list_records None None None None) (\<lambda>rs.
     let hedged = filter (\<lambda>r. lr_status r = Hedged) rs in
     bnd (for_loop (monitor_step e c (map_of (dict_of os_symbol current_scores)) max_hold) hedged
            \<lparr>mn_actions = [], mn_executed = 0, mn_skipped = 0, mn_failed = 0\<rparr>) (\<lambda>st.
     bnd (utc_now e) (\<lambda>finished.
     thn (audit_service_save_record
            (monitor_audit started finished (length hedged) (length (mn_actions st)) (mn_executed st)))
       (ret \<lparr>mr_evaluated_count = length hedged, mr_alert_count = length (mn_actions st),
          mr_close_executed = mn_executed st, mr_close_skipped = mn_skipped st,
          mr_close_failed = mn_failed st, mr_actions = mn_actions st,
          mr_started_at = started, mr_finished_at = finished\<rparr>)))))"

subsection \<open>Closing a hedged paper trade\<close>

lemma negative_edge_critical:
  assumes "os_net_edge_bps s < 0"
  shows "\<exists>al. alert_for r (Some s) max_hold now = Some al \<and> ha_severity al = AlertCritical"
  using assms by (simp add: alert_for_def Let_def)

lemma paper_close_closes:
  assumes "readable w" "ledger_map w (it_trade_id i) = Some r" "lr_status r = Hedged"
    and "it_mode i = Paper" "it_action i = CloseHedge" "may_operate (it_trade_id i) (w_safety w)"
  shows "\<exists>res w' r'. execute e c i w = (Inr res, w') \<and> ledger_map w' (it_trade_id i) = Some r' \<and> lr_status r' = Closed"
proof -
  have fresh: "\<not> replays i w" using assms(2,3,5) by (simp add: replays_def replay_status_def)
  have gate: "safety_gate c i (tick w) = (Inr (), tick w)"
    using assms(5,6) by (intro safety_gate_ok) (simp add: gate_open_def)
  let ?t = "env_now e (w_ticks w)"
  obtain res w' where run: "execute_close e i ?t (tick w) = (Inr res, w')"
    "w_ledger w' = upsert lr_trade_id (paper_close_record i ?t r) (w_ledger (tick w))"
    using execute_close_run[of "tick w" i r e ?t] assms(1,2) by auto
  have "execute e c i w = (Inr res, w')"
    using run(1) gate assms(4,5) by (simp add: execute_fresh[OF assms(1) fresh] thn_run dispatch_def)
  moreover have "ledger_map w' (it_trade_id i) = Some (paper_close_record i ?t r)"
    using ledger_map_upsert[OF run(2)] readable_valid[OF assms(1,2)] by (simp add: paper_close_record_def)
  ultimately show ?thesis by (auto simp: paper_close_record_def)
qed

definition sure_close :: "(string \<Rightarrow> opportunity_score option) \<Rightarrow> safety_state \<Rightarrow> ledger_record \<Rightarrow> bool" where
  \<comment> \<open>a paper hedge whose edge turned negative and which may be operated on\<close>
  "sure_close scores s r \<longleftrightarrow> lr_status r = Hedged \<and> lr_mode r = Paper
     \<and> (case scores (lr_symbol r) of None \<Rightarrow> False | Some sc \<Rightarrow> os_net_edge_bps sc < 0)
     \<and> may_operate (lr_trade_id r) s"

lemma monitor_step_paper:
  assumes "readable w" "lr_mode r = Paper"
  shows "\<exists>st' w'. monitor_step e c scores max_hold r st w = (Inr st', w')
    \<and> readable w' \<and> w_sent w' = w_sent w \<and> w_safety w' = w_safety w \<and> only_trade (lr_trade_id r) w w'
    \<and> (sure_close scores (w_safety w) r \<longrightarrow> ledger_map w (lr_trade_id r) = Some r \<longrightarrow>
         (\<exists>r'. ledger_map w' (lr_trade_id r) = Some r' \<and> lr_status r' = Closed))"
proof -
  let ?al = "alert_for r (scores (lr_symbol r)) max_hold (env_now e (w_ticks w))"
  have kept: "only_trade k w (tick w)" for k by (simp add: only_trade_def one_per_trade_def)
  obtain m where gate: "check_can_operate (lr_trade_id r) (tick w)
      = (if may_operate (lr_trade_id r) (w_safety w) then Inr () else Inl (ValueError m), tick w)"
    using check_can_operate_run[of "lr_trade_id r" "tick w"] by auto
  show ?thesis
  proof (cases "(\<exists>al. ?al = Some al \<and> ha_severity al = AlertCritical) \<and> may_operate (lr_trade_id r) (w_safety w)")
    case False
    have "\<exists>st'. monitor_step e c scores max_hold r st w = (Inr st', tick w)"
    proof (cases ?al)
      case None
      then show ?thesis by (simp add: monitor_step_def bnd_run utc_now_run ret_run flip: tick_def)
    next
      case (Some al)
      then show ?thesis using False gate
        by (cases "ha_severity al")
          (auto simp: monitor_step_def monitor_close_def bnd_run utc_now_run attempt_run ret_run simp flip: tick_def)
    qed
    moreover have "\<not> sure_close scores (w_safety w) r"
      using False negative_edge_critical[of _ r max_hold "env_now e (w_ticks w)"]
      by (fastforce simp: sure_close_def split: option.splits)
    ultimately show ?thesis using assms(1) kept by auto
  next
    case True
    then obtain al where al: "?al = Some al" "ha_severity al = AlertCritical" by auto
    obtain i where i: "intent_request (lr_trade_id r) (mode_str (lr_mode r)) (Some ''holding-monitor'')
        (lr_symbol r) CloseHedge 0 0 = Inr i" by (simp add: intent_request_def)
    have iv: "valid_intent i" "it_mode i = Paper" "it_action i = CloseHedge" "it_trade_id i = lr_trade_id r"
      using intent_request_Inr[OF i] assms(2) mode_of_str[of Paper] by auto
    obtain x w' where x: "execute e c i (tick w) = (x, w')" by (cases "execute e c i (tick w)")
    have rt: "readable (tick w)" using assms(1) by simp
    have eff: "readable w'" "w_sent w' = w_sent w" "w_safety w' = w_safety w"
      using paper_execute_effect[OF rt iv(1,2) x] by simp_all
    have only: "only_trade (lr_trade_id r) w w'"
      using steps_inD[OF trade_execute x] iv(4) kept trade_fx.R_trans by metis
    have "\<exists>st'. monitor_step e c scores max_hold r st w = (Inr st', w')"
      using True al i x gate
      by (simp add: monitor_step_def monitor_close_def bnd_run utc_now_run attempt_run lift_run ret_run flip: tick_def)
    moreover have "\<exists>r'. ledger_map w' (lr_trade_id r) = Some r' \<and> lr_status r' = Closed"
      if "sure_close scores (w_safety w) r" "ledger_map w (lr_trade_id r) = Some r"
      using paper_close_closes[OF rt _ _ iv(2,3), of r e c] that iv(4) True x by (auto simp: sure_close_def)
    ultimately show ?thesis using eff only by blast
  qed
qed

lemma monitor_loop_paper:
  assumes "readable w" "list_all (\<lambda>r. lr_mode r = Paper) rs" "distinct (map lr_trade_id rs)"
    and "\<And>r. r \<in> set rs \<Longrightarrow> ledger_map w (lr_trade_id r) = Some r"
  shows "\<exists>st' w'. for_loop (monitor_step e c scores max_hold) rs st w = (Inr st', w')
    \<and> readable w' \<and> w_sent w' = w_sent w
    \<and> (\<forall>k. k \<notin> lr_trade_id ` set rs \<longrightarrow> ledger_map w' k = ledger_map w k)
    \<and> (\<forall>r\<in>set rs. sure_close scores (w_safety w) r \<longrightarrow>
         (\<exists>r'. ledger_map w' (lr_trade_id r) = Some r' \<and> lr_status r' = Closed))"
  using assms
proof (induction rs arbitrary: st w)
  case (Cons r rs)
  have here: "lr_mode r = Paper" "ledger_map w (lr_trade_id r) = Some r" using Cons.prems(2,4) by simp_all
  obtain st' u where u: "monitor_step e c scores max_hold r st w = (Inr st', u)" "readable u"
    "w_sent u = w_sent w" "w_safety u = w_safety w" "only_trade (lr_trade_id r) w u"
    "sure_close scores (w_safety w) r \<longrightarrow> (\<exists>r'. ledger_map u (lr_trade_id r) = Some r' \<and> lr_status r' = Closed)"
    using monitor_step_paper[OF Cons.prems(1) here(1), of e c scores max_hold st] here(2) by blast
  have others: "ledger_map u j = ledger_map w j" if "j \<noteq> lr_trade_id r" for j
    using u(5) that by (simp add: only_trade_def)
  have rest: "ledger_map u (lr_trade_id x) = Some x" if "x \<in> set rs" for x
  proof -
    have "lr_trade_id x \<noteq> lr_trade_id r" using that Cons.prems(3) by (metis distinct.simps(2) image_eqI list.set_map list.simps(9))
    then show ?thesis using others[of "lr_trade_id x"] Cons.prems(4)[of x] that by simp
  qed
  obtain st'' w' where w': "for_loop (monitor_step e c scores max_hold) rs st' u = (Inr st'', w')" "readable w'"
    "w_sent w' = w_sent u" "\<forall>k. k \<notin> lr_trade_id ` set rs \<longrightarrow> ledger_map w' k = ledger_map u k"
    "\<forall>x\<in>set rs. sure_close scores (w_safety u) x \<longrightarrow> (\<exists>r'. ledger_map w' (lr_trade_id x) = Some r' \<and> lr_status r' = Closed)"
    using Cons.IH[OF u(2) _ _ rest, of st'] Cons.prems(2,3) by auto
  have "\<forall>k. k \<notin> lr_trade_id ` set (r # rs) \<longrightarrow> ledger_map w' k = ledger_map w k"
    using w'(4) others by simp
  moreover have "\<exists>r'. ledger_map w' (lr_trade_id x) = Some r' \<and> lr_status r' = Closed"
    if "x \<in> set (r # rs)" "sure_close scores (w_safety w) x" for x
  proof (cases "x \<in> set rs")
    case True
    then show ?thesis using w'(5) that(2) u(4) by simp
  next
    case False
    then have "x = r" using that(1) by simp
    moreover have "ledger_map w' (lr_trade_id r) = ledger_map u (lr_trade_id r)"
      using w'(4) Cons.prems(3) by simp
    ultimately show ?thesis using u(6) that(2) by simp
  qed
  ultimately show ?case using u(1,3) w'(1-3) by (auto simp: bnd_run)
qed (simp add: ret_run)

lemma ledger_map_of_member: "one_per_trade w \<Longrightarrow> r \<in> set (w_ledger w) \<Longrightarrow> ledger_map w (lr_trade_id r) = Some r"
proof -
  assume w: "one_per_trade w" "r \<in> set (w_ledger w)"
  then have "ledger_map w (lr_trade_id r) \<noteq> None" by (auto simp: ledger_map_def lookup_None)
  then obtain r' where "ledger_map w (lr_trade_id r) = Some r'" by blast
  then have "r' \<in> set (w_ledger w)" "lr_trade_id r' = lr_trade_id r"
    using lookup_Some by (fastforce simp: ledger_map_def)+
  then show ?thesis using w \<open>ledger_map w (lr_trade_id r) = Some r'\<close>
    unfolding one_per_trade_def distinct_map inj_on_def by metis
qed

subsection \<open>Properties\<close>

text \<open>
  C33: On a paper ledger with one record per trade, a cycle closes every hedge whose net edge
  turned negative, unless the switch forbids operating on it, whatever the clock reads and
  whatever alert comes first; nothing is sent to the exchange. Like the scheduler's, the
  cycle then raises \<open>AttributeError\<close> instead of returning its result.
\<close>

theorem monitor_closes_negative_edge:
  assumes "readable w" "one_per_trade w" "list_all (\<lambda>r. lr_mode r = Paper) (w_ledger w)"
  shows "\<exists>m w'. run_monitor_cycle e c scores max_hold w = (Inl (AttributeError m), w')
    \<and> readable w' \<and> w_sent w' = w_sent w
    \<and> (\<forall>r\<in>set (w_ledger w). sure_close (map_of (dict_of os_symbol scores)) (w_safety w) r \<longrightarrow>
         (\<exists>r'. ledger_map w' (lr_trade_id r) = Some r' \<and> lr_status r' = Closed))"
proof -
  let ?hedged = "filter (\<lambda>r. lr_status r = Hedged) (w_ledger w)"
  let ?scores = "map_of (dict_of os_symbol scores)"
  let ?st0 = "\<lparr>mn_actions = [], mn_executed = 0, mn_skipped = 0, mn_failed = 0\<rparr>"
  have h: "list_all (\<lambda>r. lr_mode r = Paper) ?hedged" "distinct (map lr_trade_id ?hedged)"
    using assms(2,3) by (auto simp: list_all_iff one_per_trade_def distinct_map_filter)
  have "readable (tick w)" using assms(1) by simp
  moreover have "ledger_map (tick w) (lr_trade_id r) = Some r" if "r \<in> set ?hedged" for r
    using that ledger_map_of_member[OF assms(2)] by simp
  ultimately obtain st u where u: "for_loop (monitor_step e c ?scores max_hold) ?hedged ?st0 (tick w) = (Inr st, u)"
    "readable u" "w_sent u = w_sent (tick w)"
    "\<forall>r\<in>set ?hedged. sure_close ?scores (w_safety (tick w)) r \<longrightarrow>
         (\<exists>r'. ledger_map u (lr_trade_id r) = Some r' \<and> lr_status r' = Closed)"
    using monitor_loop_paper[OF _ h, of "tick w" e c ?scores max_hold ?st0] by blast
  have "\<exists>m. run_monitor_cycle e c scores max_hold w = (Inl (AttributeError m), tick u)"
    using assms(1) u(1)
    by (simp add: run_monitor_cycle_def Let_def bnd_run utc_now_run list_records_all thn_run
        audit_service_save_record_def raise_run flip: tick_def)
  moreover have "\<forall>r\<in>set (w_ledger w). sure_close ?scores (w_safety w) r \<longrightarrow>
         (\<exists>r'. ledger_map (tick u) (lr_trade_id r) = Some r' \<and> lr_status r' = Closed)"
    using u(4) by (auto simp: sure_close_def)
  ultimately show ?thesis using u(2,3) by auto
qed

definition losing_score :: opportunity_score where
  "losing_score = (score_snapshot default_score_config (sample_snapshot 0))\<lparr>os_net_edge_bps := - 1\<rparr>"

theorem monitor_closes_negative_edge_witness:
  "\<exists>m w' r'. run_monitor_cycle sample_env sample_orchestrator [losing_score] 72
       (sample_world [sample_record ''t1'' Hedged]) = (Inl (AttributeError m), w')
     \<and> ledger_map w' ''t1'' = Some r' \<and> lr_status r' = Closed"
proof -
  let ?w = "sample_world [sample_record ''t1'' Hedged]"
  have "one_per_trade ?w" "list_all (\<lambda>r. lr_mode r = Paper) (w_ledger ?w)"
    by (simp_all add: one_per_trade_def sample_record_def)
  note close = monitor_closes_negative_edge[OF sample_readable(2) this, of sample_env sample_orchestrator "[losing_score]" 72]
  have "sure_close (map_of (dict_of os_symbol [losing_score])) (w_safety ?w) (sample_record ''t1'' Hedged)"
    using sample_may(2)
    by (simp add: sure_close_def dict_of_def losing_score_def score_snapshot_def Let_def sample_snapshot_def sample_record_def)
  then show ?thesis using close by fastforce
qed

end
