(* ===== verification/MarketData.thy ===== *)
theory MarketData
  imports Reconciliation Market
begin

section \<open>Market data\<close>

text \<open>
  \<open>app/exchange/binance_public.py\<close> (unsigned requests) and \<open>app/market_data/service.py\<close>
  (\<open>build_market_snapshot\<close>: join funding rates with the two books). Rows are JSON values
  as the exchange sent them, so a missing key or a value of the wrong type raises as it
  does in Python. Two symbols are the same key when they are the same JSON value.
\<close>

subsection \<open>Reading rows\<close>

definition subscript :: "string \<Rightarrow> pyval \<Rightarrow> py_error + pyval" where
  \<comment> \<open>\<open>row[k]\<close> with a text key\<close>
  "subscript k v = (case v of
     PDict d \<Rightarrow> (case map_of d k of Some x \<Rightarrow> Inr x | None \<Rightarrow> Inl (KeyError (repr_str k)))
   | _ \<Rightarrow> Inl (TypeError ''object is not subscriptable by text''))"

definition first_item :: "pyval \<Rightarrow> py_error + pyval" where
  \<comment> \<open>\<open>v[0]\<close>\<close>
  "first_item v = (case v of
     PList (x # _) \<Rightarrow> Inr x
   | PList [] \<Rightarrow> Inl (IndexError ''list index out of range'')
   | PStr (c # _) \<Rightarrow> Inr (PStr [c])
   | PStr [] \<Rightarrow> Inl (IndexError ''string index out of range'')
   | PDict _ \<Rightarrow> Inl (KeyError ''0'')
   | _ \<Rightarrow> Inl (TypeError ''object is not subscriptable''))"

definition iterate :: "pyval \<Rightarrow> py_error + pyval list" where
  \<comment> \<open>\<open>for x in v\<close>\<close>
  "iterate v = (case v of
     PList vs \<Rightarrow> Inr vs
   | PDict d \<Rightarrow> Inr (map (\<lambda>(k, x). PStr k) d)
   | PStr s \<Rightarrow> Inr (map (\<lambda>c. PStr [c]) s)
   | _ \<Rightarrow> Inl (TypeError ''object is not iterable''))"

definition hashable :: "pyval \<Rightarrow> py_error + pyval" where
  "hashable v = (case v of PList _ \<Rightarrow> Inl (TypeError ''unhashable type: list'')
     | PDict _ \<Rightarrow> Inl (TypeError ''unhashable type: dict'') | _ \<Rightarrow> Inr v)"

definition then_do :: "py_error + 'a \<Rightarrow> ('a \<Rightarrow> py_error + 'b) \<Rightarrow> py_error + 'b" where
  \<comment> \<open>sequencing of pure steps that may raise\<close>
  "then_do r f = (case r of Inl exc \<Rightarrow> Inl exc | Inr x \<Rightarrow> f x)"

definition guarded :: "py_error \<Rightarrow> 'a option \<Rightarrow> py_error + 'a" where
  "guarded exc x = (case x of None \<Rightarrow> Inl exc | Some y \<Rightarrow> Inr y)"

fun traverse :: "('a \<Rightarrow> py_error + 'b) \<Rightarrow> 'a list \<Rightarrow> py_error + 'b list" where
  "traverse f [] = Inr []"
| "traverse f (x # xs) = then_do (f x) (\<lambda>y. then_do (traverse f xs) (\<lambda>ys. Inr (y # ys)))"

lemma then_do_simps [simp]: "then_do (Inl exc) f = Inl exc" "then_do (Inr x) f = f x"
  by (simp_all add: then_do_def)

lemma then_do_Inr: "then_do r f = Inr y \<longleftrightarrow> (\<exists>x. r = Inr x \<and> f x = Inr y)"
  by (cases r) auto

lemma traverse_Inr: "traverse f xs = Inr ys \<longleftrightarrow> list_all2 (\<lambda>x y. f x = Inr y) xs ys"
  by (induction xs arbitrary: ys) (auto simp: then_do_Inr list_all2_Cons1)

subsection \<open>build_market_snapshot\<close>

definition row_symbol :: "pyval \<Rightarrow> py_error + pyval" where
  "row_symbol row = then_do (subscript ''symbol'' row) hashable"

definition row_map :: "pyval list \<Rightarrow> py_error + (pyval \<times> pyval) list" where
  \<comment> \<open>\<open>{row["symbol"]: row for row in rows}\<close>\<close>
  "row_map rows = then_do (traverse (\<lambda>row. then_do (row_symbol row) (\<lambda>k. Inr (k, row))) rows)
     (\<lambda>kvs. Inr (fold (\<lambda>(k, v). AList.update k v) kvs []))"

definition row_float :: "string \<Rightarrow> pyval \<Rightarrow> py_error + float64" where
  "row_float k row = then_do (subscript k row) py_float"

definition funding_rate_of :: "pyval \<Rightarrow> pyval" where
  \<comment> \<open>\<open>funding.get("fundingRate", funding.get("lastFundingRate"))\<close>\<close>
  "funding_rate_of row = (case row of
     PDict d \<Rightarrow> get_or ''fundingRate'' (get_or ''lastFundingRate'' PNone d) d | _ \<Rightarrow> PNone)"

definition snapshot_with ::
  "string \<Rightarrow> float64 \<Rightarrow> float64 \<Rightarrow> float64 \<Rightarrow> float64 \<Rightarrow> float64 \<Rightarrow> market_snapshot" where
  \<comment> \<open>the \<open>MarketSnapshot\<close> of one symbol\<close>
  "snapshot_with symbol rate perp_bid perp_ask spot_bid spot_ask =
     (let perp_mid = fdiv (fadd perp_bid perp_ask) 2; spot_mid = fdiv (fadd spot_bid spot_ask) 2 in
      \<lparr>ms_symbol = symbol, ms_funding_rate = rate,
       ms_perp_bid = perp_bid, ms_perp_ask = perp_ask, ms_spot_bid = spot_bid, ms_spot_ask = spot_ask,
       ms_perp_mid = perp_mid, ms_spot_mid = spot_mid,
       ms_perp_spread_bps = fmul (fdiv (fsub perp_ask perp_bid) perp_mid) 10000,
       ms_spot_spread_bps = fmul (fdiv (fsub spot_ask spot_bid) spot_mid) 10000\<rparr>)"

definition snapshot_of ::
  "pyval \<Rightarrow> float64 \<Rightarrow> float64 \<Rightarrow> float64 \<Rightarrow> float64 \<Rightarrow> float64 \<Rightarrow> py_error + market_snapshot" where
  \<comment> \<open>a symbol that is not text fails the model's validation\<close>
  "snapshot_of symbol rate perp_bid perp_ask spot_bid spot_ask =
     (case symbol of PStr s \<Rightarrow> Inr (snapshot_with s rate perp_bid perp_ask spot_bid spot_ask)
      | _ \<Rightarrow> Inl (ValidationError ''MarketSnapshot''))"

definition funding_snapshot ::
  "(pyval \<times> pyval) list \<Rightarrow> (pyval \<times> pyval) list \<Rightarrow> pyval \<Rightarrow> py_error + market_snapshot option" where
  \<comment> \<open>one turn of the loop over the funding rows; \<open>None\<close> is \<open>continue\<close>\<close>
  "funding_snapshot perp_map spot_map funding =
     then_do (row_symbol funding) (\<lambda>symbol.
     case (map_of perp_map symbol, map_of spot_map symbol) of
       (Some perp, Some spot) \<Rightarrow>
         if funding_rate_of funding = PNone then Inr None
         else
           then_do (row_float ''bidPrice'' perp) (\<lambda>perp_bid.
           then_do (row_float ''askPrice'' perp) (\<lambda>perp_ask.
           then_do (row_float ''bidPrice'' spot) (\<lambda>spot_bid.
           then_do (row_float ''askPrice'' spot) (\<lambda>spot_ask.
             if min (min perp_bid perp_ask) (min spot_bid spot_ask) \<le> 0 then Inr None
             else then_do (py_float (funding_rate_of funding)) (\<lambda>rate.
               then_do (snapshot_of symbol rate perp_bid perp_ask spot_bid spot_ask) (\<lambda>s. Inr (Some s)))))))
     | _ \<Rightarrow> Inr None)"

definition build_market_snapshot ::
  "pyval list \<Rightarrow> pyval list \<Rightarrow> pyval list \<Rightarrow> py_error + market_snapshot list" where
  "build_market_snapshot funding_rows perp_rows spot_rows =
     then_do (row_map perp_rows) (\<lambda>perp_map.
     then_do (row_map spot_rows) (\<lambda>spot_map.
     then_do (traverse (funding_snapshot perp_map spot_map) funding_rows) (\<lambda>ss.
       Inr (List.map_filter (\<lambda>x. x) ss))))"

subsection \<open>The public client\<close>

record public_client =
  pc_perp_base :: string
  pc_spot_base :: string

definition get_json :: "env \<Rightarrow> string \<Rightarrow> (string \<times> string) list \<Rightarrow> (world, pyval) py" where
  "get_json e url params = send e \<lparr>rq_method = GET, rq_url = url, rq_payload = params\<rparr>"

definition fetch_funding_rates :: "env \<Rightarrow> public_client \<Rightarrow> (world, pyval) py" where
  "fetch_funding_rates e pc = get_json e (pc_perp_base pc @ ''/fapi/v1/premiumIndex'') []"

definition fetch_perp_book_tickers :: "env \<Rightarrow> public_client \<Rightarrow> (world, pyval) py" where
  "fetch_perp_book_tickers e pc = get_json e (pc_perp_base pc @ ''/fapi/v1/ticker/bookTicker'') []"

definition fetch_spot_book_tickers :: "env \<Rightarrow> public_client \<Rightarrow> (world, pyval) py" where
  "fetch_spot_book_tickers e pc = get_json e (pc_spot_base pc @ ''/api/v3/ticker/bookTicker'') []"

definition fetch_perp_depth_snapshot :: "env \<Rightarrow> public_client \<Rightarrow> string \<Rightarrow> (world, pyval) py" where
  "fetch_perp_depth_snapshot e pc symbol =
     get_json e (pc_perp_base pc @ ''/fapi/v1/depth'') [(''symbol'', symbol), (''limit'', ''5'')]"

definition fetch_spot_depth_snapshot :: "env \<Rightarrow> public_client \<Rightarrow> string \<Rightarrow> (world, pyval) py" where
  "fetch_spot_depth_snapshot e pc symbol =
     get_json e (pc_spot_base pc @ ''/api/v3/depth'') [(''symbol'', symbol), (''limit'', ''5'')]"

definition fetch_snapshots :: "env \<Rightarrow> public_client \<Rightarrow> (world, market_snapshot list) py" where
  \<comment> \<open>the three requests and the join, as the scheduler and the monitor workers make them\<close>
  "fetch_snapshots e pc =
     bnd (fetch_funding_rates e pc) (\<lambda>funding.
     bnd (fetch_perp_book_tickers e pc) (\<lambda>perp.
     bnd (fetch_spot_book_tickers e pc) (\<lambda>spot.
       lift (then_do (iterate perp) (\<lambda>ps. then_do (iterate spot) (\<lambda>ss.
             then_do (iterate funding) (\<lambda>fs. build_market_snapshot fs ps ss)))))))"

subsection \<open>What a snapshot holds\<close>

definition listed :: "pyval list \<Rightarrow> string \<Rightarrow> bool" where
  \<comment> \<open>some row of the response is about the symbol\<close>
  "listed rows symbol \<longleftrightarrow> (\<exists>row\<in>set rows. subscript ''symbol'' row = Inr (PStr symbol))"

definition sane_snapshot :: "market_snapshot \<Rightarrow> bool" where
  \<comment> \<open>positive prices, each mid inside its book, no negative spread unless the book is crossed\<close>
  "sane_snapshot s \<longleftrightarrow>
     0 < ms_perp_bid s \<and> 0 < ms_perp_ask s \<and> 0 < ms_spot_bid s \<and> 0 < ms_spot_ask s \<and>
     min (ms_perp_bid s) (ms_perp_ask s) \<le> ms_perp_mid s \<and> ms_perp_mid s \<le> max (ms_perp_bid s) (ms_perp_ask s) \<and>
     min (ms_spot_bid s) (ms_spot_ask s) \<le> ms_spot_mid s \<and> ms_spot_mid s \<le> max (ms_spot_bid s) (ms_spot_ask s) \<and>
     (ms_perp_bid s \<le> ms_perp_ask s \<longrightarrow> 0 \<le> ms_perp_spread_bps s) \<and>
     (ms_spot_bid s \<le> ms_spot_ask s \<longrightarrow> 0 \<le> ms_spot_spread_bps s)"

lemma hashable_Inr: "hashable v = Inr k \<Longrightarrow> k = v"
  by (cases v) (auto simp: hashable_def)

lemma row_symbol_Inr: "row_symbol row = Inr k \<Longrightarrow> subscript ''symbol'' row = Inr k"
  by (auto simp: row_symbol_def then_do_Inr dest: hashable_Inr)

lemma row_map_member:
  assumes "row_map rows = Inr d" "map_of d k = Some row"
  shows "row \<in> set rows \<and> subscript ''symbol'' row = Inr k"
proof -
  obtain kvs where kvs: "list_all2 (\<lambda>row kv. then_do (row_symbol row) (\<lambda>k. Inr (k, row)) = Inr kv) rows kvs"
    "d = fold (\<lambda>(k, v). AList.update k v) kvs []"
    using assms(1) by (auto simp: row_map_def then_do_Inr traverse_Inr)
  have all: "\<And>kv. kv \<in> set kvs \<Longrightarrow> snd kv \<in> set rows \<and> subscript ''symbol'' (snd kv) = Inr (fst kv)"
    using kvs(1) by (induction rule: list_all2_induct) (auto simp: then_do_Inr dest!: row_symbol_Inr)
  have "map_of (fold (\<lambda>(k, v). AList.update k v) kvs d') k = Some row \<Longrightarrow>
      map_of d' k = Some row \<or> (k, row) \<in> set kvs" for d'
  proof (induction kvs arbitrary: d')
    case (Cons kv kvs)
    show ?case using Cons.IH[OF Cons.prems[simplified]]
      by (cases kv) (auto simp: update_conv' split: if_splits)
  qed simp
  with assms(2) kvs(2) all show ?thesis by fastforce
qed

lemma spread_nonneg: "bid \<le> ask \<Longrightarrow> 0 \<le> mid \<Longrightarrow> 0 \<le> fmul (fdiv (fsub ask bid) mid) 10000"
  by (simp add: fmul_nonneg fdiv_nonneg fsub_def rnd_nonneg)

lemma midpoint_pos:
  assumes "is_f64 x" "is_f64 y" "0 < x" "0 < y"
  shows "0 < fdiv (fadd x y) 2"
  using midpoint_min_max[OF assms(1,2)] assms(3,4) by (auto simp: min_def split: if_splits)

lemma snapshot_of_sane:
  assumes "snapshot_of k rate pb pa sb sa = Inr s"
    and "is_f64 pb" "is_f64 pa" "is_f64 sb" "is_f64 sa" "0 < pb" "0 < pa" "0 < sb" "0 < sa"
  shows "sane_snapshot s \<and> k = PStr (ms_symbol s)"
proof -
  have pos: "0 < fdiv (fadd pb pa) 2" "0 < fdiv (fadd sb sa) 2"
    using assms(2-) by (simp_all add: midpoint_pos)
  show ?thesis
  proof (cases k)
    case (PStr t)
    then have s: "s = snapshot_with t rate pb pa sb sa" using assms(1)
      by (simp add: snapshot_of_def)
    show ?thesis
      using PStr assms(2-) midpoint_min_max[OF assms(2,3)] midpoint_min_max[OF assms(4,5)]
        spread_nonneg[of pb pa] spread_nonneg[of sb sa] pos
      by (simp add: s snapshot_with_def Let_def sane_snapshot_def less_imp_le)
  qed (use assms(1) in \<open>simp_all add: snapshot_of_def\<close>)
qed

lemma row_float_f64: "row_float k row = Inr x \<Longrightarrow> is_f64 x"
  by (auto simp: row_float_def then_do_Inr intro: py_float_f64)

lemma funding_snapshot_sane:
  assumes "funding_snapshot perp_map spot_map row = Inr (Some s)"
  shows "sane_snapshot s \<and> subscript ''symbol'' row = Inr (PStr (ms_symbol s))
    \<and> PStr (ms_symbol s) \<in> dom (map_of perp_map) \<and> PStr (ms_symbol s) \<in> dom (map_of spot_map)"
proof -
  obtain k perp spot where k: "row_symbol row = Inr k" "map_of perp_map k = Some perp" "map_of spot_map k = Some spot"
    using assms by (auto simp: funding_snapshot_def then_do_Inr split: option.splits)
  obtain pb pa sb sa rate where p: "row_float ''bidPrice'' perp = Inr pb" "row_float ''askPrice'' perp = Inr pa"
    "row_float ''bidPrice'' spot = Inr sb" "row_float ''askPrice'' spot = Inr sa"
    "\<not> min (min pb pa) (min sb sa) \<le> 0" "snapshot_of k rate pb pa sb sa = Inr s"
    using assms k by (auto simp: funding_snapshot_def then_do_Inr simp del: min_le_iff_disj split: if_splits)
  then show ?thesis
    using snapshot_of_sane[OF p(6)] row_float_f64[OF p(1)] row_float_f64[OF p(2)] row_float_f64[OF p(3)]
      row_float_f64[OF p(4)] k row_symbol_Inr[OF k(1)] by auto
qed

lemma subseq_map_filter:
  assumes "list_all2 (\<lambda>x y. \<forall>s. y = Some s \<longrightarrow> f x = g s) xs ys"
  shows "subseq (map g (List.map_filter (\<lambda>y. y) ys)) (map f xs)"
  using assms by (induction rule: list_all2_induct) (auto simp: List.map_filter_simps split: option.splits)

text \<open>
  C34. Market snapshots are sane: whatever the three responses hold, when the join returns,
  every snapshot has four positive prices, its mid prices lie inside the two books (rounding
  included) and a spread is negative only for a crossed book; its symbol is listed by all
  three responses; and the snapshots follow the order of the funding rows, at most one per
  row.
\<close>

theorem market_snapshots_sane:
  assumes "build_market_snapshot funding_rows perp_rows spot_rows = Inr ss"
  shows "(\<forall>s\<in>set ss. sane_snapshot s \<and> listed funding_rows (ms_symbol s)
            \<and> listed perp_rows (ms_symbol s) \<and> listed spot_rows (ms_symbol s))
    \<and> subseq (map (\<lambda>s. Inr (PStr (ms_symbol s))) ss) (map (subscript ''symbol'') funding_rows)"
proof -
  obtain pm sm ys where d: "row_map perp_rows = Inr pm" "row_map spot_rows = Inr sm"
    "list_all2 (\<lambda>row y. funding_snapshot pm sm row = Inr y) funding_rows ys" "ss = List.map_filter (\<lambda>y. y) ys"
    using assms by (auto simp: build_market_snapshot_def then_do_Inr traverse_Inr)
  have sane: "sane_snapshot s \<and> listed funding_rows (ms_symbol s)
      \<and> listed perp_rows (ms_symbol s) \<and> listed spot_rows (ms_symbol s)" if "s \<in> set ss" for s
  proof -
    from that d(3,4) obtain row where "row \<in> set funding_rows" "funding_snapshot pm sm row = Inr (Some s)"
      by (auto simp: List.map_filter_def list_all2_conv_all_nth in_set_conv_nth) (metis nth_mem)
    then show ?thesis
      using funding_snapshot_sane[of pm sm row s] row_map_member[OF d(1)] row_map_member[OF d(2)]
      unfolding listed_def by blast
  qed
  have "subseq (map (\<lambda>s. Inr (PStr (ms_symbol s))) ss) (map (subscript ''symbol'') funding_rows)"
    unfolding d(4) using d(3)
    by (intro subseq_map_filter) (auto elim!: list_all2_mono dest: funding_snapshot_sane)
  with sane show ?thesis by blast
qed

definition book_row :: "string \<Rightarrow> pyval" where
  "book_row symbol = PDict [(''symbol'', PStr symbol), (''bidPrice'', PStr ''99.5''), (''askPrice'', PStr ''100.5'')]"

definition funding_row :: "string \<Rightarrow> pyval" where
  "funding_row symbol = PDict [(''symbol'', PStr symbol), (''lastFundingRate'', PStr ''0.0001'')]"

theorem market_snapshots_sane_witness:
  "\<exists>ss. build_market_snapshot [funding_row ''ETH'', funding_row ''BTC''] [book_row ''BTC''] [book_row ''BTC''] = Inr ss
     \<and> length ss = 1 \<and> (\<forall>s\<in>set ss. sane_snapshot s)"
proof -
  let ?r = "build_market_snapshot [funding_row ''ETH'', funding_row ''BTC''] [book_row ''BTC''] [book_row ''BTC'']"
  have r: "(case ?r of Inr ss \<Rightarrow> length ss = 1 | Inl _ \<Rightarrow> False)" by code_simp
  then obtain ss where ss: "?r = Inr ss" by (cases ?r) auto
  with r show ?thesis using market_snapshots_sane[OF ss] by auto
qed

end
