(* ===== verification/Workers.thy ===== *)
theory Workers
  imports Compensation Monitor MarketData
begin

section \<open>Background workers\<close>

text \<open>
  The six \<open>*/worker.py\<close>: a worker owns a service, an orchestrator (or trading client), a
  snapshot of counters and at most one asyncio task that repeats \<open>run_once\<close> for ever.
  \<open>run_log\<close> holds the counters all six share and each worker extends it. \<open>run_once\<close> is
  the common body, \<open>worker_step\<close> the steps a worker and its callers can take, and the
  locale \<open>background_worker\<close> what the loop relies on; each worker is an interpretation.
  A turn holds the worker's lock from beginning to end, so it is one step; a cancellation is
  delivered between turns. Sleeping between turns is left out.
\<close>

subsection \<open>What the workers share\<close>

record run_log =
  rl_enabled :: bool
  rl_configured :: bool
  rl_interval_seconds :: float64
  rl_total_runs :: nat
  rl_total_failed_runs :: nat
  rl_last_started_at :: "datetime option"
  rl_last_finished_at :: "datetime option"
  rl_last_success_at :: "datetime option"
  rl_last_error :: "string option"

datatype task = NoTask | Running | Ended

record 'l worker =
  wk_log :: 'l
  wk_task :: task

definition new_worker :: "'l \<Rightarrow> 'l worker" where
  "new_worker l = \<lparr>wk_log = l, wk_task = NoTask\<rparr>"

definition worker_snapshot :: "'l worker \<Rightarrow> bool \<times> 'l" where
  \<comment> \<open>the counters, with \<open>running\<close> in front\<close>
  "worker_snapshot wk = (wk_task wk = Running, wk_log wk)"

definition worker_start :: "bool \<Rightarrow> 'm run_log_scheme worker \<Rightarrow> 'm run_log_scheme worker" where
  "worker_start cfg wk =
     (if \<not> rl_enabled (wk_log wk) \<or> \<not> cfg \<or> wk_task wk \<noteq> NoTask then wk
      else wk\<lparr>wk_task := Running\<rparr>)"

definition worker_stop :: "'l worker \<Rightarrow> 'l worker" where
  \<comment> \<open>cancel and await the task; awaiting one that already ended with an exception raises it,
     before the task is forgotten\<close>
  "worker_stop wk = (if wk_task wk = Running then wk\<lparr>wk_task := NoTask\<rparr> else wk)"

definition log_started :: "datetime \<Rightarrow> 'm run_log_scheme \<Rightarrow> 'm run_log_scheme" where
  "log_started t l = l\<lparr>rl_last_started_at := Some t, rl_total_runs := rl_total_runs l + 1\<rparr>"

definition log_failed :: "datetime \<Rightarrow> py_error \<Rightarrow> 'm run_log_scheme \<Rightarrow> 'm run_log_scheme" where
  "log_failed t exc l = l\<lparr>rl_last_finished_at := Some t, rl_last_error := Some (exc_str exc),
     rl_total_failed_runs := rl_total_failed_runs l + 1\<rparr>"

definition log_succeeded :: "datetime \<Rightarrow> 'm run_log_scheme \<Rightarrow> 'm run_log_scheme" where
  "log_succeeded t l = l\<lparr>rl_last_finished_at := Some t, rl_last_success_at := Some t, rl_last_error := None\<rparr>"

definition run_once ::
  "env \<Rightarrow> string \<Rightarrow> 'c option \<Rightarrow> ('c \<Rightarrow> (world, 'r) py) \<Rightarrow> ('m run_log_scheme \<Rightarrow> 'm run_log_scheme) \<Rightarrow>
   ('r \<Rightarrow> 'm run_log_scheme \<Rightarrow> 'm run_log_scheme) \<Rightarrow> 'm run_log_scheme \<Rightarrow> (world, 'm run_log_scheme) py" where
  \<comment> \<open>the body of every \<open>run_once\<close>: \<open>on_fail\<close> and \<open>on_ok\<close> update the counters of the worker\<close>
  "run_once e refusal orch body on_fail on_ok l =
     (case orch of
        None \<Rightarrow> raise (ValueError refusal)
      | Some c \<Rightarrow>
          bnd (utc_now e) (\<lambda>started.
          bnd (attempt (body c)) (\<lambda>r.
          bnd (utc_now e) (\<lambda>finished.
          ret (case r of
             Inl exc \<Rightarrow> on_fail (log_failed finished exc (log_started started l))
           | Inr x \<Rightarrow> on_ok x (log_succeeded finished (log_started started l)))))))"

subsection \<open>Steps of a worker\<close>

datatype worker_event = StartCalled | StopCalled | LoopTurn | RunRequested | OthersRan

inductive worker_step ::
  "bool \<Rightarrow> ('m run_log_scheme \<Rightarrow> (world, 'm run_log_scheme) py) \<Rightarrow> 'm run_log_scheme worker \<times> world \<Rightarrow>
   worker_event \<Rightarrow> 'm run_log_scheme worker \<times> world \<Rightarrow> bool"
  for cfg :: bool and run :: "'m run_log_scheme \<Rightarrow> (world, 'm run_log_scheme) py" where
  start: "worker_step cfg run (wk, w) StartCalled (worker_start cfg wk, w)"
| stop: "worker_step cfg run (wk, w) StopCalled (worker_stop wk, w)"
| turn: "wk_task wk = Running \<Longrightarrow> run (wk_log wk) w = (Inr l, w') \<Longrightarrow>
    worker_step cfg run (wk, w) LoopTurn (wk\<lparr>wk_log := l\<rparr>, w')"
| crash: "wk_task wk = Running \<Longrightarrow> run (wk_log wk) w = (Inl exc, w') \<Longrightarrow>
    worker_step cfg run (wk, w) LoopTurn (wk\<lparr>wk_task := Ended\<rparr>, w')"
| request: "run (wk_log wk) w = (Inr l, w') \<Longrightarrow>
    worker_step cfg run (wk, w) RunRequested (wk\<lparr>wk_log := l\<rparr>, w')"
| refused: "run (wk_log wk) w = (Inl exc, w') \<Longrightarrow>
    worker_step cfg run (wk, w) RunRequested (wk, w')"
| others: "worker_step cfg run (wk, w) OthersRan (wk, w')"

inductive_cases worker_stepE:
  "worker_step cfg run (wk, w) StartCalled s" "worker_step cfg run (wk, w) StopCalled s"
  "worker_step cfg run (wk, w) LoopTurn s" "worker_step cfg run (wk, w) RunRequested s"
  "worker_step cfg run (wk, w) OthersRan s"

inductive worker_trace ::
  "bool \<Rightarrow> ('m run_log_scheme \<Rightarrow> (world, 'm run_log_scheme) py) \<Rightarrow> 'm run_log_scheme worker \<times> world \<Rightarrow>
   worker_event list \<Rightarrow> 'm run_log_scheme worker \<times> world \<Rightarrow> bool"
  for cfg :: bool and run :: "'m run_log_scheme \<Rightarrow> (world, 'm run_log_scheme) py" where
  begun: "worker_trace cfg run s [] s"
| extended: "worker_trace cfg run s evs t \<Longrightarrow> worker_step cfg run t ev u \<Longrightarrow>
    worker_trace cfg run s (evs @ [ev]) u"

definition runs_asked :: "worker_event list \<Rightarrow> nat" where
  "runs_asked evs = length (filter (\<lambda>ev. ev = LoopTurn \<or> ev = RunRequested) evs)"

definition same_settings :: "'m run_log_scheme \<Rightarrow> 'm run_log_scheme \<Rightarrow> bool" where
  "same_settings l l' \<longleftrightarrow> rl_enabled l' = rl_enabled l \<and> rl_configured l' = rl_configured l
     \<and> rl_interval_seconds l' = rl_interval_seconds l"

definition counts_run :: "'m run_log_scheme \<Rightarrow> 'm run_log_scheme \<Rightarrow> bool" where
  \<comment> \<open>one more run, which failed exactly when an error is recorded\<close>
  "counts_run l l' \<longleftrightarrow> same_settings l l' \<and> rl_total_runs l' = rl_total_runs l + 1
     \<and> rl_total_failed_runs l' = rl_total_failed_runs l + (if rl_last_error l' = None then 0 else 1)"

definition worker_inv :: "bool \<Rightarrow> 'm run_log_scheme \<Rightarrow> worker_event list \<Rightarrow> 'm run_log_scheme worker \<Rightarrow> bool" where
  "worker_inv cfg l0 evs wk \<longleftrightarrow> same_settings l0 (wk_log wk)
     \<and> rl_total_runs (wk_log wk) = rl_total_runs l0 + (if cfg then runs_asked evs else 0)
     \<and> (rl_total_failed_runs l0 \<le> rl_total_runs l0 \<longrightarrow> rl_total_failed_runs (wk_log wk) \<le> rl_total_runs (wk_log wk))
     \<and> wk_task wk \<noteq> Ended
     \<and> (wk_task wk = Running \<longrightarrow> cfg \<and> rl_enabled l0)"

definition lively :: "bool \<Rightarrow> ('m run_log_scheme \<Rightarrow> (world, 'm run_log_scheme) py) \<Rightarrow> bool" where
  \<comment> \<open>the invariant holds along every trace of a new worker, a running worker runs on under
     every event but a stop, and a started one can take any number of turns, each counted\<close>
  "lively cfg run \<longleftrightarrow>
     (\<forall>l0 w0 evs wk w. worker_trace cfg run (new_worker l0, w0) evs (wk, w) \<longrightarrow>
        worker_inv cfg l0 evs wk \<and>
        (\<forall>ev wk' w'. worker_step cfg run (wk, w) ev (wk', w') \<longrightarrow> wk_task wk = Running \<longrightarrow> ev \<noteq> StopCalled \<longrightarrow>
           wk_task wk' = Running)) \<and>
     (\<forall>l0 w0 n. cfg \<longrightarrow> rl_enabled l0 \<longrightarrow>
        (\<exists>wk w. worker_trace cfg run (new_worker l0, w0) (StartCalled # replicate n LoopTurn) (wk, w)
           \<and> wk_task wk = Running \<and> rl_total_runs (wk_log wk) = rl_total_runs l0 + n))"

locale background_worker =
  fixes cfg :: bool
    and run :: "'m run_log_scheme \<Rightarrow> (world, 'm run_log_scheme) py"
  assumes run_refused: "\<not> cfg \<Longrightarrow> \<exists>m. run l w = (Inl (ValueError m), w)"
    and run_counted: "cfg \<Longrightarrow> \<exists>l' w'. run l w = (Inr l', w') \<and> counts_run l l'"
begin

lemma run_returns: "cfg \<Longrightarrow> run l w = (r, w') \<Longrightarrow> \<exists>l'. r = Inr l' \<and> counts_run l l'"
  using run_counted[of l w] by auto

lemma run_raises: "\<not> cfg \<Longrightarrow> run l w = (r, w') \<Longrightarrow> w' = w \<and> (\<exists>m. r = Inl (ValueError m))"
  using run_refused[of l w] by auto

lemma worker_inv_run:
  assumes "worker_inv cfg l0 evs wk" "counts_run (wk_log wk) l" "cfg" "ev = LoopTurn \<or> ev = RunRequested"
  shows "worker_inv cfg l0 (evs @ [ev]) (wk\<lparr>wk_log := l\<rparr>)"
  using assms by (auto simp: worker_inv_def counts_run_def same_settings_def runs_asked_def split: if_splits)

lemma worker_inv_step:
  assumes "worker_step cfg run (wk, w) ev (wk', w')" "worker_inv cfg l0 evs wk"
  shows "worker_inv cfg l0 (evs @ [ev]) wk'"
  using assms(1)
proof cases
  case start
  then show ?thesis using assms(2)
    by (auto simp: worker_inv_def worker_start_def runs_asked_def same_settings_def)
next
  case stop
  then show ?thesis using assms(2) by (auto simp: worker_inv_def worker_stop_def runs_asked_def)
next
  case (turn l)
  moreover have "cfg" using turn assms(2) by (simp add: worker_inv_def)
  ultimately show ?thesis using worker_inv_run[OF assms(2)] run_returns by blast
next
  case (crash exc)
  then show ?thesis using assms(2) run_returns[OF _ crash(4)] by (auto simp: worker_inv_def)
next
  case (request l)
  moreover have "cfg" using request run_raises by blast
  ultimately show ?thesis using worker_inv_run[OF assms(2)] run_returns by blast
next
  case (refused exc)
  then have "\<not> cfg" using run_returns by blast
  then show ?thesis using refused assms(2) by (auto simp: worker_inv_def)
next
  case others
  then show ?thesis using assms(2) by (auto simp: worker_inv_def runs_asked_def)
qed

lemma worker_inv_trace:
  assumes "worker_trace cfg run (new_worker l0, w0) evs s"
  shows "worker_inv cfg l0 evs (fst s)"
  using assms
proof (induction "(new_worker l0, w0)" evs s rule: worker_trace.induct)
  case begun
  then show ?case by (simp add: worker_inv_def new_worker_def same_settings_def runs_asked_def)
next
  case (extended evs t ev u)
  then show ?case using worker_inv_step by (metis prod.collapse)
qed

lemma turn_possible:
  assumes "cfg" "wk_task wk = Running"
  shows "\<exists>l w'. worker_step cfg run (wk, w) LoopTurn (wk\<lparr>wk_log := l\<rparr>, w')"
  using run_counted[OF assms(1), of "wk_log wk" w] assms(2) worker_step.turn by blast

lemma turns_possible:
  assumes "cfg" "rl_enabled l0"
  shows "\<exists>wk w. worker_trace cfg run (new_worker l0, w0) (StartCalled # replicate n LoopTurn) (wk, w)
    \<and> wk_task wk = Running"
proof (induction n)
  case 0
  let ?wk = "worker_start cfg (new_worker l0)"
  have "worker_trace cfg run (new_worker l0, w0) ([] @ [StartCalled]) (?wk, w0)"
    by (intro worker_trace.extended[OF worker_trace.begun] worker_step.start)
  moreover have "wk_task ?wk = Running" using assms by (simp add: worker_start_def new_worker_def)
  ultimately show ?case by auto
next
  case (Suc n)
  then obtain wk w where t: "worker_trace cfg run (new_worker l0, w0) (StartCalled # replicate n LoopTurn) (wk, w)"
    "wk_task wk = Running" by blast
  obtain l w' where s: "worker_step cfg run (wk, w) LoopTurn (wk\<lparr>wk_log := l\<rparr>, w')"
    using turn_possible[OF assms(1) t(2)] by blast
  have "worker_trace cfg run (new_worker l0, w0) ((StartCalled # replicate n LoopTurn) @ [LoopTurn]) (wk\<lparr>wk_log := l\<rparr>, w')"
    using t(1) s by (rule worker_trace.extended)
  then show ?case using t(2) by (auto simp: replicate_append_same)
qed

lemma keeps_running:
  assumes "worker_step cfg run (wk, w) ev (wk', w')" "cfg" "wk_task wk = Running" "ev \<noteq> StopCalled"
  shows "wk_task wk' = Running"
  using assms(1)
proof cases
  case (crash exc)
  then show ?thesis using run_returns[OF assms(2) crash(4)] by blast
qed (use assms in \<open>auto simp: worker_start_def\<close>)

lemma lively: "lively cfg run"
proof -
  have "rl_total_runs (wk_log wk) = rl_total_runs l0 + n"
    if "cfg" "worker_trace cfg run (new_worker l0, w0) (StartCalled # replicate n LoopTurn) (wk, w)" for l0 w0 n wk w
    using worker_inv_trace[OF that(2)] that(1) by (simp add: worker_inv_def runs_asked_def)
  moreover have "worker_inv cfg l0 evs wk \<and> (worker_step cfg run (wk, w) ev (wk', w') \<longrightarrow>
      wk_task wk = Running \<longrightarrow> ev \<noteq> StopCalled \<longrightarrow> wk_task wk' = Running)"
    if "worker_trace cfg run (new_worker l0, w0) evs (wk, w)" for l0 w0 evs wk w ev wk' w'
    using worker_inv_trace[OF that] keeps_running by (auto simp: worker_inv_def)
  ultimately show ?thesis using turns_possible unfolding lively_def by meson
qed

end

text \<open>A body of \<open>run_once\<close> whose updates leave the shared counters alone makes a worker.\<close>

lemma run_once_counted:
  assumes "\<And>l. run_log.truncate (on_fail l) = run_log.truncate l"
    and "\<And>x l. run_log.truncate (on_ok x l) = run_log.truncate l"
  shows "\<exists>l' w'. run_once e refusal (Some c) body on_fail on_ok l w = (Inr l', w') \<and> counts_run l l'"
proof -
  obtain r u where r: "body c (w\<lparr>w_ticks := Suc (w_ticks w)\<rparr>) = (r, u)" by (cases "body c (w\<lparr>w_ticks := Suc (w_ticks w)\<rparr>)")
  have fields: "run_log.truncate l' = run_log.truncate l \<Longrightarrow>
      rl_enabled l' = rl_enabled l \<and> rl_configured l' = rl_configured l \<and> rl_interval_seconds l' = rl_interval_seconds l
      \<and> rl_total_runs l' = rl_total_runs l \<and> rl_total_failed_runs l' = rl_total_failed_runs l
      \<and> rl_last_error l' = rl_last_error l" for l l' :: "'a run_log_scheme"
    by (simp add: run_log.defs)
  show ?thesis
    using fields[OF assms(1)] fields[OF assms(2)] r
    by (cases r) (simp_all add: run_once_def bnd_run utc_now_run attempt_run ret_run counts_run_def same_settings_def
        log_started_def log_failed_def log_succeeded_def)
qed

lemma background_workerI:
  assumes "\<And>l. run l = run_once e refusal orch (body l) on_fail on_ok l"
    and "\<And>l. run_log.truncate (on_fail l) = run_log.truncate l"
    and "\<And>x l. run_log.truncate (on_ok x l) = run_log.truncate l"
  shows "background_worker (orch \<noteq> None) run"
proof
  show "\<not> orch \<noteq> None \<Longrightarrow> \<exists>m. run l w = (Inl (ValueError m), w)" for l w
    by (simp add: assms(1) run_once_def raise_run)
  show "orch \<noteq> None \<Longrightarrow> \<exists>l' w'. run l w = (Inr l', w') \<and> counts_run l l'" for l w
    using run_once_counted[OF assms(2,3)] by (auto simp: assms(1))
qed

definition new_log :: "bool \<Rightarrow> bool \<Rightarrow> float64 \<Rightarrow> run_log" where
  "new_log enabled cfg interval =
     \<lparr>rl_enabled = enabled, rl_configured = cfg, rl_interval_seconds = interval, rl_total_runs = 0,
      rl_total_failed_runs = 0, rl_last_started_at = None, rl_last_finished_at = None,
      rl_last_success_at = None, rl_last_error = None\<rparr>"


subsection \<open>Compensation worker\<close>

record compensation_snapshot = run_log +
  cw_limit :: int
  cw_exposure_limit_bps :: float64
  cw_total_executed_actions :: nat
  cw_last_attempted_count :: nat
  cw_last_executed_count :: nat
  cw_last_skipped_count :: nat
  cw_last_failed_count :: nat

definition new_compensation_worker :: "bool \<Rightarrow> bool \<Rightarrow> float64 \<Rightarrow> int \<Rightarrow> float64 \<Rightarrow> py_error + compensation_snapshot worker" where
  \<comment> \<open>the snapshot checks its fields\<close>
  "new_compensation_worker cfg enabled interval limit exposure_limit =
     (if 0 < interval \<and> 1 \<le> limit \<and> 0 < exposure_limit then
        Inr (new_worker (run_log.extend (new_log enabled cfg interval) (compensation_snapshot.fields limit exposure_limit 0 0 0 0 0)))
      else Inl (ValidationError ''CompensationWorkerSnapshot''))"

definition compensation_failed :: "compensation_snapshot \<Rightarrow> compensation_snapshot" where
  "compensation_failed l = l\<lparr>cw_last_attempted_count := 0, cw_last_executed_count := 0,
     cw_last_skipped_count := 0, cw_last_failed_count := 0\<rparr>"

definition compensation_succeeded :: "comp_summary \<Rightarrow> compensation_snapshot \<Rightarrow> compensation_snapshot" where
  "compensation_succeeded s l = l\<lparr>cw_last_attempted_count := cs_attempted_count s,
     cw_last_executed_count := cs_executed_count s, cw_last_skipped_count := cs_skipped_count s,
     cw_last_failed_count := cs_failed_count s,
     cw_total_executed_actions := cw_total_executed_actions l + cs_executed_count s\<rparr>"

definition compensation_run_once ::
  "env \<Rightarrow> client \<Rightarrow> orchestrator option \<Rightarrow> compensation_snapshot \<Rightarrow> (world, compensation_snapshot) py" where
  "compensation_run_once e cl orch l =
     run_once e ''compensation worker is not configured with an execution orchestrator'' orch
       (\<lambda>c. execute_safe_actions e cl c None (Some (cw_limit l)) (cw_exposure_limit_bps l))
       compensation_failed compensation_succeeded l"

interpretation compensation: background_worker "orch \<noteq> None" "compensation_run_once e cl orch" for e cl orch
  by (rule background_workerI[OF compensation_run_once_def])
    (simp_all add: run_log.defs compensation_failed_def compensation_succeeded_def)

subsection \<open>Hedge rebalance worker\<close>

record hedge_rebalance_snapshot = run_log +
  hw_limit :: int
  hw_exposure_limit_bps :: float64
  hw_total_executed_rebalances :: nat
  hw_last_attempted_count :: nat
  hw_last_executed_count :: nat
  hw_last_skipped_count :: nat
  hw_last_failed_count :: nat

definition new_hedge_rebalance_worker :: "bool \<Rightarrow> bool \<Rightarrow> float64 \<Rightarrow> int \<Rightarrow> float64 \<Rightarrow> py_error + hedge_rebalance_snapshot worker" where
  \<comment> \<open>the snapshot checks its fields\<close>
  "new_hedge_rebalance_worker cfg enabled interval limit exposure_limit =
     (if 0 < interval \<and> 1 \<le> limit \<and> 0 < exposure_limit then
        Inr (new_worker (run_log.extend (new_log enabled cfg interval) (hedge_rebalance_snapshot.fields limit exposure_limit 0 0 0 0 0)))
      else Inl (ValidationError ''HedgeRebalanceWorkerSnapshot''))"

definition hedge_rebalance_failed :: "hedge_rebalance_snapshot \<Rightarrow> hedge_rebalance_snapshot" where
  "hedge_rebalance_failed l = l\<lparr>hw_last_attempted_count := 0, hw_last_executed_count := 0,
     hw_last_skipped_count := 0, hw_last_failed_count := 0\<rparr>"

definition hedge_rebalance_succeeded :: "rebalance_summary \<Rightarrow> hedge_rebalance_snapshot \<Rightarrow> hedge_rebalance_snapshot" where
  "hedge_rebalance_succeeded s l = l\<lparr>hw_last_attempted_count := rs_attempted_count s,
     hw_last_executed_count := rs_executed_count s, hw_last_skipped_count := rs_skipped_count s,
     hw_last_failed_count := rs_failed_count s,
     hw_total_executed_rebalances := hw_total_executed_rebalances l + rs_executed_count s\<rparr>"

definition hedge_rebalance_run_once ::
  "env \<Rightarrow> orchestrator option \<Rightarrow> hedge_rebalance_snapshot \<Rightarrow> (world, hedge_rebalance_snapshot) py" where
  "hedge_rebalance_run_once e orch l =
     run_once e ''hedge rebalance worker is not configured with an execution orchestrator'' orch
       (\<lambda>c. execute_auto_rebalance_actions e c None (Some (hw_limit l)) (hw_exposure_limit_bps l))
       hedge_rebalance_failed hedge_rebalance_succeeded l"

interpretation hedge_rebalance: background_worker "orch \<noteq> None" "hedge_rebalance_run_once e orch" for e orch
  by (rule background_workerI[OF hedge_rebalance_run_once_def])
    (simp_all add: run_log.defs hedge_rebalance_failed_def hedge_rebalance_succeeded_def)

subsection \<open>Recovery worker\<close>

record recovery_snapshot = run_log +
  yw_limit :: int
  yw_total_executed_recoveries :: nat
  yw_last_attempted_count :: nat
  yw_last_executed_count :: nat
  yw_last_skipped_count :: nat

definition new_recovery_worker :: "bool \<Rightarrow> bool \<Rightarrow> float64 \<Rightarrow> int \<Rightarrow> py_error + recovery_snapshot worker" where
  "new_recovery_worker cfg enabled interval limit =
     (if 0 < interval \<and> 1 \<le> limit then
        Inr (new_worker (run_log.extend (new_log enabled cfg interval) (recovery_snapshot.fields limit 0 0 0 0)))
      else Inl (ValidationError ''RecoveryWorkerSnapshot''))"

definition recovery_failed :: "recovery_snapshot \<Rightarrow> recovery_snapshot" where
  "recovery_failed l = l\<lparr>yw_last_attempted_count := 0, yw_last_executed_count := 0, yw_last_skipped_count := 0\<rparr>"

definition recovery_succeeded :: "recovery_summary \<Rightarrow> recovery_snapshot \<Rightarrow> recovery_snapshot" where
  "recovery_succeeded s l = l\<lparr>yw_last_attempted_count := ry_attempted_count s,
     yw_last_executed_count := ry_executed_count s, yw_last_skipped_count := ry_skipped_count s,
     yw_total_executed_recoveries := yw_total_executed_recoveries l + ry_executed_count s\<rparr>"

definition recovery_run_once :: "env \<Rightarrow> orchestrator option \<Rightarrow> recovery_snapshot \<Rightarrow> (world, recovery_snapshot) py" where
  "recovery_run_once e orch l =
     run_once e ''recovery worker is not configured with an execution orchestrator'' orch
       (\<lambda>c. execute_actionable_plans e (Some (yw_limit l)) None None)
       recovery_failed recovery_succeeded l"

interpretation recovery: background_worker "orch \<noteq> None" "recovery_run_once e orch" for e orch
  by (rule background_workerI[OF recovery_run_once_def])
    (simp_all add: run_log.defs recovery_failed_def recovery_succeeded_def)

subsection \<open>Reconciliation worker\<close>

record reconciliation_snapshot = run_log +
  nw_limit :: int
  nw_total_imported_reports :: nat
  nw_last_imported_report_count :: nat
  nw_last_synced_trade_count :: nat

definition new_reconciliation_worker ::
  "bool \<Rightarrow> bool \<Rightarrow> float64 \<Rightarrow> int \<Rightarrow> py_error + reconciliation_snapshot worker" where
  \<comment> \<open>the interval is compared with the float nearest to 0.01\<close>
  "new_reconciliation_worker cfg enabled interval limit =
     (if rnd (1 / 100) \<le> interval \<and> 1 \<le> limit then
        Inr (new_worker (run_log.extend (new_log enabled cfg interval) (reconciliation_snapshot.fields limit 0 0 0)))
      else Inl (ValidationError ''ReconciliationWorkerSnapshot''))"

definition reconciliation_failed :: "reconciliation_snapshot \<Rightarrow> reconciliation_snapshot" where
  "reconciliation_failed l = l\<lparr>nw_last_imported_report_count := 0, nw_last_synced_trade_count := 0\<rparr>"

definition synced_trade_ids :: "order_report list \<Rightarrow> string set" where
  \<comment> \<open>an absent or empty trade id is falsy\<close>
  "synced_trade_ids reports = set (List.map_filter er_trade_id reports) - {[]}"

definition reconciliation_succeeded ::
  "order_report list \<Rightarrow> reconciliation_snapshot \<Rightarrow> reconciliation_snapshot" where
  "reconciliation_succeeded reports l = l\<lparr>nw_last_imported_report_count := length reports,
     nw_last_synced_trade_count := card (synced_trade_ids reports),
     nw_total_imported_reports := nw_total_imported_reports l + length reports\<rparr>"

definition reconciliation_run_once ::
  "env \<Rightarrow> client option \<Rightarrow> reconciliation_snapshot \<Rightarrow> (world, reconciliation_snapshot) py" where
  "reconciliation_run_once e trading_client l =
     run_once e ''reconciliation worker is not configured with an authenticated trading client'' trading_client
       (\<lambda>cl. sync_attention_candidates e cl (Some (nw_limit l)))
       reconciliation_failed reconciliation_succeeded l"

interpretation reconciliation: background_worker "trading_client \<noteq> None" "reconciliation_run_once e trading_client"
  for e trading_client
  by (rule background_workerI[OF reconciliation_run_once_def])
    (simp_all add: run_log.defs reconciliation_failed_def reconciliation_succeeded_def)

subsection \<open>Scheduler worker\<close>

record scheduler_snapshot = run_log +
  sw_max_open_positions :: int
  sw_max_total_notional :: float64
  sw_total_actions_executed :: nat
  sw_last_cycle_result :: "cycle_result option"

definition new_scheduler_worker :: "bool \<Rightarrow> bool \<Rightarrow> float64 \<Rightarrow> int \<Rightarrow> float64 \<Rightarrow> scheduler_snapshot worker" where
  "new_scheduler_worker cfg enabled interval max_open max_notional =
     new_worker (run_log.extend (new_log enabled cfg interval) (scheduler_snapshot.fields max_open max_notional 0 None))"

definition scheduler_succeeded :: "cycle_result \<Rightarrow> scheduler_snapshot \<Rightarrow> scheduler_snapshot" where
  "scheduler_succeeded r l = l\<lparr>sw_last_cycle_result := Some r,
     sw_total_actions_executed := sw_total_actions_executed l + yr_actions_executed r\<rparr>"

definition scheduler_run_once ::
  "env \<Rightarrow> scheduler \<Rightarrow> public_client \<Rightarrow> string \<Rightarrow> orchestrator option \<Rightarrow> scheduler_snapshot \<Rightarrow>
   (world, scheduler_snapshot) py" where
  "scheduler_run_once e sd pc app_mode orch l =
     run_once e ''scheduler worker is not configured with an execution orchestrator'' orch
       (\<lambda>c. bnd (fetch_snapshots e pc) (\<lambda>snapshots.
             run_cycle e sd c snapshots app_mode (sw_max_open_positions l) (sw_max_total_notional l)))
       (\<lambda>l. l) scheduler_succeeded l"

interpretation scheduling: background_worker "orch \<noteq> None" "scheduler_run_once e sd pc app_mode orch"
  for e sd pc app_mode orch
  by (rule background_workerI[OF scheduler_run_once_def]) (simp_all add: run_log.defs scheduler_succeeded_def)

subsection \<open>Monitor worker\<close>

record monitor_snapshot = run_log +
  mw_max_hold_periods :: float64
  mw_total_closes_executed :: nat
  mw_last_cycle_result :: "monitor_result option"

definition new_monitor_worker :: "bool \<Rightarrow> bool \<Rightarrow> float64 \<Rightarrow> float64 \<Rightarrow> monitor_snapshot worker" where
  "new_monitor_worker cfg enabled interval max_hold =
     new_worker (run_log.extend (new_log enabled cfg interval) (monitor_snapshot.fields max_hold 0 None))"

definition monitor_succeeded :: "monitor_result \<Rightarrow> monitor_snapshot \<Rightarrow> monitor_snapshot" where
  "monitor_succeeded r l = l\<lparr>mw_last_cycle_result := Some r,
     mw_total_closes_executed := mw_total_closes_executed l + mr_close_executed r\<rparr>"

definition monitor_run_once ::
  "env \<Rightarrow> public_client \<Rightarrow> orchestrator option \<Rightarrow> monitor_snapshot \<Rightarrow> (world, monitor_snapshot) py" where
  "monitor_run_once e pc orch l =
     run_once e ''holding monitor worker is not configured'' orch
       (\<lambda>c. bnd (fetch_snapshots e pc) (\<lambda>snapshots.
             run_monitor_cycle e c (score_snapshots None snapshots) (mw_max_hold_periods l)))
       (\<lambda>l. l) monitor_succeeded l"

interpretation monitoring: background_worker "orch \<noteq> None" "monitor_run_once e pc orch" for e pc orch
  by (rule background_workerI[OF monitor_run_once_def]) (simp_all add: run_log.defs monitor_succeeded_def)

subsection \<open>Properties\<close>

lemma run_cycle_raises: "\<exists>exc. fst (run_cycle e sd c snapshots app_mode max_open max_notional w) = Inl exc"
  by (simp add: run_cycle_def Let_def bnd_run thn_run utc_now_run audit_service_save_record_def raise_run
      split: prod.split sum.split)

lemma run_monitor_cycle_raises: "\<exists>exc. fst (run_monitor_cycle e c scores max_hold w) = Inl exc"
  by (simp add: run_monitor_cycle_def Let_def bnd_run thn_run utc_now_run audit_service_save_record_def raise_run
      split: prod.split sum.split)

lemma bnd_raises:
  assumes "\<And>x w. \<exists>exc. fst (f x w) = Inl exc"
  shows "\<exists>exc. fst (bnd m f w) = Inl exc"
  using assms by (auto simp: bnd_run split: prod.split sum.split)

lemma run_once_always_fails:
  assumes "\<And>c w. \<exists>exc. fst (body c w) = Inl exc" and "\<And>l. run_log.truncate (on_fail l) = run_log.truncate l"
    and "run_once e refusal orch body on_fail on_ok l w = (Inr l', w')"
  shows "rl_total_failed_runs l' = rl_total_failed_runs l + 1 \<and> rl_last_success_at l' = rl_last_success_at l"
proof -
  obtain c where c: "orch = Some c" using assms(3) by (cases orch) (auto simp: run_once_def raise_run)
  obtain exc u where b: "body c (w\<lparr>w_ticks := Suc (w_ticks w)\<rparr>) = (Inl exc, u)"
    using assms(1)[of c "w\<lparr>w_ticks := Suc (w_ticks w)\<rparr>"] by (metis prod.collapse)
  show ?thesis
    using assms(3) assms(2)[of "log_failed (env_now e (w_ticks u)) exc (log_started (env_now e (w_ticks w)) l)"] c b
    by (auto simp: run_once_def bnd_run utc_now_run attempt_run ret_run run_log.defs log_failed_def log_started_def)
qed

text \<open>
  C35. Each of the six workers is live: whatever the services do and raise, the counters of a
  worker add up along every sequence of starts, stops, turns, requested runs and steps of
  others (\<open>worker_inv\<close>: every run is counted, no more failures than runs, settings kept, the
  task never ends by itself and exists only for an enabled and configured worker); a running
  worker stays running until it is stopped; and a started one can take any number of turns.
  Yet a run of the scheduler or the monitor is always a failed one.
\<close>

theorem workers_live:
  "lively (orch \<noteq> None) (compensation_run_once e cl orch)
   \<and> lively (orch \<noteq> None) (hedge_rebalance_run_once e orch)
   \<and> lively (orch \<noteq> None) (recovery_run_once e orch)
   \<and> lively (trading_client \<noteq> None) (reconciliation_run_once e trading_client)
   \<and> lively (orch \<noteq> None) (scheduler_run_once e sd pc app_mode orch)
   \<and> lively (orch \<noteq> None) (monitor_run_once e pc orch)
   \<and> (\<forall>l w l' w'. scheduler_run_once e sd pc app_mode orch l w = (Inr l', w') \<longrightarrow>
        rl_total_failed_runs l' = rl_total_failed_runs l + 1 \<and> rl_last_success_at l' = rl_last_success_at l)
   \<and> (\<forall>l w l' w'. monitor_run_once e pc orch l w = (Inr l', w') \<longrightarrow>
        rl_total_failed_runs l' = rl_total_failed_runs l + 1 \<and> rl_last_success_at l' = rl_last_success_at l)"
proof (intro conjI allI impI)
  fix l w l' w' assume "scheduler_run_once e sd pc app_mode orch l w = (Inr l', w')"
  note run = this[unfolded scheduler_run_once_def]
  note fails = run_once_always_fails[OF bnd_raises[OF run_cycle_raises] refl run]
  show "rl_total_failed_runs l' = rl_total_failed_runs l + 1" "rl_last_success_at l' = rl_last_success_at l"
    using fails by simp_all
next
  fix l w l' w' assume "monitor_run_once e pc orch l w = (Inr l', w')"
  note run = this[unfolded monitor_run_once_def]
  note fails = run_once_always_fails[OF bnd_raises[OF run_monitor_cycle_raises] refl run]
  show "rl_total_failed_runs l' = rl_total_failed_runs l + 1" "rl_last_success_at l' = rl_last_success_at l"
    using fails by simp_all
qed (rule compensation.lively hedge_rebalance.lively recovery.lively reconciliation.lively scheduling.lively monitoring.lively)+

definition sample_recovery_log :: recovery_snapshot where
  "sample_recovery_log = run_log.extend (new_log True True 30) (recovery_snapshot.fields 3 0 0 0 0)"

definition sample_scheduler_log :: scheduler_snapshot where
  "sample_scheduler_log = run_log.extend (new_log True True 60) (scheduler_snapshot.fields 3 25000 0 None)"

definition sample_public :: public_client where
  "sample_public = \<lparr>pc_perp_base = ''https://fapi.binance.com'', pc_spot_base = ''https://api.binance.com''\<rparr>"

theorem workers_live_witness:
  "(\<exists>wk w. worker_trace True (recovery_run_once sample_env (Some sample_orchestrator))
        (new_worker sample_recovery_log, sample_world []) [StartCalled, LoopTurn, LoopTurn] (wk, w)
      \<and> wk_task wk = Running \<and> rl_total_runs (wk_log wk) = 2)
   \<and> (\<exists>l w. scheduler_run_once sample_env sample_scheduler sample_public ''paper'' (Some sample_orchestrator)
        sample_scheduler_log (sample_world []) = (Inr l, w) \<and> rl_total_failed_runs l = 1)"
proof -
  note live = workers_live[of "Some sample_orchestrator" sample_env sample_client None sample_scheduler sample_public "''paper''"]
  have enabled: "rl_enabled sample_recovery_log" "rl_total_runs sample_recovery_log = 0"
    "rl_total_failed_runs sample_scheduler_log = 0"
    by (simp_all add: sample_recovery_log_def sample_scheduler_log_def new_log_def run_log.defs)
  have "lively True (recovery_run_once sample_env (Some sample_orchestrator))" using live by simp
  then have "\<exists>wk w. worker_trace True (recovery_run_once sample_env (Some sample_orchestrator))
        (new_worker sample_recovery_log, sample_world []) (StartCalled # replicate 2 LoopTurn) (wk, w)
      \<and> wk_task wk = Running \<and> rl_total_runs (wk_log wk) = rl_total_runs sample_recovery_log + 2"
    using enabled(1) unfolding lively_def by blast
  moreover obtain l w where run: "scheduler_run_once sample_env sample_scheduler sample_public ''paper''
      (Some sample_orchestrator) sample_scheduler_log (sample_world []) = (Inr l, w)"
    using scheduling.run_counted[of "Some sample_orchestrator" sample_env sample_scheduler sample_public "''paper''"
        sample_scheduler_log "sample_world []"] by auto
  moreover have "rl_total_failed_runs l = 1" using live run enabled(3) by fastforce
  ultimately show ?thesis by (auto simp: enabled(2) numeral_2_eq_2)
qed

end
