(* ===== verification/Backtest.thy ===== *)
theory Backtest
  imports RiskPolicy World
begin

section \<open>Backtesting\<close>

text \<open>
  \<open>app/strategy/registry.py\<close> (strategies by id), \<open>app/backtest/engine.py\<close> (replaying
  recorded periods through the scorer and the risk policy) and \<open>app/backtest/dataset_store.py\<close>,
  \<open>dataset_service.py\<close> (the stored periods). The engine's nested loops with their early
  exit are proved equal to a reference: of each period, the first \<open>top_k\<close> ranked rows that
  pass the filters. The research files (datasets, tuning state, learning samples, journal)
  are the state \<open>lab\<close>, apart from the trading state \<open>world\<close>.
\<close>

subsection \<open>Strategies\<close>

datatype strategy = FundingArbStrategy "score_config option"

definition strategy_id :: "strategy \<Rightarrow> string" where
  "strategy_id s = (case s of FundingArbStrategy _ \<Rightarrow> ''funding-arb'')"

definition strategy_scores :: "strategy \<Rightarrow> market_snapshot list \<Rightarrow> opportunity_score list" where
  "strategy_scores s snapshots = (case s of FundingArbStrategy c \<Rightarrow> score_snapshots c snapshots)"

record registry =
  sr_strategies :: "(string \<times> strategy) list"
  sr_default :: "string option"

definition register :: "strategy \<Rightarrow> registry \<Rightarrow> py_error + registry" where
  "register s reg =
     (if map_of (sr_strategies reg) (strategy_id s) \<noteq> None
      then Inl (ValueError (''Strategy '' @ repr_str (strategy_id s) @ '' is already registered''))
      else Inr (reg\<lparr>sr_strategies := sr_strategies reg @ [(strategy_id s, s)],
                    sr_default := (case sr_default reg of None \<Rightarrow> Some (strategy_id s) | Some d \<Rightarrow> Some d)\<rparr>))"

fun register_all :: "strategy list \<Rightarrow> registry \<Rightarrow> py_error + registry" where
  "register_all [] reg = Inr reg"
| "register_all (s # ss) reg = (case register s reg of Inl exc \<Rightarrow> Inl exc | Inr reg' \<Rightarrow> register_all ss reg')"

definition new_registry :: "strategy list \<Rightarrow> string option \<Rightarrow> py_error + registry" where
  "new_registry strategies default_id =
     register_all strategies \<lparr>sr_strategies = [], sr_default = default_id\<rparr>"

definition registry_get :: "registry \<Rightarrow> string \<Rightarrow> py_error + strategy" where
  "registry_get reg k =
     (case map_of (sr_strategies reg) k of
        Some s \<Rightarrow> Inr s
      | None \<Rightarrow> Inl (KeyError (repr_str (''Unknown strategy '' @ [char_of (39::nat)] @ k @ [char_of (39::nat)]))))"

definition registry_default :: "registry \<Rightarrow> py_error + strategy" where
  "registry_default reg =
     (case sr_default reg of
        None \<Rightarrow> Inl (KeyError (repr_str ''No strategies have been registered''))
      | Some k \<Rightarrow> registry_get reg k)"

definition build_default_registry :: "score_config option \<Rightarrow> py_error + registry" where
  "build_default_registry c = new_registry [FundingArbStrategy c] (Some (strategy_id (FundingArbStrategy c)))"

definition default_registry :: "score_config option \<Rightarrow> registry" where
  "default_registry c = \<lparr>sr_strategies = [(''funding-arb'', FundingArbStrategy c)], sr_default = Some ''funding-arb''\<rparr>"

lemma build_default_registry_ok [simp]: "build_default_registry c = Inr (default_registry c)"
  by (simp add: build_default_registry_def new_registry_def register_def strategy_id_def default_registry_def)

subsection \<open>The engine\<close>

record backtest_period =
  bp_observed_at :: "datetime option"
  bp_snapshots :: "market_snapshot list"

record backtest_config =
  bc_notional_per_trade :: float64
  bc_min_score :: float64
  bc_min_net_edge_bps :: float64
  bc_top_k :: int
  bc_accept_reviewed :: bool
  bc_strategy_id :: "string option"

definition default_backtest_config :: backtest_config where
  "default_backtest_config = \<lparr>bc_notional_per_trade = 1000, bc_min_score = 0, bc_min_net_edge_bps = 0,
     bc_top_k = 1, bc_accept_reviewed = False, bc_strategy_id = None\<rparr>"

definition valid_backtest_config :: "backtest_config \<Rightarrow> bool" where
  \<comment> \<open>the constraints of the model's fields\<close>
  "valid_backtest_config c \<longleftrightarrow> 0 < bc_notional_per_trade c \<and> 0 \<le> bc_min_score c \<and> 1 \<le> bc_top_k c \<and> bc_top_k c \<le> 20"

record backtest_trade =
  bt_period_index :: nat
  bt_observed_at :: "datetime option"
  bt_symbol :: string
  bt_funding_rate :: float64
  bt_score :: float64
  bt_net_edge_bps :: float64
  bt_projected_net_edge_bps :: float64
  bt_estimated_pnl :: float64
  bt_risk_tag :: string
  bt_risk_decision :: decision
  bt_position_fraction :: float64
  bt_reasons :: "string list"

record backtest_result =
  br_periods_processed :: nat
  br_candidates_seen :: nat
  br_selected_trades :: nat
  br_estimated_total_pnl :: float64
  br_average_score :: float64
  br_average_net_edge_bps :: float64
  br_average_projected_edge_bps :: float64
  br_trades :: "backtest_trade list"

definition passes_filters :: "opportunity_score \<Rightarrow> risk_decision \<Rightarrow> backtest_config \<Rightarrow> bool" where
  "passes_filters s d c =
     (let projected = or_float (os_projected_net_edge_bps s) (os_net_edge_bps s) in
      if os_score s < bc_min_score c \<or> projected < bc_min_net_edge_bps c then False
      else if rd_decision d = Block then False
      else if rd_decision d = Review \<and> \<not> bc_accept_reviewed c then False
      else True)"

definition to_trade ::
  "nat \<Rightarrow> datetime option \<Rightarrow> opportunity_score \<Rightarrow> risk_decision \<Rightarrow> backtest_config \<Rightarrow> backtest_trade" where
  "to_trade i observed s d c =
     (let notional = fmul (bc_notional_per_trade c) (rd_max_position_fraction d);
          projected = or_float (os_projected_net_edge_bps s) (os_net_edge_bps s)
      in \<lparr>bt_period_index = i, bt_observed_at = observed, bt_symbol = os_symbol s,
          bt_funding_rate = os_funding_rate s, bt_score = os_score s, bt_net_edge_bps = os_net_edge_bps s,
          bt_projected_net_edge_bps = projected,
          bt_estimated_pnl = py_round (fdiv (fmul notional projected) 10000) 4,
          bt_risk_tag = os_risk_tag s, bt_risk_decision = rd_decision d,
          bt_position_fraction = rd_max_position_fraction d, bt_reasons = rd_reasons d\<rparr>)"

definition average :: "float64 list \<Rightarrow> float64" where
  "average xs = (if xs = [] then 0 else py_round (fdiv (py_sum xs) (float_of_int (int (length xs)))) 4)"

fun period_loop ::
  "risk_config \<Rightarrow> backtest_config \<Rightarrow> nat \<Rightarrow> datetime option \<Rightarrow> opportunity_score list \<Rightarrow> int \<Rightarrow>
   backtest_trade list \<Rightarrow> backtest_trade list" where
  \<comment> \<open>the inner loop: the rows of one period, with \<open>period_selected\<close> and the trades so far\<close>
  "period_loop rc c i observed [] selected trades = trades"
| "period_loop rc c i observed (row # rows) selected trades =
     (let d = evaluate rc row in
      if \<not> passes_filters row d c then period_loop rc c i observed rows selected trades
      else let trades' = trades @ [to_trade i observed row d c] in
           if bc_top_k c \<le> selected + 1 then trades'
           else period_loop rc c i observed rows (selected + 1) trades')"

fun periods_loop ::
  "strategy \<Rightarrow> risk_config \<Rightarrow> backtest_config \<Rightarrow> nat \<Rightarrow> backtest_period list \<Rightarrow> nat \<times> backtest_trade list \<Rightarrow>
   nat \<times> backtest_trade list" where
  \<comment> \<open>the outer loop, with \<open>candidates_seen\<close> and \<open>selected_trades\<close>\<close>
  "periods_loop st rc c i [] acc = acc"
| "periods_loop st rc c i (p # ps) (seen, trades) =
     (let rows = strategy_scores st (bp_snapshots p) in
      periods_loop st rc c (Suc i) ps
        (seen + length rows, period_loop rc c i (bp_observed_at p) rows 0 trades))"

definition resolve_strategy :: "registry \<Rightarrow> string option \<Rightarrow> py_error + strategy" where
  "resolve_strategy reg k =
     (case k of Some t \<Rightarrow> if t \<noteq> [] then registry_get reg t else registry_default reg
      | None \<Rightarrow> registry_default reg)"

definition backtest_run ::
  "registry \<Rightarrow> risk_config \<Rightarrow> backtest_period list \<Rightarrow> backtest_config option \<Rightarrow> py_error + backtest_result" where
  "backtest_run reg rc periods config =
     (let c = (case config of None \<Rightarrow> default_backtest_config | Some c \<Rightarrow> c) in
      case resolve_strategy reg (bc_strategy_id c) of
        Inl exc \<Rightarrow> Inl exc
      | Inr st \<Rightarrow>
          (case periods_loop st rc c 0 periods (0, []) of (seen, trades) \<Rightarrow>
             Inr \<lparr>br_periods_processed = length periods, br_candidates_seen = seen,
               br_selected_trades = length trades,
               br_estimated_total_pnl = py_round (py_sum (map bt_estimated_pnl trades)) 4,
               br_average_score = average (map bt_score trades),
               br_average_net_edge_bps = average (map bt_net_edge_bps trades),
               br_average_projected_edge_bps = average (map bt_projected_net_edge_bps trades),
               br_trades = trades\<rparr>))"

subsection \<open>Datasets\<close>

record backtest_dataset =
  bd_dataset_id :: string
  bd_title :: string
  bd_source :: string
  bd_description :: "string option"
  bd_imported_at :: datetime
  bd_periods :: "backtest_period list"

record dataset_summary =
  bs_dataset_id :: string
  bs_title :: string
  bs_source :: string
  bs_period_count :: nat
  bs_snapshot_count :: nat
  bs_observed_from :: "datetime option"
  bs_observed_to :: "datetime option"
  bs_imported_at :: datetime

definition summary_from :: "backtest_dataset \<Rightarrow> dataset_summary" where
  \<comment> \<open>\<open>BacktestDatasetSummary.from_dataset\<close>\<close>
  "summary_from d =
     (let observed = List.map_filter bp_observed_at (bd_periods d) in
      \<lparr>bs_dataset_id = bd_dataset_id d, bs_title = bd_title d, bs_source = bd_source d,
       bs_period_count = length (bd_periods d),
       bs_snapshot_count = sum_list (map (\<lambda>p. length (bp_snapshots p)) (bd_periods d)),
       bs_observed_from = (if observed = [] then None else Some (Min (set observed))),
       bs_observed_to = (if observed = [] then None else Some (Max (set observed))),
       bs_imported_at = bd_imported_at d\<rparr>)"

text \<open>The store is the list in the file; saving replaces the dataset with the same id in place.\<close>

definition list_summaries :: "backtest_dataset list \<Rightarrow> dataset_summary list" where
  "list_summaries ds = map summary_from ds"

definition get_dataset :: "string \<Rightarrow> backtest_dataset list \<Rightarrow> backtest_dataset option" where
  "get_dataset k ds = lookup bd_dataset_id k ds"

definition save_dataset :: "backtest_dataset \<Rightarrow> backtest_dataset list \<Rightarrow> backtest_dataset list" where
  "save_dataset d ds = upsert bd_dataset_id d ds"

definition import_dataset :: "backtest_dataset \<Rightarrow> backtest_dataset list \<Rightarrow> dataset_summary \<times> backtest_dataset list" where
  "import_dataset d ds = (summary_from d, save_dataset d ds)"

definition get_periods :: "string \<Rightarrow> int option \<Rightarrow> backtest_dataset list \<Rightarrow> backtest_period list option" where
  "get_periods k limit_recent ds =
     (case get_dataset k ds of
        None \<Rightarrow> None
      | Some d \<Rightarrow> Some (case limit_recent of None \<Rightarrow> bd_periods d | Some n \<Rightarrow> slice_from (bd_periods d) (- n)))"

interpretation datasets: keyed_store get_dataset save_dataset bd_dataset_id
  unfolding get_dataset_def save_dataset_def by (rule list_store.keyed_store_axioms)

subsection \<open>The reference\<close>

definition selected_rows :: "risk_config \<Rightarrow> backtest_config \<Rightarrow> opportunity_score list \<Rightarrow> opportunity_score list" where
  "selected_rows rc c rows = take (nat (bc_top_k c)) (filter (\<lambda>row. passes_filters row (evaluate rc row) c) rows)"

definition period_trades :: "strategy \<Rightarrow> risk_config \<Rightarrow> backtest_config \<Rightarrow> nat \<Rightarrow> backtest_period \<Rightarrow> backtest_trade list" where
  "period_trades st rc c i p =
     map (\<lambda>row. to_trade i (bp_observed_at p) row (evaluate rc row) c)
       (selected_rows rc c (strategy_scores st (bp_snapshots p)))"

definition reference_trades :: "strategy \<Rightarrow> risk_config \<Rightarrow> backtest_config \<Rightarrow> backtest_period list \<Rightarrow> backtest_trade list" where
  "reference_trades st rc c ps = concat (map (\<lambda>(i, p). period_trades st rc c i p) (enumerate 0 ps))"

lemma period_loop_take:
  assumes "selected < bc_top_k c" "0 \<le> selected"
  shows "period_loop rc c i observed rows selected trades = trades @
    map (\<lambda>row. to_trade i observed row (evaluate rc row) c)
      (take (nat (bc_top_k c - selected)) (filter (\<lambda>row. passes_filters row (evaluate rc row) c) rows))"
  using assms
proof (induction rc c i observed rows selected trades rule: period_loop.induct)
  case (2 rc c i observed row rows selected trades)
  have "nat (bc_top_k c - selected) = Suc (nat (bc_top_k c - (selected + 1)))" using 2(3) by simp
  then show ?case using 2 by (auto simp: Let_def not_le)
qed simp

lemma periods_loop_reference:
  assumes "1 \<le> bc_top_k c"
  shows "periods_loop st rc c i ps (seen, trades) =
    (seen + sum_list (map (\<lambda>p. length (bp_snapshots p)) ps),
     trades @ concat (map (\<lambda>(j, p). period_trades st rc c j p) (enumerate i ps)))"
proof (induction ps arbitrary: i seen trades)
  case (Cons p ps)
  have "period_loop rc c i (bp_observed_at p) (strategy_scores st (bp_snapshots p)) 0 trades
      = trades @ period_trades st rc c i p"
    using assms by (simp add: period_loop_take period_trades_def selected_rows_def)
  moreover have "length (strategy_scores st (bp_snapshots p)) = length (bp_snapshots p)"
    by (cases st) (simp add: strategy_scores_def)
  ultimately show ?case using Cons by (simp add: Let_def)
qed simp

lemma reference_trades_bound:
  "length (reference_trades st rc c ps) \<le> nat (bc_top_k c) * length ps"
proof -
  have "length (concat (map (\<lambda>(j, p). period_trades st rc c j p) (enumerate i ps))) \<le> nat (bc_top_k c) * length ps" for i
  proof (induction ps arbitrary: i)
    case (Cons p ps)
    have "length (period_trades st rc c i p) \<le> nat (bc_top_k c)"
      by (simp add: period_trades_def selected_rows_def)
    then show ?case using Cons[of "Suc i"] by simp
  qed simp
  then show ?thesis by (simp add: reference_trades_def)
qed

lemma reference_trades_sound:
  assumes "t \<in> set (reference_trades st rc c ps)"
  shows "bt_period_index t < length ps \<and> bc_min_score c \<le> bt_score t \<and> bc_min_net_edge_bps c \<le> bt_projected_net_edge_bps t
    \<and> bt_risk_decision t \<noteq> Block \<and> (bt_risk_decision t = Review \<longrightarrow> bc_accept_reviewed c)
    \<and> bt_symbol t \<in> ms_symbol ` set (bp_snapshots (ps ! bt_period_index t))"
proof -
  obtain i p row where t: "(i, p) \<in> set (enumerate 0 ps)" "row \<in> set (strategy_scores st (bp_snapshots p))"
    "passes_filters row (evaluate rc row) c" "t = to_trade i (bp_observed_at p) row (evaluate rc row) c"
    using assms by (auto simp: reference_trades_def period_trades_def selected_rows_def dest!: in_set_takeD)
  then have "i < length ps" "p = ps ! i" by (auto simp: in_set_enumerate_eq)
  moreover have "os_symbol row \<in> ms_symbol ` set (bp_snapshots p)" using t(2)
    by (cases st) (auto simp: strategy_scores_def score_snapshots_def score_snapshot_fields)
  ultimately show ?thesis using t(3) unfolding t(4)
    by (auto simp: to_trade_def Let_def passes_filters_def split: if_splits)
qed

text \<open>
  C36. The backtest engine computes the reference: with the default registry and a valid
  \<open>top_k\<close>, its trades are, period by period, the first \<open>top_k\<close> ranked rows that pass the
  filters; every snapshot is counted as a candidate; there are at most \<open>top_k\<close> trades per
  period; and each trade meets the thresholds, is not blocked, is reviewed only where the
  configuration accepts it, and is about a snapshot of its period. An unknown strategy id
  raises \<open>KeyError\<close> before any period is read.
\<close>

theorem backtest_equals_reference:
  assumes "valid_backtest_config c"
  shows "case bc_strategy_id c of
      Some k \<Rightarrow> k \<noteq> [] \<and> k \<noteq> ''funding-arb'' \<and> (\<exists>m. backtest_run (default_registry sc) rc ps (Some c) = Inl (KeyError m))
        \<or> (k = [] \<or> k = ''funding-arb'') \<and> backtest_run (default_registry sc) rc ps (Some c)
            = backtest_run (default_registry sc) rc ps (Some (c\<lparr>bc_strategy_id := None\<rparr>))
    | None \<Rightarrow> \<exists>r. backtest_run (default_registry sc) rc ps (Some c) = Inr r
        \<and> br_trades r = reference_trades (FundingArbStrategy sc) rc c ps
        \<and> br_candidates_seen r = sum_list (map (\<lambda>p. length (bp_snapshots p)) ps)
        \<and> br_selected_trades r = length (br_trades r) \<and> br_selected_trades r \<le> nat (bc_top_k c) * length ps
        \<and> (\<forall>t\<in>set (br_trades r). bt_period_index t < length ps \<and> bc_min_score c \<le> bt_score t
            \<and> bc_min_net_edge_bps c \<le> bt_projected_net_edge_bps t \<and> bt_risk_decision t \<noteq> Block
            \<and> (bt_risk_decision t = Review \<longrightarrow> bc_accept_reviewed c)
            \<and> bt_symbol t \<in> ms_symbol ` set (bp_snapshots (ps ! bt_period_index t)))"
proof (cases "bc_strategy_id c")
  case None
  have k: "1 \<le> bc_top_k c" using assms by (simp add: valid_backtest_config_def)
  have st: "resolve_strategy (default_registry sc) None = Inr (FundingArbStrategy sc)"
    by (simp add: resolve_strategy_def registry_default_def registry_get_def default_registry_def)
  have loop: "periods_loop (FundingArbStrategy sc) rc c 0 ps (0, []) =
      (sum_list (map (\<lambda>p. length (bp_snapshots p)) ps), reference_trades (FundingArbStrategy sc) rc c ps)"
    using periods_loop_reference[OF k] by (simp add: reference_trades_def)
  then have "\<exists>r. backtest_run (default_registry sc) rc ps (Some c) = Inr r
      \<and> br_trades r = reference_trades (FundingArbStrategy sc) rc c ps
      \<and> br_candidates_seen r = sum_list (map (\<lambda>p. length (bp_snapshots p)) ps)
      \<and> br_selected_trades r = length (br_trades r)"
    by (simp add: backtest_run_def None st)
  then show ?thesis using None reference_trades_bound reference_trades_sound by fastforce
next
  case (Some k)
  have loop_eq: "periods_loop st rc (c\<lparr>bc_strategy_id := None\<rparr>) i ps acc = periods_loop st rc c i ps acc" for st i acc
  proof (induction st rc c i ps acc rule: periods_loop.induct)
    case (2 st rc c i p ps seen trades)
    have "period_loop rc (c\<lparr>bc_strategy_id := None\<rparr>) i observed rows n ts = period_loop rc c i observed rows n ts" for observed rows n ts
      by (induction rc c i observed rows n ts rule: period_loop.induct) (simp_all add: passes_filters_def to_trade_def Let_def)
    then show ?case using 2 by (simp add: Let_def)
  qed simp
  show ?thesis using loop_eq
    by (auto simp: Some backtest_run_def resolve_strategy_def registry_default_def registry_get_def default_registry_def)
qed

definition sample_period :: backtest_period where
  "sample_period = \<lparr>bp_observed_at = Some 0, bp_snapshots = [sample_snapshot (rnd (1 / 1000)), sample_snapshot 0]\<rparr>"

theorem backtest_equals_reference_witness:
  "\<exists>r. backtest_run (default_registry None) default_risk_config [sample_period, sample_period] (Some default_backtest_config) = Inr r
     \<and> br_candidates_seen r = 4 \<and> br_selected_trades r \<le> 2
     \<and> br_trades r = reference_trades (FundingArbStrategy None) default_risk_config default_backtest_config [sample_period, sample_period]"
proof -
  have "valid_backtest_config default_backtest_config"
    by (simp add: valid_backtest_config_def default_backtest_config_def)
  from backtest_equals_reference[OF this, of None default_risk_config "[sample_period, sample_period]"]
  show ?thesis by (auto simp: default_backtest_config_def sample_period_def)
qed

end
