(* ===== verification/Console.thy ===== *)
theory Console
  imports MarketData Backtest
begin

section \<open>Read services of the console\<close>

text \<open>
  \<open>app/console/read_service.py\<close> (the scan of opportunities and the dashboard, with the
  depth snapshots as a fallback when a book request fails) and
  \<open>app/execution/read_service.py\<close> (status counts, recovery queue and incidents). The
  lemmas show what a scan may return and that the counts cover every trade.
\<close>

subsection \<open>Scan filters\<close>

record scan_filters =
  sn_limit :: int
  sn_positive_funding_only :: bool
  sn_min_net_edge_bps :: "float64 option"

definition scan_filters_of :: "int \<Rightarrow> bool \<Rightarrow> float64 option \<Rightarrow> py_error + scan_filters" where
  \<comment> \<open>the \<open>ScanFilters\<close> constructor with its constraints\<close>
  "scan_filters_of limit positive_only min_edge =
     (if 1 \<le> limit \<and> limit \<le> 100 \<and> (case min_edge of None \<Rightarrow> True | Some x \<Rightarrow> 0 \<le> x)
      then Inr \<lparr>sn_limit = limit, sn_positive_funding_only = positive_only, sn_min_net_edge_bps = min_edge\<rparr>
      else Inl (ValidationError ''ScanFilters''))"

record market_status =
  mk_spot_source :: string
  mk_perp_source :: string
  mk_degraded :: bool
  mk_requested_symbols :: int
  mk_quoted_symbols :: nat

record scan_response =
  sx_generated_at :: datetime
  sx_applied_filters :: scan_filters
  sx_market_status :: market_status
  sx_total_matches :: nat
  sx_rows :: "opportunity_score list"

record account_health =
  ah_mode :: string
  ah_exchange :: string
  ah_risk_state :: string

record dashboard_summary =
  da_generated_at :: datetime
  da_account_health :: account_health
  da_market_status :: market_status
  da_top_opportunities :: "opportunity_score list"
  da_paper_positions :: "pydict list"

record console =
  cn_client :: public_client
  cn_scan_limit :: int
  cn_app_mode :: string
  cn_exchange_name :: string
  cn_registry :: registry
  cn_strategy_id :: "string option"

definition normalize_filters :: "console \<Rightarrow> scan_filters option \<Rightarrow> py_error + scan_filters" where
  "normalize_filters cn filters =
     then_do (case filters of None \<Rightarrow> scan_filters_of (cn_scan_limit cn) True None | Some f \<Rightarrow> Inr f) (\<lambda>requested.
       scan_filters_of (min (sn_limit requested) (cn_scan_limit cn)) (sn_positive_funding_only requested)
         (sn_min_net_edge_bps requested))"

definition has_positive_funding :: "pyval \<Rightarrow> py_error + bool" where
  "has_positive_funding row = (case row of
     PDict d \<Rightarrow> if funding_rate_of row = PNone then Inr False
               else then_do (py_float (funding_rate_of row)) (\<lambda>x. Inr (0 < x))
   | v \<Rightarrow> Inl (no_get_attribute v))"

definition filter_funding_rows :: "pyval \<Rightarrow> scan_filters \<Rightarrow> py_error + pyval" where
  "filter_funding_rows funding_rows f =
     (if \<not> sn_positive_funding_only f then Inr funding_rows
      else then_do (iterate funding_rows) (\<lambda>rows.
           then_do (traverse has_positive_funding rows) (\<lambda>keep.
             Inr (PList (map fst (filter snd (zip rows keep)))))))"

subsection \<open>Order books, with the depth snapshots as a fallback\<close>

definition sliced :: "int \<Rightarrow> pyval \<Rightarrow> py_error + pyval" where
  \<comment> \<open>\<open>v[:n]\<close>\<close>
  "sliced n v = (case v of
     PList vs \<Rightarrow> Inr (PList (slice_to vs n))
   | PStr s \<Rightarrow> Inr (PStr (slice_to s n))
   | _ \<Rightarrow> Inl (TypeError ''object cannot be sliced''))"

definition gathered :: "('a \<Rightarrow> ('w, 'b) py) \<Rightarrow> 'a list \<Rightarrow> ('w, 'b list) py" where
  \<comment> \<open>\<open>asyncio.gather\<close>: every request is made, the first failure is raised\<close>
  "gathered f xs = bnd (for_map (\<lambda>x. attempt (f x)) xs) (\<lambda>rs. lift (traverse (\<lambda>r. r) rs))"

definition depth_row :: "pyval \<Rightarrow> pyval \<Rightarrow> py_error + pyval option" where
  \<comment> \<open>one item of the comprehension; \<open>None\<close> when its condition fails\<close>
  "depth_row symbol depth = (case depth of
     PDict d \<Rightarrow>
       if py_truthy (get_or ''bids'' PNone d) \<and> py_truthy (get_or ''asks'' PNone d) then
         then_do (then_do (first_item (get_or ''bids'' PNone d)) first_item) (\<lambda>bid.
         then_do (then_do (first_item (get_or ''asks'' PNone d)) first_item) (\<lambda>ask.
         Inr (Some (PDict [(''symbol'', symbol), (''bidPrice'', bid), (''askPrice'', ask)]))))
       else Inr None
   | v \<Rightarrow> Inl (no_get_attribute v))"

definition depth_rows :: "int \<Rightarrow> (string \<Rightarrow> (world, pyval) py) \<Rightarrow> pyval \<Rightarrow> (world, pyval) py" where
  \<comment> \<open>the \<open>except\<close> branch; the symbol goes into the query as its text\<close>
  "depth_rows scan_limit fetch_depth funding_rows =
     bnd (lift (then_do (sliced scan_limit funding_rows) (\<lambda>v. then_do (iterate v)
                  (traverse (subscript ''symbol''))))) (\<lambda>symbols.
     bnd (gathered (\<lambda>s. fetch_depth (py_str s)) symbols) (\<lambda>depths.
     lift (then_do (traverse (\<lambda>(s, d). depth_row s d) (zip symbols depths)) (\<lambda>rows.
       Inr (PList (List.map_filter (\<lambda>x. x) rows))))))"

definition fetch_book :: "(world, pyval) py \<Rightarrow> (world, pyval) py \<Rightarrow> (world, pyval \<times> string) py" where
  \<comment> \<open>the rows and their source\<close>
  "fetch_book tickers depth =
     bnd (attempt tickers) (\<lambda>r. case r of
       Inr rows \<Rightarrow> ret (rows, ''bookTicker'')
     | Inl _ \<Rightarrow> bnd depth (\<lambda>rows. ret (rows, ''depth'')))"

definition fetch_perp_rows :: "env \<Rightarrow> console \<Rightarrow> pyval \<Rightarrow> (world, pyval \<times> string) py" where
  "fetch_perp_rows e cn funding_rows =
     fetch_book (fetch_perp_book_tickers e (cn_client cn))
       (depth_rows (cn_scan_limit cn) (fetch_perp_depth_snapshot e (cn_client cn)) funding_rows)"

definition fetch_spot_rows :: "env \<Rightarrow> console \<Rightarrow> pyval \<Rightarrow> (world, pyval \<times> string) py" where
  "fetch_spot_rows e cn funding_rows =
     fetch_book (fetch_spot_book_tickers e (cn_client cn))
       (depth_rows (cn_scan_limit cn) (fetch_spot_depth_snapshot e (cn_client cn)) funding_rows)"

subsection \<open>Scan and dashboard\<close>

definition resolve_console_strategy :: "console \<Rightarrow> py_error + strategy" where
  "resolve_console_strategy cn = (case cn_strategy_id cn of
     Some k \<Rightarrow> if k \<noteq> [] then registry_get (cn_registry cn) k else registry_default (cn_registry cn)
   | None \<Rightarrow> registry_default (cn_registry cn))"

definition at_least :: "float64 option \<Rightarrow> opportunity_score list \<Rightarrow> opportunity_score list" where
  "at_least min_edge rows = (case min_edge of None \<Rightarrow> rows | Some x \<Rightarrow> filter (\<lambda>r. x \<le> os_net_edge_bps r) rows)"

definition requested_count :: "int \<Rightarrow> bool \<Rightarrow> nat \<Rightarrow> int" where
  "requested_count scan_limit degraded n = (if degraded then min (int n) scan_limit else int n)"

definition get_scan_opportunities :: "env \<Rightarrow> console \<Rightarrow> scan_filters option \<Rightarrow> (world, scan_response) py" where
  "get_scan_opportunities e cn filters =
     bnd (lift (normalize_filters cn filters)) (\<lambda>f.
     bnd (fetch_funding_rates e (cn_client cn)) (\<lambda>all_rows.
     bnd (lift (filter_funding_rows all_rows f)) (\<lambda>funding_rows.
     bnd (fetch_spot_rows e cn funding_rows) (\<lambda>(spot_rows, spot_source).
     bnd (fetch_perp_rows e cn funding_rows) (\<lambda>(perp_rows, perp_source).
     bnd (lift (then_do (iterate perp_rows) (\<lambda>ps. then_do (iterate spot_rows) (\<lambda>ss.
                then_do (iterate funding_rows) (\<lambda>fs.
                then_do (build_market_snapshot fs ps ss) (\<lambda>snapshots. Inr (fs, snapshots))))))) (\<lambda>(fs, snapshots).
     bnd (lift (resolve_console_strategy cn)) (\<lambda>strategy.
     let scored = at_least (sn_min_net_edge_bps f) (strategy_scores strategy snapshots);
         degraded = (spot_source \<noteq> ''bookTicker'' \<or> perp_source \<noteq> ''bookTicker'') in
     bnd (utc_now e) (\<lambda>t.
     ret \<lparr>sx_generated_at = t, sx_applied_filters = f,
          sx_market_status = \<lparr>mk_spot_source = spot_source, mk_perp_source = perp_source,
             mk_degraded = degraded,
             mk_requested_symbols = requested_count (cn_scan_limit cn) degraded (length fs),
             mk_quoted_symbols = length snapshots\<rparr>,
          sx_total_matches = length scored, sx_rows = slice_to scored (sn_limit f)\<rparr>))))))))"

definition get_dashboard_summary :: "env \<Rightarrow> console \<Rightarrow> (world, dashboard_summary) py" where
  "get_dashboard_summary e cn =
     bnd (lift (scan_filters_of (min 5 (cn_scan_limit cn)) True None)) (\<lambda>f.
     bnd (get_scan_opportunities e cn (Some f)) (\<lambda>opp.
     ret \<lparr>da_generated_at = sx_generated_at opp,
          da_account_health = \<lparr>ah_mode = cn_app_mode cn, ah_exchange = cn_exchange_name cn, ah_risk_state = ''normal''\<rparr>,
          da_market_status = sx_market_status opp, da_top_opportunities = sx_rows opp, da_paper_positions = []\<rparr>))"

definition route_scan :: "env \<Rightarrow> console \<Rightarrow> int \<Rightarrow> bool \<Rightarrow> float64 option \<Rightarrow> (world, scan_response) py" where
  "route_scan e cn limit positive_only min_edge =
     bnd (lift (scan_filters_of limit positive_only min_edge)) (\<lambda>f. get_scan_opportunities e cn (Some f))"

subsection \<open>The execution console\<close>

definition status_order :: "trade_status list" where
  "status_order = [Candidate, Open, Hedged, Closing, Closed, Failed, RecoveryPending, Cancelled]"

record queue_item =
  qi_trade_id :: string
  qi_mode :: trade_mode
  qi_symbol :: string
  qi_status :: trade_status
  qi_opened_at :: datetime
  qi_net_exposure :: float64
  qi_spot_notional :: float64
  qi_perp_notional :: float64
  qi_latest_event_type :: "string option"
  qi_latest_event_summary :: "string option"
  qi_latest_event_severity :: "severity option"

record incident =
  in_event_id :: string
  in_event_type :: string
  in_severity :: severity
  in_occurred_at :: datetime
  in_summary :: string
  in_trade_id :: "string option"

record execution_snapshot =
  xs_generated_at :: datetime
  xs_status_counts :: "(trade_status \<times> nat) list"
  xs_recovery_queue :: "queue_item list"
  xs_recent_incidents :: "incident list"

definition status_count :: "ledger_record list \<Rightarrow> trade_status \<Rightarrow> nat" where
  "status_count rs s = length (filter (\<lambda>r. lr_status r = s) rs)"

definition build_status_counts :: "ledger_record list \<Rightarrow> (trade_status \<times> nat) list" where
  "build_status_counts rs =
     map (\<lambda>s. (s, status_count rs s)) (filter (\<lambda>s. 0 < status_count rs s) status_order)"

definition queue_item_of :: "audit_event list \<Rightarrow> ledger_record \<Rightarrow> queue_item" where
  "queue_item_of events r =
     (let ev = latest_event events (lr_trade_id r) in
      \<lparr>qi_trade_id = lr_trade_id r, qi_mode = lr_mode r, qi_symbol = lr_symbol r, qi_status = lr_status r,
       qi_opened_at = lr_opened_at r, qi_net_exposure = lr_net_exposure r,
       qi_spot_notional = lr_spot_notional r, qi_perp_notional = lr_perp_notional r,
       qi_latest_event_type = map_option ev_event_type ev, qi_latest_event_summary = map_option ev_summary ev,
       qi_latest_event_severity = map_option ev_severity ev\<rparr>)"

definition build_recovery_queue :: "ledger_record list \<Rightarrow> audit_event list \<Rightarrow> queue_item list" where
  "build_recovery_queue rs events =
     map (queue_item_of events)
       (sorted_desc (\<lambda>r. (lr_opened_at r, lr_trade_id r)) (filter (\<lambda>r. lr_status r \<in> {Failed, RecoveryPending}) rs))"

definition incident_of :: "audit_event \<Rightarrow> py_error + incident" where
  \<comment> \<open>a trade id that is neither text nor absent fails the model's validation\<close>
  "incident_of ev =
     (case get_or ''trade_id'' PNone (ev_payload ev) of
        PNone \<Rightarrow> Inr \<lparr>in_event_id = ev_event_id ev, in_event_type = ev_event_type ev, in_severity = ev_severity ev,
                    in_occurred_at = ev_occurred_at ev, in_summary = ev_summary ev, in_trade_id = None\<rparr>
      | PStr k \<Rightarrow> Inr \<lparr>in_event_id = ev_event_id ev, in_event_type = ev_event_type ev, in_severity = ev_severity ev,
                    in_occurred_at = ev_occurred_at ev, in_summary = ev_summary ev, in_trade_id = Some k\<rparr>
      | _ \<Rightarrow> Inl (ValidationError ''ExecutionIncident''))"

definition build_recent_incidents :: "audit_event list \<Rightarrow> int \<Rightarrow> py_error + incident list" where
  "build_recent_incidents events limit =
     traverse incident_of
       (slice_to (sorted_desc (\<lambda>ev. (ev_occurred_at ev, ev_event_id ev))
          (filter (\<lambda>ev. ev_severity ev \<in> {Warning, Error, Critical}) events)) limit)"

definition execution_snapshot_of :: "env \<Rightarrow> int \<Rightarrow> (world, execution_snapshot) py" where
  "execution_snapshot_of e limit_incidents =
     bnd (list_records None None None None) (\<lambda>rs.
     bnd (list_events None (Some ''execution-orchestrator'') None) (\<lambda>events.
     bnd (utc_now e) (\<lambda>t.
     bnd (lift (build_recent_incidents events limit_incidents)) (\<lambda>incidents.
     ret \<lparr>xs_generated_at = t, xs_status_counts = build_status_counts rs,
          xs_recovery_queue = build_recovery_queue rs events, xs_recent_incidents = incidents\<rparr>))))"

subsection \<open>Facts about the read services\<close>

lemma normalize_filters_limit:
  "normalize_filters cn filters = Inr f \<Longrightarrow> 1 \<le> sn_limit f \<and> sn_limit f \<le> cn_scan_limit cn \<and> sn_limit f \<le> 100"
  by (auto simp: normalize_filters_def scan_filters_of_def then_do_Inr split: option.splits if_splits)

lemma at_least_subset: "r \<in> set (at_least m rows) \<longleftrightarrow> r \<in> set rows \<and> (case m of None \<Rightarrow> True | Some x \<Rightarrow> x \<le> os_net_edge_bps r)"
  by (auto simp: at_least_def split: option.splits)

text \<open>A scan returns at most \<open>scan_limit\<close> rows, each with the net edge asked for.\<close>

lemma scan_bounded:
  assumes "get_scan_opportunities e cn filters w = (Inr opp, w')"
  shows "int (length (sx_rows opp)) \<le> cn_scan_limit cn \<and> length (sx_rows opp) \<le> sx_total_matches opp"
    and "r \<in> set (sx_rows opp) \<Longrightarrow> sn_min_net_edge_bps (sx_applied_filters opp) = Some x \<Longrightarrow> x \<le> os_net_edge_bps r"
proof -
  obtain f rows where f: "normalize_filters cn filters = Inr f" "sx_applied_filters opp = f"
    "sx_rows opp = slice_to (at_least (sn_min_net_edge_bps f) rows) (sn_limit f)"
    "sx_total_matches opp = length (at_least (sn_min_net_edge_bps f) rows)"
    using assms by (auto simp: get_scan_opportunities_def Let_def bnd_run lift_run utc_now_run ret_run
        split: prod.splits sum.splits)
  show "int (length (sx_rows opp)) \<le> cn_scan_limit cn \<and> length (sx_rows opp) \<le> sx_total_matches opp"
    using normalize_filters_limit[OF f(1)] f(3,4) by (auto simp: slice_to_def)
  show "r \<in> set (sx_rows opp) \<Longrightarrow> sn_min_net_edge_bps (sx_applied_filters opp) = Some x \<Longrightarrow> x \<le> os_net_edge_bps r"
    using f(2,3) slice_to_subset[of "at_least (sn_min_net_edge_bps f) rows" "sn_limit f"]
    by (auto simp: at_least_subset)
qed

text \<open>The status counts cover every trade once.\<close>

lemma status_count_simps [simp]:
  "status_count [] s = 0"
  "status_count (r # rs) s = (if lr_status r = s then 1 else 0) + status_count rs s"
  by (simp_all add: status_count_def)

lemma sum_indicator: "distinct xs \<Longrightarrow> (\<Sum>s\<leftarrow>xs. if x = s then 1 else 0) = (if x \<in> set xs then 1 else (0::nat))"
  by (induction xs) auto

lemma in_status_order: "s \<in> set status_order" "distinct status_order"
  by (cases s) (simp_all add: status_order_def)

lemma sum_status_count: "(\<Sum>s\<leftarrow>status_order. status_count rs s) = length rs"
  by (induction rs) (simp_all add: sum_list_addf sum_indicator in_status_order)

lemma sum_list_positive: "(\<Sum>x\<leftarrow>filter (\<lambda>x. 0 < f x) xs. f x) = (\<Sum>x\<leftarrow>xs. (f x :: nat))"
  by (induction xs) auto

lemma status_counts_total: "sum_list (map snd (build_status_counts rs)) = length rs"
  using sum_list_positive[of "status_count rs" status_order]
  by (simp only: build_status_counts_def map_map o_def snd_conv sum_status_count)

text \<open>The recovery queue holds exactly the trades awaiting recovery, latest first.\<close>

lemma recovery_queue_trades:
  "mset (map qi_trade_id (build_recovery_queue rs events))
     = mset (map lr_trade_id (filter (\<lambda>r. lr_status r \<in> {Failed, RecoveryPending}) rs))"
proof -
  have "map qi_trade_id (build_recovery_queue rs events)
      = map lr_trade_id (sorted_desc (\<lambda>r. (lr_opened_at r, lr_trade_id r)) (filter (\<lambda>r. lr_status r \<in> {Failed, RecoveryPending}) rs))"
    by (simp add: build_recovery_queue_def queue_item_of_def o_def Let_def)
  then have "mset (map qi_trade_id (build_recovery_queue rs events))
      = mset (map lr_trade_id (sorted_desc (\<lambda>r. (lr_opened_at r, lr_trade_id r)) (filter (\<lambda>r. lr_status r \<in> {Failed, RecoveryPending}) rs)))"
    by (rule arg_cong)
  then show ?thesis by (simp only: mset_map mset_sorted_desc)
qed

end
