(* ===== verification/Desk.thy ===== *)
theory Desk
  imports MarketData SafetyOps RiskPolicy
begin

section \<open>Manual trading and the account pages\<close>

text \<open>
  \<open>app/trading/\<close> (preview and execution of a manual order) and \<open>app/account/\<close>
  (balance and positions read from Binance). A manual order becomes an \<open>open_hedge\<close>
  intent for the orchestrator. The lemmas show that an order opens a hedge whatever its
  \<open>side\<close>, that it reports its notional as filled, and that a balance is the first USDT
  row of the response.
\<close>

subsection \<open>Manual orders\<close>

record manual_order =
  mo_symbol :: string
  mo_side :: string
  mo_notional :: float64
  mo_mode :: string

definition valid_manual_order :: "manual_order \<Rightarrow> bool" where
  "valid_manual_order r \<longleftrightarrow> 0 < mo_notional r"

record order_preview =
  op_symbol :: string
  op_side :: string
  op_notional :: float64
  op_spot_price :: float64
  op_perp_price :: float64
  op_funding_rate :: float64
  op_estimated_fees_usd :: float64
  op_estimated_net_edge_bps :: float64
  op_risk_decision :: string

record order_result =
  ot_trade_id :: string
  ot_status :: string
  ot_spot_filled :: float64
  ot_perp_filled :: float64
  ot_executed_at :: string

record symbol_info =
  sy_symbol :: string
  sy_funding_rate :: float64
  sy_mark_price :: float64

definition preview_fees :: "float64 \<Rightarrow> float64" where
  "preview_fees notional = fmul (fmul notional (rnd (4 / 10000))) 2"

definition preview_order :: "manual_order \<Rightarrow> market_snapshot option \<Rightarrow> order_preview" where
  "preview_order r snapshot =
     (case snapshot of
        None \<Rightarrow> \<lparr>op_symbol = mo_symbol r, op_side = mo_side r, op_notional = mo_notional r,
                 op_spot_price = 0, op_perp_price = 0, op_funding_rate = 0,
                 op_estimated_fees_usd = preview_fees (mo_notional r),
                 op_estimated_net_edge_bps = 0, op_risk_decision = ''allow''\<rparr>
      | Some s \<Rightarrow>
          let score = score_snapshot (active_config (rnd (4 / 10)) None) s;
              d = evaluate default_risk_config score in
          \<lparr>op_symbol = mo_symbol r, op_side = mo_side r, op_notional = mo_notional r,
           op_spot_price = ms_spot_mid s, op_perp_price = ms_perp_mid s, op_funding_rate = ms_funding_rate s,
           op_estimated_fees_usd = preview_fees (mo_notional r),
           op_estimated_net_edge_bps = os_net_edge_bps score,
           op_risk_decision = decision_str (rd_decision d)\<rparr>)"

definition execute_order :: "env \<Rightarrow> orchestrator \<Rightarrow> manual_order \<Rightarrow> (world, order_result) py" where
  "execute_order e c r =
     bnd (uuid_hex e) (\<lambda>u.
     let trade_id = ''manual-'' @ slice_to u 8 in
     bnd (utc_now e) (\<lambda>now.
     bnd (lift (intent_request trade_id (mo_mode r) (Some ''manual-trade'') (mo_symbol r) OpenHedge
                  (mo_notional r) (mo_notional r))) (\<lambda>req.
     bnd (execute e c req) (\<lambda>result.
     ret \<lparr>ot_trade_id = trade_id, ot_status = status_str (ex_status result),
          ot_spot_filled = mo_notional r, ot_perp_filled = mo_notional r,
          ot_executed_at = isoformat now\<rparr>))))"

definition get_symbols :: "symbol_info list" where
  "get_symbols = map (\<lambda>s. \<lparr>sy_symbol = s, sy_funding_rate = 0, sy_mark_price = 0\<rparr>)
     [''BTCUSDT'', ''ETHUSDT'', ''SOLUSDT'', ''BNBUSDT'', ''XRPUSDT'', ''DOGEUSDT'', ''ADAUSDT'',
      ''AVAXUSDT'', ''DOTUSDT'', ''LINKUSDT'']"

text \<open>
  The routes. \<open>_get_snapshot_for_symbol\<close> runs inside the coroutine of the request, where
  the event loop is running, and then returns \<open>None\<close>.
\<close>

definition snapshot_for_symbol :: "bool \<Rightarrow> py_error + market_snapshot list \<Rightarrow> string \<Rightarrow> market_snapshot option" where
  \<comment> \<open>\<open>fetched\<close>: the outcome of the requests and the join, made when no loop is running\<close>
  "snapshot_for_symbol loop_running fetched symbol =
     (if loop_running then None
      else case fetched of Inl _ \<Rightarrow> None | Inr ss \<Rightarrow> find (\<lambda>s. ms_symbol s = symbol) ss)"

definition route_preview_order :: "manual_order \<Rightarrow> py_error + market_snapshot list \<Rightarrow> order_preview" where
  "route_preview_order r fetched = preview_order r (snapshot_for_symbol True fetched (mo_symbol r))"

definition bare_orchestrator :: orchestrator where
  \<comment> \<open>\<open>ExecutionOrchestrator()\<close>\<close>
  "bare_orchestrator = \<lparr>oc_client = None, oc_breaker = None, oc_safety = False, oc_live_enabled = False,
     oc_allowlist = [], oc_max_live_notional = None\<rparr>"

definition route_execute_order :: "env \<Rightarrow> orchestrator option \<Rightarrow> manual_order \<Rightarrow> (world, order_result) py" where
  "route_execute_order e app_orchestrator r =
     execute_order e (case app_orchestrator of None \<Rightarrow> bare_orchestrator | Some c \<Rightarrow> c) r"

subsection \<open>Account\<close>

record asset_balance =
  ab_asset :: string
  ab_balance :: float64
  ab_available :: float64
  ab_cross_unrealized_pnl :: float64

record position_info =
  pi_symbol :: string
  pi_position_side :: string
  pi_position_amt :: float64
  pi_unrealized_pnl :: float64
  pi_liquidation_price :: "float64 option"
  pi_mark_price :: float64
  pi_entry_price :: float64
  pi_leverage :: int

record balance_snapshot =
  ac_total_usdt_equity :: float64
  ac_available_usdt :: float64
  ac_usdt_in_positions :: float64
  ac_unrealized_pnl :: float64
  ac_assets :: "asset_balance list"
  ac_fetched_at :: datetime

record account_summary =
  as_balance :: "balance_snapshot option"
  as_positions :: "position_info list"
  as_active_position_count :: nat
  as_fetched_at :: datetime

definition with_client :: "client option \<Rightarrow> (client \<Rightarrow> (world, 'a) py) \<Rightarrow> (world, 'a) py" where
  "with_client c f = (case c of None \<Rightarrow> raise (ValueError ''trading client not configured'') | Some cl \<Rightarrow> f cl)"

fun find_asset :: "string \<Rightarrow> pyval list \<Rightarrow> py_error + pydict option" where
  \<comment> \<open>\<open>next((b for b in raw_balances if b.get("asset") == asset), None)\<close>\<close>
  "find_asset a [] = Inr None"
| "find_asset a (PDict d # vs) = (if map_of d ''asset'' = Some (PStr a) then Inr (Some d) else find_asset a vs)"
| "find_asset a (v # vs) = Inl (no_get_attribute v)"

definition balance_from :: "pydict \<Rightarrow> datetime \<Rightarrow> py_error + balance_snapshot" where
  "balance_from usdt now =
     then_do (py_float (get_or ''balance'' (PInt 0) usdt)) (\<lambda>balance.
     then_do (py_float (get_or ''availableBalance'' (PInt 0) usdt)) (\<lambda>available.
     then_do (py_float (get_or ''crossUnPnl'' (PInt 0) usdt)) (\<lambda>pnl.
     Inr \<lparr>ac_total_usdt_equity = balance, ac_available_usdt = available,
          ac_usdt_in_positions = \<bar>fsub balance available\<bar>, ac_unrealized_pnl = pnl,
          ac_assets = [\<lparr>ab_asset = ''USDT'', ab_balance = balance, ab_available = available,
                        ab_cross_unrealized_pnl = pnl\<rparr>],
          ac_fetched_at = now\<rparr>)))"

definition no_balance :: "datetime \<Rightarrow> balance_snapshot" where
  "no_balance now = \<lparr>ac_total_usdt_equity = 0, ac_available_usdt = 0, ac_usdt_in_positions = 0,
     ac_unrealized_pnl = 0,
     ac_assets = [\<lparr>ab_asset = ''USDT'', ab_balance = 0, ab_available = 0, ab_cross_unrealized_pnl = 0\<rparr>],
     ac_fetched_at = now\<rparr>"

definition get_balance :: "env \<Rightarrow> client option \<Rightarrow> (world, balance_snapshot) py" where
  "get_balance e c = with_client c (\<lambda>cl.
     bnd (get_account_balance e cl None) (\<lambda>raw_balances.
     bnd (lift (then_do (iterate raw_balances) (find_asset ''USDT''))) (\<lambda>usdt.
     bnd (utc_now e) (\<lambda>now.
       case usdt of None \<Rightarrow> ret (no_balance now) | Some d \<Rightarrow> lift (balance_from d now)))))"

definition py_int :: "pyval \<Rightarrow> py_error + int" where
  \<comment> \<open>\<open>int(v)\<close>: truncation of a float, decimal digits with a sign in a text\<close>
  "py_int v = (case v of
     PInt i \<Rightarrow> Inr i
   | PBool b \<Rightarrow> Inr (if b then 1 else 0)
   | PFloat x \<Rightarrow> Inr (if 0 \<le> x then \<lfloor>x\<rfloor> else \<lceil>x\<rceil>)
   | PStr s \<Rightarrow> (case sign_split (py_strip s) of (neg, ds) \<Rightarrow>
       if ds \<noteq> [] \<and> list_all is_digit ds then Inr (if neg then - digits_val ds else digits_val ds)
       else Inl (ValueError (''invalid literal for int() with base 10: '' @ repr_str s)))
   | _ \<Rightarrow> Inl (TypeError ''int() argument must be a string or a real number''))"

definition position_text :: "pyval \<Rightarrow> py_error + string" where
  \<comment> \<open>a text field of \<open>PositionInfo\<close>\<close>
  "position_text v = (case v of PStr s \<Rightarrow> Inr s | _ \<Rightarrow> Inl (ValidationError ''PositionInfo''))"

definition position_from :: "pydict \<Rightarrow> float64 \<Rightarrow> py_error + position_info" where
  \<comment> \<open>the fields are computed in this order; the two texts are checked last, by the model\<close>
  "position_from p amt =
     then_do (py_float (get_or ''unRealizedProfit'' (PInt 0) p)) (\<lambda>pnl.
     then_do (if py_truthy (get_or ''liquidationPrice'' PNone p)
              then then_do (py_float (get_or ''liquidationPrice'' PNone p)) (\<lambda>x. Inr (Some x))
              else Inr None) (\<lambda>liquidation.
     then_do (py_float (get_or ''markPrice'' (PInt 0) p)) (\<lambda>mark.
     then_do (py_float (get_or ''entryPrice'' (PInt 0) p)) (\<lambda>entry.
     then_do (py_int (get_or ''leverage'' (PInt 1) p)) (\<lambda>leverage.
     then_do (position_text (get_or ''symbol'' (PStr []) p)) (\<lambda>symbol.
     then_do (position_text (get_or ''positionSide'' (PStr ''BOTH'') p)) (\<lambda>side.
     Inr \<lparr>pi_symbol = symbol, pi_position_side = side, pi_position_amt = amt, pi_unrealized_pnl = pnl,
          pi_liquidation_price = liquidation, pi_mark_price = mark, pi_entry_price = entry,
          pi_leverage = leverage\<rparr>)))))))"

definition tiny_position :: float64 where
  \<comment> \<open>\<open>1e-10\<close>\<close>
  "tiny_position = rnd (1 / 10000000000)"

definition position_row :: "pyval \<Rightarrow> py_error + position_info option" where
  \<comment> \<open>one turn of the loop; \<open>None\<close> is \<open>continue\<close>\<close>
  "position_row v = (case v of
     PDict p \<Rightarrow> then_do (py_float (get_or ''positionAmt'' (PInt 0) p)) (\<lambda>amt.
        if \<bar>amt\<bar> < tiny_position then Inr None
        else then_do (position_from p amt) (\<lambda>x. Inr (Some x)))
   | _ \<Rightarrow> Inl (no_get_attribute v))"

definition get_positions :: "env \<Rightarrow> client option \<Rightarrow> string option \<Rightarrow> (world, position_info list) py" where
  "get_positions e c symbol = with_client c (\<lambda>cl.
     bnd (get_position_info e cl symbol None) (\<lambda>raw.
     lift (then_do (iterate raw) (\<lambda>vs. then_do (traverse position_row vs) (\<lambda>xs.
       Inr (List.map_filter (\<lambda>x. x) xs))))))"

definition get_account_summary :: "env \<Rightarrow> client option \<Rightarrow> (world, account_summary) py" where
  "get_account_summary e c =
     bnd (utc_now e) (\<lambda>now.
     bnd (attempt (get_balance e c)) (\<lambda>b.
     bnd (attempt (get_positions e c None)) (\<lambda>p.
     let positions = (case p of Inl _ \<Rightarrow> [] | Inr ps \<Rightarrow> ps) in
     ret \<lparr>as_balance = (case b of Inl _ \<Rightarrow> None | Inr x \<Rightarrow> Some x), as_positions = positions,
          as_active_position_count = length positions, as_fetched_at = now\<rparr>)))"

subsection \<open>Facts about the desk\<close>

text \<open>A preview over the API never looks at the market.\<close>

lemma route_preview_blind:
  "op_risk_decision (route_preview_order r fetched) = ''allow'' \<and> op_spot_price (route_preview_order r fetched) = 0"
  by (simp add: route_preview_order_def snapshot_for_symbol_def preview_order_def)

text \<open>An order opens the same hedge on either side.\<close>

lemma execute_order_ignores_side: "execute_order e c (r\<lparr>mo_side := side\<rparr>) = execute_order e c r"
  by (simp add: execute_order_def)

text \<open>With the fallback orchestrator a live order is refused and leaves the ledger as it is.\<close>

lemma bare_orchestrator_no_live:
  assumes "it_mode i = Live"
  shows "\<exists>m. dispatch e bare_orchestrator i t w = (Inl (ValueError m), w)"
  using assms by (simp add: dispatch_def validate_live_request_def validate_live_def bare_orchestrator_def py_simps)

lemma get_account_summary_returns: "\<exists>s w'. get_account_summary e c w = (Inr s, w')
    \<and> as_active_position_count s = length (as_positions s)"
  by (auto simp: get_account_summary_def bnd_run utc_now_run attempt_run ret_run Let_def split: prod.splits)

lemma find_asset_Some: "find_asset a vs = Inr (Some d) \<Longrightarrow> PDict d \<in> set vs \<and> map_of d ''asset'' = Some (PStr a)"
  by (induction a vs rule: find_asset.induct) (auto split: if_splits)

lemma position_row_active: "position_row v = Inr (Some x) \<Longrightarrow> tiny_position \<le> \<bar>pi_position_amt x\<bar>"
  by (auto simp: position_row_def position_from_def then_do_Inr split: pyval.splits if_splits)

lemma get_positions_active:
  assumes "get_positions e c symbol w = (Inr ps, w')"
  shows "\<forall>x\<in>set ps. tiny_position \<le> \<bar>pi_position_amt x\<bar>"
proof -
  obtain vs xs where "list_all2 (\<lambda>v x. position_row v = Inr x) vs xs" "ps = List.map_filter (\<lambda>x. x) xs"
    using assms by (auto simp: get_positions_def with_client_def bnd_run lift_run then_do_Inr traverse_Inr raise_run
        split: option.splits prod.splits sum.splits)
  then show ?thesis
    by (auto simp: List.map_filter_def list_all2_conv_all_nth in_set_conv_nth) (metis position_row_active)
qed

end
