(* ===== verification/Journal.thy ===== *)
theory Journal
  imports World
begin

section \<open>Trade journal and learning samples\<close>

text \<open>
  \<open>app/journal\<close> (completed trades), \<open>app/adaptation/extractor.py\<close> (learning samples
  from the most recent of them) and \<open>app/adaptation/sample_store.py\<close>. Both stores are
  plain lists that an import appends to or replaces. \<open>TradeJournalRecord\<close> and
  \<open>CompletedTradeRecord\<close> have the same fields, which is all the extractor reads; dates are
  UTC, so \<open>astimezone\<close> changes nothing.
\<close>

record completed_trade =
  cj_trade_id :: string
  cj_symbol :: string
  cj_opened_at :: datetime
  cj_closed_at :: datetime
  cj_score :: float64
  cj_risk_tag :: string
  cj_net_edge_bps :: float64
  cj_projected_net_edge_bps :: float64
  cj_basis_bps :: float64
  cj_realized_pnl_bps :: float64
  cj_max_drawdown_bps :: float64
  cj_hold_periods :: float64

definition valid_completed_trade :: "completed_trade \<Rightarrow> bool" where
  "valid_completed_trade t \<longleftrightarrow> 0 \<le> cj_hold_periods t"

record learning_sample =
  ls_trade_id :: "string option"
  ls_symbol :: string
  ls_closed_at :: "datetime option"
  ls_score :: float64
  ls_risk_tag :: string
  ls_net_edge_bps :: float64
  ls_projected_net_edge_bps :: float64
  ls_basis_bps :: float64
  ls_realized_pnl_bps :: float64
  ls_max_drawdown_bps :: float64
  ls_hold_periods :: float64

subsection \<open>The stores\<close>

definition write_rows :: "write_mode \<Rightarrow> 'a list \<Rightarrow> 'a list \<Rightarrow> 'a list" where
  \<comment> \<open>\<open>list(rows) if mode == "replace" else [*self.load(), *rows]\<close>\<close>
  "write_rows m rows stored = (case m of ReplaceRows \<Rightarrow> rows | AppendRows \<Rightarrow> stored @ rows)"

definition journal_save :: "completed_trade list \<Rightarrow> write_mode \<Rightarrow> completed_trade list \<Rightarrow> completed_trade list" where
  "journal_save records m stored = write_rows m records stored"

definition journal_append :: "completed_trade list \<Rightarrow> completed_trade list \<Rightarrow> completed_trade list" where
  "journal_append records stored = journal_save records AppendRows stored"

definition journal_replace :: "completed_trade list \<Rightarrow> completed_trade list \<Rightarrow> completed_trade list" where
  "journal_replace records stored = journal_save records ReplaceRows stored"

definition samples_save :: "learning_sample list \<Rightarrow> write_mode \<Rightarrow> learning_sample list \<Rightarrow> learning_sample list" where
  "samples_save samples m stored = write_rows m samples stored"

subsection \<open>The extractor\<close>

definition extract_key :: "completed_trade \<Rightarrow> datetime \<times> string \<times> string" where
  "extract_key t = (cj_closed_at t, cj_symbol t, cj_trade_id t)"

definition to_sample :: "completed_trade \<Rightarrow> learning_sample" where
  "to_sample t = \<lparr>ls_trade_id = Some (cj_trade_id t), ls_symbol = cj_symbol t,
     ls_closed_at = Some (cj_closed_at t), ls_score = cj_score t, ls_risk_tag = cj_risk_tag t,
     ls_net_edge_bps = cj_net_edge_bps t, ls_projected_net_edge_bps = cj_projected_net_edge_bps t,
     ls_basis_bps = cj_basis_bps t, ls_realized_pnl_bps = cj_realized_pnl_bps t,
     ls_max_drawdown_bps = cj_max_drawdown_bps t, ls_hold_periods = cj_hold_periods t\<rparr>"

definition extract_samples :: "completed_trade list \<Rightarrow> string option \<Rightarrow> int option \<Rightarrow> int option \<Rightarrow> learning_sample list" where
  "extract_samples records symbol recent_n limit =
     (let kept = filter (\<lambda>t. case symbol of None \<Rightarrow> True | Some s \<Rightarrow> cj_symbol t = s) records;
          ordered = sorted_by extract_key kept;
          window = (case recent_n of Some n \<Rightarrow> Some n | None \<Rightarrow> limit);
          recent = (case window of None \<Rightarrow> ordered
            | Some n \<Rightarrow> if 0 < n then slice_from ordered (- n) else [])
      in map to_sample recent)"

lemma slice_from_suffix: "suffix (slice_from xs n) xs"
  by (simp add: slice_from_def suffix_drop)

lemma length_slice_from: "0 < n \<Longrightarrow> length (slice_from xs (- n)) \<le> nat n"
  by (simp add: slice_from_def)

lemma extract_correct:
  "\<exists>recent. extract_samples records symbol None limit = map to_sample recent \<and> sorted (map extract_key recent)
     \<and> suffix recent (sorted_by extract_key (filter (\<lambda>t. case symbol of None \<Rightarrow> True | Some s \<Rightarrow> cj_symbol t = s) records))
     \<and> (case limit of None \<Rightarrow> True | Some n \<Rightarrow> length recent \<le> nat n)"
proof -
  let ?kept = "filter (\<lambda>t. case symbol of None \<Rightarrow> True | Some s \<Rightarrow> cj_symbol t = s) records"
  define recent where "recent = (case limit of None \<Rightarrow> sorted_by extract_key ?kept
      | Some n \<Rightarrow> if 0 < n then slice_from (sorted_by extract_key ?kept) (- n) else [])"
  have suf: "suffix recent (sorted_by extract_key ?kept)"
    by (simp add: recent_def slice_from_suffix split: option.split)
  then obtain front where "sorted_by extract_key ?kept = front @ recent" by (auto simp: suffix_def)
  then have "sorted (map extract_key recent)"
    using sorted_sorted_by[of extract_key ?kept] by (metis map_append sorted_append)
  moreover have "case limit of None \<Rightarrow> True | Some n \<Rightarrow> length recent \<le> nat n"
    by (simp add: recent_def length_slice_from split: option.split)
  ultimately show ?thesis using suf
    by (intro exI[of _ recent]) (simp add: extract_samples_def Let_def recent_def)
qed

end
