(* ===== verification/Adaptation.thy ===== *)
theory Adaptation
  imports Backtest Journal
begin

section \<open>Adaptation of the strategy parameters\<close>

text \<open>
  \<open>app/schemas/adaptation.py\<close>, \<open>app/adaptation/store.py\<close> and
  \<open>app/adaptation/service.py\<close>: metrics of past trades, four tuning packages derived from
  the current parameters, the automatic choice among them, their evaluation by backtest and
  the confirmed application of one. \<open>model_copy(update=...)\<close> is a record update: it does not
  validate. The state \<open>lab\<close> holds the research files and the clock; they are apart from
  the trading state.
\<close>

subsection \<open>Configuration snapshots\<close>

record score_config_snapshot =
  ss_taker_fee_bps :: float64
  ss_funding_periods_per_day :: int
  ss_expected_hold_periods :: int
  ss_basis_soft_limit_bps :: float64
  ss_basis_guarded_bps :: float64
  ss_payback_guarded_periods :: float64
  ss_trading_cost_guarded_bps :: float64
  ss_carry_weight :: float64
  ss_annualized_weight :: float64
  ss_cost_soft_limit_bps :: float64
  ss_cost_penalty_weight :: float64
  ss_basis_penalty_weight :: float64

definition score_from_domain :: "score_config \<Rightarrow> score_config_snapshot" where
  "score_from_domain c = \<lparr>ss_taker_fee_bps = sc_taker_fee_bps c,
     ss_funding_periods_per_day = sc_funding_periods_per_day c,
     ss_expected_hold_periods = sc_expected_hold_periods c, ss_basis_soft_limit_bps = sc_basis_soft_limit_bps c,
     ss_basis_guarded_bps = sc_basis_guarded_bps c, ss_payback_guarded_periods = sc_payback_guarded_periods c,
     ss_trading_cost_guarded_bps = sc_trading_cost_guarded_bps c, ss_carry_weight = sc_carry_weight c,
     ss_annualized_weight = sc_annualized_weight c, ss_cost_soft_limit_bps = sc_cost_soft_limit_bps c,
     ss_cost_penalty_weight = sc_cost_penalty_weight c, ss_basis_penalty_weight = sc_basis_penalty_weight c\<rparr>"

definition score_to_domain :: "score_config_snapshot \<Rightarrow> score_config" where
  "score_to_domain s = \<lparr>sc_taker_fee_bps = ss_taker_fee_bps s,
     sc_funding_periods_per_day = ss_funding_periods_per_day s,
     sc_expected_hold_periods = ss_expected_hold_periods s, sc_basis_soft_limit_bps = ss_basis_soft_limit_bps s,
     sc_basis_guarded_bps = ss_basis_guarded_bps s, sc_payback_guarded_periods = ss_payback_guarded_periods s,
     sc_trading_cost_guarded_bps = ss_trading_cost_guarded_bps s, sc_carry_weight = ss_carry_weight s,
     sc_annualized_weight = ss_annualized_weight s, sc_cost_soft_limit_bps = ss_cost_soft_limit_bps s,
     sc_cost_penalty_weight = ss_cost_penalty_weight s, sc_basis_penalty_weight = ss_basis_penalty_weight s\<rparr>"

record risk_config_snapshot =
  rk_min_allow_score :: float64
  rk_min_review_score :: float64
  rk_min_allow_net_edge_bps :: float64
  rk_min_allow_projected_edge_bps :: float64
  rk_max_allow_basis_bps :: float64
  rk_max_review_basis_bps :: float64
  rk_max_allow_trading_cost_bps :: float64
  rk_max_allow_payback_periods :: float64

definition risk_from_domain :: "risk_config \<Rightarrow> risk_config_snapshot" where
  "risk_from_domain c = \<lparr>rk_min_allow_score = rc_min_allow_score c, rk_min_review_score = rc_min_review_score c,
     rk_min_allow_net_edge_bps = rc_min_allow_net_edge_bps c,
     rk_min_allow_projected_edge_bps = rc_min_allow_projected_edge_bps c,
     rk_max_allow_basis_bps = rc_max_allow_basis_bps c, rk_max_review_basis_bps = rc_max_review_basis_bps c,
     rk_max_allow_trading_cost_bps = rc_max_allow_trading_cost_bps c,
     rk_max_allow_payback_periods = rc_max_allow_payback_periods c\<rparr>"

definition risk_to_domain :: "risk_config_snapshot \<Rightarrow> risk_config" where
  "risk_to_domain s = \<lparr>rc_min_allow_score = rk_min_allow_score s, rc_min_review_score = rk_min_review_score s,
     rc_min_allow_net_edge_bps = rk_min_allow_net_edge_bps s,
     rc_min_allow_projected_edge_bps = rk_min_allow_projected_edge_bps s,
     rc_max_allow_basis_bps = rk_max_allow_basis_bps s, rc_max_review_basis_bps = rk_max_review_basis_bps s,
     rc_max_allow_trading_cost_bps = rk_max_allow_trading_cost_bps s,
     rc_max_allow_payback_periods = rk_max_allow_payback_periods s\<rparr>"

lemma snapshot_round_trips [simp]:
  "score_to_domain (score_from_domain c) = c" "score_from_domain (score_to_domain s) = s"
  "risk_to_domain (risk_from_domain r) = r" "risk_from_domain (risk_to_domain k) = k"
  by (simp_all add: score_to_domain_def score_from_domain_def risk_to_domain_def risk_from_domain_def)

record tuning_config =
  tc_score :: score_config_snapshot
  tc_risk :: risk_config_snapshot
  tc_backtest :: backtest_config

definition default_tuning_config :: tuning_config where
  "default_tuning_config = \<lparr>tc_score = score_from_domain default_score_config,
     tc_risk = risk_from_domain default_risk_config, tc_backtest = default_backtest_config\<rparr>"

record tuning_package =
  tp_package_id :: string
  tp_title :: string
  tp_summary :: string
  tp_objective :: string
  tp_recommended :: bool
  tp_derived_from :: "string option"
  tp_reason_codes :: "string list"
  tp_config :: tuning_config

record tuning_state =
  ts_updated_at :: datetime
  ts_active_package_id :: string
  ts_active_package_title :: string
  ts_config :: tuning_config

subsection \<open>The research state\<close>

record lab =
  lb_datasets :: "backtest_dataset list"
  lb_tuning :: "tuning_state option"
  lb_samples :: "learning_sample list"
  lb_journal :: "completed_trade list"
  lb_ticks :: nat

definition lab_now :: "env \<Rightarrow> (lab, datetime) py" where
  "lab_now e = (\<lambda>w. (Inr (env_now e (lb_ticks w)), w\<lparr>lb_ticks := Suc (lb_ticks w)\<rparr>))"

lemma lab_now_run [py_simps]: "lab_now e w = (Inr (env_now e (lb_ticks w)), w\<lparr>lb_ticks := Suc (lb_ticks w)\<rparr>)"
  by (simp add: lab_now_def)

definition balanced_title :: string where
  "balanced_title = utf8 [229, 185, 179, 232, 161, 161, 230, 150, 185, 230, 161, 136]"

definition tuning_load :: "env \<Rightarrow> (lab, tuning_state) py" where
  \<comment> \<open>without a file, the defaults stamped with the current time\<close>
  "tuning_load e =
     bnd (gets lb_tuning) (\<lambda>s. case s of
        Some st \<Rightarrow> ret st
      | None \<Rightarrow> bnd (lab_now e) (\<lambda>t. ret \<lparr>ts_updated_at = t, ts_active_package_id = ''balanced'',
            ts_active_package_title = balanced_title, ts_config = default_tuning_config\<rparr>))"

definition tuning_save :: "tuning_state \<Rightarrow> (lab, tuning_state) py" where
  "tuning_save st = thn (modify (\<lambda>w. w\<lparr>lb_tuning := Some st\<rparr>)) (ret st)"

subsection \<open>Metrics\<close>

record adaptation_metrics =
  am_trade_count :: nat
  am_win_rate :: float64
  am_avg_realized_pnl_bps :: float64
  am_avg_projected_edge_bps :: float64
  am_avg_projection_shortfall_bps :: float64
  am_max_drawdown_p95_bps :: float64
  am_slow_payback_rate :: float64

definition rate :: "nat \<Rightarrow> nat \<Rightarrow> float64" where
  \<comment> \<open>\<open>round(k / n, 4)\<close> of two integers\<close>
  "rate k n = py_round (rnd (of_nat k / of_nat n)) 4"

definition mean_of :: "float64 list \<Rightarrow> float64" where
  "mean_of xs = py_round (fdiv (py_sum xs) (float_of_int (int (length xs)))) 4"

definition p95_index :: "nat \<Rightarrow> nat" where
  \<comment> \<open>\<open>max(int((n - 1) * 0.95), 0)\<close>\<close>
  "p95_index n = nat (max \<lfloor>fmul (float_of_int (int n - 1)) (rnd (95 / 100))\<rfloor> 0)"

definition compute_metrics :: "learning_sample list \<Rightarrow> adaptation_metrics" where
  "compute_metrics samples =
     (if samples = [] then
        \<lparr>am_trade_count = 0, am_win_rate = 0, am_avg_realized_pnl_bps = 0, am_avg_projected_edge_bps = 0,
         am_avg_projection_shortfall_bps = 0, am_max_drawdown_p95_bps = 0, am_slow_payback_rate = 0\<rparr>
      else
        let n = length samples; drawdowns = sort (map ls_max_drawdown_bps samples) in
        \<lparr>am_trade_count = n,
         am_win_rate = rate (length (filter (\<lambda>s. 0 < ls_realized_pnl_bps s) samples)) n,
         am_avg_realized_pnl_bps = mean_of (map ls_realized_pnl_bps samples),
         am_avg_projected_edge_bps = mean_of (map ls_projected_net_edge_bps samples),
         am_avg_projection_shortfall_bps =
           mean_of (map (\<lambda>s. fsub (ls_projected_net_edge_bps s) (ls_realized_pnl_bps s)) samples),
         am_max_drawdown_p95_bps = py_round (drawdowns ! p95_index n) 4,
         am_slow_payback_rate = rate (length (filter (\<lambda>s. 7 \<le> ls_hold_periods s) samples)) n\<rparr>)"

definition stability_reason_codes :: "adaptation_metrics \<Rightarrow> string list" where
  "stability_reason_codes m =
     (if am_win_rate m < rnd (55 / 100) then [''win_rate_weak''] else [])
   @ (if am_avg_realized_pnl_bps m < 1 / 4 then [''realized_edge_weak''] else [])
   @ (if 2 < am_avg_projection_shortfall_bps m then [''projection_shortfall_high''] else [])
   @ (if 6 < am_max_drawdown_p95_bps m then [''drawdown_high''] else [])
   @ (if rnd (4 / 10) < am_slow_payback_rate m then [''payback_slow''] else [])"

definition select_auto_target :: "adaptation_metrics \<Rightarrow> string \<times> string list" where
  "select_auto_target m =
     (let codes = stability_reason_codes m @ (if am_trade_count m < 5 then [''sample_too_small''] else []) in
      if codes \<noteq> [] then (''conservative'', codes) else (''balanced'', [''stability_first_default'']))"

subsection \<open>Packages\<close>

definition package :: "string \<Rightarrow> string \<Rightarrow> string \<Rightarrow> string list \<Rightarrow> tuning_config \<Rightarrow> tuning_package" where
  \<comment> \<open>the fields the three manual packages leave at their defaults\<close>
  "package k title summary codes config =
     \<lparr>tp_package_id = k, tp_title = title, tp_summary = summary, tp_objective = ''stability-first'',
      tp_recommended = False, tp_derived_from = None, tp_reason_codes = codes, tp_config = config\<rparr>"

definition conservative_config :: "tuning_config \<Rightarrow> tuning_config" where
  "conservative_config c =
     (let s = tc_score c; r = tc_risk c; b = tc_backtest c in
      \<lparr>tc_score = s\<lparr>ss_expected_hold_periods := min (ss_expected_hold_periods s + 2) 12,
          ss_basis_guarded_bps := max (fsub (ss_basis_guarded_bps s) 1) 4,
          ss_payback_guarded_periods := max (fsub (ss_payback_guarded_periods s) (1 / 4)) (1 / 2),
          ss_cost_penalty_weight := fadd (ss_cost_penalty_weight s) (1 / 4),
          ss_basis_penalty_weight := fadd (ss_basis_penalty_weight s) (1 / 4)\<rparr>,
       tc_risk = r\<lparr>rk_min_allow_score := fadd (rk_min_allow_score r) 15,
          rk_min_review_score := fadd (rk_min_review_score r) 5,
          rk_max_allow_basis_bps := max (fsub (rk_max_allow_basis_bps r) 1) 4,
          rk_max_allow_payback_periods := max (fsub (rk_max_allow_payback_periods r) (rnd (2 / 10))) (rnd (6 / 10))\<rparr>,
       tc_backtest = b\<lparr>bc_min_score := fadd (bc_min_score b) 10, bc_accept_reviewed := False\<rparr>\<rparr>)"

definition build_conservative_package :: "tuning_config \<Rightarrow> adaptation_metrics \<Rightarrow> tuning_package" where
  "build_conservative_package c m = package ''conservative''
     (utf8 [228, 191, 157, 229, 174, 136, 230, 150, 185, 230, 161, 136])
     (utf8 [228, 188, 152, 229, 133, 136, 229, 142, 139, 228, 189, 142, 232, 175, 175, 229, 136, 164, 229, 146, 140,
        229, 155, 158, 230, 146, 164, 239, 188, 140, 230, 138, 172, 233, 171, 152, 229, 135, 134, 229, 133, 165, 233,
        151, 168, 230, 167, 155, 239, 188, 140, 231, 188, 169, 229, 176, 143, 32, 98, 97, 115, 105, 115, 32, 228, 184,
        142, 230, 133, 162, 229, 155, 158, 230, 156, 172, 230, 156, 186, 228, 188, 154, 231, 154, 132, 230, 148, 190,
        232, 161, 140, 232, 140, 131, 229, 155, 180, 227, 128, 130])
     (stability_reason_codes m) (conservative_config c)"

definition balanced_config :: "tuning_config \<Rightarrow> tuning_config" where
  "balanced_config c =
     \<lparr>tc_score = (tc_score c)\<lparr>ss_expected_hold_periods := max (ss_expected_hold_periods (tc_score c)) 6\<rparr>,
      tc_risk = tc_risk c, tc_backtest = tc_backtest c\<rparr>"

definition build_balanced_package :: "tuning_config \<Rightarrow> adaptation_metrics \<Rightarrow> tuning_package" where
  "build_balanced_package c m = package ''balanced'' balanced_title
     (utf8 [228, 191, 157, 230, 140, 129, 229, 189, 147, 229, 137, 141, 233, 163, 142, 233, 153, 169, 230, 148, 182,
        231, 155, 138, 230, 138, 152, 228, 184, 173, 239, 188, 140, 229, 143, 170, 229, 129, 154, 232, 189, 187, 229,
        190, 174, 231, 168, 179, 229, 174, 154, 229, 140, 150, 239, 188, 140, 228, 184, 141, 230, 152, 142, 230, 152,
        190, 230, 148, 190, 229, 174, 189, 228, 185, 159, 228, 184, 141, 230, 152, 142, 230, 152, 190, 230, 148, 182,
        231, 180, 167, 227, 128, 130])
     [''stability_first_default''] (balanced_config c)"

definition aggressive_config :: "tuning_config \<Rightarrow> tuning_config" where
  "aggressive_config c =
     (let s = tc_score c; r = tc_risk c; b = tc_backtest c in
      \<lparr>tc_score = s\<lparr>ss_expected_hold_periods := max (ss_expected_hold_periods s - 1) 4,
          ss_basis_guarded_bps := fadd (ss_basis_guarded_bps s) 1,
          ss_payback_guarded_periods := fadd (ss_payback_guarded_periods s) (1 / 4)\<rparr>,
       tc_risk = r\<lparr>rk_min_allow_score := max (fsub (rk_min_allow_score r) 15) 50,
          rk_max_allow_basis_bps := fadd (rk_max_allow_basis_bps r) 1,
          rk_max_allow_payback_periods := fadd (rk_max_allow_payback_periods r) (rnd (2 / 10))\<rparr>,
       tc_backtest = b\<lparr>bc_min_score := max (fsub (bc_min_score b) 10) 0, bc_accept_reviewed := True,
          bc_top_k := min (bc_top_k b + 1) 3\<rparr>\<rparr>)"

definition build_aggressive_package :: "tuning_config \<Rightarrow> adaptation_metrics \<Rightarrow> tuning_package" where
  "build_aggressive_package c m = package ''aggressive''
     (utf8 [232, 191, 155, 229, 143, 150, 230, 150, 185, 230, 161, 136])
     (utf8 [230, 137, 169, 229, 164, 167, 230, 156, 186, 228, 188, 154, 232, 166, 134, 231, 155, 150, 233, 157, 162,
        239, 188, 140, 230, 143, 144, 233, 171, 152, 229, 135, 186, 230, 137, 139, 230, 156, 186, 228, 188, 154, 228,
        184, 142, 232, 181, 132, 233, 135, 145, 229, 136, 169, 231, 148, 168, 231, 142, 135, 239, 188, 140, 228, 189,
        134, 230, 179, 162, 229, 138, 168, 229, 146, 140, 232, 175, 175, 229, 136, 164, 229, 174, 185, 229, 191, 141,
        229, 186, 166, 228, 185, 159, 228, 188, 154, 230, 155, 180, 233, 171, 152, 227, 128, 130])
     [''throughput_bias''] (aggressive_config c)"

definition build_auto_summary :: "string \<Rightarrow> adaptation_metrics \<Rightarrow> string" where
  "build_auto_summary target m =
     (if target = ''conservative'' then
        utf8 [231, 179, 187, 231, 187, 159, 230, 163, 128, 230, 181, 139, 229, 136, 176, 232, 191, 145, 230, 156, 159,
        231, 168, 179, 229, 174, 154, 230, 128, 167, 229, 129, 143, 229, 188, 177, 239, 188, 140, 232, 135, 170, 229,
        138, 168, 230, 142, 168, 232, 141, 144, 230, 155, 180, 231, 168, 179, 231, 154, 132, 229, 143, 130, 230, 149,
        176, 231, 187, 132, 229, 144, 136, 227, 128, 130, 32, 229, 189, 147, 229, 137, 141, 232, 131, 156, 231, 142,
        135, 32]
        @ fmt_f 2 (am_win_rate m) @ utf8 [239, 188, 140, 230, 133, 162, 229, 155, 158, 230, 156, 172, 229, 141, 160, 230, 175, 148, 32]
        @ fmt_f 2 (am_slow_payback_rate m) @ utf8 [227, 128, 130]
      else utf8 [231, 179, 187, 231, 187, 159, 232, 174, 164, 228, 184, 186, 229, 189, 147, 229, 137, 141, 230, 155, 180,
        233, 128, 130, 229, 144, 136, 231, 187, 180, 230, 140, 129, 229, 185, 179, 232, 161, 161, 233, 133, 141, 231,
        189, 174, 239, 188, 140, 229, 133, 136, 231, 168, 179, 228, 189, 143, 230, 148, 182, 231, 155, 138, 230, 179,
        162, 229, 138, 168, 239, 188, 140, 229, 134, 141, 232, 167, 130, 229, 175, 159, 230, 155, 180, 229, 164, 154,
        230, 160, 183, 230, 156, 172, 227, 128, 130])"

definition auto_title :: string where
  "auto_title = utf8 [231, 179, 187, 231, 187, 159, 232, 135, 170, 229, 138, 168, 230, 142, 168, 232, 141, 144]"

definition packages_for :: "tuning_config \<Rightarrow> adaptation_metrics \<Rightarrow> tuning_package list" where
  "packages_for c m =
     (let conservative = build_conservative_package c m; balanced = build_balanced_package c m;
          aggressive = build_aggressive_package c m in
      case select_auto_target m of (target, codes) \<Rightarrow>
        let target_package = (if target = ''conservative'' then conservative
              else if target = ''balanced'' then balanced else aggressive) in
        [conservative, balanced, aggressive,
         \<lparr>tp_package_id = ''auto'', tp_title = auto_title, tp_summary = build_auto_summary target m,
          tp_objective = ''stability-first'', tp_recommended = True, tp_derived_from = Some target,
          tp_reason_codes = codes, tp_config = tp_config target_package\<rparr>])"

subsection \<open>The service\<close>

record recommendation =
  ar_generated_at :: datetime
  ar_metrics :: adaptation_metrics
  ar_current_state :: tuning_state
  ar_recommended_package_id :: string
  ar_packages :: "tuning_package list"

record runtime_components =
  rt_registry :: registry
  rt_risk_config :: risk_config
  rt_backtest_config :: backtest_config

definition runtime_from_config :: "tuning_config \<Rightarrow> py_error + runtime_components" where
  "runtime_from_config c =
     (case build_default_registry (Some (score_to_domain (tc_score c))) of
        Inl exc \<Rightarrow> Inl exc
      | Inr reg \<Rightarrow> Inr \<lparr>rt_registry = reg, rt_risk_config = risk_to_domain (tc_risk c),
                      rt_backtest_config = tc_backtest c\<rparr>)"

definition build_runtime_components :: "env \<Rightarrow> (lab, runtime_components) py" where
  "build_runtime_components e = bnd (tuning_load e) (\<lambda>st. lift (runtime_from_config (ts_config st)))"

definition recommend :: "env \<Rightarrow> learning_sample list \<Rightarrow> (lab, recommendation) py" where
  "recommend e samples =
     bnd (tuning_load e) (\<lambda>st.
     let m = compute_metrics samples; packages = packages_for (ts_config st) m in
     bnd (lab_now e) (\<lambda>t.
     ret \<lparr>ar_generated_at = t, ar_metrics = m, ar_current_state = st,
          ar_recommended_package_id = ''auto'', ar_packages = packages\<rparr>))"

definition get_samples :: "(lab, learning_sample list) py" where
  "get_samples = gets lb_samples"

definition recommend_from_store :: "env \<Rightarrow> (lab, recommendation) py" where
  "recommend_from_store e = bnd get_samples (recommend e)"

definition import_samples :: "learning_sample list \<Rightarrow> write_mode \<Rightarrow> (lab, learning_sample list) py" where
  "import_samples samples m =
     thn (modify (\<lambda>w. w\<lparr>lb_samples := samples_save samples m (lb_samples w)\<rparr>)) (gets lb_samples)"

definition apply_package :: "env \<Rightarrow> tuning_package \<Rightarrow> bool \<Rightarrow> (lab, tuning_state) py" where
  "apply_package e p confirmed =
     thn (require confirmed (ValueError ''manual confirmation is required before applying a tuning package''))
     (bnd (lab_now e) (\<lambda>t.
       tuning_save \<lparr>ts_updated_at = t, ts_active_package_id = tp_package_id p,
         ts_active_package_title = tp_title p, ts_config = tp_config p\<rparr>))"

record package_evaluation =
  pe_package_id :: string
  pe_title :: string
  pe_recommended :: bool
  pe_estimated_total_pnl :: float64
  pe_selected_trades :: nat
  pe_average_score :: float64
  pe_average_projected_edge_bps :: float64
  pe_reason_codes :: "string list"

record evaluation_response =
  pv_dataset_id :: string
  pv_metrics :: adaptation_metrics
  pv_recommended_package_id :: string
  pv_evaluations :: "package_evaluation list"

definition evaluate_package :: "backtest_period list \<Rightarrow> string \<Rightarrow> tuning_package \<Rightarrow> py_error + package_evaluation" where
  "evaluate_package periods recommended p =
     (case runtime_from_config (tp_config p) of Inl exc \<Rightarrow> Inl exc
      | Inr rt \<Rightarrow>
         (case backtest_run (rt_registry rt) (rt_risk_config rt) periods (Some (tc_backtest (tp_config p))) of
            Inl exc \<Rightarrow> Inl exc
          | Inr r \<Rightarrow> Inr \<lparr>pe_package_id = tp_package_id p, pe_title = tp_title p,
              pe_recommended = (tp_package_id p = recommended),
              pe_estimated_total_pnl = br_estimated_total_pnl r, pe_selected_trades = br_selected_trades r,
              pe_average_score = br_average_score r,
              pe_average_projected_edge_bps = br_average_projected_edge_bps r,
              pe_reason_codes = tp_reason_codes p\<rparr>))"

definition evaluate_packages ::
  "env \<Rightarrow> string \<Rightarrow> backtest_period list \<Rightarrow> learning_sample list option \<Rightarrow> (lab, evaluation_response) py" where
  "evaluate_packages e dataset_id periods samples =
     bnd (case samples of None \<Rightarrow> recommend_from_store e | Some ss \<Rightarrow> recommend e ss) (\<lambda>r.
     bnd (for_map (\<lambda>p. lift (evaluate_package periods (ar_recommended_package_id r) p)) (ar_packages r)) (\<lambda>evs.
     ret \<lparr>pv_dataset_id = dataset_id, pv_metrics = ar_metrics r,
          pv_recommended_package_id = ar_recommended_package_id r, pv_evaluations = evs\<rparr>))"

definition list_journal :: "(lab, completed_trade list) py" where
  "list_journal = gets lb_journal"

definition import_journal :: "completed_trade list \<Rightarrow> write_mode \<Rightarrow> (lab, completed_trade list) py" where
  "import_journal records m =
     thn (modify (\<lambda>w. w\<lparr>lb_journal := journal_save records m (lb_journal w)\<rparr>)) (gets lb_journal)"

definition extract_learning_samples :: "string option \<Rightarrow> int option \<Rightarrow> (lab, learning_sample list) py" where
  "extract_learning_samples symbol limit = gets (\<lambda>w. extract_samples (lb_journal w) symbol None limit)"

subsection \<open>Routes of the research pages\<close>

record config_patch = \<comment> \<open>the fields of a \<open>BacktestConfig\<close> the client set\<close>
  pt_notional_per_trade :: "float64 option"
  pt_min_score :: "float64 option"
  pt_min_net_edge_bps :: "float64 option"
  pt_top_k :: "int option"
  pt_accept_reviewed :: "bool option"
  pt_strategy_id :: "string option option"

definition or_set :: "'a option \<Rightarrow> 'a \<Rightarrow> 'a" where
  "or_set x d = (case x of None \<Rightarrow> d | Some y \<Rightarrow> y)"

definition effective_config :: "backtest_config \<Rightarrow> config_patch \<Rightarrow> backtest_config" where
  "effective_config c p = \<lparr>bc_notional_per_trade = or_set (pt_notional_per_trade p) (bc_notional_per_trade c),
     bc_min_score = or_set (pt_min_score p) (bc_min_score c),
     bc_min_net_edge_bps = or_set (pt_min_net_edge_bps p) (bc_min_net_edge_bps c),
     bc_top_k = or_set (pt_top_k p) (bc_top_k c),
     bc_accept_reviewed = or_set (pt_accept_reviewed p) (bc_accept_reviewed c),
     bc_strategy_id = or_set (pt_strategy_id p) (bc_strategy_id c)\<rparr>"

definition route_evaluate_risk :: "env \<Rightarrow> opportunity_score \<Rightarrow> (lab, risk_decision) py" where
  "route_evaluate_risk e s = bnd (build_runtime_components e) (\<lambda>rt. ret (evaluate (rt_risk_config rt) s))"

definition route_run_backtest :: "env \<Rightarrow> backtest_period list \<Rightarrow> config_patch \<Rightarrow> (lab, backtest_result) py" where
  "route_run_backtest e periods p =
     bnd (build_runtime_components e) (\<lambda>rt.
     lift (backtest_run (rt_registry rt) (rt_risk_config rt) periods (Some (effective_config (rt_backtest_config rt) p))))"

definition periods_or_404 :: "string \<Rightarrow> int option \<Rightarrow> (lab, backtest_period list) py" where
  "periods_or_404 k limit_recent =
     bnd (gets (\<lambda>w. get_periods k limit_recent (lb_datasets w))) (\<lambda>ps. case ps of
        None \<Rightarrow> raise (HTTPException 404 (''backtest dataset '' @ [char_of (39::nat)] @ k @ [char_of (39::nat)] @ '' not found''))
      | Some ps \<Rightarrow> ret ps)"

definition route_run_from_dataset :: "env \<Rightarrow> string \<Rightarrow> int option \<Rightarrow> config_patch \<Rightarrow> (lab, backtest_result) py" where
  "route_run_from_dataset e k limit_recent p = bnd (periods_or_404 k limit_recent) (\<lambda>ps. route_run_backtest e ps p)"

definition route_import_dataset :: "backtest_dataset \<Rightarrow> (lab, dataset_summary) py" where
  "route_import_dataset d =
     bnd (gets (\<lambda>w. import_dataset d (lb_datasets w))) (\<lambda>(s, ds).
     thn (modify (\<lambda>w. w\<lparr>lb_datasets := ds\<rparr>)) (ret s))"

definition route_recommend :: "env \<Rightarrow> learning_sample list \<Rightarrow> (lab, recommendation) py" where
  "route_recommend e samples = (if samples = [] then recommend_from_store e else recommend e samples)"

definition route_evaluate_packages :: "env \<Rightarrow> string \<Rightarrow> int option \<Rightarrow> (lab, evaluation_response) py" where
  "route_evaluate_packages e k limit_recent =
     bnd (periods_or_404 k limit_recent) (\<lambda>ps. evaluate_packages e k ps None)"

definition route_apply :: "env \<Rightarrow> tuning_package \<Rightarrow> bool \<Rightarrow> (lab, tuning_state) py" where
  "route_apply e p confirmed =
     catch (apply_package e p confirmed) is_value_error (\<lambda>exc. raise (HTTPException 400 (exc_str exc)))"

definition route_import_samples :: "learning_sample list \<Rightarrow> write_mode \<Rightarrow> (lab, nat \<times> nat) py" where
  \<comment> \<open>the imported and the total count\<close>
  "route_import_samples samples m =
     bnd (import_samples samples m) (\<lambda>persisted. ret (length samples, length persisted))"

definition route_import_journal :: "completed_trade list \<Rightarrow> write_mode \<Rightarrow> (lab, nat \<times> nat) py" where
  "route_import_journal records m =
     bnd (import_journal records m) (\<lambda>persisted. ret (length records, length persisted))"

definition route_extract_from_journal :: "write_mode \<Rightarrow> string option \<Rightarrow> int option \<Rightarrow> (lab, nat \<times> nat) py" where
  "route_extract_from_journal m symbol limit =
     bnd (extract_learning_samples symbol limit) (\<lambda>samples.
     bnd (import_samples samples m) (\<lambda>persisted. ret (length samples, length persisted)))"

subsection \<open>Properties\<close>

lemma fdiv_le_1: "x \<le> 1 \<Longrightarrow> rnd x \<le> 1"
  by (rule f64.rd_le_fixed[OF rnd_1])

lemma py_round_1: "py_round 1 4 = 1"
  using rhe_of_int[of 10000] by (simp add: py_round_def)

lemma rate_bounds: "k \<le> n \<Longrightarrow> 0 \<le> rate k n \<and> rate k n \<le> 1"
proof
  assume "k \<le> n"
  then have q: "(of_nat k / of_nat n :: rat) \<le> 1" by (simp add: divide_le_eq)
  show "0 \<le> rate k n" unfolding rate_def by (intro dec.rd_nonneg rnd_nonneg) simp
  show "rate k n \<le> 1" unfolding rate_def
    using py_round_mono[OF fdiv_le_1[OF q], of 4] by (simp add: py_round_1)
qed

lemma p95_index_less:
  assumes "0 < n" "n < 2 ^ 53"
  shows "p95_index n < n"
proof -
  have r: "rnd (of_int (int n - 1)) = of_int (int n - 1)" using assms by (intro rnd_of_int) simp
  then have n: "float_of_int (int n - 1) = of_int (int n - 1)" by (simp only: float_of_int_def)
  have c: "rnd (95 / 100) \<le> 1" by (rule fdiv_le_1) simp
  have "of_int (int n - 1) * rnd (95 / 100) \<le> of_int (int n - 1) * 1"
    using assms(1) c by (intro mult_left_mono) simp_all
  then have "fmul (float_of_int (int n - 1)) (rnd (95 / 100)) \<le> of_int (int n - 1)"
    unfolding fmul_def n by (intro f64.rd_le_fixed[OF r]) (simp only: mult_1_right)
  then show ?thesis using assms(1) by (simp add: p95_index_def floor_le_iff) linarith
qed

lemma metrics_bounds:
  assumes "length samples < 2 ^ 53"
  shows "am_trade_count (compute_metrics samples) = length samples
    \<and> 0 \<le> am_win_rate (compute_metrics samples) \<and> am_win_rate (compute_metrics samples) \<le> 1
    \<and> 0 \<le> am_slow_payback_rate (compute_metrics samples) \<and> am_slow_payback_rate (compute_metrics samples) \<le> 1
    \<and> (samples = [] \<or> am_max_drawdown_p95_bps (compute_metrics samples) \<in> (\<lambda>s. py_round (ls_max_drawdown_bps s) 4) ` set samples)"
proof (cases "samples = []")
  case False
  have "sort (map ls_max_drawdown_bps samples) ! p95_index (length samples) \<in> ls_max_drawdown_bps ` set samples"
    using nth_mem[of "p95_index (length samples)" "sort (map ls_max_drawdown_bps samples)"]
      p95_index_less[of "length samples"] assms False by simp
  then show ?thesis using False rate_bounds[OF length_filter_le]
    by (auto simp: compute_metrics_def Let_def)
qed (simp add: compute_metrics_def)

definition stable :: "adaptation_metrics \<Rightarrow> bool" where
  \<comment> \<open>what the automatic choice asks of the past trades before it keeps the balanced package\<close>
  "stable m \<longleftrightarrow> 5 \<le> am_trade_count m \<and> rnd (55 / 100) \<le> am_win_rate m \<and> 1 / 4 \<le> am_avg_realized_pnl_bps m
     \<and> am_avg_projection_shortfall_bps m \<le> 2 \<and> am_max_drawdown_p95_bps m \<le> 6
     \<and> am_slow_payback_rate m \<le> rnd (4 / 10)"

lemma auto_target: "fst (select_auto_target m) = (if stable m then ''balanced'' else ''conservative'')"
  by (auto simp: select_auto_target_def stable_def stability_reason_codes_def Let_def)

lemma packages_for_auto:
  "map tp_package_id (packages_for c m) = [''conservative'', ''balanced'', ''aggressive'', ''auto'']
   \<and> map tp_recommended (packages_for c m) = [False, False, False, True]
   \<and> map tp_config (packages_for c m) = [conservative_config c, balanced_config c, aggressive_config c,
        if stable m then balanced_config c else conservative_config c]"
  using auto_target[of m]
  by (auto simp: packages_for_def Let_def build_conservative_package_def build_balanced_package_def
      build_aggressive_package_def package_def split: prod.split)

definition within_limits :: "tuning_config \<Rightarrow> bool" where
  \<comment> \<open>the limits the service puts on every parameter it moves towards one\<close>
  "within_limits c \<longleftrightarrow> ss_expected_hold_periods (tc_score (conservative_config c)) \<le> 12
     \<and> 4 \<le> ss_basis_guarded_bps (tc_score (conservative_config c))
     \<and> 1 / 2 \<le> ss_payback_guarded_periods (tc_score (conservative_config c))
     \<and> 4 \<le> rk_max_allow_basis_bps (tc_risk (conservative_config c))
     \<and> rnd (6 / 10) \<le> rk_max_allow_payback_periods (tc_risk (conservative_config c))
     \<and> \<not> bc_accept_reviewed (tc_backtest (conservative_config c))
     \<and> 6 \<le> ss_expected_hold_periods (tc_score (balanced_config c))
     \<and> 4 \<le> ss_expected_hold_periods (tc_score (aggressive_config c))
     \<and> 50 \<le> rk_min_allow_score (tc_risk (aggressive_config c))
     \<and> 0 \<le> bc_min_score (tc_backtest (aggressive_config c))
     \<and> bc_top_k (tc_backtest (aggressive_config c)) \<le> 3"

lemma within_limits: "within_limits c"
  by (simp add: within_limits_def conservative_config_def balanced_config_def aggressive_config_def Let_def)

lemma recommend_run:
  "\<exists>t st n. recommend e samples w = (Inr \<lparr>ar_generated_at = t, ar_metrics = compute_metrics samples,
      ar_current_state = st, ar_recommended_package_id = ''auto'',
      ar_packages = packages_for (ts_config st) (compute_metrics samples)\<rparr>, w\<lparr>lb_ticks := n\<rparr>)
    \<and> (case lb_tuning w of None \<Rightarrow> ts_config st = default_tuning_config | Some s \<Rightarrow> st = s)"
  by (cases "lb_tuning w") (auto simp: recommend_def tuning_load_def py_simps Let_def)

text \<open>
  C37. A recommendation always succeeds and changes no file. Its rates lie between 0 and 1, its
  drawdown is that of one of the samples, and of its four packages only the automatic one is
  recommended: the balanced parameters exactly when at least five trades meet all five
  stability thresholds, the conservative ones otherwise. The parameters a package moves stay
  within the service's limits; a limit that the current parameters already exceed is moved the
  other way, so a conservative package can widen the admitted basis.
\<close>

theorem recommendation_bounded:
  assumes "length samples < 2 ^ 53"
  shows "\<exists>r n c. recommend e samples w = (Inr r, w\<lparr>lb_ticks := n\<rparr>)
    \<and> am_trade_count (ar_metrics r) = length samples
    \<and> 0 \<le> am_win_rate (ar_metrics r) \<and> am_win_rate (ar_metrics r) \<le> 1
    \<and> 0 \<le> am_slow_payback_rate (ar_metrics r) \<and> am_slow_payback_rate (ar_metrics r) \<le> 1
    \<and> (samples = [] \<or> am_max_drawdown_p95_bps (ar_metrics r) \<in> (\<lambda>s. py_round (ls_max_drawdown_bps s) 4) ` set samples)
    \<and> c = (case lb_tuning w of None \<Rightarrow> default_tuning_config | Some s \<Rightarrow> ts_config s)
    \<and> map tp_package_id (ar_packages r) = [''conservative'', ''balanced'', ''aggressive'', ''auto'']
    \<and> map tp_recommended (ar_packages r) = [False, False, False, True]
    \<and> map tp_config (ar_packages r) = [conservative_config c, balanced_config c, aggressive_config c,
        if stable (ar_metrics r) then balanced_config c else conservative_config c]
    \<and> within_limits c
    \<and> (ss_basis_guarded_bps (tc_score c) < 4 \<longrightarrow>
         ss_basis_guarded_bps (tc_score c) < ss_basis_guarded_bps (tc_score (conservative_config c)))"
proof -
  obtain t st n where r: "recommend e samples w = (Inr \<lparr>ar_generated_at = t, ar_metrics = compute_metrics samples,
      ar_current_state = st, ar_recommended_package_id = ''auto'',
      ar_packages = packages_for (ts_config st) (compute_metrics samples)\<rparr>, w\<lparr>lb_ticks := n\<rparr>)"
    "case lb_tuning w of None \<Rightarrow> ts_config st = default_tuning_config | Some s \<Rightarrow> st = s"
    using recommend_run by blast
  have c: "ts_config st = (case lb_tuning w of None \<Rightarrow> default_tuning_config | Some s \<Rightarrow> ts_config s)"
    using r(2) by (simp split: option.splits)
  have wide: "4 \<le> ss_basis_guarded_bps (tc_score (conservative_config (ts_config st)))"
    by (simp add: conservative_config_def Let_def)
  show ?thesis
    using r(1) c wide metrics_bounds[OF assms] packages_for_auto[of "ts_config st" "compute_metrics samples"]
      within_limits[of "ts_config st"]
    by (intro exI conjI) (assumption | simp | linarith)+
qed

definition sample_lab :: lab where
  "sample_lab = \<lparr>lb_datasets = [], lb_tuning = None, lb_samples = [], lb_journal = [], lb_ticks = 0\<rparr>"

definition good_sample :: learning_sample where
  "good_sample = \<lparr>ls_trade_id = None, ls_symbol = ''BTCUSDT'', ls_closed_at = None, ls_score = 120,
     ls_risk_tag = ''normal'', ls_net_edge_bps = 2, ls_projected_net_edge_bps = 2, ls_basis_bps = 0,
     ls_realized_pnl_bps = 2, ls_max_drawdown_bps = 1, ls_hold_periods = 1\<rparr>"

theorem recommendation_bounded_witness:
  "\<exists>r n. recommend sample_env [good_sample] sample_lab = (Inr r, sample_lab\<lparr>lb_ticks := n\<rparr>)
     \<and> am_trade_count (ar_metrics r) = 1 \<and> am_win_rate (ar_metrics r) \<le> 1
     \<and> map tp_config (ar_packages r) ! 3 = conservative_config default_tuning_config"
proof -
  have "length [good_sample] < 2 ^ 53" by simp
  from recommendation_bounded[OF this, of sample_env sample_lab]
  show ?thesis by (fastforce simp: sample_lab_def stable_def)
qed

text \<open>
  What the research pages store is what they read back: an imported dataset is returned by
  its id with its periods and leaves the others alone; an applied package becomes the state and
  the runtime parameters, whatever was active before, while an unconfirmed one answers 400 and
  changes nothing; imported trades and samples are appended or replace the list, and the counts
  reported are those stored; converting parameters to the domain and back loses nothing.
\<close>

theorem research_round_trip:
  "(\<exists>s w'. route_import_dataset d w = (Inr s, w') \<and> bs_period_count s = length (bd_periods d)
      \<and> get_periods k None (lb_datasets w') =
          (if k = bd_dataset_id d then Some (bd_periods d) else get_periods k None (lb_datasets w)))
   \<and> (\<exists>st w'. route_apply e p True w = (Inr st, w') \<and> ts_config st = tp_config p
        \<and> tuning_load e w' = (Inr st, w')
        \<and> build_runtime_components e w' = (Inr \<lparr>rt_registry = default_registry (Some (score_to_domain (tc_score (tp_config p)))),
            rt_risk_config = risk_to_domain (tc_risk (tp_config p)), rt_backtest_config = tc_backtest (tp_config p)\<rparr>, w'))
   \<and> (\<exists>m. route_apply e p False w = (Inl (HTTPException 400 m), w))
   \<and> (\<exists>w'. route_import_journal trades mode w = (Inr (length trades, length (lb_journal w')), w')
        \<and> list_journal w' = (Inr ((if mode = AppendRows then lb_journal w else []) @ trades), w'))
   \<and> (\<exists>w'. route_import_samples samples mode w = (Inr (length samples, length (lb_samples w')), w')
        \<and> get_samples w' = (Inr ((if mode = AppendRows then lb_samples w else []) @ samples), w'))
   \<and> score_to_domain (score_from_domain c) = c \<and> risk_to_domain (risk_from_domain rc) = rc"
proof (intro conjI)
  show "\<exists>s w'. route_import_dataset d w = (Inr s, w') \<and> bs_period_count s = length (bd_periods d)
      \<and> get_periods k None (lb_datasets w') =
          (if k = bd_dataset_id d then Some (bd_periods d) else get_periods k None (lb_datasets w))"
    by (auto simp: route_import_dataset_def import_dataset_def py_simps summary_from_def Let_def
        get_periods_def datasets.get_put)
  show "\<exists>st w'. route_apply e p True w = (Inr st, w') \<and> ts_config st = tp_config p
        \<and> tuning_load e w' = (Inr st, w')
        \<and> build_runtime_components e w' = (Inr \<lparr>rt_registry = default_registry (Some (score_to_domain (tc_score (tp_config p)))),
            rt_risk_config = risk_to_domain (tc_risk (tp_config p)), rt_backtest_config = tc_backtest (tp_config p)\<rparr>, w')"
    by (auto simp: route_apply_def apply_package_def tuning_save_def tuning_load_def build_runtime_components_def
        runtime_from_config_def py_simps)
  show "\<exists>m. route_apply e p False w = (Inl (HTTPException 400 m), w)"
    by (simp add: route_apply_def apply_package_def py_simps)
  show "\<exists>w'. route_import_journal trades mode w = (Inr (length trades, length (lb_journal w')), w')
        \<and> list_journal w' = (Inr ((if mode = AppendRows then lb_journal w else []) @ trades), w')"
    by (cases mode) (auto simp: route_import_journal_def import_journal_def list_journal_def journal_save_def
        write_rows_def py_simps)
  show "\<exists>w'. route_import_samples samples mode w = (Inr (length samples, length (lb_samples w')), w')
        \<and> get_samples w' = (Inr ((if mode = AppendRows then lb_samples w else []) @ samples), w')"
    by (cases mode) (auto simp: route_import_samples_def import_samples_def get_samples_def samples_save_def
        write_rows_def py_simps)
qed simp_all

end
