(* ===== verification/Backend.thy ===== *)
theory Backend
  imports Workers Console Desk Adaptation
begin

section \<open>The assembled backend\<close>

text \<open>
  \<open>app/core/settings.py\<close>, \<open>app/main.py\<close> and \<open>app/api/routes/algo.py\<close>: how the
  settings become orchestrators, services and workers, what start and stop of the application
  do to the workers, and the routes on the trading state with their error codes. A value error
  of a handler becomes status 400 (or 404). The routes of the research pages are in
  \<open>Adaptation\<close>. The lemmas show which guards an orchestrator built from the settings has.
\<close>

subsection \<open>Settings\<close>

record settings =
  se_app_mode :: string
  se_exchange_name :: string
  se_perp_base_url :: string
  se_spot_base_url :: string
  se_api_key :: string
  se_api_secret :: string
  se_live_execution_enabled :: bool
  se_live_symbol_allowlist :: string
  se_max_live_notional :: float64
  se_breaker_enabled :: bool
  se_breaker_failure_threshold :: int
  se_breaker_cooldown_seconds :: float64
  se_reconciliation_enabled :: bool
  se_reconciliation_interval :: float64
  se_reconciliation_limit :: int
  se_recovery_enabled :: bool
  se_recovery_interval :: float64
  se_recovery_limit :: int
  se_compensation_enabled :: bool
  se_compensation_interval :: float64
  se_compensation_limit :: int
  se_compensation_exposure_limit_bps :: float64
  se_hedge_rebalance_enabled :: bool
  se_hedge_rebalance_interval :: float64
  se_hedge_rebalance_limit :: int
  se_hedge_rebalance_exposure_limit_bps :: float64
  se_monitor_enabled :: bool
  se_monitor_interval :: float64
  se_monitor_max_hold_periods :: float64
  se_scheduler_enabled :: bool
  se_scheduler_interval :: float64
  se_scheduler_max_open_positions :: int
  se_scheduler_max_total_notional :: float64
  se_scan_limit :: int

definition default_settings :: settings where
  "default_settings = \<lparr>
     se_app_mode = ''paper'', se_exchange_name = ''binance'',
     se_perp_base_url = ''https://fapi.binance.com'', se_spot_base_url = ''https://api.binance.com'',
     se_api_key = [], se_api_secret = [],
     se_live_execution_enabled = False, se_live_symbol_allowlist = ''BTCUSDT,ETHUSDT,SOLUSDT'',
     se_max_live_notional = 25000,
     se_breaker_enabled = True, se_breaker_failure_threshold = 2, se_breaker_cooldown_seconds = 300,
     se_reconciliation_enabled = False, se_reconciliation_interval = 30, se_reconciliation_limit = 5,
     se_recovery_enabled = False, se_recovery_interval = 30, se_recovery_limit = 3,
     se_compensation_enabled = False, se_compensation_interval = 30, se_compensation_limit = 3,
     se_compensation_exposure_limit_bps = 50,
     se_hedge_rebalance_enabled = False, se_hedge_rebalance_interval = 30, se_hedge_rebalance_limit = 3,
     se_hedge_rebalance_exposure_limit_bps = 50,
     se_monitor_enabled = False, se_monitor_interval = 60, se_monitor_max_hold_periods = 72,
     se_scheduler_enabled = False, se_scheduler_interval = 60, se_scheduler_max_open_positions = 3,
     se_scheduler_max_total_notional = 25000,
     se_scan_limit = 25\<rparr>"

subsection \<open>Services\<close>

fun py_split :: "char \<Rightarrow> string \<Rightarrow> string list" where
  \<comment> \<open>\<open>s.split(c)\<close>\<close>
  "py_split c [] = [[]]"
| "py_split c (x # xs) = (if x = c then [] # py_split c xs
     else (case py_split c xs of [] \<Rightarrow> [[x]] | p # ps \<Rightarrow> (x # p) # ps))"

definition allowlist_of :: "string \<Rightarrow> string list" where
  "allowlist_of text = remdups (map (\<lambda>s. py_upper (py_strip s)) (filter (\<lambda>s. py_strip s \<noteq> []) (py_split (CHR '','') text)))"

definition trading_client_of :: "settings \<Rightarrow> client" where
  \<comment> \<open>\<open>BinanceTradingClient()\<close>\<close>
  "trading_client_of s = \<lparr>cl_api_key = se_api_key s, cl_api_secret = se_api_secret s,
     cl_spot_base_url = se_spot_base_url s, cl_perp_base_url = se_perp_base_url s\<rparr>"

definition live_client_of :: "settings \<Rightarrow> client option" where
  "live_client_of s = (if se_api_key s \<noteq> [] \<and> se_api_secret s \<noteq> [] then Some (trading_client_of s) else None)"

definition public_client_of :: "settings \<Rightarrow> public_client" where
  "public_client_of s = \<lparr>pc_perp_base = se_perp_base_url s, pc_spot_base = se_spot_base_url s\<rparr>"

definition breaker_of :: "settings \<Rightarrow> breaker_config" where
  "breaker_of s = \<lparr>bc_enabled = se_breaker_enabled s, bc_failure_threshold = se_breaker_failure_threshold s,
     bc_cooldown_seconds = se_breaker_cooldown_seconds s\<rparr>"

definition orchestrator_of :: "settings \<Rightarrow> orchestrator" where
  \<comment> \<open>\<open>get_execution_orchestrator\<close>, and the hedge and compensation workers\<close>
  "orchestrator_of s = \<lparr>oc_client = live_client_of s, oc_breaker = Some (breaker_of s), oc_safety = False,
     oc_live_enabled = se_live_execution_enabled s, oc_allowlist = allowlist_of (se_live_symbol_allowlist s),
     oc_max_live_notional = Some (se_max_live_notional s)\<rparr>"

definition recovery_orchestrator_of :: "settings \<Rightarrow> orchestrator" where
  \<comment> \<open>\<open>build_recovery_worker\<close> gives no circuit breaker\<close>
  "recovery_orchestrator_of s = (orchestrator_of s)\<lparr>oc_breaker := None\<rparr>"

definition guarded_orchestrator :: orchestrator where
  \<comment> \<open>\<open>ExecutionOrchestrator(safety_service=safety_service)\<close>, of the monitor and the scheduler\<close>
  "guarded_orchestrator = bare_orchestrator\<lparr>oc_safety := True\<rparr>"

definition console_of :: "settings \<Rightarrow> registry \<Rightarrow> console" where
  \<comment> \<open>the registry is that of the active tuning package\<close>
  "console_of s reg = \<lparr>cn_client = public_client_of s, cn_scan_limit = se_scan_limit s, cn_app_mode = se_app_mode s,
     cn_exchange_name = se_exchange_name s, cn_registry = reg, cn_strategy_id = None\<rparr>"

definition route_console :: "env \<Rightarrow> settings \<Rightarrow> (lab, console) py" where
  \<comment> \<open>\<open>get_console_read_service\<close>\<close>
  "route_console e s = bnd (build_runtime_components e) (\<lambda>rt. ret (console_of s (rt_registry rt)))"

subsection \<open>Workers\<close>

definition build_hedge_rebalance_worker :: "settings \<Rightarrow> py_error + hedge_rebalance_snapshot worker" where
  "build_hedge_rebalance_worker s =
     new_hedge_rebalance_worker True (se_hedge_rebalance_enabled s) (se_hedge_rebalance_interval s)
       (se_hedge_rebalance_limit s) (se_hedge_rebalance_exposure_limit_bps s)"

definition build_reconciliation_worker :: "settings \<Rightarrow> py_error + reconciliation_snapshot worker" where
  "build_reconciliation_worker s =
     new_reconciliation_worker (live_client_of s \<noteq> None) (se_reconciliation_enabled s)
       (se_reconciliation_interval s) (se_reconciliation_limit s)"

definition build_recovery_worker :: "settings \<Rightarrow> py_error + recovery_snapshot worker" where
  "build_recovery_worker s =
     new_recovery_worker True (se_recovery_enabled s) (se_recovery_interval s) (se_recovery_limit s)"

definition build_compensation_worker :: "settings \<Rightarrow> py_error + compensation_snapshot worker" where
  "build_compensation_worker s =
     new_compensation_worker True (se_compensation_enabled s) (se_compensation_interval s)
       (se_compensation_limit s) (se_compensation_exposure_limit_bps s)"

record backend = \<comment> \<open>\<open>app.state\<close>\<close>
  bk_hedge :: "hedge_rebalance_snapshot worker"
  bk_reconciliation :: "reconciliation_snapshot worker"
  bk_recovery :: "recovery_snapshot worker"
  bk_compensation :: "compensation_snapshot worker"
  bk_monitor :: "monitor_snapshot worker"
  bk_scheduler :: "scheduler_snapshot worker"

definition monitor_worker_of :: "settings \<Rightarrow> monitor_snapshot worker" where
  "monitor_worker_of s =
     new_monitor_worker True (se_monitor_enabled s) (se_monitor_interval s) (se_monitor_max_hold_periods s)"

definition scheduler_worker_of :: "settings \<Rightarrow> scheduler_snapshot worker" where
  "scheduler_worker_of s =
     new_scheduler_worker True (se_scheduler_enabled s) (se_scheduler_interval s)
       (se_scheduler_max_open_positions s) (se_scheduler_max_total_notional s)"

definition startup :: "settings \<Rightarrow> py_error + backend" where
  \<comment> \<open>\<open>lifespan\<close> up to \<open>yield\<close>\<close>
  "startup s =
     then_do (build_hedge_rebalance_worker s) (\<lambda>h.
     then_do (build_reconciliation_worker s) (\<lambda>n.
     then_do (build_recovery_worker s) (\<lambda>y.
     then_do (build_compensation_worker s) (\<lambda>c.
     Inr \<lparr>bk_hedge = worker_start True h,
          bk_reconciliation = worker_start (live_client_of s \<noteq> None) n,
          bk_recovery = worker_start True y,
          bk_compensation = worker_start True c,
          bk_monitor = worker_start True (monitor_worker_of s),
          bk_scheduler = worker_start True (scheduler_worker_of s)\<rparr>))))"

definition shutdown :: "backend \<Rightarrow> backend" where
  "shutdown b = \<lparr>bk_hedge = worker_stop (bk_hedge b), bk_reconciliation = worker_stop (bk_reconciliation b),
     bk_recovery = worker_stop (bk_recovery b), bk_compensation = worker_stop (bk_compensation b),
     bk_monitor = worker_stop (bk_monitor b), bk_scheduler = worker_stop (bk_scheduler b)\<rparr>"

definition worker_or_build :: "'l worker option \<Rightarrow> py_error + 'l worker \<Rightarrow> py_error + 'l worker" where
  \<comment> \<open>\<open>get_*_worker\<close>: the worker of \<open>app.state\<close>, else a new one\<close>
  "worker_or_build w build = (case w of Some wk \<Rightarrow> Inr wk | None \<Rightarrow> build)"

subsection \<open>Error codes\<close>

definition answering :: "int \<Rightarrow> ('w, 'a) py \<Rightarrow> ('w, 'a) py" where
  \<comment> \<open>\<open>except ValueError as exc: raise HTTPException(status, str(exc))\<close>\<close>
  "answering status m = catch m is_value_error (\<lambda>exc. raise (HTTPException status (exc_str exc)))"

definition parsed :: "('b \<Rightarrow> 'a option) \<Rightarrow> 'b option \<Rightarrow> 'a option option" where
  \<comment> \<open>an optional query text; \<open>None\<close> when no value has this text\<close>
  "parsed p t = (case t of None \<Rightarrow> Some None | Some x \<Rightarrow> map_option Some (p x))"

definition status_of :: "string \<Rightarrow> trade_status option" where
  "status_of t = find (\<lambda>s. status_str s = t) status_order"

definition severity_of :: "string \<Rightarrow> severity option" where
  "severity_of t = find (\<lambda>s. severity_str s = t) [Debug, Info, Warning, Error, Critical]"

subsection \<open>Routes: ledger and audit log\<close>

definition route_list_ledger ::
  "string option \<Rightarrow> string option \<Rightarrow> string option \<Rightarrow> (world, ledger_record list) py" where
  \<comment> \<open>a mode or status that no record can have selects nothing\<close>
  "route_list_ledger mode status symbol =
     (case (parsed mode_of mode, parsed status_of status) of
        (Some m, Some s) \<Rightarrow> list_records m s None symbol
      | _ \<Rightarrow> bnd (list_records None None None None) (\<lambda>_. ret []))"

definition route_import_ledger :: "ledger_record list \<Rightarrow> write_mode \<Rightarrow> (world, nat \<times> nat) py" where
  "route_import_ledger trades m = bnd (import_records trades m) (\<lambda>ps. ret (length trades, length ps))"

definition route_list_events :: "string option \<Rightarrow> string option \<Rightarrow> int option \<Rightarrow> (world, audit_event list) py" where
  "route_list_events sev source limit =
     (case parsed severity_of sev of Some s \<Rightarrow> list_events s source limit | None \<Rightarrow> ret [])"

definition route_import_events :: "audit_event list \<Rightarrow> write_mode \<Rightarrow> (world, nat \<times> nat) py" where
  "route_import_events evs m = bnd (import_events evs m) (\<lambda>ps. ret (length evs, length ps))"

subsection \<open>Routes: execution\<close>

definition route_execute :: "env \<Rightarrow> settings \<Rightarrow> intent \<Rightarrow> (world, execution_result) py" where
  "route_execute e s i = answering 400 (execute e (orchestrator_of s) i)"

definition route_recover :: "env \<Rightarrow> recovery_request \<Rightarrow> (world, execution_result) py" where
  "route_recover e r = answering 400 (recover e r)"

definition route_execution_summary :: "env \<Rightarrow> int \<Rightarrow> (world, execution_snapshot) py" where
  "route_execution_summary e limit_incidents = execution_snapshot_of e limit_incidents"

definition route_breaker_state :: "env \<Rightarrow> settings \<Rightarrow> (world, breaker_state) py" where
  "route_breaker_state e s = breaker_get_state e (breaker_of s) None"

definition route_breaker_reset :: "env \<Rightarrow> settings \<Rightarrow> (world, breaker_state) py" where
  "route_breaker_reset e s = manual_reset e (breaker_of s) None"

subsection \<open>Routes: hedge\<close>

definition route_hedge_overview :: "env \<Rightarrow> float64 \<Rightarrow> (world, hedge_overview) py" where
  "route_hedge_overview e exposure_limit = hedge_overview_of e exposure_limit"

definition route_hedge_plan :: "string \<Rightarrow> float64 \<Rightarrow> (world, hedge_plan) py" where
  "route_hedge_plan trade_id exposure_limit = answering 404 (build_rebalance_plan trade_id exposure_limit)"

definition route_hedge_rebalance ::
  "env \<Rightarrow> settings \<Rightarrow> string \<Rightarrow> float64 \<Rightarrow> float64 \<Rightarrow> string option \<Rightarrow> (world, execution_result) py" where
  "route_hedge_rebalance e s trade_id perp_quantity exposure_limit notes =
     bnd (route_hedge_plan trade_id exposure_limit) (\<lambda>plan.
     thn (require (rebalances (hp_recommended_action plan) \<and> hp_suggested_perp_notional_delta plan \<noteq> 0)
            (HTTPException 400 (''trade '' @ quoted trade_id @ '' does not currently require hedge rebalance'')))
       (answering 400 (rebalance_hedge e (orchestrator_of s) trade_id (hp_suggested_perp_notional_delta plan)
          perp_quantity notes)))"

definition route_hedge_rebalance_auto ::
  "env \<Rightarrow> settings \<Rightarrow> string \<Rightarrow> (float64 \<times> string option) option \<Rightarrow> (world, execution_result) py" where
  \<comment> \<open>without a body the exposure limit is 50 and there are no notes\<close>
  "route_hedge_rebalance_auto e s trade_id body =
     (case body of
        None \<Rightarrow> answering 400 (execute_rebalance_plan e (orchestrator_of s) trade_id 50 None)
      | Some (exposure_limit, notes) \<Rightarrow>
          answering 400 (execute_rebalance_plan e (orchestrator_of s) trade_id exposure_limit notes))"

subsection \<open>Routes: reconciliation, recovery, compensation\<close>

definition route_list_reports :: "string option \<Rightarrow> string option \<Rightarrow> (world, order_report list) py" where
  "route_list_reports symbol order_id = list_reports symbol order_id"

definition route_import_reports :: "order_report list \<Rightarrow> write_mode \<Rightarrow> (world, nat \<times> nat) py" where
  "route_import_reports rs m = bnd (import_reports rs m) (\<lambda>ps. ret (length rs, length ps))"

definition route_sync_trade :: "env \<Rightarrow> settings \<Rightarrow> string \<Rightarrow> (world, nat \<times> nat) py" where
  "route_sync_trade e s trade_id =
     bnd (answering 400 (sync_reports_for_trade e (trading_client_of s) trade_id)) (\<lambda>ps. ret (length ps, length ps))"

definition route_sync_attention :: "env \<Rightarrow> settings \<Rightarrow> int option \<Rightarrow> (world, nat \<times> nat) py" where
  "route_sync_attention e s limit =
     bnd (sync_attention_candidates e (trading_client_of s) limit) (\<lambda>ps. ret (length ps, length ps))"

definition route_recon_summary :: "env \<Rightarrow> (world, recon_summary) py" where
  "route_recon_summary e = build_summary e"

definition route_recon_candidates :: "string option \<Rightarrow> bool \<Rightarrow> (world, candidate list) py" where
  "route_recon_candidates symbol only_attention = list_candidates symbol only_attention"

definition route_recovery_plans :: "string option \<Rightarrow> bool \<Rightarrow> (world, recovery_plan list) py" where
  "route_recovery_plans symbol only_actionable = recovery_list_plans symbol only_actionable"

definition route_execute_recovery :: "env \<Rightarrow> int option \<Rightarrow> string option \<Rightarrow> (world, recovery_summary) py" where
  "route_execute_recovery e limit symbol = execute_actionable_plans e limit symbol None"

definition route_comp_plans :: "string option \<Rightarrow> bool \<Rightarrow> float64 \<Rightarrow> (world, comp_plan list) py" where
  "route_comp_plans symbol only_actionable exposure_limit = comp_list_plans symbol only_actionable exposure_limit"

definition route_execute_compensation ::
  "env \<Rightarrow> settings \<Rightarrow> string option \<Rightarrow> int option \<Rightarrow> float64 \<Rightarrow> (world, comp_summary) py" where
  "route_execute_compensation e s symbol limit exposure_limit =
     execute_safe_actions e (trading_client_of s) (orchestrator_of s) symbol limit exposure_limit"

subsection \<open>Routes: workers\<close>

definition route_hedge_run :: "env \<Rightarrow> settings \<Rightarrow> hedge_rebalance_snapshot \<Rightarrow> (world, hedge_rebalance_snapshot) py" where
  "route_hedge_run e s l = answering 400 (hedge_rebalance_run_once e (Some (orchestrator_of s)) l)"

definition route_reconciliation_run :: "env \<Rightarrow> settings \<Rightarrow> reconciliation_snapshot \<Rightarrow> (world, reconciliation_snapshot) py" where
  "route_reconciliation_run e s l = answering 400 (reconciliation_run_once e (live_client_of s) l)"

definition route_recovery_run :: "env \<Rightarrow> settings \<Rightarrow> recovery_snapshot \<Rightarrow> (world, recovery_snapshot) py" where
  "route_recovery_run e s l = answering 400 (recovery_run_once e (Some (recovery_orchestrator_of s)) l)"

definition route_compensation_run :: "env \<Rightarrow> settings \<Rightarrow> compensation_snapshot \<Rightarrow> (world, compensation_snapshot) py" where
  "route_compensation_run e s l =
     answering 400 (compensation_run_once e (trading_client_of s) (Some (orchestrator_of s)) l)"

definition route_scheduler_state :: "scheduler_snapshot worker option \<Rightarrow> bool \<times> scheduler_snapshot" where
  \<comment> \<open>without a worker, the default snapshot\<close>
  "route_scheduler_state w = (case w of Some wk \<Rightarrow> worker_snapshot wk
     | None \<Rightarrow> worker_snapshot (new_scheduler_worker False False 60 3 25000))"

definition route_scheduler_run ::
  "env \<Rightarrow> settings \<Rightarrow> scheduler_snapshot worker option \<Rightarrow> (world, scheduler_snapshot) py" where
  "route_scheduler_run e s w = (case w of
     None \<Rightarrow> raise (ValueError ''scheduler worker is not configured'')
   | Some wk \<Rightarrow> scheduler_run_once e \<lparr>sd_score_config = None, sd_risk_config = default_risk_config\<rparr>
       (public_client_of s) (se_app_mode s) (Some guarded_orchestrator) (wk_log wk))"

definition route_monitor_state :: "monitor_snapshot worker option \<Rightarrow> bool \<times> monitor_snapshot" where
  "route_monitor_state w = (case w of Some wk \<Rightarrow> worker_snapshot wk
     | None \<Rightarrow> worker_snapshot (new_monitor_worker False False 60 72))"

definition route_monitor_run :: "env \<Rightarrow> settings \<Rightarrow> monitor_snapshot worker option \<Rightarrow> (world, monitor_snapshot) py" where
  "route_monitor_run e s w = (case w of
     None \<Rightarrow> raise (ValueError ''holding monitor worker is not configured'')
   | Some wk \<Rightarrow> monitor_run_once e (public_client_of s) (Some guarded_orchestrator) (wk_log wk))"

definition route_account_balance :: "env \<Rightarrow> settings \<Rightarrow> (world, balance_snapshot) py" where
  "route_account_balance e s = get_balance e (Some (trading_client_of s))"

definition route_account_positions :: "env \<Rightarrow> settings \<Rightarrow> string option \<Rightarrow> (world, position_info list) py" where
  "route_account_positions e s symbol = get_positions e (Some (trading_client_of s)) symbol"

definition route_account_summary :: "env \<Rightarrow> settings \<Rightarrow> (world, account_summary) py" where
  "route_account_summary e s = get_account_summary e (Some (trading_client_of s))"

subsection \<open>Facts about the assembly\<close>

fun py_join :: "char \<Rightarrow> string list \<Rightarrow> string" where
  "py_join c [] = []"
| "py_join c [p] = p"
| "py_join c (p # q # ps) = p @ c # py_join c (q # ps)"

lemma py_split_nonempty [simp]: "py_split c s \<noteq> []"
  by (induction s) (auto split: list.splits)

lemma py_join_split [simp]: "py_join c (py_split c s) = s"
proof (induction s)
  case (Cons x xs)
  show ?case
  proof (cases "py_split c xs")
    case (Cons p ps)
    then show ?thesis using Cons.IH by (cases ps) auto
  qed (simp)
qed simp

lemma py_split_no_separator: "p \<in> set (py_split c s) \<Longrightarrow> c \<notin> set p"
  by (induction s arbitrary: p) (auto split: list.splits if_splits)

lemma allowlist_entries: "a \<in> set (allowlist_of t) \<Longrightarrow> a \<noteq> []"
  by (auto simp: allowlist_of_def py_upper_def)

lemma allowlist_default: "allowlist_of (se_live_symbol_allowlist default_settings) = [''BTCUSDT'', ''ETHUSDT'', ''SOLUSDT'']"
  by code_simp

text \<open>A route never lets a value error through.\<close>

lemma answering_raises:
  assumes "answering status m w = (Inl exc, w')"
  shows "\<not> is_value_error exc \<or> (\<exists>x. exc = HTTPException status x)"
    and "\<not> is_value_error exc"
  using assms by (auto simp: answering_def catch_run raise_run split: prod.splits sum.splits if_splits)

lemma answering_returns: "m w = (Inr x, w') \<Longrightarrow> answering status m w = (Inr x, w')"
  by (simp add: answering_def catch_run)

text \<open>No orchestrator of the API, nor of the four workers it builds, asks the safety switch.\<close>

lemma api_orchestrators_unguarded:
  "safety_gate (orchestrator_of s) i = ret ()" "safety_gate (recovery_orchestrator_of s) i = ret ()"
  "safety_gate bare_orchestrator i = ret ()"
  by (simp_all add: safety_gate_def orchestrator_of_def recovery_orchestrator_of_def bare_orchestrator_def)

lemma recovery_without_breaker: "ensure_live_allowed e (recovery_orchestrator_of s) k sy t = ret ()"
  by (simp add: ensure_live_allowed_def recovery_orchestrator_of_def)

text \<open>The workers the monitor and the scheduler run never trade live.\<close>

lemma guarded_orchestrator_no_live:
  "it_mode i = Live \<Longrightarrow> \<exists>m. dispatch e guarded_orchestrator i t w = (Inl (ValueError m), w)"
  by (simp add: dispatch_def validate_live_request_def validate_live_def guarded_orchestrator_def
      bare_orchestrator_def py_simps)

text \<open>After a start exactly the enabled and configured workers run; after a stop none does.\<close>

definition running_workers :: "backend \<Rightarrow> bool list" where
  "running_workers b = [wk_task (bk_hedge b) = Running, wk_task (bk_reconciliation b) = Running,
     wk_task (bk_recovery b) = Running, wk_task (bk_compensation b) = Running,
     wk_task (bk_monitor b) = Running, wk_task (bk_scheduler b) = Running]"

lemma new_worker_start [simp]:
  "wk_task (worker_start cfg (new_worker l)) = Running \<longleftrightarrow> rl_enabled l \<and> cfg"
  by (simp add: worker_start_def new_worker_def)

lemma worker_stop_not_running [simp]: "wk_task (worker_stop wk) \<noteq> Running"
  by (simp add: worker_stop_def)

lemma startup_running:
  assumes "startup s = Inr b"
  shows "running_workers b = [se_hedge_rebalance_enabled s,
     se_reconciliation_enabled s \<and> live_client_of s \<noteq> None, se_recovery_enabled s,
     se_compensation_enabled s, se_monitor_enabled s, se_scheduler_enabled s]"
  using assms
  by (auto simp: startup_def then_do_Inr running_workers_def build_hedge_rebalance_worker_def
      build_reconciliation_worker_def build_recovery_worker_def build_compensation_worker_def
      monitor_worker_of_def scheduler_worker_of_def new_hedge_rebalance_worker_def new_reconciliation_worker_def
      new_recovery_worker_def new_compensation_worker_def new_monitor_worker_def new_scheduler_worker_def
      new_log_def run_log.defs split: if_splits)

lemma shutdown_stops: "running_workers (shutdown b) = replicate 6 False"
  by (simp add: shutdown_def running_workers_def numeral_eq_Suc)

text \<open>Without API keys the reconciliation worker is refused with status 400.\<close>

lemma reconciliation_run_unconfigured:
  assumes "live_client_of s = None"
  shows "\<exists>m. route_reconciliation_run e s l w = (Inl (HTTPException 400 m), w)"
  using assms by (simp add: route_reconciliation_run_def reconciliation_run_once_def run_once_def answering_def
      catch_run raise_run)

end
