(* ===== verification/System.thy ===== *)
theory System
  imports Backend
begin

section \<open>The whole system\<close>

text \<open>
  What holds whichever sequence of requests and worker runs the backend serves. The locale
  \<open>backend_effect\<close> is the contract between the primitive writes of the state (a clock
  reading, a saved record, an appended event, a replaced report list, a request, a breaker
  operation) and the operations above them: a relation that every primitive write keeps is
  kept by every operation of every component. It is interpreted on three relations: history
  is only extended, every order sent has passed the live guards, and the breaker's invariant
  is kept. \<open>system_step\<close> is the step relation of the assembled application; the
  properties are proved for its runs from a start, by rule induction.
\<close>

subsection \<open>The live guards\<close>

definition guard_passes :: "orchestrator \<Rightarrow> string \<Rightarrow> float64 \<Rightarrow> bool" where
  "guard_passes c symbol notional \<longleftrightarrow> oc_live_enabled c
     \<and> (oc_allowlist c = [] \<or> symbol \<in> set (oc_allowlist c))
     \<and> (case oc_max_live_notional c of None \<Rightarrow> True | Some m \<Rightarrow> notional \<le> m)"

definition order_of :: "client \<Rightarrow> string \<Rightarrow> float64 \<Rightarrow> http_request \<Rightarrow> bool" where
  \<comment> \<open>a signed market order in \<open>symbol\<close>, of at most \<open>notional\<close> when it is given in quote currency\<close>
  "order_of cl symbol notional r \<longleftrightarrow> rq_method r = POST \<and> has_credentials cl
     \<and> rq_url r \<in> {cl_spot_base_url cl @ ''/api/v3/order'', cl_perp_base_url cl @ ''/fapi/v1/order''}
     \<and> map_of (rq_payload r) ''symbol'' = Some symbol
     \<and> (\<forall>q. map_of (rq_payload r) ''quoteOrderQty'' = Some q \<longrightarrow> (\<exists>y. y \<le> notional \<and> q = fmt_g y))"

definition guarded_order :: "orchestrator \<Rightarrow> http_request \<Rightarrow> bool" where
  "guarded_order c r \<longleftrightarrow> (\<exists>cl symbol notional. oc_client c = Some cl
     \<and> guard_passes c symbol notional \<and> order_of cl symbol notional r)"

lemma validate_live_passes: "validate_live c sy x w = (Inr u, w') \<Longrightarrow> guard_passes c sy x"
  by (auto simp: validate_live_def guard_passes_def thn_run require_def ret_run raise_run
      split: if_splits option.splits)

lemma opt_field_lookup: "map_of (opt_field k v @ kvs) j = (if j = k \<and> v \<noteq> None then v else map_of kvs j)"
  by (auto simp: opt_field_def split: option.splits)

lemma opt_field_single: "map_of (opt_field k v) j = (if j = k then v else None)"
  by (auto simp: opt_field_def split: option.splits)

context effect
begin

lemma steps_thn_guard:
  "steps_in R m \<Longrightarrow> (\<And>w w' u. m w = (Inr u, w') \<Longrightarrow> P) \<Longrightarrow> (P \<Longrightarrow> steps_in R k) \<Longrightarrow> steps_in R (thn m k)"
  unfolding thn_def by (rule steps_bnd_val) auto

lemma steps_require_then: "(b \<Longrightarrow> steps_in R k) \<Longrightarrow> steps_in R (thn (require b exc) k)"
  by (rule steps_thn_guard[OF steps_require, of b]) (auto simp: require_def raise_run split: if_splits)

lemma steps_read: "(\<And>w. snd (m w) = w) \<Longrightarrow> steps_in R m"
  by (simp add: steps_in_def R_refl)
end

subsection \<open>The contract of the primitive writes\<close>

locale backend_effect = effect R for R :: "world \<Rightarrow> world \<Rightarrow> bool" +
  fixes breakers :: "breaker_config \<Rightarrow> bool" and may_send :: "http_request \<Rightarrow> bool"
  assumes ticked: "R w (w\<lparr>w_ticks := Suc (w_ticks w)\<rparr>)"
    and named: "R w (w\<lparr>w_uuids := Suc (w_uuids w)\<rparr>)"
    and saved: "R w (set_ledger r w)"
    and logged: "R w (w\<lparr>w_events := w_events w @ es\<rparr>)"
    and reported: "R w (w\<lparr>w_reports := rs\<rparr>)"
    and switched: "R w (w\<lparr>w_safety := s\<rparr>)"
    and asked: "rq_method q = GET \<Longrightarrow> may_send q"
    and requested: "may_send q \<Longrightarrow> R w (w\<lparr>w_sent := w_sent w @ [q]\<rparr>)"
    and broken: "breakers b \<Longrightarrow> steps_in R (breaker_get_state e b t)"
      "breakers b \<Longrightarrow> steps_in R (ensure_allows_execution e b t)"
      "breakers b \<Longrightarrow> steps_in R (record_failure e b k m t)"
      "breakers b \<Longrightarrow> steps_in R (record_success e b k t)"
      "breakers b \<Longrightarrow> steps_in R (manual_reset e b t)"
begin

definition allowed :: "orchestrator \<Rightarrow> bool" where
  \<comment> \<open>its breaker and its orders are within the contract\<close>
  "allowed c \<longleftrightarrow> (\<forall>b. oc_breaker c = Some b \<longrightarrow> breakers b) \<and> (\<forall>q. guarded_order c q \<longrightarrow> may_send q)"

lemma allowed_breaker: "allowed c \<Longrightarrow> oc_breaker c = Some b \<Longrightarrow> breakers b"
  by (simp add: allowed_def)

lemma allowed_order:
  "allowed c \<Longrightarrow> oc_client c = Some cl \<Longrightarrow> guard_passes c sy x \<Longrightarrow> order_of cl sy x q \<Longrightarrow> may_send q"
  by (auto simp: allowed_def guarded_order_def)

lemma run_primitives [steps]:
  "steps_in R (utc_now e)" "steps_in R (uuid_hex e)" "steps_in R (or_now e t)"
  by (simp_all add: steps_in_def utc_now_def uuid_hex_def or_now_def ret_run ticked named R_refl split: option.split)

lemma run_send: "may_send q \<Longrightarrow> steps_in R (send e q)"
  by (simp add: steps_in_def send_def requested)

lemma run_ledger [steps]:
  "steps_in R ledger_list" "steps_in R (get_record k)" "steps_in R (list_records a b c d)"
proof -
  show list: "steps_in R ledger_list" by (rule steps_read) (simp add: ledger_list_run)
  show "steps_in R (get_record k)" unfolding get_record_def by (intro steps_bnd steps_ret list)
  show "steps_in R (list_records a b c d)"
    unfolding list_records_def by (intro steps_bnd steps_Let steps_ret list)
qed

lemma run_save_record [steps]: "steps_in R (save_record r)"
  by (rule steps_inI) (auto simp: save_record_run saved R_refl split: if_splits)

lemma run_audit [steps]:
  "steps_in R (audit_save es AppendRows)" "steps_in R (list_events a b c)"
proof -
  show "steps_in R (audit_save es AppendRows)" by (simp add: steps_in_def audit_save_def py_simps logged)
  show "steps_in R (list_events a b c)" unfolding list_events_def by (intro steps_bnd steps_Let steps_if steps_gets steps_ret)
qed

lemma run_record_event [steps]: "steps_in R (audit_record_event e a b c d t p tg i)"
  unfolding audit_record_event_def by (intro steps)

lemma run_report_list [steps]: "steps_in R report_list"
  by (rule steps_read) (simp add: report_list_def)

lemma run_report_save [steps]: "steps_in R (report_save rs m)"
proof (cases m)
  case ReplaceRows
  then show ?thesis by (simp add: steps_in_def report_save_def py_simps reported)
next
  case AppendRows
  then show ?thesis
    by (simp add: steps_in_def report_save_def py_simps reported R_refl)
qed

lemma run_gates [steps]: "steps_in R check_can_open" "steps_in R (check_can_operate k)"
  by (auto simp: check_can_open_def check_can_operate_def intro!: steps_bnd steps_gets steps_thn steps_require steps_if steps_ret steps_raise)

lemma run_safety_record [steps]: "steps_in R (safety_record e ty sm sv p)"
  unfolding safety_record_def audit_service_save_record_def by (intro steps)

lemma run_switch [steps]: "steps_in R (modify (\<lambda>w. w\<lparr>w_safety := f w\<rparr>))"
  by (simp add: steps_in_def modify_def switched)

lemma run_safety_ops [steps]:
  "steps_in R (freeze_all e r)" "steps_in R (unfreeze_all e r)" "steps_in R (stop_new_positions e r)"
  "steps_in R (resume_new_positions e r)" "steps_in R (set_reduce_only e k r)"
  "steps_in R (unset_reduce_only e k r)" "steps_in R (pause_trade e k r)" "steps_in R (unpause_trade e k r)"
  unfolding safety_ops touch_safety_def safety_get_state_def by (intro steps)+

subsection \<open>Trading client and live adapter\<close>

lemma run_signed_request:
  "(has_credentials c \<Longrightarrow> may_send \<lparr>rq_method = m, rq_url = u, rq_payload = p\<rparr>) \<Longrightarrow> steps_in R (signed_request e c m u p)"
  unfolding signed_request_def by (rule steps_require_then) (auto simp: has_credentials_def intro: run_send)

lemma run_lookups [steps]:
  "steps_in R (get_spot_order e c a j i h)" "steps_in R (get_perp_order e c a j i h)"
  "steps_in R (get_account_balance e c h)" "steps_in R (get_position_info e c s h)"
  unfolding get_spot_order_def get_perp_order_def get_account_balance_def get_position_info_def
  by (rule run_signed_request; simp add: asked)+

lemma run_get_json [steps]: "steps_in R (get_json e u p)"
  unfolding get_json_def by (rule run_send) (simp add: asked)

lemma run_spot_order:
  assumes "allowed c" "oc_client c = Some cl" "guard_passes c sy x"
    and "\<And>y. q = Some y \<Longrightarrow> y \<le> x"
  shows "steps_in R (place_spot_market_order e cl sy side q qty h cid)"
proof (unfold place_spot_market_order_def, rule run_signed_request, rule allowed_order[OF assms(1-3)])
  assume "has_credentials cl"
  then show "order_of cl sy x \<lparr>rq_method = POST, rq_url = cl_spot_base_url cl @ ''/api/v3/order'',
      rq_payload = [(''symbol'', sy), (''side'', side), (''type'', ''MARKET'')]
        @ opt_field ''quoteOrderQty'' (map_option fmt_g q) @ opt_field ''quantity'' (map_option fmt_g qty)
        @ opt_field ''recvWindow'' (map_option show_int h) @ opt_field ''newClientOrderId'' cid\<rparr>"
    using assms(4) by (auto simp: order_of_def opt_field_lookup opt_field_single) blast
qed

lemma run_perp_order:
  assumes "allowed c" "oc_client c = Some cl" "guard_passes c sy x"
  shows "steps_in R (place_perp_market_order e cl sy side q ro h cid)"
proof (unfold place_perp_market_order_def, rule run_signed_request, rule allowed_order[OF assms(1-3)])
  assume "has_credentials cl"
  then show "order_of cl sy x \<lparr>rq_method = POST, rq_url = cl_perp_base_url cl @ ''/fapi/v1/order'',
      rq_payload = [(''symbol'', sy), (''side'', side), (''type'', ''MARKET''),
         (''quantity'', fmt_g q), (''reduceOnly'', if ro then ''true'' else ''false'')]
        @ opt_field ''recvWindow'' (map_option show_int h) @ opt_field ''newClientOrderId'' cid\<rparr>"
    by (auto simp: order_of_def opt_field_lookup opt_field_single)
qed

lemma run_adapter_hedge:
  assumes "allowed c" "oc_client c = Some cl"
    and guard: "guard_passes c (it_symbol i) (max (it_spot_notional i) (it_perp_notional i))"
  shows "steps_in R (adapter_open_hedge e cl i)" "steps_in R (adapter_close_hedge e cl i)"
proof -
  note spot = run_spot_order[OF assms] and perp = run_perp_order[OF assms]
  show "steps_in R (adapter_open_hedge e cl i)"
    unfolding adapter_open_hedge_def Let_def by (intro steps spot perp) (simp add: le_max_iff_disj)
  show "steps_in R (adapter_close_hedge e cl i)"
    unfolding adapter_close_hedge_def Let_def by (intro steps spot perp) simp
qed

lemma run_adapter_rebalance:
  assumes "allowed c" "oc_client c = Some cl" "guard_passes c sy x"
  shows "steps_in R (adapter_rebalance_perp e cl k sy sd q ro)"
  unfolding adapter_rebalance_perp_def Let_def by (intro steps run_perp_order[OF assms])

subsection \<open>Execution orchestrator\<close>

lemma run_orch_event [steps]:
  "steps_in R (orch_event e ty sm sv t p tg)" "steps_in R (intent_received e i t)"
  "steps_in R (live_leg_event e k r t z)" "steps_in R (live_leg_events e k rs t z)"
  "steps_in R (idempotent_replay e i t)"
  unfolding orch_event_def intent_received_def live_leg_events_def live_leg_event_def idempotent_replay_def
  by (intro steps)+

lemma run_guards [steps]: "steps_in R (safety_gate c i)" "steps_in R (validate_live c sy x)"
  unfolding safety_gate_def validate_live_def by (intro steps)+

lemma run_live_breaker:
  assumes "allowed c"
  shows "steps_in R (ensure_live_allowed e c k s t)" "steps_in R (live_breaker_failure e c k s t m)"
    "steps_in R (live_breaker_after e c k s a st t)"
proof -
  show fail: "steps_in R (live_breaker_failure e c k s t m)" for t m
    using allowed_breaker[OF assms]
    by (cases "oc_breaker c") (auto simp: live_breaker_failure_def intro!: steps broken)
  show "steps_in R (ensure_live_allowed e c k s t)"
    using allowed_breaker[OF assms]
    by (cases "oc_breaker c") (auto simp: ensure_live_allowed_def intro!: steps broken)
  show "steps_in R (live_breaker_after e c k s a st t)"
    using allowed_breaker[OF assms] fail
    by (cases "oc_breaker c") (auto simp: live_breaker_after_def intro!: steps broken)
qed

lemma run_paper [steps]: "steps_in R (execute_open e i t)" "steps_in R (execute_close e i t)"
  unfolding execute_open_def execute_close_def Let_def by (intro steps)+

lemma run_execute_live:
  assumes "allowed c" "guard_passes c (it_symbol i) (max (it_spot_notional i) (it_perp_notional i))"
  shows "steps_in R (execute_live e c i t)"
proof (cases "oc_client c")
  case (Some cl)
  show ?thesis
    unfolding execute_live_def execute_live_open_def execute_live_close_def finish_live_open_def
      finish_live_close_def Let_def Some option.case
    by (intro steps run_adapter_hedge[OF assms(1) Some assms(2)])
qed (simp add: execute_live_def steps_raise)

lemma run_execute:
  assumes ok: "allowed c"
  shows "steps_in R (execute e c i)"
proof -
  have "steps_in R (dispatch e c i t)" for t
    unfolding dispatch_def validate_live_request_def
    by (intro steps_if steps_thn_guard[OF run_guards(2) validate_live_passes] steps
        run_live_breaker[OF ok] run_execute_live[OF ok])
  then show ?thesis unfolding execute_def by (intro steps)
qed

lemma run_recover [steps]: "steps_in R (recover e q)"
  unfolding recover_def Let_def by (cases "rr_action q"; simp; intro steps)

lemma run_rebalance:
  assumes ok: "allowed c"
  shows "steps_in R (rebalance_hedge e c k d q n)"
proof -
  have "steps_in R (live_rebalance e c r d q t)" for r t
  proof (cases "oc_client c")
    case (Some cl)
    show ?thesis unfolding live_rebalance_def Some option.case
      by (intro steps_thn_guard[OF run_guards(2) validate_live_passes] steps
          run_live_breaker[OF ok] run_adapter_rebalance[OF ok Some])
  next
    case None
    then show ?thesis unfolding live_rebalance_def by (simp, intro steps run_live_breaker[OF ok])
  qed
  then show ?thesis unfolding rebalance_hedge_def Let_def by (intro steps run_live_breaker[OF ok])
qed

subsection \<open>Services\<close>

lemma run_hedge_reads [steps]:
  "steps_in R (hedge_overview_of e ebps)" "steps_in R (build_rebalance_plan k ebps)" "steps_in R (reference_price k)"
  "steps_in R (auto_rebalance_plans sy n ebps)"
  unfolding auto_rebalance_plans_def hedge_overview_of_def build_rebalance_plan_def reference_price_def Let_def
  by (intro steps)+

lemma run_hedge:
  assumes "allowed c"
  shows "steps_in R (execute_plan_item e c p)" "steps_in R (execute_auto_rebalance_actions e c sy n ebps)"
    "steps_in R (execute_rebalance_plan e c k ebps notes)"
proof -
  show item: "steps_in R (execute_plan_item e c p)" for p
    unfolding execute_plan_item_def Let_def by (intro steps run_rebalance[OF assms])
  show "steps_in R (execute_auto_rebalance_actions e c sy n ebps)"
    unfolding execute_auto_rebalance_actions_def by (intro steps item)
  show "steps_in R (execute_rebalance_plan e c k ebps notes)"
    unfolding execute_rebalance_plan_def Let_def by (intro steps run_rebalance[OF assms])
qed

lemma run_recon_reads [steps]:
  "steps_in R (list_candidates sy b)" "steps_in R (list_reports sy oid)" "steps_in R (build_summary e)"
  unfolding list_candidates_def list_reports_def build_summary_def reconciliation_records_def Let_def
  by (intro steps)+

lemma run_to_report [steps]: "steps_in R (to_exchange_report e k l v)"
proof -
  have time: "steps_in R (update_time_of e t)" for t
    by (cases t) (auto simp: update_time_of_def intro!: steps)
  have client_id: "steps_in R (case t of PNone \<Rightarrow> ret None | PStr c \<Rightarrow> ret (Some c)
      | _ \<Rightarrow> raise (ValidationError ''ExchangeOrderReport''))" for t
    by (cases t) (auto intro!: steps)
  show ?thesis
    by (cases v) (simp_all add: to_exchange_report_def Let_def, (intro steps time client_id)+)
qed

lemma run_sync [steps]:
  "steps_in R (upsert_reports rs)" "steps_in R (fetch_order e cl r q)"
  "steps_in R (sync_reports_for_trade e cl k)" "steps_in R (sync_attention_candidates e cl n)"
proof -
  show upsert: "steps_in R (upsert_reports rs)" for rs
    unfolding upsert_reports_def Let_def by (intro steps)
  show fetch: "steps_in R (fetch_order e cl r q)" for r q
    unfolding fetch_order_def by (intro steps)
  show sync: "steps_in R (sync_reports_for_trade e cl k)" for k
    unfolding sync_reports_for_trade_def Let_def by (intro steps upsert fetch)
  show "steps_in R (sync_attention_candidates e cl n)"
    unfolding sync_attention_candidates_def by (intro steps sync)
qed

lemma run_recovery [steps]:
  "steps_in R (recovery_list_plans sy b)" "steps_in R (execute_recovery_plan e p)"
  "steps_in R (execute_actionable_plans e n sy ks)"
proof -
  show plans: "steps_in R (recovery_list_plans sy b)"  for sy b
    unfolding recovery_list_plans_def Let_def by (intro steps)
  have action: "steps_in R (recovery_action_of a)" for a
    by (cases a) (auto simp: recovery_action_of_def intro!: steps)
  show item: "steps_in R (execute_recovery_plan e p)" for p
    unfolding execute_recovery_plan_def by (intro steps action)
  show "steps_in R (execute_actionable_plans e n sy ks)"
    unfolding execute_actionable_plans_def Let_def by (intro steps plans item)
qed

lemma run_comp_plans [steps]: "steps_in R (comp_list_plans sy b ebps)"
proof -
  have after: "steps_in R (comp_after_recovery r rec ebps)" for r rec
    by (auto simp: comp_after_recovery_def intro!: steps split: option.splits recommended.splits)
  have build: "steps_in R (comp_build_plan r cd rec ebps)" for r cd rec
    unfolding comp_build_plan_def by (intro steps after)
  show ?thesis unfolding comp_list_plans_def by (intro steps build)
qed

lemma run_compensation:
  assumes "allowed c"
  shows "steps_in R (execute_safe_actions e cl c sy n ebps)"
proof -
  have rebalance: "steps_in R (execute_rebalance_action e c p)" for p
    unfolding execute_rebalance_action_def Let_def by (intro steps run_rebalance[OF assms])
  have "steps_in R (comp_step e cl c p st)" for p st
    by (cases "cp_recommended_action p")
      (auto simp: comp_step_def execute_direct_safe_action_def Let_def intro!: steps rebalance split: prod.splits)
  moreover have "steps_in R (execute_recovery_actions e ps)" for ps
    unfolding execute_recovery_actions_def by (intro steps)
  ultimately show ?thesis
    unfolding execute_safe_actions_def Let_def by (intro steps)
qed

subsection \<open>Safety operations, scheduler, monitor\<close>

lemma run_emergency:
  assumes "allowed c"
  shows "steps_in R (emergency_close_all e c)" "steps_in R (panic_sell e c k)"
proof -
  have turn: "steps_in R (emergency_step e c r res)" for r res
    unfolding emergency_step_def by (intro steps run_execute[OF assms])
  show "steps_in R (emergency_close_all e c)"
    unfolding emergency_close_all_def Let_def by (intro steps turn)
  show "steps_in R (panic_sell e c k)"
    unfolding panic_sell_def by (intro steps run_execute[OF assms])
qed

lemma run_scheduler:
  assumes "allowed c"
  shows "steps_in R (run_cycle e sd c snaps md mo mn)"
proof -
  have trade: "steps_in R (open_trade e c md s d st)" for s d st
    unfolding open_trade_def Let_def by (intro steps run_execute[OF assms])
  have opens: "steps_in R (open_loop e c rc md mo mn ss st)" for rc ss st
    by (induction ss arbitrary: st) (auto simp: Let_def intro!: steps trade)
  have closes: "steps_in R (close_step e c sc r st)" for sc r st
    unfolding close_step_def close_trade_def Let_def by (intro steps run_execute[OF assms])
  show ?thesis
    unfolding run_cycle_def Let_def audit_service_save_record_def by (intro steps opens closes)
qed

lemma run_monitor:
  assumes "allowed c"
  shows "steps_in R (run_monitor_cycle e c scores mh)"
proof -
  have "steps_in R (monitor_step e c sc mh r st)" for sc r st
    unfolding monitor_step_def monitor_close_def Let_def by (intro steps run_execute[OF assms])
  then show ?thesis
    unfolding run_monitor_cycle_def Let_def audit_service_save_record_def by (intro steps)
qed

lemma run_market [steps]:
  "steps_in R (fetch_funding_rates e pc)" "steps_in R (fetch_perp_book_tickers e pc)"
  "steps_in R (fetch_spot_book_tickers e pc)" "steps_in R (fetch_perp_depth_snapshot e pc sy)"
  "steps_in R (fetch_spot_depth_snapshot e pc sy)"
  unfolding fetch_funding_rates_def fetch_perp_book_tickers_def fetch_spot_book_tickers_def
    fetch_perp_depth_snapshot_def fetch_spot_depth_snapshot_def
  by (intro steps)+

lemma run_snapshots [steps]: "steps_in R (fetch_snapshots e pc)"
  unfolding fetch_snapshots_def by (intro steps)

subsection \<open>Desk and console\<close>

lemma run_desk:
  assumes "allowed c"
  shows "steps_in R (execute_order e c r)"
  unfolding execute_order_def Let_def by (intro steps run_execute[OF assms])

lemma run_account [steps]:
  "steps_in R (get_balance e c)" "steps_in R (get_positions e c sy)" "steps_in R (get_account_summary e c)"
  unfolding get_account_summary_def get_balance_def get_positions_def with_client_def Let_def by (intro steps)+

lemma run_console [steps]:
  "steps_in R (get_scan_opportunities e cn f)" "steps_in R (route_scan e cn n b x)"
  "steps_in R (get_dashboard_summary e cn)" "steps_in R (execution_snapshot_of e n)"
proof -
  have rows: "steps_in R (depth_rows n f v)" if "\<And>x. steps_in R (f x)" for n f v
    unfolding depth_rows_def gathered_def by (intro steps that)
  show scan: "steps_in R (get_scan_opportunities e cn f)" for f
    unfolding get_scan_opportunities_def fetch_spot_rows_def fetch_perp_rows_def fetch_book_def Let_def
    by (intro steps rows)
  show "steps_in R (route_scan e cn n b x)" unfolding route_scan_def by (intro steps scan)
  show "steps_in R (get_dashboard_summary e cn)" unfolding get_dashboard_summary_def by (intro steps scan)
  show "steps_in R (execution_snapshot_of e n)" unfolding execution_snapshot_of_def by (intro steps)
qed

subsection \<open>Workers\<close>

lemma run_worker: "(\<And>c. orch = Some c \<Longrightarrow> steps_in R (body c)) \<Longrightarrow> steps_in R (run_once e m orch body f g l)"
  unfolding run_once_def by (cases orch) (auto intro!: steps)

lemma run_workers:
  assumes "\<And>c. orch = Some c \<Longrightarrow> allowed c"
  shows "steps_in R (compensation_run_once e cl orch l1)" "steps_in R (hedge_rebalance_run_once e orch l2)"
    "steps_in R (scheduler_run_once e sd pc md orch l3)" "steps_in R (monitor_run_once e pc orch l4)"
  unfolding compensation_run_once_def hedge_rebalance_run_once_def scheduler_run_once_def monitor_run_once_def
  by (intro run_worker steps run_compensation run_hedge run_scheduler run_monitor assms; assumption)+

lemma run_quiet_workers [steps]:
  "steps_in R (recovery_run_once e orch l1)" "steps_in R (reconciliation_run_once e oc l2)"
  unfolding recovery_run_once_def reconciliation_run_once_def by (intro run_worker steps)+

lemma run_answering [steps]: "steps_in R m \<Longrightarrow> steps_in R (answering n m)"
  unfolding answering_def by (intro steps)

lemma allowed_assembly:
  "allowed bare_orchestrator" "allowed guarded_orchestrator"
  "allowed (orchestrator_of s) \<Longrightarrow> allowed (recovery_orchestrator_of s)"
  by (auto simp: allowed_def guarded_order_def guard_passes_def bare_orchestrator_def guarded_orchestrator_def
      recovery_orchestrator_of_def)

end

locale importing_effect = backend_effect +
  assumes ledger_replaced: "R w (w\<lparr>w_ledger := rs\<rparr>)"
    and log_replaced: "R w (w\<lparr>w_events := evs\<rparr>)"
begin

lemma run_imports [steps]:
  "steps_in R (route_import_ledger rs m)" "steps_in R (route_import_events evs m)"
proof -
  have ledger: "steps_in R (modify (\<lambda>w. w\<lparr>w_ledger := rs\<rparr>))" for rs
    by (simp add: steps_in_def modify_def ledger_replaced)
  have log: "steps_in R (modify (\<lambda>w. w\<lparr>w_events := evs\<rparr>))" for evs
    by (simp add: steps_in_def modify_def log_replaced)
  show "steps_in R (route_import_ledger rs m)"
    unfolding route_import_ledger_def import_records_def ledger_save_def by (cases m; simp; intro steps ledger)
  show "steps_in R (route_import_events evs m)"
    unfolding route_import_events_def import_events_def audit_save_def by (cases m; simp; intro steps log)
qed

end

subsection \<open>The application\<close>

datatype trading_request =
    PostExecute intent
  | PostRecover recovery_request
  | PostBreakerReset
  | PostRebalance string float64 float64 "string option"
  | PostRebalanceAuto string "(float64 \<times> string option) option"
  | PostSyncTrade string
  | PostSyncAttention "int option"
  | PostRecovery "int option" "string option"
  | PostCompensation "string option" "int option" float64
  | PostOrder manual_order
  | ImportReports "order_report list" write_mode
  | ImportLedger "ledger_record list" write_mode
  | ImportEvents "audit_event list" write_mode

datatype page_request =
    GetBreaker
  | GetExecution int
  | GetHedge float64
  | GetHedgePlan string float64
  | GetReports "string option" "string option"
  | GetReconSummary
  | GetCandidates "string option" bool
  | GetRecoveryPlans "string option" bool
  | GetCompPlans "string option" bool float64
  | GetLedger "string option" "string option" "string option"
  | GetEvents "string option" "string option" "int option"
  | GetScan console int bool "float64 option"
  | GetDashboard console
  | GetBalance
  | GetPositions "string option"
  | GetAccount
  | GetSafety

datatype safety_request =
    PostFreeze
  | PostUnfreeze
  | PostStopNew
  | PostResumeNew
  | PostReduceOnly
  | PostClearReduceOnly
  | PostPause
  | PostUnpause
  | PostEmergencyClose
  | PostPanicSell

datatype request =
    Trading trading_request
  | Page page_request
  | Switch safety_request "string option" "string option" \<comment> \<open>\<open>SafetyActionRequest\<close>: trade and reason\<close>

definition discarded :: "('w, 'a) py \<Rightarrow> ('w, unit) py" where
  "discarded m = bnd m (\<lambda>_. ret ())"

text \<open>The handlers of the routers of \<open>app\<close>; what they answer is left out.\<close>

primrec serve_trading :: "env \<Rightarrow> settings \<Rightarrow> trading_request \<Rightarrow> (world, unit) py" where
  "serve_trading e s (PostExecute i) = discarded (route_execute e s i)"
| "serve_trading e s (PostRecover q) = discarded (route_recover e q)"
| "serve_trading e s PostBreakerReset = discarded (route_breaker_reset e s)"
| "serve_trading e s (PostRebalance k q x n) = discarded (route_hedge_rebalance e s k q x n)"
| "serve_trading e s (PostRebalanceAuto k x) = discarded (route_hedge_rebalance_auto e s k x)"
| "serve_trading e s (PostSyncTrade k) = discarded (route_sync_trade e s k)"
| "serve_trading e s (PostSyncAttention n) = discarded (route_sync_attention e s n)"
| "serve_trading e s (PostRecovery n y) = discarded (route_execute_recovery e n y)"
| "serve_trading e s (PostCompensation y n x) = discarded (route_execute_compensation e s y n x)"
| "serve_trading e s (PostOrder r) = discarded (route_execute_order e None r)"
| "serve_trading e s (ImportReports rs m) = discarded (route_import_reports rs m)"
| "serve_trading e s (ImportLedger rs m) = discarded (route_import_ledger rs m)"
| "serve_trading e s (ImportEvents evs m) = discarded (route_import_events evs m)"

primrec serve_page :: "env \<Rightarrow> settings \<Rightarrow> page_request \<Rightarrow> (world, unit) py" where
  "serve_page e s GetBreaker = discarded (route_breaker_state e s)"
| "serve_page e s (GetExecution n) = discarded (route_execution_summary e n)"
| "serve_page e s (GetHedge x) = discarded (route_hedge_overview e x)"
| "serve_page e s (GetHedgePlan k x) = discarded (route_hedge_plan k x)"
| "serve_page e s (GetReports y i) = discarded (route_list_reports y i)"
| "serve_page e s GetReconSummary = discarded (route_recon_summary e)"
| "serve_page e s (GetCandidates y b) = discarded (route_recon_candidates y b)"
| "serve_page e s (GetRecoveryPlans y b) = discarded (route_recovery_plans y b)"
| "serve_page e s (GetCompPlans y b x) = discarded (route_comp_plans y b x)"
| "serve_page e s (GetLedger m st y) = discarded (route_list_ledger m st y)"
| "serve_page e s (GetEvents v src n) = discarded (route_list_events v src n)"
| "serve_page e s (GetScan cn n b x) = discarded (route_scan e cn n b x)"
| "serve_page e s (GetDashboard cn) = discarded (get_dashboard_summary e cn)"
| "serve_page e s GetBalance = discarded (route_account_balance e s)"
| "serve_page e s (GetPositions y) = discarded (route_account_positions e s y)"
| "serve_page e s GetAccount = discarded (route_account_summary e s)"
| "serve_page e s GetSafety = discarded safety_get_state"

primrec serve_safety :: "env \<Rightarrow> safety_request \<Rightarrow> string option \<Rightarrow> string option \<Rightarrow> (world, unit) py" where
  \<comment> \<open>\<open>app.state.execution_orchestrator\<close> is never set\<close>
  "serve_safety e PostFreeze k r = discarded (freeze_all e r)"
| "serve_safety e PostUnfreeze k r = discarded (unfreeze_all e r)"
| "serve_safety e PostStopNew k r = discarded (stop_new_positions e r)"
| "serve_safety e PostResumeNew k r = discarded (resume_new_positions e r)"
| "serve_safety e PostReduceOnly k r = discarded (route_reduce_only e k r)"
| "serve_safety e PostClearReduceOnly k r = discarded (route_clear_reduce_only e k r)"
| "serve_safety e PostPause k r = discarded (route_pause e k r)"
| "serve_safety e PostUnpause k r = discarded (route_unpause e k r)"
| "serve_safety e PostEmergencyClose k r = discarded (route_emergency_close_all e None)"
| "serve_safety e PostPanicSell k r = discarded (route_panic_sell e None k)"

primrec serve :: "env \<Rightarrow> settings \<Rightarrow> request \<Rightarrow> (world, unit) py" where
  "serve e s (Trading q) = serve_trading e s q"
| "serve e s (Page q) = serve_page e s q"
| "serve e s (Switch q k r) = serve_safety e q k r"

definition rewrites_history :: "trading_request \<Rightarrow> bool" where
  "rewrites_history q \<longleftrightarrow> (\<exists>rs m. q = ImportLedger rs m) \<or> (\<exists>evs m. q = ImportEvents evs m)"

lemma rewrites_history_simps [simp]:
  "rewrites_history (ImportLedger rs m)" "rewrites_history (ImportEvents evs m)"
  by (simp_all add: rewrites_history_def)

datatype worker_id = HedgeWorker | ReconciliationWorker | RecoveryWorker | CompensationWorker
  | MonitorWorker | SchedulerWorker

datatype action = Serve request | Work worker_id worker_event | Shutdown

definition extends_history :: "action \<Rightarrow> bool" where
  \<comment> \<open>every action but the import of ledger records or events\<close>
  "extends_history a \<longleftrightarrow> (\<forall>q. a = Serve (Trading q) \<longrightarrow> \<not> rewrites_history q)"

definition default_scheduler :: scheduler where
  "default_scheduler = \<lparr>sd_score_config = None, sd_risk_config = default_risk_config\<rparr>"

inductive system_step :: "env \<Rightarrow> settings \<Rightarrow> backend \<times> world \<Rightarrow> action \<Rightarrow> backend \<times> world \<Rightarrow> bool"
  for e :: env and s :: settings where
  served: "system_step e s (b, w) (Serve q) (b, snd (serve e s q w))"
| hedge: "ev \<in> {LoopTurn, RunRequested} \<Longrightarrow>
    worker_step True (hedge_rebalance_run_once e (Some (orchestrator_of s))) (bk_hedge b, w) ev (wk, w') \<Longrightarrow>
    system_step e s (b, w) (Work HedgeWorker ev) (b\<lparr>bk_hedge := wk\<rparr>, w')"
| reconciliation: "ev \<in> {LoopTurn, RunRequested} \<Longrightarrow>
    worker_step (live_client_of s \<noteq> None) (reconciliation_run_once e (live_client_of s))
      (bk_reconciliation b, w) ev (wk1, w') \<Longrightarrow>
    system_step e s (b, w) (Work ReconciliationWorker ev) (b\<lparr>bk_reconciliation := wk1\<rparr>, w')"
| recovery: "ev \<in> {LoopTurn, RunRequested} \<Longrightarrow>
    worker_step True (recovery_run_once e (Some (recovery_orchestrator_of s))) (bk_recovery b, w) ev (wk2, w') \<Longrightarrow>
    system_step e s (b, w) (Work RecoveryWorker ev) (b\<lparr>bk_recovery := wk2\<rparr>, w')"
| compensation: "ev \<in> {LoopTurn, RunRequested} \<Longrightarrow>
    worker_step True (compensation_run_once e (trading_client_of s) (Some (orchestrator_of s)))
      (bk_compensation b, w) ev (wk3, w') \<Longrightarrow>
    system_step e s (b, w) (Work CompensationWorker ev) (b\<lparr>bk_compensation := wk3\<rparr>, w')"
| monitoring: "ev \<in> {LoopTurn, RunRequested} \<Longrightarrow>
    worker_step True (monitor_run_once e (public_client_of s) (Some guarded_orchestrator))
      (bk_monitor b, w) ev (wk4, w') \<Longrightarrow>
    system_step e s (b, w) (Work MonitorWorker ev) (b\<lparr>bk_monitor := wk4\<rparr>, w')"
| scheduling: "ev \<in> {LoopTurn, RunRequested} \<Longrightarrow>
    worker_step True (scheduler_run_once e default_scheduler (public_client_of s) (se_app_mode s)
      (Some guarded_orchestrator)) (bk_scheduler b, w) ev (wk5, w') \<Longrightarrow>
    system_step e s (b, w) (Work SchedulerWorker ev) (b\<lparr>bk_scheduler := wk5\<rparr>, w')"
| halted: "system_step e s (b, w) Shutdown (shutdown b, w)"

inductive system_run :: "env \<Rightarrow> settings \<Rightarrow> backend \<times> world \<Rightarrow> action list \<Rightarrow> backend \<times> world \<Rightarrow> bool"
  for e :: env and s :: settings where
  rested: "system_run e s c [] c"
| advanced: "system_run e s c as d \<Longrightarrow> system_step e s d a f \<Longrightarrow> system_run e s c (as @ [a]) f"

inductive_cases system_stepE:
  "system_step e s c (Serve q) d" "system_step e s c (Work HedgeWorker ev) d"
  "system_step e s c (Work ReconciliationWorker ev) d" "system_step e s c (Work RecoveryWorker ev) d"
  "system_step e s c (Work CompensationWorker ev) d" "system_step e s c (Work MonitorWorker ev) d"
  "system_step e s c (Work SchedulerWorker ev) d" "system_step e s c Shutdown d"

context backend_effect
begin

lemma run_discarded [steps]: "steps_in R m \<Longrightarrow> steps_in R (discarded m)"
  unfolding discarded_def by (intro steps)

lemma run_breaker_page: "breakers (breaker_of s) \<Longrightarrow>
    steps_in R (route_breaker_state e s) \<and> steps_in R (route_breaker_reset e s)"
  unfolding route_breaker_state_def route_breaker_reset_def by (simp add: broken)

lemmas page_routes = route_execution_summary_def route_hedge_overview_def route_hedge_plan_def
  route_list_reports_def route_recon_summary_def route_recon_candidates_def route_recovery_plans_def
  route_comp_plans_def route_list_ledger_def route_list_events_def route_account_balance_def
  route_account_positions_def route_account_summary_def safety_get_state_def

lemma run_serve_page: "breakers (breaker_of s) \<Longrightarrow> steps_in R (serve_page e s q)"
  using run_breaker_page by (cases q) (auto simp: page_routes intro!: steps split: option.splits)

lemma run_serve_safety: "steps_in R (serve_safety e q k r)"
  by (cases q)
    (auto simp: route_reduce_only_def route_clear_reduce_only_def route_pause_def route_unpause_def
      route_emergency_close_all_def route_panic_sell_def with_trade_id_def with_orchestrator_def
      intro!: steps split: option.splits)

lemmas trading_routes = route_execute_def route_recover_def route_hedge_rebalance_def route_hedge_plan_def
  route_hedge_rebalance_auto_def route_sync_trade_def route_sync_attention_def route_execute_recovery_def
  route_execute_compensation_def route_execute_order_def route_import_reports_def import_reports_def

lemma run_serve_trading:
  assumes "allowed (orchestrator_of s)" "breakers (breaker_of s)" "\<not> rewrites_history q"
  shows "steps_in R (serve_trading e s q)"
  using assms(3) run_breaker_page[OF assms(2)]
  by (cases q)
    (auto simp: trading_routes intro!: steps run_execute[OF assms(1)] run_rebalance[OF assms(1)]
      run_hedge[OF assms(1)] run_compensation[OF assms(1)] run_desk allowed_assembly split: option.splits)

lemma assembly_breaker: "allowed (orchestrator_of s) \<Longrightarrow> breakers (breaker_of s)"
  by (erule allowed_breaker) (simp add: orchestrator_of_def)

lemma worker_step_kept:
  assumes "worker_step cfg run (wk, w) ev (wk', w')" "ev \<in> {LoopTurn, RunRequested}" "\<And>l. steps_in R (run l)"
  shows "R w w'"
  using assms(1,2) steps_inD[OF assms(3)] by (cases rule: worker_step.cases) auto

lemma system_step_kept:
  assumes "system_step e s (b, w) a (b', w')" and ok: "allowed (orchestrator_of s)"
    and serving: "\<And>q. a = Serve q \<Longrightarrow> steps_in R (serve e s q)"
  shows "R w w'"
  using assms(1)
proof (cases rule: system_step.cases)
  case (served q)
  then show ?thesis using serving by (simp add: steps_in_def)
next
  case (hedge ev wk)
  then show ?thesis using run_workers(2)[of "Some (orchestrator_of s)"] ok by (blast intro: worker_step_kept)
next
  case (reconciliation ev wk)
  then show ?thesis using run_quiet_workers(2) by (blast intro: worker_step_kept)
next
  case (recovery ev wk)
  then show ?thesis using run_quiet_workers(1) by (blast intro: worker_step_kept)
next
  case (compensation ev wk)
  then show ?thesis using run_workers(1)[of "Some (orchestrator_of s)"] ok by (blast intro: worker_step_kept)
next
  case (monitoring ev wk)
  then show ?thesis using run_workers(4)[of "Some guarded_orchestrator"] allowed_assembly(2) by (blast intro: worker_step_kept)
next
  case (scheduling ev wk)
  then show ?thesis using run_workers(3)[of "Some guarded_orchestrator"] allowed_assembly(2) by (blast intro: worker_step_kept)
next
  case halted
  then show ?thesis by (simp add: R_refl)
qed

lemma system_run_kept:
  assumes "system_run e s c as d" and ok: "allowed (orchestrator_of s)"
    and serving: "\<And>q. Serve q \<in> set as \<Longrightarrow> steps_in R (serve e s q)"
  shows "R (snd c) (snd d)"
  using assms(1) serving
proof (induction rule: system_run.induct)
  case (rested c)
  then show ?case by (simp add: R_refl)
next
  case (advanced c as d a f)
  have "R (snd d) (snd f)"
    using system_step_kept[of e s "fst d" "snd d" a "fst f" "snd f"] advanced.hyps(2) advanced.prems ok by simp
  then show ?case using advanced R_trans by simp
qed

lemma serve_kept: "allowed (orchestrator_of s) \<Longrightarrow> extends_history (Serve q) \<Longrightarrow> steps_in R (serve e s q)"
  by (cases q) (auto simp: extends_history_def run_serve_page run_serve_safety run_serve_trading assembly_breaker)

end

context importing_effect
begin

lemma serve_any_kept: "allowed (orchestrator_of s) \<Longrightarrow> steps_in R (serve e s q)"
proof (cases "extends_history (Serve q)")
  case False
  then show ?thesis by (auto simp: extends_history_def rewrites_history_def intro!: steps)
qed (rule serve_kept)

lemma system_run_any_kept: "system_run e s c as d \<Longrightarrow> allowed (orchestrator_of s) \<Longrightarrow> R (snd c) (snd d)"
  by (erule system_run_kept, assumption, rule serve_any_kept)

end

subsection \<open>The three interpretations\<close>

text \<open>Every order sent is one the live guards of \<open>orchestrator_of s\<close> let through.\<close>

definition permitted :: "settings \<Rightarrow> http_request \<Rightarrow> bool" where
  "permitted s q \<longleftrightarrow> rq_method q = GET \<or> guarded_order (orchestrator_of s) q"

definition sends_permitted :: "settings \<Rightarrow> world \<Rightarrow> world \<Rightarrow> bool" where
  "sends_permitted s w w' \<longleftrightarrow> (\<exists>qs. w_sent w' = w_sent w @ qs \<and> list_all (permitted s) qs)"

lemma sends_permitted_silent: "silent w w' \<Longrightarrow> sends_permitted s w w'"
  by (simp add: silent_def sends_permitted_def)

lemma steps_manual_reset [steps]:
  "steps_in log_grows (manual_reset e b t)" "steps_in silent (manual_reset e b t)"
  "steps_in ledger_kept (manual_reset e b t)" "steps_in safety_kept (manual_reset e b t)"
  unfolding manual_reset_def by (intro steps)+

lemmas breaker_ops_silent = steps_breaker_get_state(2) steps_ensure_allows(2) steps_record_failure(2)
  steps_record_success(2) steps_manual_reset(2)

interpretation orders: importing_effect "sends_permitted s" "\<lambda>_. True" "permitted s" for s
proof unfold_locales
  show "sends_permitted s u v \<Longrightarrow> sends_permitted s v w \<Longrightarrow> sends_permitted s u w" for u v w
    by (fastforce simp: sends_permitted_def)
qed (auto simp: sends_permitted_def permitted_def intro: breaker_ops_silent steps_in_mono[OF _ sends_permitted_silent])

lemma orders_allowed: "orders.allowed s (orchestrator_of s)"
  by (simp add: orders.allowed_def permitted_def)

text \<open>History is only extended: the log, the requests and the trades of the ledger.\<close>

definition history_extended :: "world \<Rightarrow> world \<Rightarrow> bool" where
  "history_extended w w' \<longleftrightarrow> prefix (w_events w) (w_events w') \<and> prefix (w_sent w) (w_sent w')
     \<and> prefix (map lr_trade_id (w_ledger w)) (map lr_trade_id (w_ledger w'))
     \<and> (one_per_trade w \<longrightarrow> one_per_trade w')"

definition breaker_kept_quiet :: "world \<Rightarrow> world \<Rightarrow> bool" where
  \<comment> \<open>what a breaker operation leaves as it is\<close>
  "breaker_kept_quiet w w' \<longleftrightarrow> w_events w' = w_events w \<and> w_sent w' = w_sent w \<and> w_ledger w' = w_ledger w"

interpretation breaker_quiet: effect breaker_kept_quiet
  by unfold_locales (auto simp: breaker_kept_quiet_def)

lemma breaker_ops_quiet:
  "steps_in breaker_kept_quiet (breaker_get_state e b t)" "steps_in breaker_kept_quiet (ensure_allows_execution e b t)"
  "steps_in breaker_kept_quiet (record_failure e b k m t)" "steps_in breaker_kept_quiet (record_success e b k t)"
  "steps_in breaker_kept_quiet (manual_reset e b t)"
proof -
  have prim: "steps_in breaker_kept_quiet (or_now e t)" "steps_in breaker_kept_quiet (breaker_save st)"
    "steps_in breaker_kept_quiet (breaker_load_state e b)" for t st
    by (auto simp: steps_in_def breaker_kept_quiet_def or_now_def breaker_load_state_def breaker_load_def py_simps
        split: option.splits prod.splits sum.splits)
  show get: "steps_in breaker_kept_quiet (breaker_get_state e b t)" for t
    unfolding breaker_get_state_def by (intro steps prim)
  show "steps_in breaker_kept_quiet (ensure_allows_execution e b t)"
    unfolding ensure_allows_execution_def by (intro steps get)
  show "steps_in breaker_kept_quiet (record_failure e b k m t)"
    unfolding record_failure_def Let_def by (intro steps get prim)
  show "steps_in breaker_kept_quiet (record_success e b k t)"
    unfolding record_success_def by (intro steps get prim)
  show "steps_in breaker_kept_quiet (manual_reset e b t)"
    unfolding manual_reset_def by (intro steps get prim)
qed

lemma history_quiet: "breaker_kept_quiet w w' \<Longrightarrow> history_extended w w'"
  by (simp add: breaker_kept_quiet_def history_extended_def one_per_trade_def)

lemma history_saved: "history_extended w (set_ledger r w)"
  using one_per_trade_set[of w r] by (auto simp: history_extended_def upsert_keys)

interpretation history: backend_effect history_extended "\<lambda>_. True" "\<lambda>_. True"
proof unfold_locales
  show "history_extended u v \<Longrightarrow> history_extended v w \<Longrightarrow> history_extended u w" for u v w
    by (auto simp: history_extended_def intro: prefix_order.trans)
  show "history_extended w (set_ledger r w)" for w r by (rule history_saved)
qed (auto simp: history_extended_def one_per_trade_def intro: breaker_ops_quiet steps_in_mono[OF _ history_quiet])

text \<open>The invariant of the circuit breaker.\<close>

definition breaker_sound :: "breaker_config \<Rightarrow> world \<Rightarrow> world \<Rightarrow> bool" where
  "breaker_sound b w w' \<longleftrightarrow> (breaker_inv b w \<longrightarrow> breaker_inv b w')"

lemma breaker_inv_cong: "w_breaker w' = w_breaker w \<Longrightarrow> breaker_inv b w' = breaker_inv b w"
  by (simp add: breaker_inv_def)

lemma or_now_cases:
  obtains t w' where "or_now e now w = (Inr t, w')" "w_breaker w' = w_breaker w"
proof (cases now)
  case None
  show ?thesis
    by (rule that[of "env_now e (w_ticks w)" "w\<lparr>w_ticks := Suc (w_ticks w)\<rparr>"])
      (simp_all add: None or_now_None utc_now_run)
next
  case (Some t)
  show ?thesis by (rule that[of t w]) (simp_all add: Some or_now_Some)
qed

lemma get_state_any:
  assumes inv: "breaker_inv b w"
  obtains st w' where "breaker_get_state e b now w = (Inr st, w')" "breaker_inv b w'"
    "breaker_state_inv b st" "configured b st"
proof -
  obtain st w1 where load: "breaker_load_state e b w = (Inr st, w1)" "breaker_inv b w1"
    "breaker_state_inv b st" "configured b st" using load_state_refines[OF inv] by metis
  obtain t w2 where now: "or_now e now w1 = (Inr t, w2)" "w_breaker w2 = w_breaker w1"
    by (rule or_now_cases)
  have w2: "breaker_inv b w2" using load(2) breaker_inv_cong[OF now(2)] by simp
  have th: "1 \<le> bc_failure_threshold b" using inv by (simp add: breaker_inv_def)
  show ?thesis
  proof (cases "cb_is_open st \<and> (case cb_resume_at st of None \<Rightarrow> False | Some r \<Rightarrow> r \<le> t)")
    case True
    then have "breaker_get_state e b now w
        = (Inr (close_breaker st t), w2\<lparr>w_breaker := Some (close_breaker st t)\<rparr>)"
      by (simp add: breaker_get_state_def bnd_run load(1) now(1) breaker_save_run)
    then show ?thesis
      using that breaker_inv_saved[OF w2 close_inv[OF load(3) th]] close_inv[OF load(3) th] close_configured[OF load(4)]
      by blast
  next
    case False
    then have "breaker_get_state e b now w = (Inr st, w2)"
      by (auto simp: breaker_get_state_def bnd_run load(1) now(1) ret_run)
    then show ?thesis using that w2 load(3,4) by blast
  qed
qed

lemma breaker_sound_ops:
  "steps_in (breaker_sound b) (breaker_get_state e b t)" "steps_in (breaker_sound b) (ensure_allows_execution e b t)"
  "steps_in (breaker_sound b) (record_failure e b k m t)" "steps_in (breaker_sound b) (record_success e b k t)"
  "steps_in (breaker_sound b) (manual_reset e b t)"
proof -
  have at: "steps_in (breaker_sound b) (bnd (or_now e t) f)" if "\<And>x. steps_in (breaker_sound b) (f x)" for f t
  proof (rule steps_inI)
    fix w r w' assume run: "bnd (or_now e t) f w = (r, w')"
    obtain x w1 where now: "or_now e t w = (Inr x, w1)" "w_breaker w1 = w_breaker w" by (rule or_now_cases)
    then have "f x w1 = (r, w')" using run by (simp add: bnd_run)
    then have "breaker_sound b w1 w'" using steps_inD[OF that] by simp
    then show "breaker_sound b w w'" using breaker_inv_cong[OF now(2)] by (simp add: breaker_sound_def)
  qed
  show get: "steps_in (breaker_sound b) (breaker_get_state e b t)" for t
  proof (rule steps_inI)
    fix w r w' assume run: "breaker_get_state e b t w = (r, w')"
    show "breaker_sound b w w'"
      unfolding breaker_sound_def using get_state_any[of b w e t] run by (metis prod.inject)
  qed
  have after: "steps_in (breaker_sound b) (bnd (breaker_get_state e b t) f)"
    if post: "\<And>st w. breaker_inv b w \<Longrightarrow> breaker_state_inv b st \<Longrightarrow> configured b st \<Longrightarrow> breaker_inv b (snd (f st w))"
    for f t
  proof (rule steps_inI)
    fix w r w' assume run: "bnd (breaker_get_state e b t) f w = (r, w')"
    have "breaker_inv b w'" if inv: "breaker_inv b w"
    proof -
      obtain st w1 where st: "breaker_get_state e b t w = (Inr st, w1)" "breaker_inv b w1"
        "breaker_state_inv b st" "configured b st" using get_state_any[OF inv] by metis
      then have "f st w1 = (r, w')" using run by (simp add: bnd_run)
      then show ?thesis using post[OF st(2-4)] by simp
    qed
    then show "breaker_sound b w w'" by (simp add: breaker_sound_def)
  qed
  show "steps_in (breaker_sound b) (ensure_allows_execution e b t)"
    unfolding ensure_allows_execution_def by (rule after) (simp add: raise_run ret_run)
  show "steps_in (breaker_sound b) (record_failure e b k m t)"
    unfolding record_failure_def Let_def
    by (intro at after) (auto simp: breaker_save_run ret_run configured_def breaker_state_inv_def
        intro!: breaker_inv_saved)
  show "steps_in (breaker_sound b) (record_success e b k t)"
    unfolding record_success_def
    by (intro at after) (auto simp: breaker_save_run ret_run breaker_state_inv_def close_breaker_def breaker_inv_def)
  show "steps_in (breaker_sound b) (manual_reset e b t)"
    unfolding manual_reset_def
    by (intro at after) (auto simp: breaker_save_run breaker_state_inv_def close_breaker_def breaker_inv_def)
qed

interpretation breaker_guard: importing_effect "breaker_sound b" "\<lambda>c. c = b" "\<lambda>_. True" for b
proof unfold_locales
  show "breaker_sound b u v \<Longrightarrow> breaker_sound b v w \<Longrightarrow> breaker_sound b u w" for u v w
    by (simp add: breaker_sound_def)
qed (auto simp: breaker_sound_def breaker_inv_def intro: breaker_sound_ops)

lemma history_allowed: "history.allowed c"
  by (simp add: history.allowed_def)

lemma breaker_allowed: "breaker_guard.allowed (breaker_of s) (orchestrator_of s)"
  by (simp add: breaker_guard.allowed_def orchestrator_of_def)

subsection \<open>Properties of the running system\<close>

definition order_within :: "settings \<Rightarrow> http_request \<Rightarrow> bool" where
  \<comment> \<open>a read, or an order within the live settings\<close>
  "order_within s q \<longleftrightarrow> rq_method q = GET \<or>
     (se_live_execution_enabled s \<and> se_api_key s \<noteq> [] \<and> se_api_secret s \<noteq> []
      \<and> rq_url q \<in> {se_spot_base_url s @ ''/api/v3/order'', se_perp_base_url s @ ''/fapi/v1/order''}
      \<and> (\<exists>symbol. map_of (rq_payload q) ''symbol'' = Some symbol
           \<and> (symbol \<in> set (allowlist_of (se_live_symbol_allowlist s))
              \<or> allowlist_of (se_live_symbol_allowlist s) = []))
      \<and> (case map_of (rq_payload q) ''quoteOrderQty'' of None \<Rightarrow> True
         | Some v \<Rightarrow> \<exists>y. y \<le> se_max_live_notional s \<and> v = fmt_g y))"

lemma permitted_within: "permitted s q \<Longrightarrow> order_within s q"
proof -
  assume "permitted s q"
  then consider "rq_method q = GET"
    | cl symbol notional where "live_client_of s = Some cl" "guard_passes (orchestrator_of s) symbol notional"
        "order_of cl symbol notional q"
    by (auto simp: permitted_def guarded_order_def orchestrator_of_def)
  then show ?thesis
  proof cases
    case 2
    from 2(1) have cl: "cl = trading_client_of s" "se_api_key s \<noteq> []" "se_api_secret s \<noteq> []"
      by (simp_all add: live_client_of_def split: if_splits)
    from 2(2) have live: "se_live_execution_enabled s"
      and listed: "symbol \<in> set (allowlist_of (se_live_symbol_allowlist s)) \<or> allowlist_of (se_live_symbol_allowlist s) = []"
      and most: "notional \<le> se_max_live_notional s"
      by (simp_all add: guard_passes_def orchestrator_of_def disj_commute)
    from 2(3) have url: "rq_url q \<in> {se_spot_base_url s @ ''/api/v3/order'', se_perp_base_url s @ ''/fapi/v1/order''}"
      and symbol: "map_of (rq_payload q) ''symbol'' = Some symbol"
      and quote: "\<And>v. map_of (rq_payload q) ''quoteOrderQty'' = Some v \<Longrightarrow> \<exists>y. y \<le> notional \<and> v = fmt_g y"
      by (simp_all add: order_of_def cl(1) trading_client_of_def)
    have "case map_of (rq_payload q) ''quoteOrderQty'' of None \<Rightarrow> True
        | Some v \<Rightarrow> \<exists>y. y \<le> se_max_live_notional s \<and> v = fmt_g y"
    proof (cases "map_of (rq_payload q) ''quoteOrderQty''")
      case (Some v)
      then show ?thesis using quote[OF Some] most order_trans by fastforce
    qed simp
    then show ?thesis unfolding order_within_def using live cl(2,3) url symbol listed by blast
  qed (simp add: order_within_def)
qed

text \<open>
  C22: Whatever sequence of requests (imports included), worker turns and shutdown the backend
  runs through, every request it sends to the exchange is a read or an order that respects the
  live settings: live execution is enabled, the keys are set, the URL is one of the two order
  endpoints, the symbol is on the allowlist (when there is one) and an amount in quote currency
  is at most the notional limit. Requests sent before stay as they were.
\<close>

theorem live_orders_guarded:
  assumes "system_run e s (b0, w0) actions (b, w)"
  shows "\<exists>qs. w_sent w = w_sent w0 @ qs \<and> list_all (order_within s) qs"
  using orders.system_run_any_kept[OF assms orders_allowed]
  by (auto simp: sends_permitted_def list_all_iff permitted_within)

definition live_settings :: settings where
  "live_settings = default_settings\<lparr>se_api_key := ''k'', se_api_secret := ''s'', se_live_execution_enabled := True\<rparr>"

definition live_intent :: intent where
  "live_intent = (sample_intent Live OpenHedge)\<lparr>it_perp_quantity := Some 1\<rparr>"

lemma live_client: "live_client_of live_settings = Some (trading_client_of live_settings)"
  by (simp add: live_client_of_def live_settings_def)

lemma live_fields:
  "oc_client (orchestrator_of live_settings) = Some (trading_client_of live_settings)"
  "oc_live_enabled (orchestrator_of live_settings)" "oc_max_live_notional (orchestrator_of live_settings) = Some 25000"
  "oc_allowlist (orchestrator_of live_settings) = [''BTCUSDT'', ''ETHUSDT'', ''SOLUSDT'']"
  "\<not> oc_safety (orchestrator_of live_settings)" "oc_breaker (orchestrator_of live_settings) = Some (breaker_of live_settings)"
  using allowlist_default by (simp_all add: orchestrator_of_def live_client) (simp_all add: live_settings_def default_settings_def)

lemma live_creds: "has_credentials (trading_client_of live_settings)"
  by (simp add: has_credentials_def trading_client_of_def live_settings_def)

lemma adapter_sends: "w_sent (snd (adapter_open_hedge sample_env (trading_client_of live_settings) live_intent w)) \<noteq> []"
  using live_creds
  by (simp add: adapter_open_hedge_def live_intent_def positive_def thn_run require_def ret_run Let_def bnd_run 
    submit_with_safe_retry_def attempt_run place_spot_market_order_def place_perp_market_order_def signed_request_def has_credentials_def
    send_run sample_env_def leg_report_of_def sample_intent_def)
lemma live_intent_fields:
  "valid_intent live_intent" "it_mode live_intent = Live" "it_action live_intent = OpenHedge"
  "it_trade_id live_intent = ''t1''" "it_symbol live_intent = ''BTCUSDT''"
  "it_spot_notional live_intent = 1000" "it_perp_notional live_intent = 1000"
  by (simp_all add: live_intent_def valid_intent_def sample_intent_def)

lemma live_intent_ready: "live_ready (orchestrator_of live_settings) live_intent t (sample_world [])"
proof -
  have b: "breaker_of live_settings = \<lparr>bc_enabled = True, bc_failure_threshold = 2, bc_cooldown_seconds = 300\<rparr>"
    by (simp add: breaker_of_def live_settings_def default_settings_def)
  have "\<not> guard_fails (orchestrator_of live_settings) ''BTCUSDT'' (max 1000 1000)"
    using live_fields by (simp add: guard_fails_def)
  moreover have "breaker_allows (orchestrator_of live_settings) t (sample_world [])"
    using live_fields by (simp add: breaker_allows_def b breaker_inv_def blocks_def breaker_abs_of_def expire_def)
  ultimately show ?thesis
    using live_fields by (simp add: live_ready_def gate_open_def live_intent_fields)
qed

lemma live_open_sent:
  assumes "readable w" "valid_intent i"
  shows "\<exists>w1. w_sent (snd (execute_live_open e cl i t w)) = w_sent (snd (adapter_open_hedge e cl i w1))"
proof -
  obtain w1 where w1: "case adapter_open_hedge e cl i w1 of
      (Inl exc, w2) \<Rightarrow> execute_live_open e cl i t w = (Inl exc, w2)
        \<and> w_ledger w2 = upsert lr_trade_id (candidate_of i t) (w_ledger w)
    | (Inr reports, w2) \<Rightarrow> \<exists>res w'. execute_live_open e cl i t w = (Inr res, w')
        \<and> ex_status res = final_status Hedged reports \<and> w_sent w' = w_sent w2
        \<and> w_ledger w' = upsert lr_trade_id ((candidate_of i t)\<lparr>lr_status := final_status Hedged reports\<rparr>) (w_ledger w)"
    using live_open_run[OF assms, of e cl t] by (elim exE conjE) (rule that)
  obtain ra u where ra: "adapter_open_hedge e cl i w1 = (ra, u)" by fastforce
  show ?thesis using w1 by (intro exI[of _ w1]) (cases ra; auto simp: ra)
qed

lemma live_order_sent:
  "w_sent (snd (serve sample_env live_settings (Trading (PostExecute live_intent)) (sample_world []))) \<noteq> []"
proof -
  let ?c = "orchestrator_of live_settings" and ?t = "env_now sample_env (w_ticks (sample_world []))"
  obtain r w' where run: "execute sample_env ?c live_intent (sample_world []) = (r, w')" by fastforce
  obtain w1 r2 w2 where live: "w_ledger w1 = w_ledger (sample_world [])"
    "execute_live sample_env ?c live_intent ?t w1 = (r2, w2)" "w_sent w' = w_sent w2"
    using execute_live_reached[OF sample_readable(1) _ live_intent_fields(2) live_intent_ready run]
    by (auto simp: replays_def sample_map)
  have rd: "readable w1" using live(1) sample_readable(1) by (simp add: readable_def)
  have "execute_live_open sample_env (trading_client_of live_settings) live_intent ?t w1 = (r2, w2)"
    using live(2) by (simp add: execute_live_def live_fields live_intent_fields)
  then obtain w3 where "w_sent w2 = w_sent (snd (adapter_open_hedge sample_env (trading_client_of live_settings) live_intent w3))"
    using live_open_sent[OF rd live_intent_fields(1), of sample_env "trading_client_of live_settings" ?t] by auto
  then have "w_sent w' \<noteq> []" using adapter_sends live(3) by simp
  then show ?thesis
    by (auto simp: discarded_def route_execute_def answering_def catch_run bnd_run ret_run raise_run run split: sum.split prod.split)
qed

lemma live_startup: "\<exists>b. startup live_settings = Inr b"
proof -
  have "rnd (1 / 100) \<le> 1" using rnd_mono[of "1 / 100" 1] by simp
  then have "rnd (1 / 100) \<le> 30" by linarith
  then show ?thesis
    by (simp add: startup_def then_do_def build_hedge_rebalance_worker_def build_reconciliation_worker_def
        build_recovery_worker_def build_compensation_worker_def new_hedge_rebalance_worker_def
        new_reconciliation_worker_def new_recovery_worker_def new_compensation_worker_def
        live_settings_def default_settings_def)
qed

lemma system_run_single: "system_step e s c a d \<Longrightarrow> system_run e s c [a] d"
  using system_run.advanced[OF system_run.rested] by fastforce

theorem live_orders_guarded_witness:
  "\<exists>b0 b w. startup live_settings = Inr b0
     \<and> system_run sample_env live_settings (b0, sample_world []) [Serve (Trading (PostExecute live_intent))] (b, w)
     \<and> w_sent w \<noteq> [] \<and> list_all (order_within live_settings) (w_sent w)"
proof -
  obtain b0 where b0: "startup live_settings = Inr b0" using live_startup by blast
  let ?q = "Trading (PostExecute live_intent)"
  have run: "system_run sample_env live_settings (b0, sample_world []) [Serve ?q]
      (b0, snd (serve sample_env live_settings ?q (sample_world [])))"
    by (rule system_run_single) (rule system_step.served)
  have "list_all (order_within live_settings) (w_sent (snd (serve sample_env live_settings ?q (sample_world []))))"
    using live_orders_guarded[OF run] by simp
  then show ?thesis using b0 run live_order_sent by blast
qed

text \<open>
  C26: Along every such run without an import of ledger records or events, history is only
  extended: the audit log and the requests sent keep what they held, a trade never leaves the
  ledger nor changes its place, a ledger with one record per trade keeps one per trade, and
  the circuit breaker's stored state keeps its invariant (open with a resume date after at
  least the threshold of failures, or closed below it).
\<close>

theorem system_invariant:
  assumes "system_run e s (b0, w0) actions (b, w)" "list_all extends_history actions"
  shows "prefix (w_events w0) (w_events w) \<and> prefix (w_sent w0) (w_sent w)
    \<and> prefix (map lr_trade_id (w_ledger w0)) (map lr_trade_id (w_ledger w))
    \<and> (one_per_trade w0 \<longrightarrow> one_per_trade w)
    \<and> (breaker_inv (breaker_of s) w0 \<longrightarrow> breaker_inv (breaker_of s) w)"
proof -
  have "history_extended (snd (b0, w0)) (snd (b, w))"
    by (rule history.system_run_kept[OF assms(1) history_allowed])
      (use assms(2) in \<open>auto simp: list_all_iff intro!: history.serve_kept history_allowed\<close>)
  then show ?thesis
    using breaker_guard.system_run_any_kept[OF assms(1) breaker_allowed]
    by (simp add: history_extended_def breaker_sound_def)
qed

theorem system_invariant_witness:
  "\<exists>b0 b w. startup live_settings = Inr b0
     \<and> system_run sample_env live_settings (b0, sample_world [sample_record ''t2'' Hedged])
         [Serve (Trading (PostExecute live_intent))] (b, w)
     \<and> one_per_trade w \<and> prefix [''t2''] (map lr_trade_id (w_ledger w)) \<and> breaker_inv (breaker_of live_settings) w"
proof -
  obtain b0 where b0: "startup live_settings = Inr b0" using live_startup by blast
  let ?q = "Trading (PostExecute live_intent)" and ?w = "sample_world [sample_record ''t2'' Hedged]"
  have run: "system_run sample_env live_settings (b0, ?w) [Serve ?q] (b0, snd (serve sample_env live_settings ?q ?w))"
    by (rule system_run_single) (rule system_step.served)
  have "list_all extends_history [Serve ?q]" by (simp add: extends_history_def rewrites_history_def)
  moreover have "breaker_inv (breaker_of live_settings) ?w"
    by (simp add: breaker_of_def live_settings_def default_settings_def breaker_inv_def)
  ultimately show ?thesis
    using b0 run system_invariant[OF run] by (auto simp: one_per_trade_def)
qed

subsection \<open>Shutdown\<close>

definition at_rest :: "backend \<Rightarrow> bool" where
  "at_rest b \<longleftrightarrow> running_workers b = replicate 6 False"

lemma at_rest_tasks: "at_rest b \<longleftrightarrow> wk_task (bk_hedge b) \<noteq> Running \<and> wk_task (bk_reconciliation b) \<noteq> Running
    \<and> wk_task (bk_recovery b) \<noteq> Running \<and> wk_task (bk_compensation b) \<noteq> Running
    \<and> wk_task (bk_monitor b) \<noteq> Running \<and> wk_task (bk_scheduler b) \<noteq> Running"
  by (simp add: at_rest_def running_workers_def numeral_eq_Suc)

lemma requested_step:
  "worker_step cfg run (wk, w) ev (wk', w') \<Longrightarrow> ev \<in> {LoopTurn, RunRequested} \<Longrightarrow> wk_task wk \<noteq> Running \<Longrightarrow>
   ev = RunRequested \<and> wk_task wk' \<noteq> Running"
  by (cases rule: worker_step.cases) auto

lemma rest_step:
  assumes "system_step e s (b, w) a (b', w')" "at_rest b"
  shows "at_rest b' \<and> (\<forall>k. a \<noteq> Work k LoopTurn)"
  using assms(1)
proof (cases rule: system_step.cases)
  case halted
  then show ?thesis by (simp add: at_rest_def shutdown_stops)
qed (use assms(2) requested_step in \<open>fastforce simp: at_rest_tasks\<close>)+

text \<open>
  C28: The loops of the six workers end at shutdown. Whatever the backend went through before,
  from the shutdown on no worker is running, no loop takes another turn (single runs that are
  asked for are still made), and this stays so whatever is served later.
\<close>

theorem shutdown_ends_loops:
  assumes "system_run e s c (before @ Shutdown # later) d"
  shows "running_workers (fst d) = replicate 6 False \<and> (\<forall>k. Work k LoopTurn \<notin> set later)"
  using assms
proof (induction later arbitrary: d rule: rev_induct)
  case Nil
  then obtain x where "system_step e s x Shutdown d" by (auto elim: system_run.cases)
  then show ?case by (cases rule: system_step.cases) (simp add: shutdown_stops)
next
  case (snoc a later)
  from snoc.prems obtain x where "system_run e s c (before @ Shutdown # later) x" "system_step e s x a d"
    by (auto elim: system_run.cases)
  moreover from this have "at_rest (fst x)" using snoc.IH by (simp add: at_rest_def)
  ultimately show ?case
    using rest_step[of e s "fst x" "snd x" a "fst d" "snd d"] snoc.IH by (auto simp: at_rest_def)
qed

theorem shutdown_ends_loops_witness:
  "\<exists>b0 b w. startup live_settings = Inr b0
     \<and> system_run sample_env live_settings (b0, sample_world []) ([Serve (Page GetSafety)] @ Shutdown # []) (b, w)
     \<and> running_workers b = replicate 6 False"
proof -
  obtain b0 where b0: "startup live_settings = Inr b0" using live_startup by blast
  have first: "system_run sample_env live_settings (b0, sample_world []) [Serve (Page GetSafety)]
      (b0, snd (serve sample_env live_settings (Page GetSafety) (sample_world [])))"
    by (rule system_run_single) (rule system_step.served)
  have "system_run sample_env live_settings (b0, sample_world []) ([Serve (Page GetSafety)] @ Shutdown # [])
      (shutdown b0, snd (serve sample_env live_settings (Page GetSafety) (sample_world [])))"
    by (rule system_run.advanced[OF first]) (rule system_step.halted)
  then show ?thesis using b0 shutdown_ends_loops by fastforce
qed

end
