(* ===== verification/Persistence.thy ===== *)
theory Persistence
  imports Journal MarketData "HOL-Library.Monad_Syntax"
begin

section \<open>Stores: JSON files and MySQL tables\<close>

text \<open>
  The five stores that keep a list of records (\<open>ledger/store.py\<close>, \<open>audit/store.py\<close>,
  \<open>reconciliation/store.py\<close>, \<open>journal/store.py\<close>, \<open>adaptation/sample_store.py\<close>) and
  the row operations of \<open>persistence/mysql.py\<close>. A store reads and writes either a JSON
  file or a table of rows with a JSON payload; the same code is written out in each of them,
  and here once, with the record's \<open>model_dump\<close>, \<open>model_validate\<close> and columns as
  arguments. The text of a date, its parsing and the default factories of a model are
  pydantic's (\<open>formats\<close>), what the server answers to an insertion is MySQL's
  (\<open>database\<close>). The rest of the development works on the list a store holds; the property
  below shows that both backends keep this list, and what is left of it when the server refuses
  a row: rows are inserted, and committed, one by one.
\<close>

subsection \<open>Reading fields\<close>

record formats =
  fm_dump :: "datetime \<Rightarrow> string"
  fm_parse :: "pyval \<Rightarrow> datetime option"
  fm_fresh_id :: "pyval \<Rightarrow> string" \<comment> \<open>\<open>uuid4().hex\<close>, for a row without its id\<close>
  fm_now :: "pyval \<Rightarrow> datetime" \<comment> \<open>the clock, for a row without its date\<close>

definition dates_round_trip :: "formats \<Rightarrow> bool" where
  "dates_round_trip fm \<longleftrightarrow> (\<forall>t. fm_parse fm (PStr (fm_dump fm t)) = Some t)"

type_synonym 'a reader = "pyval \<Rightarrow> 'a option"

definition as_text :: "string reader" where
  "as_text v = (case v of PStr s \<Rightarrow> Some s | _ \<Rightarrow> None)"

definition as_float :: "float64 reader" where
  "as_float v = (case py_float v of Inr x \<Rightarrow> Some x | Inl _ \<Rightarrow> None)"

definition as_choice :: "('a \<Rightarrow> string) \<Rightarrow> 'a list \<Rightarrow> 'a reader" where
  \<comment> \<open>a \<open>Literal\<close>\<close>
  "as_choice f xs v = (case v of PStr s \<Rightarrow> find (\<lambda>x. f x = s) xs | _ \<Rightarrow> None)"

definition as_object :: "pydict reader" where
  "as_object v = (case v of PDict d \<Rightarrow> Some d | _ \<Rightarrow> None)"

definition as_texts :: "string list reader" where
  "as_texts v = (case v of PList vs \<Rightarrow> those (map as_text vs) | _ \<Rightarrow> None)"

definition nullable :: "'a reader \<Rightarrow> 'a option reader" where
  "nullable rd v = (if v = PNone then Some None else map_option Some (rd v))"

definition required :: "string \<Rightarrow> 'a reader \<Rightarrow> pydict \<Rightarrow> 'a option" where
  "required k rd d = (case map_of d k of None \<Rightarrow> None | Some v \<Rightarrow> rd v)"

definition defaulted :: "string \<Rightarrow> 'a reader \<Rightarrow> 'a \<Rightarrow> pydict \<Rightarrow> 'a option" where
  "defaulted k rd x d = (case map_of d k of None \<Rightarrow> Some x | Some v \<Rightarrow> rd v)"

definition validated :: "string \<Rightarrow> (pydict \<Rightarrow> 'r option) \<Rightarrow> ('r \<Rightarrow> bool) \<Rightarrow> pyval \<Rightarrow> py_error + 'r" where
  \<comment> \<open>\<open>Model.model_validate(v)\<close>: the fields, then their constraints\<close>
  "validated model rd ok v =
     (case v of PDict d \<Rightarrow> (case rd d of Some r \<Rightarrow> if ok r then Inr r else Inl (ValidationError model)
                           | None \<Rightarrow> Inl (ValidationError model))
      | _ \<Rightarrow> Inl (ValidationError model))"

definition or_null :: "('a \<Rightarrow> pyval) \<Rightarrow> 'a option \<Rightarrow> pyval" where
  "or_null f x = (case x of None \<Rightarrow> PNone | Some y \<Rightarrow> f y)"

lemma reader_simps [simp]:
  "as_text (PStr s) = Some s" "as_object (PDict d) = Some d"
  "as_choice f xs (PStr s) = find (\<lambda>x. f x = s) xs"
  by (simp_all add: as_text_def as_object_def as_choice_def)

lemma as_float_f64 [simp]: "is_f64 x \<Longrightarrow> as_float (PFloat x) = Some x"
  by (simp add: as_float_def py_float_def rnd_f64)

lemma as_texts_map [simp]: "as_texts (PList (map PStr ts)) = Some ts"
proof -
  have "those (map (as_text \<circ> PStr) ts) = Some ts"
    by (induction ts) simp_all
  then show ?thesis by (simp add: as_texts_def)
qed

lemma nullable_or_null [simp]:
  "(\<And>x. t = Some x \<Longrightarrow> rd (f x) = Some x \<and> f x \<noteq> PNone) \<Longrightarrow> nullable rd (or_null f t) = Some t"
  by (cases t) (auto simp: nullable_def or_null_def)

lemmas field_defs = required_def defaulted_def validated_def

subsection \<open>The models\<close>

definition dump_ledger :: "formats \<Rightarrow> ledger_record \<Rightarrow> pyval" where
  "dump_ledger fm r = PDict
     [(''trade_id'', PStr (lr_trade_id r)), (''mode'', PStr (mode_str (lr_mode r))),
      (''strategy_id'', PStr (lr_strategy_id r)), (''symbol'', PStr (lr_symbol r)),
      (''status'', PStr (status_str (lr_status r))), (''opened_at'', PStr (fm_dump fm (lr_opened_at r))),
      (''closed_at'', or_null (\<lambda>t. PStr (fm_dump fm t)) (lr_closed_at r)),
      (''net_exposure'', PFloat (lr_net_exposure r)), (''spot_notional'', PFloat (lr_spot_notional r)),
      (''perp_notional'', PFloat (lr_perp_notional r)), (''realized_pnl'', PFloat (lr_realized_pnl r)),
      (''notes'', or_null PStr (lr_notes r))]"

definition ledger_fields :: "formats \<Rightarrow> pydict \<Rightarrow> ledger_record option" where
  "ledger_fields fm d = do {
     trade_id \<leftarrow> required ''trade_id'' as_text d;
     mode \<leftarrow> required ''mode'' (as_choice mode_str [Paper, Live]) d;
     strategy_id \<leftarrow> required ''strategy_id'' as_text d;
     symbol \<leftarrow> required ''symbol'' as_text d;
     status \<leftarrow> required ''status'' (as_choice status_str
       [Candidate, Open, Hedged, Closing, Closed, Failed, RecoveryPending, Cancelled]) d;
     opened_at \<leftarrow> required ''opened_at'' (fm_parse fm) d;
     closed_at \<leftarrow> defaulted ''closed_at'' (nullable (fm_parse fm)) None d;
     net_exposure \<leftarrow> defaulted ''net_exposure'' as_float 0 d;
     spot_notional \<leftarrow> defaulted ''spot_notional'' as_float 0 d;
     perp_notional \<leftarrow> defaulted ''perp_notional'' as_float 0 d;
     realized_pnl \<leftarrow> defaulted ''realized_pnl'' as_float 0 d;
     notes \<leftarrow> defaulted ''notes'' (nullable as_text) None d;
     Some \<lparr>lr_trade_id = trade_id, lr_mode = mode, lr_strategy_id = strategy_id, lr_symbol = symbol,
           lr_status = status, lr_opened_at = opened_at, lr_closed_at = closed_at,
           lr_net_exposure = net_exposure, lr_spot_notional = spot_notional,
           lr_perp_notional = perp_notional, lr_realized_pnl = realized_pnl, lr_notes = notes\<rparr>
   }"

definition validate_ledger :: "formats \<Rightarrow> pyval \<Rightarrow> py_error + ledger_record" where
  "validate_ledger fm = validated ''TradeLedgerRecord'' (ledger_fields fm) valid_ledger_record"

definition storable_ledger :: "ledger_record \<Rightarrow> bool" where
  \<comment> \<open>what a constructed record satisfies: its constraints, and its floats are binary64 values\<close>
  "storable_ledger r \<longleftrightarrow> valid_ledger_record r \<and> is_f64 (lr_net_exposure r) \<and> is_f64 (lr_spot_notional r)
     \<and> is_f64 (lr_perp_notional r) \<and> is_f64 (lr_realized_pnl r)"

definition dump_event :: "formats \<Rightarrow> audit_event \<Rightarrow> pyval" where
  "dump_event fm ev = PDict
     [(''event_id'', PStr (ev_event_id ev)), (''event_type'', PStr (ev_event_type ev)),
      (''severity'', PStr (severity_str (ev_severity ev))), (''source'', PStr (ev_source ev)),
      (''occurred_at'', PStr (fm_dump fm (ev_occurred_at ev))), (''summary'', PStr (ev_summary ev)),
      (''payload'', PDict (ev_payload ev)), (''tags'', PList (map PStr (ev_tags ev)))]"

definition event_fields :: "formats \<Rightarrow> pydict \<Rightarrow> audit_event option" where
  "event_fields fm d = do {
     event_id \<leftarrow> defaulted ''event_id'' as_text (fm_fresh_id fm (PDict d)) d;
     event_type \<leftarrow> required ''event_type'' as_text d;
     sev \<leftarrow> defaulted ''severity'' (as_choice severity_str [Debug, Info, Warning, Error, Critical]) Info d;
     source \<leftarrow> required ''source'' as_text d;
     occurred_at \<leftarrow> defaulted ''occurred_at'' (fm_parse fm) (fm_now fm (PDict d)) d;
     summary \<leftarrow> required ''summary'' as_text d;
     payload \<leftarrow> defaulted ''payload'' as_object [] d;
     tags \<leftarrow> defaulted ''tags'' as_texts [] d;
     Some \<lparr>ev_event_id = event_id, ev_event_type = event_type, ev_severity = sev, ev_source = source,
           ev_occurred_at = occurred_at, ev_summary = summary, ev_payload = payload, ev_tags = tags\<rparr>
   }"

definition validate_event :: "formats \<Rightarrow> pyval \<Rightarrow> py_error + audit_event" where
  "validate_event fm = validated ''AuditEventRecord'' (event_fields fm) (\<lambda>_. True)"

definition dump_report :: "formats \<Rightarrow> order_report \<Rightarrow> pyval" where
  "dump_report fm r = PDict
     [(''report_id'', PStr (er_report_id r)), (''venue'', PStr (er_venue r)), (''order_id'', PStr (er_order_id r)),
      (''client_order_id'', or_null PStr (er_client_order_id r)), (''trade_id'', or_null PStr (er_trade_id r)),
      (''symbol'', PStr (er_symbol r)), (''leg'', PStr (leg_str (er_leg r))), (''status'', PStr (er_status r)),
      (''executed_qty'', PFloat (er_executed_qty r)), (''cum_quote_qty'', PFloat (er_cum_quote_qty r)),
      (''updated_at'', PStr (fm_dump fm (er_updated_at r)))]"

definition report_fields :: "formats \<Rightarrow> pydict \<Rightarrow> order_report option" where
  "report_fields fm d = do {
     report_id \<leftarrow> defaulted ''report_id'' as_text (fm_fresh_id fm (PDict d)) d;
     venue \<leftarrow> required ''venue'' as_text d;
     order_id \<leftarrow> required ''order_id'' as_text d;
     client_order_id \<leftarrow> defaulted ''client_order_id'' (nullable as_text) None d;
     trade_id \<leftarrow> defaulted ''trade_id'' (nullable as_text) None d;
     symbol \<leftarrow> required ''symbol'' as_text d;
     l \<leftarrow> required ''leg'' (as_choice leg_str [Spot, Perp]) d;
     status \<leftarrow> required ''status'' as_text d;
     executed_qty \<leftarrow> defaulted ''executed_qty'' as_float 0 d;
     cum_quote_qty \<leftarrow> defaulted ''cum_quote_qty'' as_float 0 d;
     updated_at \<leftarrow> defaulted ''updated_at'' (fm_parse fm) (fm_now fm (PDict d)) d;
     Some \<lparr>er_report_id = report_id, er_venue = venue, er_order_id = order_id,
           er_client_order_id = client_order_id, er_trade_id = trade_id, er_symbol = symbol, er_leg = l,
           er_status = status, er_executed_qty = executed_qty, er_cum_quote_qty = cum_quote_qty,
           er_updated_at = updated_at\<rparr>
   }"

definition validate_report :: "formats \<Rightarrow> pyval \<Rightarrow> py_error + order_report" where
  "validate_report fm = validated ''ExchangeOrderReport'' (report_fields fm) valid_order_report"

definition storable_report :: "order_report \<Rightarrow> bool" where
  "storable_report r \<longleftrightarrow> valid_order_report r \<and> is_f64 (er_executed_qty r) \<and> is_f64 (er_cum_quote_qty r)"

definition dump_trade :: "formats \<Rightarrow> completed_trade \<Rightarrow> pyval" where
  "dump_trade fm t = PDict
     [(''trade_id'', PStr (cj_trade_id t)), (''symbol'', PStr (cj_symbol t)),
      (''opened_at'', PStr (fm_dump fm (cj_opened_at t))), (''closed_at'', PStr (fm_dump fm (cj_closed_at t))),
      (''score'', PFloat (cj_score t)), (''risk_tag'', PStr (cj_risk_tag t)),
      (''net_edge_bps'', PFloat (cj_net_edge_bps t)),
      (''projected_net_edge_bps'', PFloat (cj_projected_net_edge_bps t)),
      (''basis_bps'', PFloat (cj_basis_bps t)), (''realized_pnl_bps'', PFloat (cj_realized_pnl_bps t)),
      (''max_drawdown_bps'', PFloat (cj_max_drawdown_bps t)), (''hold_periods'', PFloat (cj_hold_periods t))]"

definition trade_fields :: "formats \<Rightarrow> pydict \<Rightarrow> completed_trade option" where
  "trade_fields fm d = do {
     trade_id \<leftarrow> required ''trade_id'' as_text d;
     symbol \<leftarrow> required ''symbol'' as_text d;
     opened_at \<leftarrow> required ''opened_at'' (fm_parse fm) d;
     closed_at \<leftarrow> required ''closed_at'' (fm_parse fm) d;
     score \<leftarrow> required ''score'' as_float d;
     risk_tag \<leftarrow> required ''risk_tag'' as_text d;
     net_edge \<leftarrow> required ''net_edge_bps'' as_float d;
     projected \<leftarrow> required ''projected_net_edge_bps'' as_float d;
     basis \<leftarrow> required ''basis_bps'' as_float d;
     pnl \<leftarrow> required ''realized_pnl_bps'' as_float d;
     drawdown \<leftarrow> defaulted ''max_drawdown_bps'' as_float 0 d;
     hold \<leftarrow> defaulted ''hold_periods'' as_float 0 d;
     Some \<lparr>cj_trade_id = trade_id, cj_symbol = symbol, cj_opened_at = opened_at, cj_closed_at = closed_at,
           cj_score = score, cj_risk_tag = risk_tag, cj_net_edge_bps = net_edge,
           cj_projected_net_edge_bps = projected, cj_basis_bps = basis, cj_realized_pnl_bps = pnl,
           cj_max_drawdown_bps = drawdown, cj_hold_periods = hold\<rparr>
   }"

definition validate_trade :: "formats \<Rightarrow> pyval \<Rightarrow> py_error + completed_trade" where
  "validate_trade fm = validated ''CompletedTradeRecord'' (trade_fields fm) valid_completed_trade"

definition storable_trade :: "completed_trade \<Rightarrow> bool" where
  "storable_trade t \<longleftrightarrow> valid_completed_trade t \<and> list_all is_f64
     [cj_score t, cj_net_edge_bps t, cj_projected_net_edge_bps t, cj_basis_bps t, cj_realized_pnl_bps t,
      cj_max_drawdown_bps t, cj_hold_periods t]"

definition dump_sample :: "formats \<Rightarrow> learning_sample \<Rightarrow> pyval" where
  "dump_sample fm s = PDict
     [(''trade_id'', or_null PStr (ls_trade_id s)), (''symbol'', PStr (ls_symbol s)),
      (''closed_at'', or_null (\<lambda>t. PStr (fm_dump fm t)) (ls_closed_at s)),
      (''score'', PFloat (ls_score s)), (''risk_tag'', PStr (ls_risk_tag s)),
      (''net_edge_bps'', PFloat (ls_net_edge_bps s)),
      (''projected_net_edge_bps'', PFloat (ls_projected_net_edge_bps s)),
      (''basis_bps'', PFloat (ls_basis_bps s)), (''realized_pnl_bps'', PFloat (ls_realized_pnl_bps s)),
      (''max_drawdown_bps'', PFloat (ls_max_drawdown_bps s)), (''hold_periods'', PFloat (ls_hold_periods s))]"

definition sample_fields :: "formats \<Rightarrow> pydict \<Rightarrow> learning_sample option" where
  "sample_fields fm d = do {
     trade_id \<leftarrow> defaulted ''trade_id'' (nullable as_text) None d;
     symbol \<leftarrow> required ''symbol'' as_text d;
     closed_at \<leftarrow> defaulted ''closed_at'' (nullable (fm_parse fm)) None d;
     score \<leftarrow> required ''score'' as_float d;
     risk_tag \<leftarrow> required ''risk_tag'' as_text d;
     net_edge \<leftarrow> defaulted ''net_edge_bps'' as_float 0 d;
     projected \<leftarrow> defaulted ''projected_net_edge_bps'' as_float 0 d;
     basis \<leftarrow> defaulted ''basis_bps'' as_float 0 d;
     pnl \<leftarrow> required ''realized_pnl_bps'' as_float d;
     drawdown \<leftarrow> defaulted ''max_drawdown_bps'' as_float 0 d;
     hold \<leftarrow> defaulted ''hold_periods'' as_float 1 d;
     Some \<lparr>ls_trade_id = trade_id, ls_symbol = symbol, ls_closed_at = closed_at, ls_score = score,
           ls_risk_tag = risk_tag, ls_net_edge_bps = net_edge, ls_projected_net_edge_bps = projected,
           ls_basis_bps = basis, ls_realized_pnl_bps = pnl, ls_max_drawdown_bps = drawdown,
           ls_hold_periods = hold\<rparr>
   }"

definition validate_sample :: "formats \<Rightarrow> pyval \<Rightarrow> py_error + learning_sample" where
  "validate_sample fm = validated ''LearningTradeSample'' (sample_fields fm) (\<lambda>_. True)"

definition storable_sample :: "learning_sample \<Rightarrow> bool" where
  "storable_sample s \<longleftrightarrow> list_all is_f64
     [ls_score s, ls_net_edge_bps s, ls_projected_net_edge_bps s, ls_basis_bps s, ls_realized_pnl_bps s,
      ls_max_drawdown_bps s, ls_hold_periods s]"

subsection \<open>The two backends\<close>

record sql_row =
  sq_columns :: "pyval list" \<comment> \<open>a date as its microseconds\<close>
  sq_payload :: pyval

record database =
  db_backend :: string \<comment> \<open>\<open>settings.storage_backend\<close>\<close>
  db_insert :: "nat \<Rightarrow> sql_row \<Rightarrow> py_error option"
    \<comment> \<open>the error with which the server refuses a row, after so many rows of the same save\<close>

record storage =
  st_file :: "pyval option" \<comment> \<open>the decoded file; \<open>None\<close>: it does not exist\<close>
  st_rows :: "sql_row list" \<comment> \<open>the table, by \<open>row_id\<close>\<close>

definition mysql_enabled :: "database \<Rightarrow> bool" where
  "mysql_enabled db \<longleftrightarrow> db_backend db = ''mysql''"

definition fetch_json_rows :: "(storage, pyval list) py" where
  "fetch_json_rows = gets (\<lambda>st. map sq_payload (st_rows st))"

fun insert_rows :: "database \<Rightarrow> nat \<Rightarrow> sql_row list \<Rightarrow> (storage, unit) py" where
  \<comment> \<open>\<open>cursor.executemany\<close>: the driver's bulk form does not take \<open>CAST(%s AS JSON)\<close>, so each row is
     a statement, and committed, of its own\<close>
  "insert_rows db n [] = ret ()"
| "insert_rows db n (r # rs) = (case db_insert db n r of
     Some exc \<Rightarrow> raise exc
   | None \<Rightarrow> thn (modify (\<lambda>st. st\<lparr>st_rows := st_rows st @ [r]\<rparr>)) (insert_rows db (Suc n) rs))"

definition replace_rows :: "database \<Rightarrow> sql_row list \<Rightarrow> (storage, unit) py" where
  \<comment> \<open>the deletion is committed by itself as well (\<open>autocommit=True\<close>)\<close>
  "replace_rows db params = thn (modify (\<lambda>st. st\<lparr>st_rows := []\<rparr>)) (insert_rows db 0 params)"

definition store_list :: "database \<Rightarrow> (pyval \<Rightarrow> py_error + 'r) \<Rightarrow> (storage, 'r list) py" where
  "store_list db validate =
     (if mysql_enabled db then bnd fetch_json_rows (\<lambda>payloads. lift (traverse validate payloads))
      else bnd (gets st_file) (\<lambda>f. case f of
          None \<Rightarrow> ret []
        | Some v \<Rightarrow> lift (then_do (iterate v) (traverse validate))))"

definition store_merged :: "database \<Rightarrow> (pyval \<Rightarrow> py_error + 'r) \<Rightarrow> 'r list \<Rightarrow> write_mode \<Rightarrow> (storage, 'r list) py" where
  "store_merged db validate rs m =
     (case m of ReplaceRows \<Rightarrow> ret rs | AppendRows \<Rightarrow> bnd (store_list db validate) (\<lambda>old. ret (old @ rs)))"

definition sql_rows :: "('r \<Rightarrow> pyval) \<Rightarrow> ('r \<Rightarrow> pyval list) \<Rightarrow> 'r list \<Rightarrow> sql_row list" where
  "sql_rows dump columns rs = map (\<lambda>r. \<lparr>sq_columns = columns r, sq_payload = dump r\<rparr>) rs"

definition store_save ::
  "database \<Rightarrow> ('r \<Rightarrow> pyval) \<Rightarrow> (pyval \<Rightarrow> py_error + 'r) \<Rightarrow> ('r \<Rightarrow> pyval list) \<Rightarrow> 'r list \<Rightarrow> write_mode \<Rightarrow>
   (storage, 'r list) py" where
  "store_save db dump validate columns rs m =
     bnd (store_merged db validate rs m) (\<lambda>persisted.
     thn (if mysql_enabled db then replace_rows db (sql_rows dump columns persisted)
          else modify (\<lambda>st. st\<lparr>st_file := Some (PList (map dump persisted))\<rparr>))
       (ret persisted))"

definition sql_text :: "string option \<Rightarrow> pyval" where
  "sql_text t = or_null PStr t"

definition sql_date :: "datetime option \<Rightarrow> pyval" where
  \<comment> \<open>\<open>to_mysql_datetime\<close>\<close>
  "sql_date t = or_null PInt t"

definition ledger_columns :: "ledger_record \<Rightarrow> pyval list" where
  "ledger_columns r = [PStr (lr_trade_id r), PStr (mode_str (lr_mode r)), PStr (lr_strategy_id r), PStr (lr_symbol r),
     PStr (status_str (lr_status r)), sql_date (Some (lr_opened_at r)), sql_date (lr_closed_at r)]"

definition event_columns :: "audit_event \<Rightarrow> pyval list" where
  "event_columns ev = [PStr (ev_event_id ev), PStr (ev_event_type ev), PStr (severity_str (ev_severity ev)),
     PStr (ev_source ev), sql_date (Some (ev_occurred_at ev)), PStr (ev_summary ev)]"

definition report_columns :: "order_report \<Rightarrow> pyval list" where
  "report_columns r = [PStr (er_report_id r), PStr (er_venue r), PStr (er_order_id r), sql_text (er_trade_id r),
     PStr (er_symbol r), PStr (leg_str (er_leg r)), PStr (er_status r), sql_date (Some (er_updated_at r))]"

definition trade_columns :: "completed_trade \<Rightarrow> pyval list" where
  "trade_columns t = [PStr (cj_trade_id t), PStr (cj_symbol t), sql_date (Some (cj_closed_at t)),
     PFloat (cj_score t), PStr (cj_risk_tag t)]"

definition sample_columns :: "learning_sample \<Rightarrow> pyval list" where
  "sample_columns s = [sql_text (ls_trade_id s), PStr (ls_symbol s), sql_date (ls_closed_at s),
     PFloat (ls_score s), PStr (ls_risk_tag s)]"

subsection \<open>The five stores\<close>

definition ledger_store_list :: "database \<Rightarrow> formats \<Rightarrow> (storage, ledger_record list) py" where
  "ledger_store_list db fm = store_list db (validate_ledger fm)"

definition ledger_store_save :: "database \<Rightarrow> formats \<Rightarrow> ledger_record list \<Rightarrow> write_mode \<Rightarrow> (storage, ledger_record list) py" where
  "ledger_store_save db fm = store_save db (dump_ledger fm) (validate_ledger fm) ledger_columns"

definition audit_store_list :: "database \<Rightarrow> formats \<Rightarrow> (storage, audit_event list) py" where
  "audit_store_list db fm = store_list db (validate_event fm)"

definition audit_store_save :: "database \<Rightarrow> formats \<Rightarrow> audit_event list \<Rightarrow> write_mode \<Rightarrow> (storage, audit_event list) py" where
  "audit_store_save db fm = store_save db (dump_event fm) (validate_event fm) event_columns"

definition report_store_list :: "database \<Rightarrow> formats \<Rightarrow> (storage, order_report list) py" where
  "report_store_list db fm = store_list db (validate_report fm)"

definition report_store_save :: "database \<Rightarrow> formats \<Rightarrow> order_report list \<Rightarrow> write_mode \<Rightarrow> (storage, order_report list) py" where
  "report_store_save db fm = store_save db (dump_report fm) (validate_report fm) report_columns"

definition journal_store_list :: "database \<Rightarrow> formats \<Rightarrow> (storage, completed_trade list) py" where
  "journal_store_list db fm = store_list db (validate_trade fm)"

definition journal_store_save :: "database \<Rightarrow> formats \<Rightarrow> completed_trade list \<Rightarrow> write_mode \<Rightarrow> (storage, completed_trade list) py" where
  "journal_store_save db fm = store_save db (dump_trade fm) (validate_trade fm) trade_columns"

definition sample_store_list :: "database \<Rightarrow> formats \<Rightarrow> (storage, learning_sample list) py" where
  "sample_store_list db fm = store_list db (validate_sample fm)"

definition sample_store_save :: "database \<Rightarrow> formats \<Rightarrow> learning_sample list \<Rightarrow> write_mode \<Rightarrow> (storage, learning_sample list) py" where
  "sample_store_save db fm = store_save db (dump_sample fm) (validate_sample fm) sample_columns"

lemmas store_defs = ledger_store_list_def ledger_store_save_def audit_store_list_def audit_store_save_def report_store_list_def report_store_save_def journal_store_list_def journal_store_save_def sample_store_list_def sample_store_save_def

subsection \<open>A store keeps its list\<close>

fun refused_at :: "database \<Rightarrow> nat \<Rightarrow> sql_row list \<Rightarrow> (nat \<times> py_error) option" where
  \<comment> \<open>the first row the server refuses\<close>
  "refused_at db n [] = None"
| "refused_at db n (r # rs) = (case db_insert db n r of
     Some exc \<Rightarrow> Some (n, exc)
   | None \<Rightarrow> refused_at db (Suc n) rs)"

definition refusal :: "database \<Rightarrow> ('r \<Rightarrow> pyval) \<Rightarrow> ('r \<Rightarrow> pyval list) \<Rightarrow> 'r list \<Rightarrow> (nat \<times> py_error) option" where
  "refusal db dump columns rs =
     (if mysql_enabled db then refused_at db 0 (sql_rows dump columns rs) else None)"

definition keeps_list ::
  "database \<Rightarrow> ('r \<Rightarrow> pyval) \<Rightarrow> ('r \<Rightarrow> pyval list) \<Rightarrow> (storage, 'r list) py \<Rightarrow>
   ('r list \<Rightarrow> write_mode \<Rightarrow> (storage, 'r list) py) \<Rightarrow> ('r \<Rightarrow> bool) \<Rightarrow> bool" where
  \<comment> \<open>a readable store that is asked to write storable records then holds the merged list, or,
     when the server refuses one of them, the records before that one; an unreadable store
     refuses to append\<close>
  "keeps_list db dump columns list_all_rows save_rows ok \<longleftrightarrow>
     (\<forall>st old rs m. list_all_rows st = (Inr old, st) \<longrightarrow> list_all ok (write_rows m rs old) \<longrightarrow>
        (case refusal db dump columns (write_rows m rs old) of
           None \<Rightarrow> \<exists>st'. save_rows rs m st = (Inr (write_rows m rs old), st')
             \<and> list_all_rows st' = (Inr (write_rows m rs old), st')
         | Some (k, exc) \<Rightarrow> \<exists>st'. save_rows rs m st = (Inl exc, st')
             \<and> list_all_rows st' = (Inr (take k (write_rows m rs old)), st'))) \<and>
     (\<forall>st rs exc. list_all_rows st = (Inl exc, st) \<longrightarrow> save_rows rs AppendRows st = (Inl exc, st))"

lemma insert_rows_run:
  "insert_rows db n rs st = (case refused_at db n rs of
     None \<Rightarrow> (Inr (), st\<lparr>st_rows := st_rows st @ rs\<rparr>)
   | Some (k, exc) \<Rightarrow> (Inl exc, st\<lparr>st_rows := st_rows st @ take (k - n) rs\<rparr>))"
  "refused_at db n rs = Some (k, exc) \<Longrightarrow> n \<le> k \<and> k < n + length rs"
proof (induction db n rs arbitrary: st k exc rule: insert_rows.induct)
  case (2 db n r rs)
  { case 1 show ?case
      using 2(1)[of "st\<lparr>st_rows := st_rows st @ [r]\<rparr>"] 2(2)
      by (fastforce simp: raise_run thn_run modify_run take_Cons' Suc_diff_Suc split: option.split) }
  { case 2 then show ?case using "2.IH"(2) by (fastforce split: option.splits) }
qed (simp_all add: ret_run)

lemma replace_rows_run:
  "replace_rows db rs st = (case refused_at db 0 rs of
     None \<Rightarrow> (Inr (), st\<lparr>st_rows := rs\<rparr>)
   | Some (k, exc) \<Rightarrow> (Inl exc, st\<lparr>st_rows := take k rs\<rparr>))"
  by (simp add: replace_rows_def thn_run modify_run insert_rows_run split: option.split)

locale json_store =
  fixes dump :: "'r \<Rightarrow> pyval"
    and validate :: "pyval \<Rightarrow> py_error + 'r"
    and ok :: "'r \<Rightarrow> bool"
  assumes validate_dump: "ok r \<Longrightarrow> validate (dump r) = Inr r"
begin

lemma traverse_dump: "list_all ok rs \<Longrightarrow> traverse validate (map dump rs) = Inr rs"
  by (induction rs) (simp_all add: validate_dump)

lemma list_file: "\<not> mysql_enabled db \<Longrightarrow> list_all ok rs \<Longrightarrow> st_file st = Some (PList (map dump rs)) \<Longrightarrow>
    store_list db validate st = (Inr rs, st)"
  by (simp add: store_list_def bnd_run gets_run lift_run iterate_def traverse_dump)

lemma list_rows: "mysql_enabled db \<Longrightarrow> list_all ok rs \<Longrightarrow> st_rows st = sql_rows dump columns rs \<Longrightarrow>
    store_list db validate st = (Inr rs, st)"
  by (simp add: store_list_def fetch_json_rows_def bnd_run gets_run lift_run sql_rows_def o_def traverse_dump)

lemma merged:
  assumes "store_list db validate st = (Inr old, st)"
  shows "store_merged db validate rs m st = (Inr (write_rows m rs old), st)"
  using assms by (cases m) (simp_all add: store_merged_def write_rows_def bnd_run ret_run)

lemma save_accepted:
  assumes "store_list db validate st = (Inr old, st)" "list_all ok (write_rows m rs old)"
    and "refusal db dump columns (write_rows m rs old) = None"
  shows "\<exists>st'. store_save db dump validate columns rs m st = (Inr (write_rows m rs old), st')
    \<and> store_list db validate st' = (Inr (write_rows m rs old), st')"
proof -
  let ?new = "write_rows m rs old"
  have run: "store_save db dump validate columns rs m st = (Inr ?new,
      if mysql_enabled db then st\<lparr>st_rows := sql_rows dump columns ?new\<rparr>
      else st\<lparr>st_file := Some (PList (map dump ?new))\<rparr>)"
    using merged[OF assms(1)] assms(3)
    by (auto simp: store_save_def replace_rows_run refusal_def bnd_run thn_run modify_run ret_run split: if_splits)
  moreover have "store_list db validate (if mysql_enabled db then st\<lparr>st_rows := sql_rows dump columns ?new\<rparr>
      else st\<lparr>st_file := Some (PList (map dump ?new))\<rparr>) = (Inr ?new,
      if mysql_enabled db then st\<lparr>st_rows := sql_rows dump columns ?new\<rparr>
      else st\<lparr>st_file := Some (PList (map dump ?new))\<rparr>)"
    using assms(2) by (cases "mysql_enabled db") (simp_all add: list_rows[where columns = columns] list_file)
  ultimately show ?thesis by blast
qed

lemma save_refused:
  assumes "store_list db validate st = (Inr old, st)" "list_all ok (write_rows m rs old)"
    and "refusal db dump columns (write_rows m rs old) = Some (k, exc)"
  shows "\<exists>st'. store_save db dump validate columns rs m st = (Inl exc, st')
    \<and> store_list db validate st' = (Inr (take k (write_rows m rs old)), st')"
proof -
  let ?new = "write_rows m rs old" and ?st' = "st\<lparr>st_rows := sql_rows dump columns (take k (write_rows m rs old))\<rparr>"
  have my: "mysql_enabled db" and at: "refused_at db 0 (sql_rows dump columns ?new) = Some (k, exc)"
    using assms(3) by (auto simp: refusal_def split: if_splits)
  have "store_save db dump validate columns rs m st = (Inl exc, ?st')"
    using merged[OF assms(1)] my at
    by (simp add: store_save_def replace_rows_run bnd_run thn_run sql_rows_def take_map)
  moreover have "store_list db validate ?st' = (Inr (take k ?new), ?st')"
    using my assms(2) by (intro list_rows[where columns = columns]) (auto simp: list_all_iff dest: in_set_takeD)
  ultimately show ?thesis by blast
qed

lemma save_unreadable:
  "store_list db validate st = (Inl exc, st) \<Longrightarrow>
   store_save db dump validate columns rs AppendRows st = (Inl exc, st)"
  by (simp add: store_save_def store_merged_def bnd_run)

lemma keeps: "keeps_list db dump columns (store_list db validate) (store_save db dump validate columns) ok"
  unfolding keeps_list_def
  by (auto intro: save_accepted save_refused save_unreadable split: option.split)

end

text \<open>The five models are read back as written, once dates are.\<close>

lemma date_back [simp]: "dates_round_trip fm \<Longrightarrow> fm_parse fm (PStr (fm_dump fm t)) = Some t"
  by (simp add: dates_round_trip_def)

interpretation ledger_rows: json_store "dump_ledger fm" "validate_ledger fm"
  "\<lambda>r. dates_round_trip fm \<and> storable_ledger r" for fm
proof
  fix r assume r: "dates_round_trip fm \<and> storable_ledger r"
  have "find (\<lambda>s. status_str s = status_str (lr_status r))
      [Candidate, Open, Hedged, Closing, Closed, Failed, RecoveryPending, Cancelled] = Some (lr_status r)"
    by (cases "lr_status r") simp_all
  moreover have "find (\<lambda>s. mode_str s = mode_str (lr_mode r)) [Paper, Live] = Some (lr_mode r)"
    by (cases "lr_mode r") simp_all
  ultimately show "validate_ledger fm (dump_ledger fm r) = Inr r"
    using r by (simp add: validate_ledger_def dump_ledger_def ledger_fields_def field_defs storable_ledger_def
        valid_ledger_record_def del: find.simps)
qed

interpretation event_rows: json_store "dump_event fm" "validate_event fm" "\<lambda>ev. dates_round_trip fm" for fm
proof
  fix ev :: audit_event assume r: "dates_round_trip fm"
  have "find (\<lambda>s. severity_str s = severity_str (ev_severity ev)) [Debug, Info, Warning, Error, Critical] = Some (ev_severity ev)"
    by (cases "ev_severity ev") simp_all
  then show "validate_event fm (dump_event fm ev) = Inr ev"
    using r by (simp add: validate_event_def dump_event_def event_fields_def field_defs del: find.simps)
qed

interpretation report_rows: json_store "dump_report fm" "validate_report fm"
  "\<lambda>r. dates_round_trip fm \<and> storable_report r" for fm
proof
  fix r assume r: "dates_round_trip fm \<and> storable_report r"
  have "find (\<lambda>s. leg_str s = leg_str (er_leg r)) [Spot, Perp] = Some (er_leg r)"
    by (cases "er_leg r") simp_all
  then show "validate_report fm (dump_report fm r) = Inr r"
    using r by (simp add: validate_report_def dump_report_def report_fields_def field_defs storable_report_def
        valid_order_report_def del: find.simps)
qed

interpretation trade_rows: json_store "dump_trade fm" "validate_trade fm"
  "\<lambda>t. dates_round_trip fm \<and> storable_trade t" for fm
  by unfold_locales (simp add: validate_trade_def dump_trade_def trade_fields_def field_defs storable_trade_def
      valid_completed_trade_def)

interpretation sample_rows: json_store "dump_sample fm" "validate_sample fm"
  "\<lambda>s. dates_round_trip fm \<and> storable_sample s" for fm
  by unfold_locales (simp add: validate_sample_def dump_sample_def sample_fields_def field_defs storable_sample_def)

text \<open>The list the components work on is the one of the store.\<close>

lemma ledger_save_rows:
  assumes "readable w"
  shows "ledger_save rs m w = (Inr (write_rows m rs (w_ledger w)), w\<lparr>w_ledger := write_rows m rs (w_ledger w)\<rparr>)"
  using assms by (cases m) (simp_all add: ledger_save_def ledger_list_run write_rows_def py_simps)

lemma audit_save_rows:
  "audit_save evs m w = (Inr (write_rows m evs (w_events w)), w\<lparr>w_events := write_rows m evs (w_events w)\<rparr>)"
  by (cases m) (simp_all add: audit_save_def write_rows_def py_simps)

lemma readable_storable: "list_all storable_ledger (w_ledger w) \<Longrightarrow> readable w"
  by (auto simp: readable_def list_all_iff storable_ledger_def)

subsection \<open>Dates as text\<close>

text \<open>A concrete text of dates: their decimal microseconds.\<close>

definition text_date :: "pyval \<Rightarrow> datetime option" where
  "text_date v = (case v of
     PStr s \<Rightarrow> (case sign_split s of (neg, ds) \<Rightarrow> Some (if neg then - digits_val ds else digits_val ds))
   | _ \<Rightarrow> None)"

definition decimal_formats :: formats where
  "decimal_formats = \<lparr>fm_dump = show_int, fm_parse = text_date, fm_fresh_id = (\<lambda>_. ''id''), fm_now = (\<lambda>_. 0)\<rparr>"

lemma digit_of_digit: "0 \<le> d \<Longrightarrow> d < 10 \<Longrightarrow> digit_of (char_of (48 + d :: int)) = Some d"
  by (simp add: digit_of_def)

lemma digits_val_snoc: "digit_of c = Some d \<Longrightarrow> digits_val (s @ [c]) = digits_val s * 10 + d"
  by (simp add: digits_val_def)

lemma digits_val_show: "0 \<le> n \<Longrightarrow> digits_val (show_digits n) = n"
proof (induction n rule: show_digits.induct)
  case (1 n)
  show ?case
  proof (cases "n < 10")
    case True
    then show ?thesis using 1 digits_val_snoc[of "char_of (48 + n)" n "[]"]
      by (simp add: show_digits.simps[of n] digit_of_digit digits_val_def)
  next
    case False
    have "digits_val (show_digits n) = digits_val (show_digits (n div 10)) * 10 + n mod 10"
      unfolding show_digits.simps[of n] using False by (simp add: digits_val_snoc digit_of_digit)
    then show ?thesis using 1 False by simp
  qed
qed

lemma show_digits_head: "0 \<le> n \<Longrightarrow> \<exists>c s. show_digits n = c # s \<and> is_digit c"
proof (induction n rule: show_digits.induct)
  case (1 n)
  show ?case
  proof (cases "n < 10")
    case True
    then show ?thesis using 1 by (simp add: show_digits.simps[of n] is_digit_def digit_of_digit)
  next
    case False
    moreover have "0 \<le> n div 10" using 1(2) by simp
    ultimately obtain c s where "show_digits (n div 10) = c # s" "is_digit c" using 1(1) by blast
    then show ?thesis using False by (simp add: show_digits.simps[of n])
  qed
qed

lemma sign_split_digits: "is_digit c \<Longrightarrow> sign_split (c # s) = (False, c # s)"
  by (rule sign_split.cases[of "c # s"]) (auto simp: is_digit_def digit_of_def)

lemma text_date_show: "text_date (PStr (show_int n)) = Some n"
proof (cases "n < 0")
  case True
  then show ?thesis by (simp add: text_date_def show_int_def digits_val_show)
next
  case False
  then obtain c s where "show_digits n = c # s" "is_digit c" using show_digits_head[of n] by auto
  then show ?thesis using False digits_val_show[of n] by (simp add: text_date_def show_int_def sign_split_digits)
qed

lemma decimal_dates [simp]: "dates_round_trip decimal_formats"
  by (simp add: dates_round_trip_def decimal_formats_def text_date_show)

subsection \<open>Properties\<close>

text \<open>
  C2. The stores keep their list, on either backend. For the ledger, the audit log, the order
  reports, the journal and the learning samples: a store that reads as a list, asked to append
  or to replace storable records, returns the merged list and then reads as that list, dates,
  optional fields and floats unchanged; if the MySQL server refuses a row, the call raises and
  the store then reads as the records before that row, the others, old ones included, being
  lost with the deletion that was already committed; and an unreadable store refuses to append
  and is left as it was. The dates are read back as they were written, which is pydantic's
  part; a file is written without a failure.
\<close>

theorem stores_keep_their_list:
  assumes "dates_round_trip fm"
  shows "keeps_list db (dump_ledger fm) ledger_columns (ledger_store_list db fm) (ledger_store_save db fm) storable_ledger
    \<and> keeps_list db (dump_event fm) event_columns (audit_store_list db fm) (audit_store_save db fm) (\<lambda>_. True)
    \<and> keeps_list db (dump_report fm) report_columns (report_store_list db fm) (report_store_save db fm) storable_report
    \<and> keeps_list db (dump_trade fm) trade_columns (journal_store_list db fm) (journal_store_save db fm) storable_trade
    \<and> keeps_list db (dump_sample fm) sample_columns (sample_store_list db fm) (sample_store_save db fm) storable_sample"
  using assms ledger_rows.keeps[of db fm ledger_columns] event_rows.keeps[of db fm event_columns]
    report_rows.keeps[of db fm report_columns] trade_rows.keeps[of db fm trade_columns]
    sample_rows.keeps[of db fm sample_columns]
  by (simp add: store_defs)

definition dropping_mysql :: database where
  \<comment> \<open>a server that drops the connection after one row\<close>
  "dropping_mysql = \<lparr>db_backend = ''mysql'',
     db_insert = (\<lambda>n _. if 1 \<le> n then Some (DatabaseError ''Lost connection to MySQL server'') else None)\<rparr>"

definition two_records :: "ledger_record list" where
  "two_records = [sample_record ''t1'' Hedged, sample_record ''t2'' Open]"

theorem stores_keep_their_list_witness:
  "\<exists>st'. ledger_store_save dropping_mysql decimal_formats [sample_record ''t3'' Open] AppendRows
        \<lparr>st_file = None, st_rows = sql_rows (dump_ledger decimal_formats) ledger_columns two_records\<rparr>
      = (Inl (DatabaseError ''Lost connection to MySQL server''), st')
    \<and> ledger_store_list dropping_mysql decimal_formats st' = (Inr [sample_record ''t1'' Hedged], st')"
proof -
  let ?st = "\<lparr>st_file = None, st_rows = sql_rows (dump_ledger decimal_formats) ledger_columns two_records\<rparr>"
  let ?new = "write_rows AppendRows [sample_record ''t3'' Open] two_records"
  have ok: "storable_ledger (sample_record k s)" for k s
    by (simp add: storable_ledger_def sample_record_def valid_ledger_record_def is_f64_of_int[of 1000, simplified])
  have "ledger_store_list dropping_mysql decimal_formats ?st = (Inr two_records, ?st)"
    unfolding ledger_store_list_def by (rule ledger_rows.list_rows) (simp_all add: dropping_mysql_def mysql_enabled_def two_records_def ok)
  moreover have "list_all storable_ledger ?new"
    by (simp add: write_rows_def two_records_def ok)
  moreover have "refusal dropping_mysql (dump_ledger decimal_formats) ledger_columns ?new
      = Some (1, DatabaseError ''Lost connection to MySQL server'')"
    by (simp add: refusal_def dropping_mysql_def mysql_enabled_def two_records_def write_rows_def sql_rows_def)
  moreover have "take 1 ?new = [sample_record ''t1'' Hedged]"
    by (simp add: write_rows_def two_records_def)
  ultimately show ?thesis
    using stores_keep_their_list[OF decimal_dates, of dropping_mysql]
    unfolding keeps_list_def[of _ "dump_ledger decimal_formats"] by fastforce
qed

end
