(* ===== verification/Concurrency.thy ===== *)
theory Concurrency
  imports Persistence "HOL-Library.Sublist"
begin

section \<open>Concurrent writers of a table\<close>

text \<open>
  The workers run their services in threads (\<open>asyncio.to_thread\<close>) while the routes run on
  the event loop, and the stores take no lock. Elsewhere an operation is one step of the state.
  Here a save on the MySQL backend is the statements it sends, each committed by itself:
  \<open>SELECT\<close> of the whole table, \<open>DELETE\<close> of it, and one \<open>INSERT\<close> per row of the list it
  computed in between (\<open>*/store.py\<close>, \<open>MySQLStorage.replace_rows\<close>). Writers of one table
  take turns in any order, a statement at a turn. The statements succeed here; a refused one is
  in \<open>Persistence\<close>. The JSON backend is not treated: there a save truncates its file before it
  writes the text, and a reader in between gets a decoding error.
\<close>

subsection \<open>Saves\<close>

datatype 'r save_call =
    Save write_mode "'r list" \<comment> \<open>\<open>store.save(records, mode)\<close>\<close>
  | SaveKeyed "'r \<Rightarrow> string" 'r \<comment> \<open>\<open>TradeLedgerService.save_record\<close>: replace the record of the key or append\<close>

fun new_list :: "'r save_call \<Rightarrow> 'r list \<Rightarrow> 'r list" where
  \<comment> \<open>the list a save computes from the one it reads\<close>
  "new_list (Save m rs) old = write_rows m rs old"
| "new_list (SaveKeyed key r) old = upsert key r old"

fun own_records :: "'r save_call \<Rightarrow> 'r list" where
  "own_records (Save m rs) = rs"
| "own_records (SaveKeyed key r) = [r]"

datatype 'r writer =
    Ready "'r save_call"
  | Holding "'r list" \<comment> \<open>has read the table and computed the list it is going to write\<close>
  | Inserting "'r list" \<comment> \<open>has deleted the rows; these are still to be inserted\<close>
  | Finished

subsection \<open>Turns\<close>

fun next_statement :: "'r writer \<Rightarrow> 'r list \<Rightarrow> 'r list \<times> 'r writer" where
  \<comment> \<open>the next statement of a writer, or its return\<close>
  "next_statement (Ready c) rows = (rows, Holding (new_list c rows))"
| "next_statement (Holding new) rows = ([], Inserting new)"
| "next_statement (Inserting []) rows = (rows, Finished)"
| "next_statement (Inserting (r # rest)) rows = (rows @ [r], Inserting rest)"
| "next_statement Finished rows = (rows, Finished)"

fun turn :: "nat \<Rightarrow> 'r list \<times> 'r writer list \<Rightarrow> 'r list \<times> 'r writer list" where
  "turn n (rows, ws) =
     (if n < length ws then case next_statement (ws ! n) rows of (rows', x) \<Rightarrow> (rows', ws[n := x]) else (rows, ws))"

definition turns :: "nat list \<Rightarrow> 'r list \<times> 'r writer list \<Rightarrow> 'r list \<times> 'r writer list" where
  "turns ns c = fold turn ns c"

definition all_finished :: "'r list \<times> 'r writer list \<Rightarrow> bool" where
  "all_finished c \<longleftrightarrow> list_all (\<lambda>x. x = Finished) (snd c)"

definition started :: "'r list \<Rightarrow> 'r save_call list \<Rightarrow> 'r list \<times> 'r writer list" where
  "started rows calls = (rows, map Ready calls)"

fun last_delete :: "nat list \<Rightarrow> 'r list \<times> 'r writer list \<Rightarrow> (nat \<times> 'r list) option" where
  \<comment> \<open>the writer that sends the last \<open>DELETE\<close> of a schedule, with the list it then inserts\<close>
  "last_delete [] c = None"
| "last_delete (n # ns) c = (case last_delete ns (turn n c) of
     Some d \<Rightarrow> Some d
   | None \<Rightarrow> if n < length (snd c) then (case snd c ! n of Holding new \<Rightarrow> Some (n, new) | _ \<Rightarrow> None) else None)"

fun serial :: "nat \<Rightarrow> 'r save_call list \<Rightarrow> 'r list \<Rightarrow> nat list" where
  \<comment> \<open>each writer sends all its statements before the next one starts\<close>
  "serial n [] rows = []"
| "serial n (c # cs) rows = replicate (length (new_list c rows) + 3) n @ serial (Suc n) cs (new_list c rows)"

lemma turns_simps [simp]:
  "turns [] c = c" "turns (n # ns) c = turns ns (turn n c)" "turns (ms @ ns) c = turns ns (turns ms c)"
  by (simp_all add: turns_def)

lemma turn_length [simp]: "length (snd (turn n c)) = length (snd c)"
  by (cases c) (simp split: prod.split)

subsection \<open>A save without others in between\<close>

lemma inserting_alone:
  "n < length ws \<Longrightarrow> ws ! n = Inserting new \<Longrightarrow>
   turns (replicate (Suc (length new)) n) (rows, ws) = (rows @ new, ws[n := Finished])"
proof (induction new arbitrary: rows ws)
  case (Cons r new)
  have "turns (replicate (Suc (length (r # new))) n) (rows, ws)
      = turns (replicate (Suc (length new)) n) (turn n (rows, ws))"
    by (simp del: turn.simps)
  also have "turn n (rows, ws) = (rows @ [r], ws[n := Inserting new])" using Cons.prems by simp
  finally show ?case using Cons.IH[of "ws[n := Inserting new]" "rows @ [r]"] Cons.prems by simp
qed simp

lemma holding_alone:
  assumes "n < length ws" "ws ! n = Holding new"
  shows "turns (replicate (length new + 2) n) (rows, ws) = (new, ws[n := Finished])"
proof -
  have "replicate (length new + 2) n = n # replicate (Suc (length new)) n" by simp
  then show ?thesis
    using assms inserting_alone[of n "ws[n := Inserting new]" new "[]"] by (simp del: replicate_Suc)
qed

lemma uninterrupted:
  assumes "n < length ws" "ws ! n = Ready c"
  shows "turns (replicate (length (new_list c rows) + 3) n) (rows, ws) = (new_list c rows, ws[n := Finished])"
proof -
  have split: "replicate (length (new_list c rows) + 3) n = n # n # replicate (Suc (length (new_list c rows))) n"
    by (simp add: numeral_3_eq_3)
  show ?thesis
    unfolding split turns_simps using assms inserting_alone[of n "ws[n := Inserting (new_list c rows)]" "new_list c rows" "[]"]
    by simp
qed

lemma serial_saves:
  "\<forall>i < length cs. ws ! (n + i) = Ready (cs ! i) \<Longrightarrow> length ws = n + length cs \<Longrightarrow>
   fst (turns (serial n cs rows) (rows, ws)) = fold new_list cs rows"
proof (induction cs arbitrary: n rows ws)
  case (Cons c cs)
  have "ws ! n = Ready c" using Cons.prems(1) by (metis add_0_right length_greater_0_conv list.distinct(1) nth_Cons_0)
  then have "turns (replicate (length (new_list c rows) + 3) n) (rows, ws) = (new_list c rows, ws[n := Finished])"
    using Cons.prems(2) by (intro uninterrupted) simp_all
  moreover have "fst (turns (serial (Suc n) cs (new_list c rows)) (new_list c rows, ws[n := Finished]))
      = fold new_list cs (new_list c rows)"
  proof (rule Cons.IH)
    show "\<forall>i<length cs. ws[n := Finished] ! (Suc n + i) = Ready (cs ! i)"
      using Cons.prems(1) by (metis Suc_less_eq add_Suc_shift length_Cons less_add_Suc1 nat_neq_iff nth_Cons_Suc nth_list_update_neq)
  qed (use Cons.prems(2) in simp)
  ultimately show ?case by simp
qed simp

context json_store
begin

text \<open>These statements are what the store's own save does to the table.\<close>

lemma statements_of_save:
  assumes "mysql_enabled db" "list_all ok old" "st_rows st = sql_rows dump columns old"
    and "store_save db dump validate columns rs m st = (Inr new, st')"
  shows "st_rows st' = sql_rows dump columns (fst (turns (serial 0 [Save m rs] old) (started old [Save m rs])))"
proof -
  have "store_merged db validate rs m st = (Inr (write_rows m rs old), st)"
    by (rule merged) (rule list_rows[where columns = columns], rule assms, rule assms, rule assms)
  then have "st_rows st' = sql_rows dump columns (write_rows m rs old)"
    using assms(1,4) by (auto simp: store_save_def replace_rows_run bnd_run thn_run ret_run split: option.splits)
  moreover have "fst (turns (serial 0 [Save m rs] old) (started old [Save m rs])) = write_rows m rs old"
    unfolding started_def by (subst serial_saves) simp_all
  ultimately show ?thesis by simp
qed

end

subsection \<open>Nothing is invented\<close>

fun rows_in :: "'r set \<Rightarrow> 'r writer \<Rightarrow> bool" where
  "rows_in A (Ready c) = (set (own_records c) \<subseteq> A)"
| "rows_in A (Holding new) = (set new \<subseteq> A)"
| "rows_in A (Inserting rest) = (set rest \<subseteq> A)"
| "rows_in A Finished = True"

lemma upsert_set: "set (upsert key r xs) \<subseteq> insert r (set xs)" "r \<in> set (upsert key r xs)"
  by (induction xs) auto

lemma new_list_set:
  "set (new_list c old) \<subseteq> set old \<union> set (own_records c)" "set (own_records c) \<subseteq> set (new_list c old)"
proof -
  show "set (new_list c old) \<subseteq> set old \<union> set (own_records c)"
    by (cases c) (auto simp: write_rows_def dest: subsetD[OF upsert_set(1)] split: write_mode.splits)
  show "set (own_records c) \<subseteq> set (new_list c old)"
    by (cases c) (auto simp: write_rows_def upsert_set(2) split: write_mode.splits)
qed

lemma statement_rows_in:
  assumes "next_statement w rows = (rows', x)" "set rows \<subseteq> A" "rows_in A w"
  shows "set rows' \<subseteq> A \<and> rows_in A x"
  using assms new_list_set(1) by (cases "(w, rows)" rule: next_statement.cases) fastforce+

lemma bounded_turn:
  assumes "set (fst c) \<subseteq> A" "list_all (rows_in A) (snd c)"
  shows "set (fst (turn n c)) \<subseteq> A \<and> list_all (rows_in A) (snd (turn n c))"
proof (cases "n < length (snd c)")
  case True
  obtain rows ws where c: "c = (rows, ws)" by (cases c)
  obtain rows' x where st: "next_statement (ws ! n) rows = (rows', x)" by (cases "next_statement (ws ! n) rows")
  have "set rows' \<subseteq> A \<and> rows_in A x"
    using assms True by (intro statement_rows_in[OF st]) (simp_all add: c list_all_length)
  then show ?thesis using assms True st by (auto simp: c list_all_length nth_list_update)
qed (use assms in \<open>cases c; simp\<close>)

lemma bounded_turns:
  "set (fst c) \<subseteq> A \<Longrightarrow> list_all (rows_in A) (snd c) \<Longrightarrow> set (fst (turns ns c)) \<subseteq> A"
proof (induction ns arbitrary: c)
  case (Cons n ns)
  then show ?case using bounded_turn[of c A n] Cons.IH[of "turn n c"] by simp
qed simp

subsection \<open>The last deletion\<close>

definition inserted_by :: "nat \<Rightarrow> 'r list \<Rightarrow> 'r list \<times> 'r writer list \<Rightarrow> bool" where
  \<comment> \<open>what writer \<open>n\<close> has inserted of its list so far is in the table, in its order\<close>
  "inserted_by n new c \<longleftrightarrow> n < length (snd c) \<and>
     (case snd c ! n of
        Inserting rest \<Rightarrow> (\<exists>part. new = part @ rest \<and> subseq part (fst c))
      | Finished \<Rightarrow> subseq new (fst c)
      | _ \<Rightarrow> False)"

lemma inserted_turn:
  assumes "inserted_by n new c" "\<not> (m < length (snd c) \<and> (\<exists>xs. snd c ! m = Holding xs))"
  shows "inserted_by n new (turn m c)"
proof (cases "m < length (snd c)")
  case True
  obtain rows ws where c: "c = (rows, ws)" by (cases c)
  have len: "n < length ws" "m < length ws" using assms(1) True c by (simp_all add: inserted_by_def)
  show ?thesis
  proof (cases "m = n")
    case same: True
    show ?thesis
    proof (cases "ws ! n")
      case (Inserting rest)
      then obtain part where "new = part @ rest" "subseq part rows" using assms(1) c by (auto simp: inserted_by_def)
      then show ?thesis using Inserting same len c
        by (cases rest) (auto simp: inserted_by_def list_emb_append_mono intro!: exI[of _ "part @ [hd rest]"])
    qed (use assms(1) same c in \<open>auto simp: inserted_by_def\<close>)
  next
    case other: False
    obtain rows' x where st: "next_statement (ws ! m) rows = (rows', x)" by (cases "next_statement (ws ! m) rows")
    then have "subseq rows rows'"
      using assms(2) True c by (cases "(ws ! m, rows)" rule: next_statement.cases) auto
    then show ?thesis
      using assms(1) len c st other by (auto simp: inserted_by_def split: writer.splits intro: subseq_order.trans)
  qed
qed (use assms(1) in \<open>cases c; simp\<close>)

lemma last_delete_none:
  "last_delete ns c = None \<Longrightarrow> inserted_by n new c \<Longrightarrow> inserted_by n new (turns ns c)"
proof (induction ns arbitrary: c)
  case (Cons m ns)
  have "last_delete ns (turn m c) = None" and "\<not> (m < length (snd c) \<and> (\<exists>xs. snd c ! m = Holding xs))"
    using Cons.prems(1) by (auto split: option.splits if_splits)
  then show ?case using Cons.IH[of "turn m c"] inserted_turn[OF Cons.prems(2)] by simp
qed simp

lemma last_delete_inserted:
  "last_delete ns c = Some (n, new) \<Longrightarrow> inserted_by n new (turns ns c)"
proof (induction ns arbitrary: c)
  case (Cons m ns)
  show ?case
  proof (cases "last_delete ns (turn m c)")
    case None
    then have "m = n" "n < length (snd c)" "snd c ! n = Holding new"
      using Cons.prems by (auto split: if_splits writer.splits)
    then have "inserted_by n new (turn m c)" by (cases c) (simp add: inserted_by_def)
    then show ?thesis using last_delete_none[OF None] by simp
  next
    case (Some d)
    then show ?thesis using Cons by simp
  qed
qed simp

subsection \<open>Properties\<close>

definition deleted :: "'r writer \<Rightarrow> bool" where
  "deleted w \<longleftrightarrow> (case w of Inserting _ \<Rightarrow> True | Finished \<Rightarrow> True | _ \<Rightarrow> False)"

lemma no_delete:
  "last_delete ns c = None \<Longrightarrow> n < length (snd c) \<Longrightarrow> deleted (snd (turns ns c) ! n) \<Longrightarrow> deleted (snd c ! n)"
proof (induction ns arbitrary: c)
  case (Cons m ns)
  obtain rows ws where c: "c = (rows, ws)" by (cases c)
  have none: "last_delete ns (turn m c) = None" "\<not> (m < length ws \<and> (\<exists>xs. ws ! m = Holding xs))"
    using Cons.prems(1) c by (auto split: option.splits if_splits)
  have "deleted (snd (turn m c) ! n)" using Cons none(1) by simp
  then show ?case
    using none(2) Cons.prems(2) c
    by (cases "(ws ! m, rows)" rule: next_statement.cases) (auto simp: deleted_def nth_list_update split: if_splits)
qed simp

definition holds_own :: "'r save_call list \<Rightarrow> 'r list \<times> 'r writer list \<Rightarrow> bool" where
  "holds_own calls c \<longleftrightarrow> length (snd c) = length calls \<and> (\<forall>n<length calls. case snd c ! n of
     Ready k \<Rightarrow> k = calls ! n
   | Holding new \<Rightarrow> set (own_records (calls ! n)) \<subseteq> set new
   | _ \<Rightarrow> True)"

lemma holds_own_turn: "holds_own calls c \<Longrightarrow> holds_own calls (turn m c)"
proof (cases "m < length (snd c)")
  case True
  assume own: "holds_own calls c"
  obtain rows ws where c: "c = (rows, ws)" by (cases c)
  obtain rows' x where st: "next_statement (ws ! m) rows = (rows', x)" by (cases "next_statement (ws ! m) rows")
  have "case ws ! m of Ready k \<Rightarrow> k = calls ! m | Holding new \<Rightarrow> set (own_records (calls ! m)) \<subseteq> set new | _ \<Rightarrow> True"
    using own True by (simp add: holds_own_def c)
  then have "case x of Ready k \<Rightarrow> k = calls ! m | Holding new \<Rightarrow> set (own_records (calls ! m)) \<subseteq> set new | _ \<Rightarrow> True"
    using st by (cases "(ws ! m, rows)" rule: next_statement.cases) (auto dest: subsetD[OF new_list_set(2)])
  then show ?thesis using own st True by (auto simp: holds_own_def c nth_list_update)
qed (cases c; simp)

lemma last_delete_own:
  "holds_own calls c \<Longrightarrow> last_delete ns c = Some (n, new) \<Longrightarrow> n < length calls \<and> set (own_records (calls ! n)) \<subseteq> set new"
proof (induction ns arbitrary: c)
  case (Cons m ns)
  show ?case
  proof (cases "last_delete ns (turn m c)")
    case None
    then have "n < length (snd c)" "snd c ! n = Holding new"
      using Cons.prems(2) by (auto split: if_splits writer.splits)
    then show ?thesis using Cons.prems(1) unfolding holds_own_def by fastforce
  next
    case (Some d)
    then show ?thesis using Cons holds_own_turn[OF Cons.prems(1), of m] by simp
  qed
qed simp

lemma last_delete_exists:
  assumes "all_finished (turns ns (started rows calls))" "calls \<noteq> []"
  shows "last_delete ns (started rows calls) \<noteq> None"
proof
  assume none: "last_delete ns (started rows calls) = None"
  have len: "length (snd (turns ns c)) = length (snd c)" for ns and c :: "'a list \<times> 'a writer list"
    by (induction ns arbitrary: c) simp_all
  have "snd (turns ns (started rows calls)) ! 0 = Finished"
    using assms len[of ns "started rows calls"] by (simp add: all_finished_def list_all_length started_def)
  then have "deleted (snd (started rows calls) ! 0)"
    using no_delete[OF none, of 0] assms(2) by (simp add: started_def deleted_def)
  then show False using assms(2) by (simp add: started_def deleted_def nth_map)
qed

text \<open>Two schedules of two writers that append one record each, over a table of so many rows.\<close>

definition lost_update :: "nat \<Rightarrow> nat list" where
  \<comment> \<open>both read; the first finishes its save, then the second does\<close>
  "lost_update k = [0, 1] @ replicate (k + 3) 0 @ replicate (k + 3) 1"

definition doubled_rows :: "nat \<Rightarrow> nat list" where
  \<comment> \<open>both read, both delete; then each inserts its list\<close>
  "doubled_rows k = [0, 1, 0, 1] @ replicate (k + 2) 0 @ replicate (k + 2) 1"

text \<open>
  C21. What overlapping saves of one MySQL table do, statement by statement, for any calls of a
  store's save (append or replace) and of the ledger's save of one record. Saves one after the
  other are the operations. Under every schedule the table never holds a row that neither was
  there nor belongs to a call. When all have returned, the rows of the save that deleted last
  are in the table in their order, its own records among them. No more can be promised: of two
  overlapping appends the first can be lost although its call returned, and the table can end
  with every old record twice, so that a trade has two records.
\<close>

theorem overlapping_saves:
  assumes "all_finished (turns schedule (started rows calls))" "calls \<noteq> []"
  shows "fst (turns (serial 0 calls rows) (started rows calls)) = fold new_list calls rows
    \<and> set (fst (turns anyhow (started rows calls))) \<subseteq> set rows \<union> (\<Union>c\<in>set calls. set (own_records c))
    \<and> (\<exists>n new. last_delete schedule (started rows calls) = Some (n, new) \<and> n < length calls
        \<and> set (own_records (calls ! n)) \<subseteq> set new \<and> subseq new (fst (turns schedule (started rows calls))))
    \<and> turns (lost_update (length rows)) (started rows [Save AppendRows [a], Save AppendRows [b]])
        = (rows @ [b], [Finished, Finished])
    \<and> turns (doubled_rows (length rows)) (started rows [Save AppendRows [a], Save AppendRows [b]])
        = (rows @ [a] @ rows @ [b], [Finished, Finished])"
proof (intro conjI)
  let ?c = "started rows calls"
  show "fst (turns (serial 0 calls rows) ?c) = fold new_list calls rows"
    unfolding started_def by (rule serial_saves) simp_all
  show "set (fst (turns anyhow ?c)) \<subseteq> set rows \<union> (\<Union>c\<in>set calls. set (own_records c))"
    by (rule bounded_turns) (auto simp: started_def list_all_iff)
  obtain n new where del: "last_delete schedule ?c = Some (n, new)" using last_delete_exists[OF assms] by auto
  have "holds_own calls ?c" by (simp add: holds_own_def started_def)
  then have own: "n < length calls \<and> set (own_records (calls ! n)) \<subseteq> set new" using del by (rule last_delete_own)
  have "inserted_by n new (turns schedule ?c)" by (rule last_delete_inserted[OF del])
  then have "subseq new (fst (turns schedule ?c))"
    using assms(1) by (auto simp: inserted_by_def all_finished_def list_all_length)
  then show "\<exists>n new. last_delete schedule ?c = Some (n, new) \<and> n < length calls
      \<and> set (own_records (calls ! n)) \<subseteq> set new \<and> subseq new (fst (turns schedule ?c))"
    using del own by blast
  have read: "turns [0, 1] (started rows [Save AppendRows [a], Save AppendRows [b]])
      = (rows, [Holding (rows @ [a]), Holding (rows @ [b])])"
    by (simp add: started_def write_rows_def)
  show "turns (lost_update (length rows)) (started rows [Save AppendRows [a], Save AppendRows [b]])
      = (rows @ [b], [Finished, Finished])"
    using holding_alone[of 0 "[Holding (rows @ [a]), Holding (rows @ [b])]" "rows @ [a]" rows]
      holding_alone[of 1 "[Finished, Holding (rows @ [b])]" "rows @ [b]" "rows @ [a]"]
    unfolding lost_update_def turns_simps(3) read by (simp add: numeral_3_eq_3 del: replicate_Suc)
  show "turns (doubled_rows (length rows)) (started rows [Save AppendRows [a], Save AppendRows [b]])
      = (rows @ [a] @ rows @ [b], [Finished, Finished])"
  proof -
    have "turns [0, 1, 0, 1] (started rows [Save AppendRows [a], Save AppendRows [b]])
        = ([], [Inserting (rows @ [a]), Inserting (rows @ [b])])"
      by (simp add: started_def write_rows_def)
    then show ?thesis
      using inserting_alone[of 0 "[Inserting (rows @ [a]), Inserting (rows @ [b])]" "rows @ [a]" "[]"]
        inserting_alone[of 1 "[Finished, Inserting (rows @ [b])]" "rows @ [b]" "rows @ [a]"]
      unfolding doubled_rows_def turns_simps(3) by (simp del: replicate_Suc)
  qed
qed

theorem overlapping_saves_witness:
  "\<exists>new. last_delete [0, 1, 1, 0, 0, 1, 0, 0, 1, 1]
        (started [sample_record ''t1'' Hedged] [SaveKeyed lr_trade_id (sample_record ''t1'' Closed), Save AppendRows [sample_record ''t2'' Open]])
      = Some (0, new)
    \<and> subseq new (fst (turns [0, 1, 1, 0, 0, 1, 0, 0, 1, 1]
        (started [sample_record ''t1'' Hedged] [SaveKeyed lr_trade_id (sample_record ''t1'' Closed), Save AppendRows [sample_record ''t2'' Open]])))
    \<and> fst (turns [0, 1, 1, 0, 0, 1, 0, 0, 1, 1]
        (started [sample_record ''t1'' Hedged] [SaveKeyed lr_trade_id (sample_record ''t1'' Closed), Save AppendRows [sample_record ''t2'' Open]]))
      = [sample_record ''t1'' Closed, sample_record ''t1'' Hedged, sample_record ''t2'' Open]"
proof -
  let ?ns = "[0, 1, 1, 0, 0, 1, 0, 0, 1, 1] :: nat list"
    and ?calls = "[SaveKeyed lr_trade_id (sample_record ''t1'' Closed), Save AppendRows [sample_record ''t2'' Open]]"
  let ?c = "started [sample_record ''t1'' Hedged] ?calls"
  have run: "turns ?ns ?c = ([sample_record ''t1'' Closed, sample_record ''t1'' Hedged, sample_record ''t2'' Open], [Finished, Finished])"
    by (simp add: started_def write_rows_def)
  have "all_finished (turns ?ns ?c)" by (simp only: run) (simp add: all_finished_def)
  from overlapping_saves[OF this] obtain n new where got: "last_delete ?ns ?c = Some (n, new)" "subseq new (fst (turns ?ns ?c))" by blast
  moreover have "n = 0" using got(1) by (simp add: started_def write_rows_def)
  ultimately show ?thesis using run by simp
qed

end
