(* ===== verification/StateStores.thy ===== *)
theory StateStores
  imports Persistence Adaptation
begin

section \<open>Stores of one row per key\<close>

text \<open>
  The stores that keep one value under a key: the circuit breaker's state
  (\<open>ExecutionCircuitBreakerStore\<close>), the active tuning state (\<open>TuningStateStore\<close>) and
  the backtest datasets (\<open>BacktestDatasetStore\<close>), on the two backends of
  \<open>Persistence\<close>. A table of these has a primary key in its first column and is written
  with one \<open>REPLACE\<close> statement, so a refused write leaves it as it was. Keys are equal when
  their collation keys are; the collation is the server's (\<open>collation\<close>).
\<close>

subsection \<open>Reading fields\<close>

definition as_int :: "int reader" where
  \<comment> \<open>a text is read when it is decimal digits with a sign\<close>
  "as_int v = (case v of
     PInt i \<Rightarrow> Some i
   | PBool b \<Rightarrow> Some (if b then 1 else 0)
   | PFloat x \<Rightarrow> if x = of_int \<lfloor>x\<rfloor> then Some \<lfloor>x\<rfloor> else None
   | PStr s \<Rightarrow> (case sign_split (py_strip s) of (neg, ds) \<Rightarrow>
       if ds \<noteq> [] \<and> list_all is_digit ds then Some (if neg then - digits_val ds else digits_val ds) else None)
   | _ \<Rightarrow> None)"

definition as_bool :: "bool reader" where
  "as_bool v = (case v of
     PBool b \<Rightarrow> Some b
   | PInt i \<Rightarrow> if i = 1 then Some True else if i = 0 then Some False else None
   | PFloat x \<Rightarrow> if x = 1 then Some True else if x = 0 then Some False else None
   | PStr s \<Rightarrow> if py_lower s \<in> {''1'', ''on'', ''t'', ''true'', ''y'', ''yes''} then Some True
       else if py_lower s \<in> {''0'', ''off'', ''f'', ''false'', ''n'', ''no''} then Some False else None
   | _ \<Rightarrow> None)"

definition as_list :: "'a reader \<Rightarrow> 'a list reader" where
  "as_list rd v = (case v of PList vs \<Rightarrow> those (map rd vs) | _ \<Rightarrow> None)"

definition as_model :: "(pydict \<Rightarrow> 'r option) \<Rightarrow> ('r \<Rightarrow> bool) \<Rightarrow> 'r reader" where
  \<comment> \<open>a nested model\<close>
  "as_model rd ok v = (case v of
     PDict d \<Rightarrow> (case rd d of Some r \<Rightarrow> if ok r then Some r else None | None \<Rightarrow> None)
   | _ \<Rightarrow> None)"

lemma scalar_readers [simp]: "as_int (PInt i) = Some i" "as_bool (PBool b) = Some b"
  by (simp_all add: as_int_def as_bool_def)

lemma as_model_dict [simp]:
  "as_model rd ok (PDict d) = (case rd d of Some r \<Rightarrow> if ok r then Some r else None | None \<Rightarrow> None)"
  by (simp add: as_model_def)

lemma as_list_map [simp]: "(\<And>x. x \<in> set xs \<Longrightarrow> rd (f x) = Some x) \<Longrightarrow> as_list rd (PList (map f xs)) = Some xs"
proof -
  assume "\<And>x. x \<in> set xs \<Longrightarrow> rd (f x) = Some x"
  then have "those (map (rd \<circ> f) xs) = Some xs" by (induction xs) simp_all
  then show ?thesis by (simp add: as_list_def)
qed

subsection \<open>The models\<close>

definition dump_breaker :: "formats \<Rightarrow> breaker_state \<Rightarrow> pyval" where
  "dump_breaker fm s = PDict
     [(''enabled'', PBool (cb_enabled s)), (''is_open'', PBool (cb_is_open s)),
      (''failure_threshold'', PInt (cb_failure_threshold s)), (''cooldown_seconds'', PFloat (cb_cooldown_seconds s)),
      (''consecutive_failures'', PInt (cb_consecutive_failures s)),
      (''last_failure_at'', or_null (\<lambda>t. PStr (fm_dump fm t)) (cb_last_failure_at s)),
      (''opened_at'', or_null (\<lambda>t. PStr (fm_dump fm t)) (cb_opened_at s)),
      (''resume_at'', or_null (\<lambda>t. PStr (fm_dump fm t)) (cb_resume_at s)),
      (''last_reason'', or_null PStr (cb_last_reason s)), (''last_trade_id'', or_null PStr (cb_last_trade_id s)),
      (''updated_at'', PStr (fm_dump fm (cb_updated_at s)))]"

definition breaker_fields :: "formats \<Rightarrow> pydict \<Rightarrow> breaker_state option" where
  "breaker_fields fm d = do {
     enabled \<leftarrow> defaulted ''enabled'' as_bool True d;
     is_open \<leftarrow> defaulted ''is_open'' as_bool False d;
     threshold \<leftarrow> defaulted ''failure_threshold'' as_int 2 d;
     cooldown \<leftarrow> defaulted ''cooldown_seconds'' as_float 300 d;
     failures \<leftarrow> defaulted ''consecutive_failures'' as_int 0 d;
     last_failure_at \<leftarrow> defaulted ''last_failure_at'' (nullable (fm_parse fm)) None d;
     opened_at \<leftarrow> defaulted ''opened_at'' (nullable (fm_parse fm)) None d;
     resume_at \<leftarrow> defaulted ''resume_at'' (nullable (fm_parse fm)) None d;
     last_reason \<leftarrow> defaulted ''last_reason'' (nullable as_text) None d;
     last_trade_id \<leftarrow> defaulted ''last_trade_id'' (nullable as_text) None d;
     updated_at \<leftarrow> defaulted ''updated_at'' (fm_parse fm) (fm_now fm (PDict d)) d;
     Some \<lparr>cb_enabled = enabled, cb_is_open = is_open, cb_failure_threshold = threshold,
           cb_cooldown_seconds = cooldown, cb_consecutive_failures = failures,
           cb_last_failure_at = last_failure_at, cb_opened_at = opened_at, cb_resume_at = resume_at,
           cb_last_reason = last_reason, cb_last_trade_id = last_trade_id, cb_updated_at = updated_at\<rparr>
   }"

definition validate_breaker :: "formats \<Rightarrow> pyval \<Rightarrow> py_error + breaker_state" where
  "validate_breaker fm = validated ''ExecutionCircuitBreakerState'' (breaker_fields fm) valid_breaker_state"

definition storable_breaker :: "breaker_state \<Rightarrow> bool" where
  "storable_breaker s \<longleftrightarrow> valid_breaker_state s \<and> is_f64 (cb_cooldown_seconds s)"

definition dump_score :: "score_config_snapshot \<Rightarrow> pyval" where
  "dump_score s = PDict
     [(''taker_fee_bps'', PFloat (ss_taker_fee_bps s)), (''funding_periods_per_day'', PInt (ss_funding_periods_per_day s)),
      (''expected_hold_periods'', PInt (ss_expected_hold_periods s)),
      (''basis_soft_limit_bps'', PFloat (ss_basis_soft_limit_bps s)),
      (''basis_guarded_bps'', PFloat (ss_basis_guarded_bps s)),
      (''payback_guarded_periods'', PFloat (ss_payback_guarded_periods s)),
      (''trading_cost_guarded_bps'', PFloat (ss_trading_cost_guarded_bps s)),
      (''carry_weight'', PFloat (ss_carry_weight s)), (''annualized_weight'', PFloat (ss_annualized_weight s)),
      (''cost_soft_limit_bps'', PFloat (ss_cost_soft_limit_bps s)),
      (''cost_penalty_weight'', PFloat (ss_cost_penalty_weight s)),
      (''basis_penalty_weight'', PFloat (ss_basis_penalty_weight s))]"

definition score_fields :: "pydict \<Rightarrow> score_config_snapshot option" where
  "score_fields d = do {
     taker \<leftarrow> defaulted ''taker_fee_bps'' as_float (rnd (4 / 10)) d;
     periods \<leftarrow> defaulted ''funding_periods_per_day'' as_int 3 d;
     hold \<leftarrow> defaulted ''expected_hold_periods'' as_int 6 d;
     soft \<leftarrow> defaulted ''basis_soft_limit_bps'' as_float 2 d;
     guarded \<leftarrow> defaulted ''basis_guarded_bps'' as_float 8 d;
     payback \<leftarrow> defaulted ''payback_guarded_periods'' as_float 1 d;
     cost \<leftarrow> defaulted ''trading_cost_guarded_bps'' as_float 3 d;
     carry \<leftarrow> defaulted ''carry_weight'' as_float 20 d;
     annualized \<leftarrow> defaulted ''annualized_weight'' as_float (rnd (15 / 100)) d;
     cost_soft \<leftarrow> defaulted ''cost_soft_limit_bps'' as_float (rnd (15 / 10)) d;
     cost_weight \<leftarrow> defaulted ''cost_penalty_weight'' as_float 1 d;
     basis_weight \<leftarrow> defaulted ''basis_penalty_weight'' as_float (rnd (15 / 10)) d;
     Some \<lparr>ss_taker_fee_bps = taker, ss_funding_periods_per_day = periods, ss_expected_hold_periods = hold,
           ss_basis_soft_limit_bps = soft, ss_basis_guarded_bps = guarded, ss_payback_guarded_periods = payback,
           ss_trading_cost_guarded_bps = cost, ss_carry_weight = carry, ss_annualized_weight = annualized,
           ss_cost_soft_limit_bps = cost_soft, ss_cost_penalty_weight = cost_weight,
           ss_basis_penalty_weight = basis_weight\<rparr>
   }"

definition dump_risk :: "risk_config_snapshot \<Rightarrow> pyval" where
  "dump_risk s = PDict
     [(''min_allow_score'', PFloat (rk_min_allow_score s)), (''min_review_score'', PFloat (rk_min_review_score s)),
      (''min_allow_net_edge_bps'', PFloat (rk_min_allow_net_edge_bps s)),
      (''min_allow_projected_edge_bps'', PFloat (rk_min_allow_projected_edge_bps s)),
      (''max_allow_basis_bps'', PFloat (rk_max_allow_basis_bps s)),
      (''max_review_basis_bps'', PFloat (rk_max_review_basis_bps s)),
      (''max_allow_trading_cost_bps'', PFloat (rk_max_allow_trading_cost_bps s)),
      (''max_allow_payback_periods'', PFloat (rk_max_allow_payback_periods s))]"

definition risk_fields :: "pydict \<Rightarrow> risk_config_snapshot option" where
  "risk_fields d = do {
     allow \<leftarrow> defaulted ''min_allow_score'' as_float 100 d;
     review \<leftarrow> defaulted ''min_review_score'' as_float 10 d;
     edge \<leftarrow> defaulted ''min_allow_net_edge_bps'' as_float 4 d;
     projected \<leftarrow> defaulted ''min_allow_projected_edge_bps'' as_float 2 d;
     basis \<leftarrow> defaulted ''max_allow_basis_bps'' as_float 7 d;
     review_basis \<leftarrow> defaulted ''max_review_basis_bps'' as_float 100 d;
     cost \<leftarrow> defaulted ''max_allow_trading_cost_bps'' as_float 3 d;
     payback \<leftarrow> defaulted ''max_allow_payback_periods'' as_float 1 d;
     Some \<lparr>rk_min_allow_score = allow, rk_min_review_score = review, rk_min_allow_net_edge_bps = edge,
           rk_min_allow_projected_edge_bps = projected, rk_max_allow_basis_bps = basis,
           rk_max_review_basis_bps = review_basis, rk_max_allow_trading_cost_bps = cost,
           rk_max_allow_payback_periods = payback\<rparr>
   }"

definition dump_backtest :: "backtest_config \<Rightarrow> pyval" where
  "dump_backtest c = PDict
     [(''notional_per_trade'', PFloat (bc_notional_per_trade c)), (''min_score'', PFloat (bc_min_score c)),
      (''min_net_edge_bps'', PFloat (bc_min_net_edge_bps c)), (''top_k'', PInt (bc_top_k c)),
      (''accept_reviewed'', PBool (bc_accept_reviewed c)), (''strategy_id'', or_null PStr (bc_strategy_id c))]"

definition backtest_fields :: "pydict \<Rightarrow> backtest_config option" where
  "backtest_fields d = do {
     notional \<leftarrow> defaulted ''notional_per_trade'' as_float 1000 d;
     score \<leftarrow> defaulted ''min_score'' as_float 0 d;
     edge \<leftarrow> defaulted ''min_net_edge_bps'' as_float 0 d;
     top_k \<leftarrow> defaulted ''top_k'' as_int 1 d;
     reviewed \<leftarrow> defaulted ''accept_reviewed'' as_bool False d;
     strategy_id \<leftarrow> defaulted ''strategy_id'' (nullable as_text) None d;
     Some \<lparr>bc_notional_per_trade = notional, bc_min_score = score, bc_min_net_edge_bps = edge,
           bc_top_k = top_k, bc_accept_reviewed = reviewed, bc_strategy_id = strategy_id\<rparr>
   }"

definition dump_tuning_config :: "tuning_config \<Rightarrow> pyval" where
  "dump_tuning_config c = PDict
     [(''score'', dump_score (tc_score c)), (''risk'', dump_risk (tc_risk c)), (''backtest'', dump_backtest (tc_backtest c))]"

definition tuning_config_fields :: "pydict \<Rightarrow> tuning_config option" where
  "tuning_config_fields d = do {
     score \<leftarrow> defaulted ''score'' (as_model score_fields (\<lambda>_. True)) (tc_score default_tuning_config) d;
     risk \<leftarrow> defaulted ''risk'' (as_model risk_fields (\<lambda>_. True)) (tc_risk default_tuning_config) d;
     backtest \<leftarrow> defaulted ''backtest'' (as_model backtest_fields valid_backtest_config) default_backtest_config d;
     Some \<lparr>tc_score = score, tc_risk = risk, tc_backtest = backtest\<rparr>
   }"

definition dump_tuning :: "formats \<Rightarrow> tuning_state \<Rightarrow> pyval" where
  "dump_tuning fm s = PDict
     [(''updated_at'', PStr (fm_dump fm (ts_updated_at s))), (''active_package_id'', PStr (ts_active_package_id s)),
      (''active_package_title'', PStr (ts_active_package_title s)), (''config'', dump_tuning_config (ts_config s))]"

definition tuning_fields :: "formats \<Rightarrow> pydict \<Rightarrow> tuning_state option" where
  "tuning_fields fm d = do {
     updated_at \<leftarrow> defaulted ''updated_at'' (fm_parse fm) (fm_now fm (PDict d)) d;
     package_id \<leftarrow> defaulted ''active_package_id'' as_text ''balanced'' d;
     title \<leftarrow> defaulted ''active_package_title'' as_text balanced_title d;
     config \<leftarrow> defaulted ''config'' (as_model tuning_config_fields (\<lambda>_. True)) default_tuning_config d;
     Some \<lparr>ts_updated_at = updated_at, ts_active_package_id = package_id, ts_active_package_title = title,
           ts_config = config\<rparr>
   }"

definition validate_tuning :: "formats \<Rightarrow> pyval \<Rightarrow> py_error + tuning_state" where
  "validate_tuning fm = validated ''TuningState'' (tuning_fields fm) (\<lambda>_. True)"

definition floats_of_score :: "score_config_snapshot \<Rightarrow> float64 list" where
  "floats_of_score s = [ss_taker_fee_bps s, ss_basis_soft_limit_bps s, ss_basis_guarded_bps s,
     ss_payback_guarded_periods s, ss_trading_cost_guarded_bps s, ss_carry_weight s, ss_annualized_weight s,
     ss_cost_soft_limit_bps s, ss_cost_penalty_weight s, ss_basis_penalty_weight s]"

definition floats_of_risk :: "risk_config_snapshot \<Rightarrow> float64 list" where
  "floats_of_risk s = [rk_min_allow_score s, rk_min_review_score s, rk_min_allow_net_edge_bps s,
     rk_min_allow_projected_edge_bps s, rk_max_allow_basis_bps s, rk_max_review_basis_bps s,
     rk_max_allow_trading_cost_bps s, rk_max_allow_payback_periods s]"

definition storable_tuning :: "tuning_state \<Rightarrow> bool" where
  \<comment> \<open>the backtest configuration is within its constraints, and the floats are binary64 values\<close>
  "storable_tuning s \<longleftrightarrow> valid_backtest_config (tc_backtest (ts_config s))
     \<and> list_all is_f64 (floats_of_score (tc_score (ts_config s))) \<and> list_all is_f64 (floats_of_risk (tc_risk (ts_config s)))
     \<and> list_all is_f64 [bc_notional_per_trade (tc_backtest (ts_config s)), bc_min_score (tc_backtest (ts_config s)),
          bc_min_net_edge_bps (tc_backtest (ts_config s))]"

definition dump_snapshot :: "market_snapshot \<Rightarrow> pyval" where
  "dump_snapshot s = PDict
     [(''symbol'', PStr (ms_symbol s)), (''funding_rate'', PFloat (ms_funding_rate s)),
      (''perp_bid'', PFloat (ms_perp_bid s)), (''perp_ask'', PFloat (ms_perp_ask s)),
      (''spot_bid'', PFloat (ms_spot_bid s)), (''spot_ask'', PFloat (ms_spot_ask s)),
      (''perp_mid'', PFloat (ms_perp_mid s)), (''spot_mid'', PFloat (ms_spot_mid s)),
      (''perp_spread_bps'', PFloat (ms_perp_spread_bps s)), (''spot_spread_bps'', PFloat (ms_spot_spread_bps s))]"

definition snapshot_fields :: "pydict \<Rightarrow> market_snapshot option" where
  "snapshot_fields d = do {
     symbol \<leftarrow> required ''symbol'' as_text d;
     rate \<leftarrow> required ''funding_rate'' as_float d;
     perp_bid \<leftarrow> defaulted ''perp_bid'' as_float 0 d;
     perp_ask \<leftarrow> defaulted ''perp_ask'' as_float 0 d;
     spot_bid \<leftarrow> defaulted ''spot_bid'' as_float 0 d;
     spot_ask \<leftarrow> defaulted ''spot_ask'' as_float 0 d;
     perp_mid \<leftarrow> required ''perp_mid'' as_float d;
     spot_mid \<leftarrow> required ''spot_mid'' as_float d;
     perp_spread \<leftarrow> required ''perp_spread_bps'' as_float d;
     spot_spread \<leftarrow> required ''spot_spread_bps'' as_float d;
     Some \<lparr>ms_symbol = symbol, ms_funding_rate = rate, ms_perp_bid = perp_bid, ms_perp_ask = perp_ask,
           ms_spot_bid = spot_bid, ms_spot_ask = spot_ask, ms_perp_mid = perp_mid, ms_spot_mid = spot_mid,
           ms_perp_spread_bps = perp_spread, ms_spot_spread_bps = spot_spread\<rparr>
   }"

definition dump_period :: "formats \<Rightarrow> backtest_period \<Rightarrow> pyval" where
  "dump_period fm p = PDict
     [(''observed_at'', or_null (\<lambda>t. PStr (fm_dump fm t)) (bp_observed_at p)),
      (''snapshots'', PList (map dump_snapshot (bp_snapshots p)))]"

definition period_fields :: "formats \<Rightarrow> pydict \<Rightarrow> backtest_period option" where
  "period_fields fm d = do {
     observed_at \<leftarrow> defaulted ''observed_at'' (nullable (fm_parse fm)) None d;
     snapshots \<leftarrow> defaulted ''snapshots'' (as_list (as_model snapshot_fields (\<lambda>_. True))) [] d;
     Some \<lparr>bp_observed_at = observed_at, bp_snapshots = snapshots\<rparr>
   }"

definition dump_dataset :: "formats \<Rightarrow> backtest_dataset \<Rightarrow> pyval" where
  "dump_dataset fm b = PDict
     [(''dataset_id'', PStr (bd_dataset_id b)), (''title'', PStr (bd_title b)), (''source'', PStr (bd_source b)),
      (''description'', or_null PStr (bd_description b)), (''imported_at'', PStr (fm_dump fm (bd_imported_at b))),
      (''periods'', PList (map (dump_period fm) (bd_periods b)))]"

definition dataset_fields :: "formats \<Rightarrow> pydict \<Rightarrow> backtest_dataset option" where
  "dataset_fields fm d = do {
     dataset_id \<leftarrow> required ''dataset_id'' as_text d;
     title \<leftarrow> required ''title'' as_text d;
     source \<leftarrow> defaulted ''source'' as_text ''manual_import'' d;
     description \<leftarrow> defaulted ''description'' (nullable as_text) None d;
     imported_at \<leftarrow> defaulted ''imported_at'' (fm_parse fm) (fm_now fm (PDict d)) d;
     periods \<leftarrow> defaulted ''periods'' (as_list (as_model (period_fields fm) (\<lambda>_. True))) [] d;
     Some \<lparr>bd_dataset_id = dataset_id, bd_title = title, bd_source = source, bd_description = description,
           bd_imported_at = imported_at, bd_periods = periods\<rparr>
   }"

definition validate_dataset :: "formats \<Rightarrow> pyval \<Rightarrow> py_error + backtest_dataset" where
  "validate_dataset fm = validated ''BacktestDataset'' (dataset_fields fm) (\<lambda>_. True)"

definition storable_snapshot :: "market_snapshot \<Rightarrow> bool" where
  "storable_snapshot s \<longleftrightarrow> list_all is_f64 [ms_funding_rate s, ms_perp_bid s, ms_perp_ask s, ms_spot_bid s,
     ms_spot_ask s, ms_perp_mid s, ms_spot_mid s, ms_perp_spread_bps s, ms_spot_spread_bps s]"

definition storable_dataset :: "backtest_dataset \<Rightarrow> bool" where
  "storable_dataset b \<longleftrightarrow> list_all (\<lambda>p. list_all storable_snapshot (bp_snapshots p)) (bd_periods b)"

subsection \<open>The models are read back as written\<close>

interpretation breaker_row: json_store "dump_breaker fm" "validate_breaker fm"
  "\<lambda>s. dates_round_trip fm \<and> storable_breaker s" for fm
  by unfold_locales (simp add: validate_breaker_def dump_breaker_def breaker_fields_def field_defs storable_breaker_def
      valid_breaker_state_def)

lemma score_back: "list_all is_f64 (floats_of_score s) \<Longrightarrow> as_model score_fields (\<lambda>_. True) (dump_score s) = Some s"
  by (simp add: dump_score_def score_fields_def field_defs floats_of_score_def)

lemma risk_back: "list_all is_f64 (floats_of_risk s) \<Longrightarrow> as_model risk_fields (\<lambda>_. True) (dump_risk s) = Some s"
  by (simp add: dump_risk_def risk_fields_def field_defs floats_of_risk_def)

lemma backtest_back: "valid_backtest_config c \<Longrightarrow>
    list_all is_f64 [bc_notional_per_trade c, bc_min_score c, bc_min_net_edge_bps c] \<Longrightarrow>
    as_model backtest_fields valid_backtest_config (dump_backtest c) = Some c"
  by (simp add: dump_backtest_def backtest_fields_def field_defs valid_backtest_config_def)

interpretation tuning_row: json_store "dump_tuning fm" "validate_tuning fm"
  "\<lambda>s. dates_round_trip fm \<and> storable_tuning s" for fm
proof
  fix s assume s: "dates_round_trip fm \<and> storable_tuning s"
  have "as_model tuning_config_fields (\<lambda>_. True) (dump_tuning_config (ts_config s)) = Some (ts_config s)"
    using s by (simp add: dump_tuning_config_def tuning_config_fields_def field_defs storable_tuning_def
        score_back risk_back backtest_back)
  then show "validate_tuning fm (dump_tuning fm s) = Inr s"
    using s by (simp add: validate_tuning_def dump_tuning_def tuning_fields_def field_defs)
qed

lemma snapshot_back: "storable_snapshot s \<Longrightarrow> as_model snapshot_fields (\<lambda>_. True) (dump_snapshot s) = Some s"
  by (simp add: dump_snapshot_def snapshot_fields_def field_defs storable_snapshot_def)

lemma period_back:
  assumes "dates_round_trip fm" "list_all storable_snapshot (bp_snapshots p)"
  shows "as_model (period_fields fm) (\<lambda>_. True) (dump_period fm p) = Some p"
proof -
  have "as_list (as_model snapshot_fields (\<lambda>_. True)) (PList (map dump_snapshot (bp_snapshots p))) = Some (bp_snapshots p)"
    using assms(2) by (intro as_list_map snapshot_back) (simp add: list_all_iff)
  then show ?thesis using assms(1) by (simp add: dump_period_def period_fields_def field_defs)
qed

interpretation dataset_json: json_store "dump_dataset fm" "validate_dataset fm"
  "\<lambda>b. dates_round_trip fm \<and> storable_dataset b" for fm
proof
  fix b assume b: "dates_round_trip fm \<and> storable_dataset b"
  have "as_list (as_model (period_fields fm) (\<lambda>_. True)) (PList (map (dump_period fm) (bd_periods b))) = Some (bd_periods b)"
    using b by (intro as_list_map period_back) (auto simp: storable_dataset_def list_all_iff)
  then show "validate_dataset fm (dump_dataset fm b) = Inr b"
    using b by (simp add: validate_dataset_def dump_dataset_def dataset_fields_def field_defs)
qed

subsection \<open>One value under a key\<close>

definition row_key :: "sql_row \<Rightarrow> string" where
  "row_key r = (case sq_columns r of PStr k # _ \<Rightarrow> k | _ \<Rightarrow> [])"

definition replace_row :: "database \<Rightarrow> (string \<Rightarrow> string) \<Rightarrow> sql_row \<Rightarrow> (storage, unit) py" where
  \<comment> \<open>\<open>REPLACE INTO\<close>: one statement, which removes the row of an equal key\<close>
  "replace_row db collation r =
     (case db_insert db 0 r of
        Some exc \<Rightarrow> raise exc
      | None \<Rightarrow> modify (\<lambda>st. st\<lparr>st_rows :=
          filter (\<lambda>x. collation (row_key x) \<noteq> collation (row_key r)) (st_rows st) @ [r]\<rparr>))"

definition active_key_text :: string where
  "active_key_text = ''active''"

definition state_store_load ::
  "database \<Rightarrow> (string \<Rightarrow> string) \<Rightarrow> (pyval \<Rightarrow> py_error + 's) \<Rightarrow> (storage, 's option) py" where
  \<comment> \<open>\<open>WHERE state_key = 'active' LIMIT 1\<close>\<close>
  "state_store_load db collation validate =
     (let found = (\<lambda>v. case v of None \<Rightarrow> ret None | Some x \<Rightarrow> bnd (lift (validate x)) (\<lambda>s. ret (Some s))) in
      if mysql_enabled db then
        bnd (gets (\<lambda>st. map_option sq_payload
               (find (\<lambda>r. collation (row_key r) = collation active_key_text) (st_rows st)))) found
      else bnd (gets st_file) found)"

definition state_store_save ::
  "database \<Rightarrow> (string \<Rightarrow> string) \<Rightarrow> ('s \<Rightarrow> pyval) \<Rightarrow> ('s \<Rightarrow> datetime) \<Rightarrow> 's \<Rightarrow> (storage, 's) py" where
  "state_store_save db collation dump stamp s =
     (if mysql_enabled db then
        thn (replace_row db collation \<lparr>sq_columns = [PStr active_key_text, sql_date (Some (stamp s))], sq_payload = dump s\<rparr>)
          (ret s)
      else thn (modify (\<lambda>st. st\<lparr>st_file := Some (dump s)\<rparr>)) (ret s))"

definition breaker_store_load :: "database \<Rightarrow> (string \<Rightarrow> string) \<Rightarrow> formats \<Rightarrow> (storage, breaker_state option) py" where
  "breaker_store_load db collation fm = state_store_load db collation (validate_breaker fm)"

definition breaker_store_save :: "database \<Rightarrow> (string \<Rightarrow> string) \<Rightarrow> formats \<Rightarrow> breaker_state \<Rightarrow> (storage, breaker_state) py" where
  "breaker_store_save db collation fm = state_store_save db collation (dump_breaker fm) cb_updated_at"

definition tuning_store_load ::
  "database \<Rightarrow> (string \<Rightarrow> string) \<Rightarrow> formats \<Rightarrow> datetime \<Rightarrow> (storage, tuning_state) py" where
  \<comment> \<open>without a stored state, \<open>TuningState()\<close>, created now\<close>
  "tuning_store_load db collation fm now =
     bnd (state_store_load db collation (validate_tuning fm)) (\<lambda>s. case s of
        Some st \<Rightarrow> ret st
      | None \<Rightarrow> ret \<lparr>ts_updated_at = now, ts_active_package_id = ''balanced'',
          ts_active_package_title = balanced_title, ts_config = default_tuning_config\<rparr>)"

definition tuning_store_save :: "database \<Rightarrow> (string \<Rightarrow> string) \<Rightarrow> formats \<Rightarrow> tuning_state \<Rightarrow> (storage, tuning_state) py" where
  "tuning_store_save db collation fm = state_store_save db collation (dump_tuning fm) ts_updated_at"

definition write_refusal :: "database \<Rightarrow> sql_row \<Rightarrow> py_error option" where
  "write_refusal db r = (if mysql_enabled db then db_insert db 0 r else None)"

lemma find_replaced:
  "find (\<lambda>x. f x = f r) (filter (\<lambda>x. f x \<noteq> f r) xs @ [r]) = Some r"
  by (induction xs) auto

context json_store
begin

lemma state_saved:
  assumes "ok s" "write_refusal db \<lparr>sq_columns = [PStr active_key_text, sql_date (Some (stamp s))], sq_payload = dump s\<rparr> = None"
  shows "\<exists>st'. state_store_save db collation dump stamp s st = (Inr s, st')
    \<and> state_store_load db collation validate st' = (Inr (Some s), st')"
proof (cases "mysql_enabled db")
  case True
  let ?r = "\<lparr>sq_columns = [PStr active_key_text, sql_date (Some (stamp s))], sq_payload = dump s\<rparr>"
  have key: "row_key ?r = active_key_text" by (simp add: row_key_def)
  show ?thesis
    using True assms find_replaced[of "\<lambda>x. collation (row_key x)" ?r "st_rows st"]
    by (simp add: state_store_save_def state_store_load_def replace_row_def write_refusal_def thn_run bnd_run
        modify_run ret_run gets_run lift_run key validate_dump Let_def)
next
  case False
  then show ?thesis using assms(1)
    by (simp add: state_store_save_def state_store_load_def thn_run bnd_run modify_run ret_run gets_run lift_run
        validate_dump Let_def)
qed

lemma state_refused:
  assumes "write_refusal db \<lparr>sq_columns = [PStr active_key_text, sql_date (Some (stamp s))], sq_payload = dump s\<rparr> = Some exc"
  shows "state_store_save db collation dump stamp s st = (Inl exc, st)"
  using assms
  by (auto simp: state_store_save_def replace_row_def write_refusal_def thn_run raise_run split: if_splits)

end

subsection \<open>Datasets\<close>

definition dataset_row :: "formats \<Rightarrow> backtest_dataset \<Rightarrow> sql_row" where
  "dataset_row fm b = \<lparr>sq_columns = [PStr (bd_dataset_id b), PStr (bd_title b), PStr (bd_source b),
     sql_date (Some (bd_imported_at b))], sq_payload = dump_dataset fm b\<rparr>"

definition row_date :: "sql_row \<Rightarrow> datetime" where
  "row_date r = (case sq_columns r of [_, _, _, PInt t] \<Rightarrow> t | _ \<Rightarrow> 0)"

definition dataset_store_list ::
  "database \<Rightarrow> (string \<Rightarrow> string) \<Rightarrow> formats \<Rightarrow> (storage, backtest_dataset list) py" where
  \<comment> \<open>\<open>ORDER BY imported_at, dataset_id\<close>\<close>
  "dataset_store_list db collation fm =
     (if mysql_enabled db then
        bnd (gets st_rows) (\<lambda>rows. lift (traverse (validate_dataset fm)
          (map sq_payload (sorted_by (\<lambda>r. (row_date r, collation (row_key r))) rows))))
      else bnd (gets st_file) (\<lambda>f. case f of
          None \<Rightarrow> ret []
        | Some v \<Rightarrow> lift (then_do (iterate v) (traverse (validate_dataset fm)))))"

definition dataset_store_save ::
  "database \<Rightarrow> (string \<Rightarrow> string) \<Rightarrow> formats \<Rightarrow> backtest_dataset \<Rightarrow> (storage, backtest_dataset) py" where
  "dataset_store_save db collation fm b =
     (if mysql_enabled db then thn (replace_row db collation (dataset_row fm b)) (ret b)
      else bnd (dataset_store_list db collation fm) (\<lambda>old.
        thn (modify (\<lambda>st. st\<lparr>st_file := Some (PList (map (dump_dataset fm) (save_dataset b old)))\<rparr>)) (ret b)))"

definition dataset_store_get ::
  "database \<Rightarrow> (string \<Rightarrow> string) \<Rightarrow> formats \<Rightarrow> string \<Rightarrow> (storage, backtest_dataset option) py" where
  "dataset_store_get db collation fm k =
     bnd (dataset_store_list db collation fm) (\<lambda>ds. ret (get_dataset k ds))"

definition dataset_store_summaries ::
  "database \<Rightarrow> (string \<Rightarrow> string) \<Rightarrow> formats \<Rightarrow> (storage, dataset_summary list) py" where
  "dataset_store_summaries db collation fm =
     bnd (dataset_store_list db collation fm) (\<lambda>ds. ret (list_summaries ds))"

definition dataset_stored ::
  "database \<Rightarrow> (string \<Rightarrow> string) \<Rightarrow> formats \<Rightarrow> backtest_dataset list \<Rightarrow> storage \<Rightarrow> bool" where
  \<comment> \<open>the store holds these datasets, one per key\<close>
  "dataset_stored db collation fm ds st \<longleftrightarrow> list_all storable_dataset ds
     \<and> (if mysql_enabled db
        then st_rows st = map (dataset_row fm) ds \<and> distinct (map (\<lambda>d. collation (bd_dataset_id d)) ds)
        else (st_file st = Some (PList (map (dump_dataset fm) ds)) \<or> st_file st = None \<and> ds = [])
          \<and> distinct (map bd_dataset_id ds))"

lemma insort_key_map: "insort_key f (g x) (map g xs) = map g (insort_key (\<lambda>y. f (g y)) x xs)"
  by (induction xs) auto

lemma sorted_by_map: "sorted_by f (map g xs) = map g (sorted_by (\<lambda>y. f (g y)) xs)"
  by (induction xs) (simp_all add: sorted_by_def insort_key_map)

lemma lookup_in_set: "distinct (map key xs) \<Longrightarrow> lookup key k xs = Some x \<longleftrightarrow> x \<in> set xs \<and> key x = k"
  by (induction xs) (auto simp: lookup_def rev_image_eqI)

lemma lookup_same_set:
  assumes "distinct (map key xs)" "distinct (map key ys)" "set xs = set ys"
  shows "lookup key k xs = lookup key k ys"
proof (cases "lookup key k xs")
  case None
  then show ?thesis using assms lookup_in_set[OF assms(2), of k] lookup_in_set[OF assms(1), of k]
    by (metis option.exhaust)
next
  case (Some x)
  then show ?thesis using assms lookup_in_set[OF assms(2), of k x] lookup_in_set[OF assms(1), of k x] by simp
qed

lemma distinct_collated: "distinct (map (\<lambda>d. collation (bd_dataset_id d)) ds) \<Longrightarrow> distinct (map bd_dataset_id ds)"
  by (induction ds) auto

lemma distinct_sorted_by: "distinct (map key (sorted_by f xs)) = distinct (map key xs)"
proof -
  have "mset (map key (sorted_by f xs)) = mset (map key xs)" by (simp add: sorted_by_def)
  then show ?thesis by (metis mset_eq_imp_distinct_iff)
qed

lemma dataset_list_stored:
  assumes "dates_round_trip fm" "dataset_stored db collation fm ds st"
  shows "\<exists>ds'. dataset_store_list db collation fm st = (Inr ds', st) \<and> set ds' = set ds
    \<and> distinct (map bd_dataset_id ds') \<and> (\<forall>k. get_dataset k ds' = get_dataset k ds)
    \<and> (\<not> mysql_enabled db \<longrightarrow> ds' = ds)"
proof (cases "mysql_enabled db")
  case True
  let ?ds = "sorted_by (\<lambda>d. (row_date (dataset_row fm d), collation (row_key (dataset_row fm d)))) ds"
  have rows: "st_rows st = map (dataset_row fm) ds" and one: "distinct (map bd_dataset_id ds)"
    and ok: "list_all storable_dataset ds"
    using assms(2) True distinct_collated[of collation ds] by (auto simp: dataset_stored_def)
  have payloads: "map sq_payload (map (dataset_row fm) xs) = map (dump_dataset fm) xs" for xs
    by (simp add: dataset_row_def)
  have "list_all (\<lambda>b. dates_round_trip fm \<and> storable_dataset b) ?ds" using ok assms(1) by (simp add: list_all_iff)
  from dataset_json.traverse_dump[OF this]
  have "dataset_store_list db collation fm st = (Inr ?ds, st)"
    using True by (simp add: dataset_store_list_def bnd_run gets_run lift_run rows sorted_by_map payloads del: map_map)
  moreover have "distinct (map bd_dataset_id ?ds)" using one by (simp only: distinct_sorted_by)
  moreover from this have "get_dataset k ?ds = get_dataset k ds" for k
    unfolding get_dataset_def using one by (intro lookup_same_set) simp_all
  ultimately show ?thesis using True by (intro exI[of _ ?ds]) simp
next
  case False
  have ok: "list_all (\<lambda>b. dates_round_trip fm \<and> storable_dataset b) ds" and one: "distinct (map bd_dataset_id ds)"
    and held: "st_file st = Some (PList (map (dump_dataset fm) ds)) \<or> st_file st = None \<and> ds = []"
    using assms False by (auto simp: dataset_stored_def list_all_iff)
  have "dataset_store_list db collation fm st = (Inr ds, st)"
    using held dataset_json.traverse_dump[OF ok] False
    by (auto simp: dataset_store_list_def bnd_run gets_run lift_run ret_run iterate_def)
  then show ?thesis using one by auto
qed

lemma lookup_filter_other:
  "(\<And>x. x \<in> set xs \<Longrightarrow> key x = k \<Longrightarrow> P x) \<Longrightarrow> lookup key k (filter P xs) = lookup key k xs"
  by (induction xs) (auto simp: lookup_def)

lemma lookup_filter_none:
  "(\<And>x. x \<in> set xs \<Longrightarrow> key x = k \<Longrightarrow> \<not> P x) \<Longrightarrow> lookup key k (filter P xs) = None"
  by (induction xs) (auto simp: lookup_def)

lemma lookup_append: "lookup key k (xs @ ys) = (case lookup key k xs of Some x \<Rightarrow> Some x | None \<Rightarrow> lookup key k ys)"
  by (induction xs) (auto simp: lookup_def)

lemma lookup_single: "lookup key k [x] = (if key x = k then Some x else None)"
  by (simp add: lookup_def)

lemma dataset_saved:
  assumes "dates_round_trip fm" "dataset_stored db collation fm ds st" "storable_dataset b"
    and "write_refusal db (dataset_row fm b) = None"
  shows "\<exists>ds' st'. dataset_store_save db collation fm b st = (Inr b, st') \<and> dataset_stored db collation fm ds' st'
    \<and> (\<forall>k. get_dataset k ds' = (if k = bd_dataset_id b then Some b
         else if mysql_enabled db \<and> collation k = collation (bd_dataset_id b) then None else get_dataset k ds))"
proof (cases "mysql_enabled db")
  case True
  let ?other = "\<lambda>d. collation (bd_dataset_id d) \<noteq> collation (bd_dataset_id b)"
  let ?ds = "filter ?other ds @ [b]"
  have rows: "st_rows st = map (dataset_row fm) ds" and ok: "list_all storable_dataset ds"
    and one: "distinct (map (\<lambda>d. collation (bd_dataset_id d)) ds)"
    using assms(2) True by (auto simp: dataset_stored_def)
  have key: "row_key (dataset_row fm d) = bd_dataset_id d" for d by (simp add: row_key_def dataset_row_def)
  have run: "dataset_store_save db collation fm b st = (Inr b, st\<lparr>st_rows := map (dataset_row fm) ?ds\<rparr>)"
    using True assms(4)
    by (simp add: dataset_store_save_def replace_row_def write_refusal_def thn_run modify_run ret_run rows key
        filter_map comp_def)
  have "distinct (map (\<lambda>d. collation (bd_dataset_id d)) ?ds)"
    using one by (auto simp: distinct_map_filter)
  then have stored: "dataset_stored db collation fm ?ds (st\<lparr>st_rows := map (dataset_row fm) ?ds\<rparr>)"
    using True ok assms(3) by (auto simp: dataset_stored_def list_all_iff)
  have "get_dataset k ?ds = (if k = bd_dataset_id b then Some b
      else if collation k = collation (bd_dataset_id b) then None else get_dataset k ds)" for k
  proof (cases "collation k = collation (bd_dataset_id b)")
    case True
    then have "lookup bd_dataset_id k (filter ?other ds) = None" by (intro lookup_filter_none) auto
    then show ?thesis using True by (auto simp: get_dataset_def lookup_append lookup_single)
  next
    case False
    then have "lookup bd_dataset_id k (filter ?other ds) = lookup bd_dataset_id k ds" by (intro lookup_filter_other) auto
    then show ?thesis using False by (auto simp: get_dataset_def lookup_append lookup_single split: option.split)
  qed
  then show ?thesis using run stored True by (intro exI[of _ ?ds] exI[of _ "st\<lparr>st_rows := map (dataset_row fm) ?ds\<rparr>"]) simp
next
  case False
  obtain ds1 where ds1: "dataset_store_list db collation fm st = (Inr ds1, st)" "ds1 = ds"
    using dataset_list_stored[OF assms(1,2)] False by blast
  let ?ds = "save_dataset b ds" and ?st = "st\<lparr>st_file := Some (PList (map (dump_dataset fm) (save_dataset b ds)))\<rparr>"
  have one: "distinct (map bd_dataset_id ds)" and ok: "list_all storable_dataset ds"
    using assms(2) False by (auto simp: dataset_stored_def)
  have "dataset_store_save db collation fm b st = (Inr b, ?st)"
    using False ds1 by (simp add: dataset_store_save_def bnd_run thn_run modify_run ret_run)
  moreover have "dataset_stored db collation fm ?ds ?st"
    using False one ok assms(3) by (simp add: dataset_stored_def save_dataset_def upsert_list_all upsert_distinct)
  moreover have "get_dataset k ?ds = (if k = bd_dataset_id b then Some b else get_dataset k ds)" for k
    by (simp add: get_dataset_def save_dataset_def lookup_upsert)
  ultimately show ?thesis using False by auto
qed

subsection \<open>Properties\<close>

definition keeps_state ::
  "(storage, 's option) py \<Rightarrow> ('s \<Rightarrow> (storage, 's) py) \<Rightarrow> ('s \<Rightarrow> py_error option) \<Rightarrow> ('s \<Rightarrow> bool) \<Rightarrow> bool" where
  \<comment> \<open>a saved value is loaded again, a refused one leaves the store as it was\<close>
  "keeps_state load save refused ok \<longleftrightarrow> (\<forall>s st. ok s \<longrightarrow> (case refused s of
       None \<Rightarrow> \<exists>st'. save s st = (Inr s, st') \<and> load st' = (Inr (Some s), st')
     | Some exc \<Rightarrow> save s st = (Inl exc, st)))"

context json_store
begin

lemma keeps_state_row:
  "keeps_state (state_store_load db collation validate) (state_store_save db collation dump stamp)
     (\<lambda>s. write_refusal db \<lparr>sq_columns = [PStr active_key_text, sql_date (Some (stamp s))], sq_payload = dump s\<rparr>) ok"
  unfolding keeps_state_def by (auto intro: state_saved state_refused split: option.split)

end

definition breaker_refused :: "database \<Rightarrow> formats \<Rightarrow> breaker_state \<Rightarrow> py_error option" where
  "breaker_refused db fm s = write_refusal db
     \<lparr>sq_columns = [PStr active_key_text, sql_date (Some (cb_updated_at s))], sq_payload = dump_breaker fm s\<rparr>"

definition tuning_refused :: "database \<Rightarrow> formats \<Rightarrow> tuning_state \<Rightarrow> py_error option" where
  "tuning_refused db fm s = write_refusal db
     \<lparr>sq_columns = [PStr active_key_text, sql_date (Some (ts_updated_at s))], sq_payload = dump_tuning fm s\<rparr>"

text \<open>
  C25. The stores of one row per key refine a map, on either backend. A saved breaker state or
  tuning state is the one loaded next, whatever the store held before, and a write the server
  refuses leaves the store as it was (a list store loses rows then). A dataset store
  that holds some datasets reads them back by their id; saving a dataset overrides the one of
  its id, and on MySQL drops every one whose id the collation takes for the same; every other
  dataset is kept.
\<close>

theorem keyed_stores_refine:
  assumes "dates_round_trip fm" "dataset_stored db collation fm ds st" "storable_dataset b"
    and "write_refusal db (dataset_row fm b) = None"
  shows "keeps_state (breaker_store_load db collation fm) (breaker_store_save db collation fm) (breaker_refused db fm) storable_breaker
    \<and> keeps_state (state_store_load db collation (validate_tuning fm)) (tuning_store_save db collation fm) (tuning_refused db fm) storable_tuning
    \<and> dataset_store_get db collation fm k st = (Inr (get_dataset k ds), st)
    \<and> (\<exists>ds' st'. dataset_store_save db collation fm b st = (Inr b, st') \<and> dataset_stored db collation fm ds' st'
        \<and> dataset_store_get db collation fm k st' = (Inr (if k = bd_dataset_id b then Some b
             else if mysql_enabled db \<and> collation k = collation (bd_dataset_id b) then None
             else get_dataset k ds), st'))"
proof (intro conjI)
  have ok: "(\<lambda>s. dates_round_trip fm \<and> P s) = P" for P :: "'z \<Rightarrow> bool" using assms(1) by simp
  show "keeps_state (breaker_store_load db collation fm) (breaker_store_save db collation fm) (breaker_refused db fm) storable_breaker"
    using breaker_row.keeps_state_row[where fm = fm and db = db and collation = collation and stamp = cb_updated_at]
    by (simp add: breaker_store_load_def breaker_store_save_def breaker_refused_def[abs_def] ok)
  show "keeps_state (state_store_load db collation (validate_tuning fm)) (tuning_store_save db collation fm)
      (tuning_refused db fm) storable_tuning"
    using tuning_row.keeps_state_row[where fm = fm and db = db and collation = collation and stamp = ts_updated_at]
    by (simp add: tuning_store_save_def tuning_refused_def[abs_def] ok)
  have get: "dataset_store_get db collation fm k st' = (Inr (get_dataset k ds'), st')"
    if "dataset_stored db collation fm ds' st'" for ds' st'
    using dataset_list_stored[OF assms(1) that] by (auto simp: dataset_store_get_def bnd_run ret_run)
  show "dataset_store_get db collation fm k st = (Inr (get_dataset k ds), st)" by (rule get[OF assms(2)])
  obtain ds' st' where saved: "dataset_store_save db collation fm b st = (Inr b, st')"
    and held: "dataset_stored db collation fm ds' st'"
    and found: "get_dataset k ds' = (if k = bd_dataset_id b then Some b
         else if mysql_enabled db \<and> collation k = collation (bd_dataset_id b) then None else get_dataset k ds)"
    using dataset_saved[OF assms] by blast
  show "\<exists>ds' st'. dataset_store_save db collation fm b st = (Inr b, st') \<and> dataset_stored db collation fm ds' st'
        \<and> dataset_store_get db collation fm k st' = (Inr (if k = bd_dataset_id b then Some b
             else if mysql_enabled db \<and> collation k = collation (bd_dataset_id b) then None
             else get_dataset k ds), st')"
    using saved held get[OF held, unfolded found] by blast
qed

definition willing_mysql :: database where
  "willing_mysql = \<lparr>db_backend = ''mysql'', db_insert = (\<lambda>_ _. None)\<rparr>"

definition named_dataset :: "string \<Rightarrow> backtest_dataset" where
  "named_dataset k = \<lparr>bd_dataset_id = k, bd_title = ''title'', bd_source = ''manual_import'', bd_description = None,
     bd_imported_at = 0, bd_periods = []\<rparr>"

theorem keyed_stores_refine_witness:
  "\<exists>st'. dataset_store_save willing_mysql py_lower decimal_formats (named_dataset ''A'')
        \<lparr>st_file = None, st_rows = [dataset_row decimal_formats (named_dataset ''a''), dataset_row decimal_formats (named_dataset ''b'')]\<rparr>
      = (Inr (named_dataset ''A''), st')
     \<and> dataset_store_get willing_mysql py_lower decimal_formats ''a'' st' = (Inr None, st')"
proof -
  let ?ds = "[named_dataset ''a'', named_dataset ''b'']"
  let ?st = "\<lparr>st_file = None, st_rows = [dataset_row decimal_formats (named_dataset ''a''), dataset_row decimal_formats (named_dataset ''b'')]\<rparr>"
  have ids: "bd_dataset_id (named_dataset k) = k" "storable_dataset (named_dataset k)" for k
    by (simp_all add: named_dataset_def storable_dataset_def)
  have low: "py_lower ''a'' = ''a''" "py_lower ''b'' = ''b''" "py_lower ''A'' = ''a''" by code_simp+
  have "dataset_stored willing_mysql py_lower decimal_formats ?ds ?st"
    by (simp add: dataset_stored_def willing_mysql_def mysql_enabled_def ids low)
  moreover have "write_refusal willing_mysql (dataset_row decimal_formats (named_dataset ''A'')) = None"
    by (simp add: write_refusal_def willing_mysql_def)
  ultimately obtain st' where "dataset_store_save willing_mysql py_lower decimal_formats (named_dataset ''A'') ?st
      = (Inr (named_dataset ''A''), st')"
    "dataset_store_get willing_mysql py_lower decimal_formats ''a'' st' = (Inr (if ''a'' = bd_dataset_id (named_dataset ''A'')
       then Some (named_dataset ''A'') else if mysql_enabled willing_mysql \<and> py_lower ''a'' = py_lower (bd_dataset_id (named_dataset ''A''))
       then None else get_dataset ''a'' ?ds), st')"
    using keyed_stores_refine[OF decimal_dates _ ids(2), of willing_mysql py_lower ?ds ?st "''A''" "''a''"] by blast
  then show ?thesis by (simp add: ids low willing_mysql_def mysql_enabled_def)
qed

end
