(* ===== verification/Migration.thy ===== *)
theory Migration
  imports StateStores
begin

section \<open>Backfill of the JSON files into MySQL\<close>

text \<open>
  \<open>app/persistence/migration.py\<close>: every JSON file of the runtime directory is copied into
  its MySQL table, skipping what the table already holds. The stores are those of
  \<open>Persistence\<close> and \<open>StateStores\<close>; a \<open>storage\<close> holds both the file of a store
  (\<open>st_file\<close>) and its table (\<open>st_rows\<close>), at the one path and the one table the settings
  give them. A run reads and validates the files anew, so a record that leaves out its id or
  its date gets another one each time. Two records are the same when their JSON with sorted
  keys is. A run that fails keeps the sections it has written.
\<close>

subsection \<open>Canonical JSON\<close>

fun canonical :: "pyval \<Rightarrow> pyval" where
  \<comment> \<open>\<open>json.dumps(..., sort_keys=True)\<close>: two values have one text exactly when this is the same\<close>
  "canonical (PList vs) = PList (map canonical vs)"
| "canonical (PDict d) = PDict (sorted_by fst (map (\<lambda>(k, v). (k, canonical v)) d))"
| "canonical v = v"

definition canonical_of :: "('r \<Rightarrow> pyval) \<Rightarrow> 'r \<Rightarrow> pyval" where
  \<comment> \<open>\<open>_canonical(item)\<close>\<close>
  "canonical_of dump x = canonical (dump x)"

subsection \<open>One section\<close>

record section_result =
  sx_found :: bool
  sx_source_records :: nat
  sx_imported :: nat
  sx_skipped :: nat

definition empty_section :: section_result where
  "empty_section = \<lparr>sx_found = False, sx_source_records = 0, sx_imported = 0, sx_skipped = 0\<rparr>"

fun pick_new :: "('r \<Rightarrow> pyval) \<Rightarrow> pyval list \<Rightarrow> 'r list \<Rightarrow> nat \<times> 'r list" where
  \<comment> \<open>the loop over the source items: how many are skipped, and those to import\<close>
  "pick_new key existing [] = (0, [])"
| "pick_new key existing (x # xs) =
     (if key x \<in> set existing then (case pick_new key existing xs of (skipped, new) \<Rightarrow> (skipped + 1, new))
      else (case pick_new key (key x # existing) xs of (skipped, new) \<Rightarrow> (skipped, x # new)))"

definition source_items :: "(pyval \<Rightarrow> py_error + 'r) \<Rightarrow> pyval \<Rightarrow> py_error + 'r list" where
  "source_items validate payload = then_do (iterate payload) (traverse validate)"

definition backfill_many ::
  "('r \<Rightarrow> pyval) \<Rightarrow> (pyval \<Rightarrow> py_error + 'r) \<Rightarrow> (storage, 'r list) py \<Rightarrow> ('r list \<Rightarrow> (storage, unit) py) \<Rightarrow>
   (storage, section_result) py" where
  "backfill_many dump validate loader saver =
     bnd (gets st_file) (\<lambda>f. case f of
       None \<Rightarrow> ret empty_section
     | Some payload \<Rightarrow>
         bnd (lift (source_items validate payload)) (\<lambda>items.
         bnd loader (\<lambda>rows.
           case pick_new (canonical_of dump) (map (canonical_of dump) rows) items of (skipped, new) \<Rightarrow>
             thn (if new = [] then ret () else saver new)
               (ret \<lparr>sx_found = True, sx_source_records = length items, sx_imported = length new,
                  sx_skipped = skipped\<rparr>))))"

definition backfill_single ::
  "('s \<Rightarrow> pyval) \<Rightarrow> (pyval \<Rightarrow> py_error + 's) \<Rightarrow> (storage, 's) py \<Rightarrow> ('s \<Rightarrow> (storage, 's) py) \<Rightarrow>
   (storage, section_result) py" where
  "backfill_single dump validate loader saver =
     bnd (gets st_file) (\<lambda>f. case f of
       None \<Rightarrow> ret empty_section
     | Some payload \<Rightarrow>
         bnd (lift (validate payload)) (\<lambda>source.
         bnd loader (\<lambda>cur.
           if canonical_of dump cur = canonical_of dump source
           then ret \<lparr>sx_found = True, sx_source_records = 1, sx_imported = 0, sx_skipped = 1\<rparr>
           else thn (saver source)
             (ret \<lparr>sx_found = True, sx_source_records = 1, sx_imported = 1, sx_skipped = 0\<rparr>))))"

definition append_rows :: "('r list \<Rightarrow> write_mode \<Rightarrow> (storage, 'r list) py) \<Rightarrow> 'r list \<Rightarrow> (storage, unit) py" where
  \<comment> \<open>\<open>store.save(items, mode="append")\<close>\<close>
  "append_rows save items = thn (save items AppendRows) (ret ())"

fun save_datasets ::
  "database \<Rightarrow> (string \<Rightarrow> string) \<Rightarrow> formats \<Rightarrow> backtest_dataset list \<Rightarrow> (storage, unit) py" where
  "save_datasets db collation fm [] = ret ()"
| "save_datasets db collation fm (d # ds) =
     thn (dataset_store_save db collation fm d) (save_datasets db collation fm ds)"

subsection \<open>The whole backfill\<close>

record backfill_tables =
  tb_tuning :: storage
  tb_samples :: storage
  tb_journal :: storage
  tb_datasets :: storage
  tb_ledger :: storage
  tb_events :: storage
  tb_reports :: storage

definition on_part :: "('w \<Rightarrow> 's) \<Rightarrow> ('s \<Rightarrow> 'w \<Rightarrow> 'w) \<Rightarrow> ('s, 'a) py \<Rightarrow> ('w, 'a) py" where
  "on_part sel upd m = (\<lambda>w. case m (sel w) of (r, s) \<Rightarrow> (r, upd s w))"

definition new_backfill_service :: "string \<Rightarrow> py_error + unit" where
  "new_backfill_service storage_backend =
     (if storage_backend = ''mysql'' then Inr ()
      else Inl (ValueError ''JSON backfill requires FUNDING_ARB_STORAGE_BACKEND=mysql''))"

definition tuning_section ::
  "database \<Rightarrow> (string \<Rightarrow> string) \<Rightarrow> formats \<Rightarrow> datetime \<Rightarrow> (storage, section_result) py" where
  "tuning_section db collation fm now = backfill_single (dump_tuning fm) (validate_tuning fm)
     (tuning_store_load db collation fm now) (tuning_store_save db collation fm)"

definition sample_section :: "database \<Rightarrow> formats \<Rightarrow> (storage, section_result) py" where
  "sample_section db fm = backfill_many (dump_sample fm) (validate_sample fm)
     (sample_store_list db fm) (append_rows (sample_store_save db fm))"

definition journal_section :: "database \<Rightarrow> formats \<Rightarrow> (storage, section_result) py" where
  "journal_section db fm = backfill_many (dump_trade fm) (validate_trade fm)
     (journal_store_list db fm) (append_rows (journal_store_save db fm))"

definition dataset_section ::
  "database \<Rightarrow> (string \<Rightarrow> string) \<Rightarrow> formats \<Rightarrow> (storage, section_result) py" where
  "dataset_section db collation fm = backfill_many (dump_dataset fm) (validate_dataset fm)
     (dataset_store_list db collation fm) (save_datasets db collation fm)"

definition ledger_section :: "database \<Rightarrow> formats \<Rightarrow> (storage, section_result) py" where
  "ledger_section db fm = backfill_many (dump_ledger fm) (validate_ledger fm)
     (ledger_store_list db fm) (append_rows (ledger_store_save db fm))"

definition event_section :: "database \<Rightarrow> formats \<Rightarrow> (storage, section_result) py" where
  "event_section db fm = backfill_many (dump_event fm) (validate_event fm)
     (audit_store_list db fm) (append_rows (audit_store_save db fm))"

definition report_section :: "database \<Rightarrow> formats \<Rightarrow> (storage, section_result) py" where
  "report_section db fm = backfill_many (dump_report fm) (validate_report fm)
     (report_store_list db fm) (append_rows (report_store_save db fm))"

definition backfill_run ::
  "database \<Rightarrow> (string \<Rightarrow> string) \<Rightarrow> formats \<Rightarrow> datetime \<Rightarrow> (backfill_tables, (string \<times> section_result) list) py" where
  "backfill_run db collation fm now =
     bnd (on_part tb_tuning (\<lambda>s. tb_tuning_update (\<lambda>_. s)) (tuning_section db collation fm now)) (\<lambda>r1.
     bnd (on_part tb_samples (\<lambda>s. tb_samples_update (\<lambda>_. s)) (sample_section db fm)) (\<lambda>r2.
     bnd (on_part tb_journal (\<lambda>s. tb_journal_update (\<lambda>_. s)) (journal_section db fm)) (\<lambda>r3.
     bnd (on_part tb_datasets (\<lambda>s. tb_datasets_update (\<lambda>_. s)) (dataset_section db collation fm)) (\<lambda>r4.
     bnd (on_part tb_ledger (\<lambda>s. tb_ledger_update (\<lambda>_. s)) (ledger_section db fm)) (\<lambda>r5.
     bnd (on_part tb_events (\<lambda>s. tb_events_update (\<lambda>_. s)) (event_section db fm)) (\<lambda>r6.
     bnd (on_part tb_reports (\<lambda>s. tb_reports_update (\<lambda>_. s)) (report_section db fm)) (\<lambda>r7.
       ret [(''tuning_state'', r1), (''learning_samples'', r2), (''trade_journal'', r3), (''backtest_datasets'', r4),
            (''trade_ledger'', r5), (''audit_events'', r6), (''exchange_order_reports'', r7)])))))))"

definition route_backfill ::
  "database \<Rightarrow> (string \<Rightarrow> string) \<Rightarrow> formats \<Rightarrow> datetime \<Rightarrow> (backfill_tables, (string \<times> section_result) list) py" where
  \<comment> \<open>the service is made before the handler of errors\<close>
  "route_backfill db collation fm now =
     bnd (lift (new_backfill_service (db_backend db))) (\<lambda>_.
       catch (backfill_run db collation fm now) is_value_error (\<lambda>exc. raise (HTTPException 400 (exc_str exc))))"

subsection \<open>What validation gives can be stored\<close>

lemma is_f64_1 [simp]: "is_f64 1"
  using is_f64_of_int[of 1] by simp

lemma as_float_is_f64: "as_float v = Some x \<Longrightarrow> is_f64 x"
  by (auto simp: as_float_def py_float_def is_f64_rnd split: pyval.splits option.splits)

lemma fields_f64 [dest]:
  "Persistence.required k as_float d = Some x \<Longrightarrow> is_f64 x"
  "defaulted k as_float y d = Some x \<Longrightarrow> is_f64 y \<Longrightarrow> is_f64 x"
  by (auto simp: required_def defaulted_def dest: as_float_is_f64 split: option.splits)

lemma validated_Inr:
  "validated model rd ok v = Inr r \<longleftrightarrow> (\<exists>d. v = PDict d \<and> rd d = Some r \<and> ok r)"
  by (auto simp: validated_def split: pyval.splits option.splits)

lemma ledger_storable: "validate_ledger fm v = Inr r \<Longrightarrow> storable_ledger r"
  by (auto simp: validate_ledger_def validated_Inr ledger_fields_def storable_ledger_def bind_eq_Some_conv)

lemma report_storable: "validate_report fm v = Inr r \<Longrightarrow> storable_report r"
  by (auto simp: validate_report_def validated_Inr report_fields_def storable_report_def bind_eq_Some_conv)

lemma trade_storable: "validate_trade fm v = Inr r \<Longrightarrow> storable_trade r"
  by (auto simp: validate_trade_def validated_Inr trade_fields_def storable_trade_def bind_eq_Some_conv)

lemma sample_storable: "validate_sample fm v = Inr r \<Longrightarrow> storable_sample r"
  by (auto simp: validate_sample_def validated_Inr sample_fields_def storable_sample_def bind_eq_Some_conv)

lemma snapshot_storable: "as_model snapshot_fields (\<lambda>_. True) v = Some s \<Longrightarrow> storable_snapshot s"
  by (auto simp: as_model_def snapshot_fields_def storable_snapshot_def bind_eq_Some_conv split: pyval.splits option.splits)

lemma score_storable: "as_model score_fields (\<lambda>_. True) v = Some s \<Longrightarrow> list_all is_f64 (floats_of_score s)"
  by (auto simp: as_model_def score_fields_def floats_of_score_def bind_eq_Some_conv is_f64_rnd split: pyval.splits option.splits)

lemma risk_storable: "as_model risk_fields (\<lambda>_. True) v = Some s \<Longrightarrow> list_all is_f64 (floats_of_risk s)"
  by (auto simp: as_model_def risk_fields_def floats_of_risk_def bind_eq_Some_conv split: pyval.splits option.splits)

lemma backtest_storable: "as_model backtest_fields valid_backtest_config v = Some c \<Longrightarrow> 
  valid_backtest_config c \<and> list_all is_f64 [bc_notional_per_trade c, bc_min_score c, bc_min_net_edge_bps c]"
  by (auto simp: as_model_def backtest_fields_def bind_eq_Some_conv split: pyval.splits option.splits if_splits)

lemma list_reader_all: "as_list rd v = Some xs \<Longrightarrow> (\<And>u x. rd u = Some x \<Longrightarrow> P x) \<Longrightarrow> list_all P xs"
proof -
  assume v: "as_list rd v = Some xs" and P: "\<And>u x. rd u = Some x \<Longrightarrow> P x"
  have "those (map rd vs) = Some xs \<Longrightarrow> list_all P xs" for vs
    by (induction vs arbitrary: xs) (auto simp: P split: option.splits)
  then show ?thesis using v by (auto simp: as_list_def split: pyval.splits)
qed

lemma defaulted_Some: "defaulted k rd x d = Some y \<Longrightarrow> y = x \<or> (\<exists>v. rd v = Some y)"
  by (auto simp: defaulted_def split: option.splits)

lemma period_storable: "as_model (period_fields fm) (\<lambda>_. True) v = Some p \<Longrightarrow> list_all storable_snapshot (bp_snapshots p)"
  by (auto simp: as_model_def period_fields_def bind_eq_Some_conv dest!: defaulted_Some
     intro: list_reader_all snapshot_storable split: pyval.splits option.splits)

lemma dataset_storable: "validate_dataset fm v = Inr b \<Longrightarrow> storable_dataset b"
  unfolding storable_dataset_def
  by (auto simp: validate_dataset_def validated_Inr dataset_fields_def bind_eq_Some_conv
      dest!: defaulted_Some[where rd = "as_list rd" for rd]  intro: list_reader_all period_storable)

lemma default_tuning_storable: "storable_tuning \<lparr>ts_updated_at = t, ts_active_package_id = i, ts_active_package_title = n,
    ts_config = default_tuning_config\<rparr>"
  by (simp add: storable_tuning_def default_tuning_config_def score_from_domain_def risk_from_domain_def
      default_score_config_def default_risk_config_def default_backtest_config_def valid_backtest_config_def
      floats_of_score_def floats_of_risk_def is_f64_rnd)

lemma config_storable:
  assumes "as_model tuning_config_fields (\<lambda>_. True) v = Some c"
  shows "storable_tuning \<lparr>ts_updated_at = t, ts_active_package_id = i, ts_active_package_title = n, ts_config = c\<rparr>"
proof -
  obtain d where v: "v = PDict d" "tuning_config_fields d = Some c"
    using assms by (auto simp: as_model_def split: pyval.splits option.splits)
  then obtain sc rk bt where c: "c = \<lparr>tc_score = sc, tc_risk = rk, tc_backtest = bt\<rparr>"
    and sc: "defaulted ''score'' (as_model score_fields (\<lambda>_. True)) (tc_score default_tuning_config) d = Some sc"
    and rk: "defaulted ''risk'' (as_model risk_fields (\<lambda>_. True)) (tc_risk default_tuning_config) d = Some rk"
    and bt: "defaulted ''backtest'' (as_model backtest_fields valid_backtest_config) default_backtest_config d = Some bt"
    by (auto simp: tuning_config_fields_def bind_eq_Some_conv)
  have "list_all is_f64 (floats_of_score sc)"
    using defaulted_Some[OF sc] score_storable default_tuning_storable by (auto simp: storable_tuning_def)
  moreover have "list_all is_f64 (floats_of_risk rk)"
    using defaulted_Some[OF rk] risk_storable default_tuning_storable by (auto simp: storable_tuning_def)
  moreover have "valid_backtest_config bt \<and> list_all is_f64 [bc_notional_per_trade bt, bc_min_score bt, bc_min_net_edge_bps bt]"
    using defaulted_Some[OF bt] backtest_storable default_tuning_storable
    by (fastforce simp: storable_tuning_def default_tuning_config_def)
  ultimately show ?thesis by (simp add: storable_tuning_def c)
qed

lemma tuning_storable: "validate_tuning fm v = Inr s \<Longrightarrow> storable_tuning s"
  by (auto simp: validate_tuning_def validated_Inr tuning_fields_def bind_eq_Some_conv
      dest!: defaulted_Some[where rd = "as_model tuning_config_fields (\<lambda>_. True)"]
      intro: config_storable default_tuning_storable)

subsection \<open>What a section imports\<close>

lemma pick_new_spec:
  "pick_new key existing xs = (skipped, new) \<Longrightarrow>
     skipped + length new = length xs \<and> key ` set new = key ` set xs - set existing \<and> distinct (map key new)
     \<and> set new \<subseteq> set xs \<and> (sorted_wrt P xs \<longrightarrow> sorted_wrt P new)"
proof (induction xs arbitrary: existing skipped new)
  case (Cons x xs)
  show ?case
  proof (cases "key x \<in> set existing")
    case True
    then obtain n where "pick_new key existing xs = (n, new)" "skipped = n + 1" using Cons.prems
      by (auto split: prod.splits)
    then show ?thesis using Cons.IH[of existing n new] True by auto
  next
    case False
    then obtain ns where "pick_new key (key x # existing) xs = (skipped, ns)" "new = x # ns" using Cons.prems
      by (auto split: prod.splits)
    moreover have "skipped + length ns = length xs" "key ` set ns = key ` set xs - insert (key x) (set existing)"
      "distinct (map key ns)" "set ns \<subseteq> set xs" "sorted_wrt P xs \<longrightarrow> sorted_wrt P ns"
      using Cons.IH[OF calculation(1)] by simp_all
    ultimately show ?thesis using False by (auto simp: image_iff)
  qed
qed simp

lemma pick_new_none: "key ` set xs \<subseteq> set existing \<Longrightarrow> pick_new key existing xs = (length xs, [])"
  by (induction xs) auto

lemma bnd_Inr:
  assumes "bnd m f w = (Inr y, w')"
  obtains x w1 where "m w = (Inr x, w1)" "f x w1 = (Inr y, w')"
  using assms by (cases "m w") (auto simp: bnd_run split: sum.splits)

lemma traverse_all:
  "traverse f vs = Inr xs \<Longrightarrow> (\<And>v x. f v = Inr x \<Longrightarrow> P x) \<Longrightarrow> list_all P xs"
  by (induction vs arbitrary: xs) (auto simp: then_do_def split: sum.splits)

lemma source_items_all:
  "source_items f p = Inr xs \<Longrightarrow> (\<And>v x. f v = Inr x \<Longrightarrow> P x) \<Longrightarrow> list_all P xs"
  by (auto simp: source_items_def then_do_def intro: traverse_all split: sum.splits)

lemma nothing_to_import:
  assumes "st_file st = Some p" "source_items validate p = Inr items" "loader st = (Inr rows, st)"
    and "canonical_of dump ` set items \<subseteq> canonical_of dump ` set rows"
  shows "backfill_many dump validate loader saver st =
    (Inr \<lparr>sx_found = True, sx_source_records = length items, sx_imported = 0, sx_skipped = length items\<rparr>, st)"
  using assms by (simp add: backfill_many_def py_simps pick_new_none)

lemma no_file: "st_file st = None \<Longrightarrow> backfill_many dump validate loader saver st = (Inr empty_section, st)"
  by (simp add: backfill_many_def py_simps)

text \<open>What the backfill asks of a store that keeps several records.\<close>

locale backfill_section =
  fixes dump :: "'r \<Rightarrow> pyval"
    and validate :: "pyval \<Rightarrow> py_error + 'r"
    and loader :: "(storage, 'r list) py"
    and saver :: "'r list \<Rightarrow> (storage, unit) py"
    and ok :: "'r \<Rightarrow> bool"
    and holds :: "'r list \<Rightarrow> storage \<Rightarrow> bool"
    and after :: "'r list \<Rightarrow> 'r list \<Rightarrow> 'r list"
    and apart :: "'r \<Rightarrow> 'r \<Rightarrow> bool" \<comment> \<open>neither displaces the other\<close>
  assumes storable: "validate v = Inr r \<Longrightarrow> ok r"
    and loaded: "holds rs st \<Longrightarrow> \<exists>rs'. loader st = (Inr rs', st) \<and> set rs' = set rs"
    and saved: "holds rs st \<Longrightarrow> list_all ok new \<Longrightarrow> saver new st = (Inr u, st') \<Longrightarrow>
      holds (after new rs) st' \<and> st_file st' = st_file st"
    and after_new: "sorted_wrt apart new \<Longrightarrow> set new \<subseteq> set (after new rs)"
    and after_old: "r \<in> set rs \<Longrightarrow> (\<forall>n\<in>set new. apart r n) \<Longrightarrow> r \<in> set (after new rs)"
    and apart_sym: "apart x y \<Longrightarrow> apart y x"
    and apart_key: "canonical_of dump r = canonical_of dump x \<Longrightarrow> apart x n \<Longrightarrow> apart r n"
begin

lemma many_run:
  assumes "holds rs st" "st_file st = Some p" "backfill_many dump validate loader saver st = (Inr r, st')"
  obtains items skipped new where "source_items validate p = Inr items"
    "r = \<lparr>sx_found = True, sx_source_records = length items, sx_imported = length new, sx_skipped = skipped\<rparr>"
    "skipped + length new = length items" "distinct (map (canonical_of dump) new)" "set new \<subseteq> set items"
    "canonical_of dump ` set new = canonical_of dump ` set items - canonical_of dump ` set rs"
    "sorted_wrt apart items \<longrightarrow> sorted_wrt apart new"
    "holds (if new = [] then rs else after new rs) st'" "st_file st' = Some p"
proof -
  obtain rows where rows: "loader st = (Inr rows, st)" "set rows = set rs" using loaded[OF assms(1)] by blast
  obtain items where items: "source_items validate p = Inr items"
    using assms(2,3) by (cases "source_items validate p") (auto simp: backfill_many_def py_simps)
  obtain skipped new where pick: "pick_new (canonical_of dump) (map (canonical_of dump) rows) items = (skipped, new)"
    by (cases "pick_new (canonical_of dump) (map (canonical_of dump) rows) items")
  note spec = pick_new_spec[OF pick, of apart]
  have "list_all ok items" by (rule source_items_all[OF items]) (rule storable)
  then have ok: "list_all ok new" using spec by (auto simp: list_all_iff)
  have run: "thn (if new = [] then ret () else saver new)
      (ret \<lparr>sx_found = True, sx_source_records = length items, sx_imported = length new, sx_skipped = skipped\<rparr>) st = (Inr r, st')"
    using assms(2,3) items rows(1) pick by (simp add: backfill_many_def bnd_run gets_run lift_run)
  have "holds (if new = [] then rs else after new rs) st' \<and> st_file st' = Some p"
    using run assms(1,2) saved[OF assms(1) ok]
    by (cases "saver new st") (auto simp: thn_run ret_run split: if_splits sum.splits)
  moreover have "r = \<lparr>sx_found = True, sx_source_records = length items, sx_imported = length new, sx_skipped = skipped\<rparr>"
    using run by (auto simp: thn_run ret_run split: if_splits prod.splits sum.splits)
  ultimately show thesis
    using spec unfolding rows(2) list.set_map by (intro that[OF items]; blast)
qed

lemma all_imported:
  assumes "sorted_wrt apart items" "sorted_wrt apart new" "set new \<subseteq> set items"
    and "canonical_of dump ` set new = canonical_of dump ` set items - canonical_of dump ` set rs"
  shows "canonical_of dump ` set items \<subseteq> canonical_of dump ` set (if new = [] then rs else after new rs)"
proof
  fix k assume "k \<in> canonical_of dump ` set items"
  then obtain x where x: "x \<in> set items" "k = canonical_of dump x" by blast
  show "k \<in> canonical_of dump ` set (if new = [] then rs else after new rs)"
  proof (cases "k \<in> canonical_of dump ` set rs")
    case True
    then obtain r where r: "r \<in> set rs" "canonical_of dump r = canonical_of dump x" using x(2) by auto
    have "apart r n" if n: "n \<in> set new" for n
    proof -
      have "canonical_of dump n \<in> canonical_of dump ` set items - canonical_of dump ` set rs"
        unfolding assms(4)[symmetric] using n by (rule imageI)
      then have "n \<noteq> x" using True unfolding x(2) by (metis DiffD2)
      moreover obtain i j where "i < length items" "items ! i = x" "j < length items" "items ! j = n"
        using x(1) n assms(3) by (metis in_set_conv_nth subsetD)
      ultimately have "apart x n"
        using assms(1) by (metis apart_sym linorder_neqE_nat sorted_wrt_nth_less)
      then show ?thesis by (rule apart_key[OF r(2)])
    qed
    then have "r \<in> set (if new = [] then rs else after new rs)" using r(1) after_old[of r rs new] by simp
    then show ?thesis unfolding x(2) r(2)[symmetric] by (rule imageI)
  next
    case False
    then have "k \<in> canonical_of dump ` set new" using assms(4) x by blast
    then show ?thesis using after_new[OF assms(2), of rs] by auto
  qed
qed

lemma settles:
  assumes held: "holds rs st" and run: "backfill_many dump validate loader saver st = (Inr r, st')"
    and alike: "\<And>p items. st_file st = Some p \<Longrightarrow> source_items validate p = Inr items \<Longrightarrow>
      sorted_wrt apart items \<and> source_items validate' p = Inr items"
    and loaded': "\<And>rs. holds rs st' \<Longrightarrow> \<exists>rs'. loader' st' = (Inr rs', st') \<and> set rs' = set rs"
  shows "(\<exists>r'. backfill_many dump validate' loader' saver' st' = (Inr r', st') \<and> sx_imported r' = 0)
    \<and> sx_imported r + sx_skipped r = sx_source_records r"
proof (cases "st_file st")
  case None
  then show ?thesis using run by (auto simp: no_file empty_section_def)
next
  case (Some p)
  obtain items skipped new where got: "source_items validate p = Inr items"
    "r = \<lparr>sx_found = True, sx_source_records = length items, sx_imported = length new, sx_skipped = skipped\<rparr>"
    "skipped + length new = length items" "set new \<subseteq> set items"
    "canonical_of dump ` set new = canonical_of dump ` set items - canonical_of dump ` set rs"
    "sorted_wrt apart items \<longrightarrow> sorted_wrt apart new"
    "holds (if new = [] then rs else after new rs) st'" "st_file st' = Some p"
    by (rule many_run[OF held Some run]) blast
  have apart: "sorted_wrt apart items" and items': "source_items validate' p = Inr items"
    using alike[OF Some got(1)] by simp_all
  have all: "canonical_of dump ` set items \<subseteq> canonical_of dump ` set (if new = [] then rs else after new rs)"
    by (rule all_imported) (use apart got in simp_all)
  obtain rows where rows: "loader' st' = (Inr rows, st')" "set rows = set (if new = [] then rs else after new rs)"
    using loaded'[OF got(7)] by blast
  show ?thesis
    using nothing_to_import[where dump = dump and saver = saver' and loader = loader' and st = st', OF got(8) items' rows(1)] all rows(2) got(2,3) by simp
qed

end

subsection \<open>The stores as sections\<close>

definition list_stored ::
  "database \<Rightarrow> formats \<Rightarrow> ('r \<Rightarrow> pyval) \<Rightarrow> ('r \<Rightarrow> pyval list) \<Rightarrow> ('r \<Rightarrow> bool) \<Rightarrow> 'r list \<Rightarrow> storage \<Rightarrow> bool" where
  \<comment> \<open>the table holds these records, as its store writes them\<close>
  "list_stored db fm dump columns ok rs st \<longleftrightarrow> mysql_enabled db \<and> dates_round_trip fm \<and> list_all ok rs
     \<and> st_rows st = sql_rows dump columns rs"

lemma list_section:
  assumes store: "json_store dump validate (\<lambda>r. dates_round_trip fm \<and> ok r)"
    and storable: "\<And>v r. validate v = Inr r \<Longrightarrow> ok r"
  shows "backfill_section dump validate (store_list db validate) (append_rows (store_save db dump validate columns)) ok
    (list_stored db fm dump columns ok) (\<lambda>new rs. rs @ new) (\<lambda>_ _. True)"
proof
  fix rs new u st st'
  have load: "store_list db validate st = (Inr rs, st)" if "list_stored db fm dump columns ok rs st"
    by (rule json_store.list_rows[OF store, where columns = columns])
      (use that in \<open>auto simp: list_stored_def list_all_iff\<close>)
  then show "list_stored db fm dump columns ok rs st \<Longrightarrow> \<exists>rs'. store_list db validate st = (Inr rs', st) \<and> set rs' = set rs"
    by blast
  assume held: "list_stored db fm dump columns ok rs st" and ok: "list_all ok new"
    and run: "append_rows (store_save db dump validate columns) new st = (Inr u, st')"
  have "store_merged db validate new AppendRows st = (Inr (rs @ new), st)"
    using load[OF held] by (simp add: store_merged_def bnd_run ret_run)
  then have "st' = st\<lparr>st_rows := sql_rows dump columns (rs @ new)\<rparr>"
    using run held
    by (auto simp: append_rows_def store_save_def list_stored_def replace_rows_run bnd_run thn_run ret_run
        split: option.splits)
  then show "list_stored db fm dump columns ok (rs @ new) st' \<and> st_file st' = st_file st"
    using held ok by (simp add: list_stored_def)
qed (use storable in auto)

interpretation ledger_backfill: backfill_section "dump_ledger fm" "validate_ledger fm" "ledger_store_list db fm"
  "append_rows (ledger_store_save db fm)" storable_ledger "list_stored db fm (dump_ledger fm) ledger_columns storable_ledger"
  "\<lambda>new rs. rs @ new" "\<lambda>_ _. True" for db fm
  unfolding store_defs by (rule list_section[OF ledger_rows.json_store_axioms ledger_storable])

interpretation event_backfill: backfill_section "dump_event fm" "validate_event fm" "audit_store_list db fm"
  "append_rows (audit_store_save db fm)" "\<lambda>_. True" "list_stored db fm (dump_event fm) event_columns (\<lambda>_. True)"
  "\<lambda>new rs. rs @ new" "\<lambda>_ _. True" for db fm
  unfolding store_defs by (rule list_section) (simp_all add: event_rows.json_store_axioms)

interpretation report_backfill: backfill_section "dump_report fm" "validate_report fm" "report_store_list db fm"
  "append_rows (report_store_save db fm)" storable_report "list_stored db fm (dump_report fm) report_columns storable_report"
  "\<lambda>new rs. rs @ new" "\<lambda>_ _. True" for db fm
  unfolding store_defs by (rule list_section[OF report_rows.json_store_axioms report_storable])

interpretation journal_backfill: backfill_section "dump_trade fm" "validate_trade fm" "journal_store_list db fm"
  "append_rows (journal_store_save db fm)" storable_trade "list_stored db fm (dump_trade fm) trade_columns storable_trade"
  "\<lambda>new rs. rs @ new" "\<lambda>_ _. True" for db fm
  unfolding store_defs by (rule list_section[OF trade_rows.json_store_axioms trade_storable])

interpretation sample_backfill: backfill_section "dump_sample fm" "validate_sample fm" "sample_store_list db fm"
  "append_rows (sample_store_save db fm)" storable_sample "list_stored db fm (dump_sample fm) sample_columns storable_sample"
  "\<lambda>new rs. rs @ new" "\<lambda>_ _. True" for db fm
  unfolding store_defs by (rule list_section[OF sample_rows.json_store_axioms sample_storable])

definition replace_dataset ::
  "(string \<Rightarrow> string) \<Rightarrow> backtest_dataset \<Rightarrow> backtest_dataset list \<Rightarrow> backtest_dataset list" where
  "replace_dataset collation b ds = filter (\<lambda>d. collation (bd_dataset_id d) \<noteq> collation (bd_dataset_id b)) ds @ [b]"

definition datasets_held ::
  "database \<Rightarrow> (string \<Rightarrow> string) \<Rightarrow> formats \<Rightarrow> backtest_dataset list \<Rightarrow> storage \<Rightarrow> bool" where
  "datasets_held db collation fm ds st \<longleftrightarrow> mysql_enabled db \<and> dates_round_trip fm \<and> dataset_stored db collation fm ds st"

lemma dataset_replaced:
  assumes "datasets_held db collation fm ds st" "storable_dataset b" "dataset_store_save db collation fm b st = (Inr u, st')"
  shows "datasets_held db collation fm (replace_dataset collation b ds) st' \<and> st_file st' = st_file st"
proof -
  have rows: "st_rows st = map (dataset_row fm) ds" and my: "mysql_enabled db"
    and held: "list_all storable_dataset ds" "distinct (map (\<lambda>d. collation (bd_dataset_id d)) ds)"
    using assms(1) by (auto simp: datasets_held_def dataset_stored_def)
  have key: "row_key (dataset_row fm d) = bd_dataset_id d" for d by (simp add: row_key_def dataset_row_def)
  have "st' = st\<lparr>st_rows := map (dataset_row fm) (replace_dataset collation b ds)\<rparr>"
    using assms(3) my
    by (auto simp: dataset_store_save_def replace_row_def thn_run raise_run modify_run ret_run rows key
        replace_dataset_def filter_map comp_def split: option.splits)
  moreover have "distinct (map (\<lambda>d. collation (bd_dataset_id d)) (replace_dataset collation b ds))"
    using held(2) by (auto simp: replace_dataset_def distinct_map_filter)
  ultimately show ?thesis
    using assms(1,2) my held(1) by (auto simp: datasets_held_def dataset_stored_def replace_dataset_def list_all_iff)
qed

lemma datasets_replaced:
  "datasets_held db collation fm ds st \<Longrightarrow> list_all storable_dataset new \<Longrightarrow> save_datasets db collation fm new st = (Inr u, st') \<Longrightarrow>
   datasets_held db collation fm (fold (replace_dataset collation) new ds) st' \<and> st_file st' = st_file st"
proof (induction new arbitrary: ds st)
  case (Cons b new)
  obtain x st1 where "dataset_store_save db collation fm b st = (Inr x, st1)" "save_datasets db collation fm new st1 = (Inr u, st')"
    using Cons.prems(3) by (auto simp: thn_run split: prod.splits sum.splits)
  then show ?case using Cons.IH[of "replace_dataset collation b ds" st1] Cons.prems dataset_replaced[of db collation fm ds st b x st1]
    by simp
qed (simp add: ret_run)

lemma datasets_kept:
  "r \<in> set ds \<Longrightarrow> \<forall>n\<in>set new. collation (bd_dataset_id r) \<noteq> collation (bd_dataset_id n) \<Longrightarrow>
   r \<in> set (fold (replace_dataset collation) new ds)"
  by (induction new arbitrary: ds) (simp_all add: replace_dataset_def)

lemma datasets_added:
  "sorted_wrt (\<lambda>a b. collation (bd_dataset_id a) \<noteq> collation (bd_dataset_id b)) new \<Longrightarrow>
   set new \<subseteq> set (fold (replace_dataset collation) new ds)"
proof (induction new arbitrary: ds)
  case (Cons b new)
  have "b \<in> set (fold (replace_dataset collation) new (replace_dataset collation b ds))"
    using Cons.prems by (intro datasets_kept) (simp_all add: replace_dataset_def)
  then show ?case using Cons by simp
qed simp

lemma map_of_sorted:
  assumes "distinct (map fst d)"
  shows "map_of (sorted_by fst d) k = map_of d k"
proof -
  have "distinct (map fst (sorted_by fst d))" using assms by (simp only: distinct_sorted_by)
  then show ?thesis using assms by (intro map_of_eqI[THEN fun_cong]) (auto dest: map_of_SomeD)
qed

lemma canonical_id:
  assumes "canonical_of (dump_dataset fm) a = canonical_of (dump_dataset fm) b"
  shows "bd_dataset_id a = bd_dataset_id b"
proof -
  have "\<exists>d. canonical_of (dump_dataset fm) c = PDict d \<and> map_of d ''dataset_id'' = Some (PStr (bd_dataset_id c))" for c
    by (simp add: canonical_of_def dump_dataset_def map_of_sorted)
  then show ?thesis using assms by (metis option.inject pyval.inject(4,6))
qed

interpretation dataset_backfill: backfill_section "dump_dataset fm" "validate_dataset fm" "dataset_store_list db collation fm"
  "save_datasets db collation fm" storable_dataset "datasets_held db collation fm" "fold (replace_dataset collation)"
  "\<lambda>a b. collation (bd_dataset_id a) \<noteq> collation (bd_dataset_id b)" for db collation fm
proof
  fix a b n assume "canonical_of (dump_dataset fm) a = canonical_of (dump_dataset fm) b"
    and "collation (bd_dataset_id b) \<noteq> collation (bd_dataset_id n)"
  then show "collation (bd_dataset_id a) \<noteq> collation (bd_dataset_id n)" using canonical_id by metis
next
  fix rs st assume "datasets_held db collation fm rs st"
  then show "\<exists>rs'. dataset_store_list db collation fm st = (Inr rs', st) \<and> set rs' = set rs"
    using dataset_list_stored[of fm db collation rs st] by (auto simp: datasets_held_def)
qed ((rule dataset_storable datasets_replaced datasets_added datasets_kept not_sym; assumption)+)

subsection \<open>The tuning state\<close>

definition default_state :: "datetime \<Rightarrow> tuning_state" where
  "default_state now = \<lparr>ts_updated_at = now, ts_active_package_id = ''balanced'',
     ts_active_package_title = balanced_title, ts_config = default_tuning_config\<rparr>"

definition tuning_row_of :: "formats \<Rightarrow> tuning_state \<Rightarrow> sql_row" where
  "tuning_row_of fm s = \<lparr>sq_columns = [PStr active_key_text, sql_date (Some (ts_updated_at s))], sq_payload = dump_tuning fm s\<rparr>"

definition tuning_held :: "database \<Rightarrow> formats \<Rightarrow> tuning_state option \<Rightarrow> storage \<Rightarrow> bool" where
  "tuning_held db fm s st \<longleftrightarrow> mysql_enabled db \<and> dates_round_trip fm
     \<and> (case s of None \<Rightarrow> st_rows st = [] | Some x \<Rightarrow> storable_tuning x \<and> st_rows st = [tuning_row_of fm x])"

lemma tuning_key [simp]: "row_key (tuning_row_of fm s) = active_key_text" "sq_payload (tuning_row_of fm s) = dump_tuning fm s"
  by (simp_all add: row_key_def tuning_row_of_def)

lemma tuning_loaded:
  assumes "tuning_held db fm s st"
  shows "tuning_store_load db collation fm now st = (Inr (case s of None \<Rightarrow> default_state now | Some x \<Rightarrow> x), st)"
  using assms tuning_row.validate_dump[of fm]
  by (cases s) (auto simp: tuning_held_def tuning_store_load_def state_store_load_def default_state_def py_simps)

lemma tuning_saved:
  assumes "tuning_held db fm s st" "storable_tuning x" "tuning_store_save db collation fm x st = (Inr u, st')"
  shows "tuning_held db fm (Some x) st' \<and> st_file st' = st_file st"
proof -
  have "filter (\<lambda>y. collation (row_key y) \<noteq> collation active_key_text) (st_rows st) = []"
    using assms(1) by (auto simp: tuning_held_def split: option.splits)
  then have "st' = st\<lparr>st_rows := [tuning_row_of fm x]\<rparr>"
    using assms(1,3)
    by (auto simp: tuning_held_def tuning_store_save_def state_store_save_def replace_row_def tuning_row_of_def[symmetric]
        thn_run raise_run modify_run ret_run split: option.splits)
  then show ?thesis using assms(1,2) by (simp add: tuning_held_def)
qed

lemma tuning_settles:
  assumes held: "tuning_held db fm s st" and run: "tuning_section db collation fm now st = (Inr r, st')"
    and alike: "\<And>p. st_file st = Some p \<Longrightarrow> validate_tuning fm' p = validate_tuning fm p"
    and stored': "\<And>x st. tuning_held db fm x st \<Longrightarrow> tuning_held db fm' x st" and dump': "dump_tuning fm' = dump_tuning fm"
    and other: "\<And>p x. st_file st = Some p \<Longrightarrow> validate_tuning fm p = Inr x \<Longrightarrow>
      canonical_of (dump_tuning fm) x \<noteq> canonical_of (dump_tuning fm) (default_state now)"
  shows "(\<exists>r'. tuning_section db collation fm' now' st' = (Inr r', st') \<and> sx_imported r' = 0)
    \<and> sx_imported r + sx_skipped r = sx_source_records r
    \<and> (case st_file st of None \<Rightarrow> st' = st | Some p \<Rightarrow> \<exists>x cur. validate_tuning fm p = Inr x
        \<and> tuning_store_load db collation fm now' st' = (Inr cur, st')
        \<and> canonical_of (dump_tuning fm) cur = canonical_of (dump_tuning fm) x)"
proof (cases "st_file st")
  case None
  then show ?thesis using run by (auto simp: tuning_section_def backfill_single_def py_simps empty_section_def)
next
  case (Some p)
  let ?cur = "case s of None \<Rightarrow> default_state now | Some y \<Rightarrow> y" and ?key = "canonical_of (dump_tuning fm)"
  obtain x where x: "validate_tuning fm p = Inr x"
    using run Some by (cases "validate_tuning fm p") (auto simp: tuning_section_def backfill_single_def py_simps)
  have ends: "\<exists>y. tuning_held db fm (Some y) st' \<and> ?key y = ?key x \<and> st_file st' = Some p
    \<and> sx_imported r + sx_skipped r = sx_source_records r"
  proof (cases "?key ?cur = ?key x")
    case True
    then obtain y where "s = Some y" using other[OF Some x] by (cases s) auto
    then show ?thesis using True held Some run x tuning_loaded[OF held, of collation now]
      by (auto simp: tuning_section_def backfill_single_def py_simps)
  next
    case False
    obtain u st1 where saved: "tuning_store_save db collation fm x st = (Inr u, st1)" "st' = st1"
      "r = \<lparr>sx_found = True, sx_source_records = 1, sx_imported = 1, sx_skipped = 0\<rparr>"
      using run Some x False tuning_loaded[OF held, of collation now]
      by (cases "tuning_store_save db collation fm x st")
        (auto simp: tuning_section_def backfill_single_def py_simps split: sum.splits)
    then show ?thesis using tuning_saved[OF held tuning_storable[OF x] saved(1)] Some by auto
  qed
  then obtain y where y: "tuning_held db fm (Some y) st'" "?key y = ?key x" "st_file st' = Some p" by blast
  have "tuning_section db collation fm' now' st' = (Inr \<lparr>sx_found = True, sx_source_records = 1, sx_imported = 0, sx_skipped = 1\<rparr>, st')"
    using tuning_loaded[OF stored'[OF y(1)], of collation now'] y(2,3) x alike[OF Some]
    by (simp add: tuning_section_def backfill_single_def py_simps dump')
  then show ?thesis
    using ends Some x y(2) tuning_loaded[OF y(1), of collation now'] by auto
qed

subsection \<open>Another run\<close>

definition later :: "formats \<Rightarrow> (pyval \<Rightarrow> string) \<Rightarrow> (pyval \<Rightarrow> datetime) \<Rightarrow> formats" where
  \<comment> \<open>the same texts of dates, other default ids and another clock\<close>
  "later fm fresh clock = fm\<lparr>fm_fresh_id := fresh, fm_now := clock\<rparr>"

lemma later_same [simp]:
  "dates_round_trip (later fm fresh clock) = dates_round_trip fm"
  "dump_ledger (later fm fresh clock) = dump_ledger fm" "dump_event (later fm fresh clock) = dump_event fm"
  "dump_report (later fm fresh clock) = dump_report fm" "dump_trade (later fm fresh clock) = dump_trade fm"
  "dump_sample (later fm fresh clock) = dump_sample fm" "dump_tuning (later fm fresh clock) = dump_tuning fm"
  by (simp_all add: later_def dates_round_trip_def fun_eq_iff dump_ledger_def dump_event_def dump_report_def
      dump_trade_def dump_sample_def dump_tuning_def)

lemma later_dataset [simp]: "dump_dataset (later fm fresh clock) = dump_dataset fm"
proof -
  have "dump_period (later fm fresh clock) = dump_period fm" by (simp add: fun_eq_iff dump_period_def later_def)
  then show ?thesis by (simp add: fun_eq_iff dump_dataset_def later_def)
qed

lemma later_held [simp]:
  "list_stored db (later fm fresh clock) = list_stored db fm"
  "tuning_held db (later fm fresh clock) = tuning_held db fm"
  "datasets_held db collation (later fm fresh clock) = datasets_held db collation fm"
  by (simp_all add: fun_eq_iff list_stored_def tuning_held_def datasets_held_def dataset_stored_def tuning_row_of_def
      dataset_row_def[abs_def] split: option.split)

text \<open>No field of these three models has a default factory.\<close>

lemma later_validate [simp]:
  "validate_ledger (later fm fresh clock) = validate_ledger fm"
  "validate_trade (later fm fresh clock) = validate_trade fm"
  "validate_sample (later fm fresh clock) = validate_sample fm"
proof -
  have "ledger_fields (later fm fresh clock) = ledger_fields fm" "trade_fields (later fm fresh clock) = trade_fields fm"
    "sample_fields (later fm fresh clock) = sample_fields fm"
    by (simp_all add: fun_eq_iff ledger_fields_def trade_fields_def sample_fields_def later_def)
  then show "validate_ledger (later fm fresh clock) = validate_ledger fm"
    "validate_trade (later fm fresh clock) = validate_trade fm"
    "validate_sample (later fm fresh clock) = validate_sample fm"
    by (simp_all add: validate_ledger_def validate_trade_def validate_sample_def)
qed

definition has_fields :: "string list \<Rightarrow> pyval \<Rightarrow> bool" where
  "has_fields ks v = (case v of PDict d \<Rightarrow> list_all (\<lambda>k. map_of d k \<noteq> None) ks | _ \<Rightarrow> True)"

lemma later_event: "has_fields [''event_id'', ''occurred_at''] v \<Longrightarrow> validate_event (later fm fresh clock) v = validate_event fm v"
  by (cases v) (auto simp: has_fields_def validate_event_def event_fields_def field_defs later_def split: option.splits)

lemma later_report: "has_fields [''report_id'', ''updated_at''] v \<Longrightarrow> validate_report (later fm fresh clock) v = validate_report fm v"
  by (cases v) (auto simp: has_fields_def validate_report_def report_fields_def field_defs later_def split: option.splits)

lemma later_dataset_read: "has_fields [''imported_at''] v \<Longrightarrow> validate_dataset (later fm fresh clock) v = validate_dataset fm v"
proof -
  have "period_fields (later fm fresh clock) = period_fields fm"
    by (simp add: fun_eq_iff period_fields_def later_def)
  then show "has_fields [''imported_at''] v \<Longrightarrow> validate_dataset (later fm fresh clock) v = validate_dataset fm v"
    by (cases v) (auto simp: has_fields_def validate_dataset_def dataset_fields_def field_defs later_def split: option.splits)
qed

lemma later_tuning: "has_fields [''updated_at''] v \<Longrightarrow> validate_tuning (later fm fresh clock) v = validate_tuning fm v"
  by (cases v) (auto simp: has_fields_def validate_tuning_def tuning_fields_def field_defs later_def split: option.splits)

definition all_have_fields :: "string list \<Rightarrow> storage \<Rightarrow> bool" where
  \<comment> \<open>every record of the file has these fields\<close>
  "all_have_fields ks st = (case st_file st of
     None \<Rightarrow> True
   | Some p \<Rightarrow> (case iterate p of Inl _ \<Rightarrow> True | Inr vs \<Rightarrow> list_all (has_fields ks) vs))"

lemma read_alike:
  assumes "all_have_fields ks st" "st_file st = Some p" "\<And>v. has_fields ks v \<Longrightarrow> validate' v = validate v"
  shows "source_items validate' p = source_items validate p"
proof -
  have "list_all (has_fields ks) vs \<Longrightarrow> traverse validate' vs = traverse validate vs" for vs
    by (induction vs) (simp_all add: assms(3))
  then show ?thesis using assms(1,2) by (auto simp: all_have_fields_def source_items_def then_do_def split: sum.splits)
qed

definition files_complete :: "backfill_tables \<Rightarrow> bool" where
  \<comment> \<open>no record of a file leaves out a field that pydantic would fill in with a new id or with the time\<close>
  "files_complete t \<longleftrightarrow> (case st_file (tb_tuning t) of None \<Rightarrow> True | Some p \<Rightarrow> has_fields [''updated_at''] p)
     \<and> all_have_fields [''imported_at''] (tb_datasets t) \<and> all_have_fields [''event_id'', ''occurred_at''] (tb_events t)
     \<and> all_have_fields [''report_id'', ''updated_at''] (tb_reports t)"

definition datasets_apart :: "(string \<Rightarrow> string) \<Rightarrow> formats \<Rightarrow> storage \<Rightarrow> bool" where
  \<comment> \<open>no two datasets of the file have ids that are the same key\<close>
  "datasets_apart collation fm st = (case st_file st of
     None \<Rightarrow> True
   | Some p \<Rightarrow> (case source_items (validate_dataset fm) p of
       Inl _ \<Rightarrow> True | Inr ds \<Rightarrow> distinct (map (\<lambda>d. collation (bd_dataset_id d)) ds)))"

definition not_the_defaults :: "formats \<Rightarrow> datetime \<Rightarrow> storage \<Rightarrow> bool" where
  \<comment> \<open>the tuning file does not hold the default state of this instant\<close>
  "not_the_defaults fm now st = (case st_file st of
     None \<Rightarrow> True
   | Some p \<Rightarrow> (case validate_tuning fm p of
       Inl _ \<Rightarrow> True
     | Inr x \<Rightarrow> canonical_of (dump_tuning fm) x \<noteq> canonical_of (dump_tuning fm) (default_state now)))"

definition tables_stored :: "database \<Rightarrow> (string \<Rightarrow> string) \<Rightarrow> formats \<Rightarrow> backfill_tables \<Rightarrow> bool" where
  \<comment> \<open>every table holds what its store wrote\<close>
  "tables_stored db collation fm t \<longleftrightarrow> (\<exists>s. tuning_held db fm s (tb_tuning t))
     \<and> (\<exists>rs. list_stored db fm (dump_sample fm) sample_columns storable_sample rs (tb_samples t))
     \<and> (\<exists>rs. list_stored db fm (dump_trade fm) trade_columns storable_trade rs (tb_journal t))
     \<and> (\<exists>ds. datasets_held db collation fm ds (tb_datasets t))
     \<and> (\<exists>rs. list_stored db fm (dump_ledger fm) ledger_columns storable_ledger rs (tb_ledger t))
     \<and> (\<exists>rs. list_stored db fm (dump_event fm) event_columns (\<lambda>_. True) rs (tb_events t))
     \<and> (\<exists>rs. list_stored db fm (dump_report fm) report_columns storable_report rs (tb_reports t))"

definition gains :: "('r \<Rightarrow> pyval) \<Rightarrow> (pyval \<Rightarrow> py_error + 'r) \<Rightarrow> (storage, 'r list) py \<Rightarrow> storage \<Rightarrow> storage \<Rightarrow> bool" where
  \<comment> \<open>the table keeps its rows and gains the records of the file it did not have, each once\<close>
  "gains dump validate loader st st' \<longleftrightarrow> (\<exists>old new. loader st = (Inr old, st) \<and> loader st' = (Inr (old @ new), st')
     \<and> distinct (map (canonical_of dump) new)
     \<and> canonical_of dump ` set new = (case st_file st of
          None \<Rightarrow> {}
        | Some p \<Rightarrow> (case source_items validate p of Inl _ \<Rightarrow> {} | Inr items \<Rightarrow> canonical_of dump ` set items))
        - canonical_of dump ` set old)"

definition settled :: "(storage, section_result) py \<Rightarrow> section_result \<Rightarrow> storage \<Rightarrow> bool" where
  \<comment> \<open>the source records are accounted for, and this section of another run does nothing\<close>
  "settled again r st' \<longleftrightarrow> (\<exists>r'. again st' = (Inr r', st') \<and> sx_imported r' = 0)
     \<and> sx_imported r + sx_skipped r = sx_source_records r"

lemma settled_counts: "settled again r st' \<Longrightarrow> sx_imported r + sx_skipped r = sx_source_records r"
  by (simp add: settled_def)

lemma list_backfilled:
  fixes dump :: "'r \<Rightarrow> pyval"
  assumes store: "json_store dump validate (\<lambda>r. dates_round_trip fm \<and> ok r)"
    and store': "json_store dump validate' (\<lambda>r. dates_round_trip fm \<and> ok r)"
    and storable: "\<And>v r. validate v = Inr r \<Longrightarrow> ok r"
    and held: "list_stored db fm dump columns ok rs st"
    and run: "backfill_many dump validate (store_list db validate) (append_rows (store_save db dump validate columns)) st = (Inr r, st')"
    and alike: "\<And>p. st_file st = Some p \<Longrightarrow> source_items validate' p = source_items validate p"
  shows "gains dump validate (store_list db validate) st st'
    \<and> settled (backfill_many dump validate' (store_list db validate') (append_rows (store_save db dump validate' columns))) r st'"
proof
  note sec = list_section[OF store storable, where columns = columns and db = db]
  have load: "store_list db v s = (Inr xs, s)"
    if "json_store dump v (\<lambda>r. dates_round_trip fm \<and> ok r)" "list_stored db fm dump columns ok xs s" for v xs s
    by (rule json_store.list_rows[OF that(1), where columns = columns])
      (use that(2) in \<open>auto simp: list_stored_def list_all_iff\<close>)
  show "settled (backfill_many dump validate' (store_list db validate') (append_rows (store_save db dump validate' columns))) r st'"
    unfolding settled_def
    by (rule backfill_section.settles[OF sec held run]) (use alike load[OF store'] in \<open>auto simp: sorted_wrt_iff_nth_less\<close>)
  show "gains dump validate (store_list db validate) st st'"
  proof (cases "st_file st")
    case None
    then have "st' = st" using run by (simp add: no_file)
    then show ?thesis using None load[OF store held] unfolding gains_def by (intro exI[of _ rs] exI[of _ "[]"]) simp
  next
    case (Some p)
    obtain items skipped new where got: "source_items validate p = Inr items" "distinct (map (canonical_of dump) new)"
      "canonical_of dump ` set new = canonical_of dump ` set items - canonical_of dump ` set rs"
      "list_stored db fm dump columns ok (if new = [] then rs else rs @ new) st'"
      by (rule backfill_section.many_run[OF sec held Some run]) blast
    have "(if new = [] then rs else rs @ new) = rs @ new" by simp
    then have "store_list db validate st' = (Inr (rs @ new), st')" using load[OF store got(4)] by (simp only:)
    then show ?thesis using Some got(1,2,3) load[OF store held] unfolding gains_def
      by (intro exI[of _ rs] exI[of _ new]) simp
  qed
qed

lemma datasets_backfilled:
  assumes held: "datasets_held db collation fm ds st" and run: "dataset_section db collation fm st = (Inr r, st')"
    and apart: "datasets_apart collation fm st" and complete: "all_have_fields [''imported_at''] st"
  shows "settled (dataset_section db collation (later fm fresh clock)) r st'"
  unfolding settled_def dataset_section_def later_dataset
proof (rule dataset_backfill.settles[OF held run[unfolded dataset_section_def]])
  fix p items assume p: "st_file st = Some p" "source_items (validate_dataset fm) p = Inr items"
  have "sorted_wrt (\<lambda>a b. f a \<noteq> f b) ds" if "distinct (map f ds)" for f :: "backtest_dataset \<Rightarrow> string" and ds
    using that by (induction ds) auto
  then show "sorted_wrt (\<lambda>a b. collation (bd_dataset_id a) \<noteq> collation (bd_dataset_id b)) items
      \<and> source_items (validate_dataset (later fm fresh clock)) p = Inr items"
    using apart p read_alike[OF complete p(1), of "validate_dataset (later fm fresh clock)" "validate_dataset fm"]
    by (simp add: datasets_apart_def later_dataset_read)
next
  fix rs assume "datasets_held db collation fm rs st'"
  then show "\<exists>rs'. dataset_store_list db collation (later fm fresh clock) st' = (Inr rs', st') \<and> set rs' = set rs"
    using dataset_backfill.loaded[of db collation "later fm fresh clock" rs st'] by simp
qed

lemma on_part_Inr:
  assumes "on_part sel upd m w = (Inr x, w')"
  obtains s where "m (sel w) = (Inr x, s)" "w' = upd s w"
  using assms by (auto simp: on_part_def split: prod.splits)

lemma backfill_sections:
  assumes "backfill_run db collation fm now t = (Inr sections, t')"
  obtains r1 r2 r3 r4 r5 r6 r7 where
    "tuning_section db collation fm now (tb_tuning t) = (Inr r1, tb_tuning t')"
    "sample_section db fm (tb_samples t) = (Inr r2, tb_samples t')"
    "journal_section db fm (tb_journal t) = (Inr r3, tb_journal t')"
    "dataset_section db collation fm (tb_datasets t) = (Inr r4, tb_datasets t')"
    "ledger_section db fm (tb_ledger t) = (Inr r5, tb_ledger t')"
    "event_section db fm (tb_events t) = (Inr r6, tb_events t')"
    "report_section db fm (tb_reports t) = (Inr r7, tb_reports t')"
    "map snd sections = [r1, r2, r3, r4, r5, r6, r7]"
proof -
  obtain q1 q2 q3 q4 q5 q6 q7 s1 s2 s3 s4 s5 s6 s7 where run:
    "tuning_section db collation fm now (tb_tuning t) = (Inr q1, s1)" "sample_section db fm (tb_samples t) = (Inr q2, s2)"
    "journal_section db fm (tb_journal t) = (Inr q3, s3)" "dataset_section db collation fm (tb_datasets t) = (Inr q4, s4)"
    "ledger_section db fm (tb_ledger t) = (Inr q5, s5)" "event_section db fm (tb_events t) = (Inr q6, s6)"
    "report_section db fm (tb_reports t) = (Inr q7, s7)"
    and ends: "t' = t\<lparr>tb_tuning := s1, tb_samples := s2, tb_journal := s3, tb_datasets := s4, tb_ledger := s5,
      tb_events := s6, tb_reports := s7\<rparr>" "map snd sections = [q1, q2, q3, q4, q5, q6, q7]"
    using assms unfolding backfill_run_def
    by (fastforce simp: bnd_run on_part_def ret_run split: prod.splits sum.splits)
  show thesis by (rule that[of q1 q2 q3 q4 q5 q6 q7]) (use run ends in simp_all)
qed

lemma backfill_again:
  assumes "tuning_section db collation fm now (tb_tuning t) = (Inr r1, tb_tuning t)"
    "sample_section db fm (tb_samples t) = (Inr r2, tb_samples t)"
    "journal_section db fm (tb_journal t) = (Inr r3, tb_journal t)"
    "dataset_section db collation fm (tb_datasets t) = (Inr r4, tb_datasets t)"
    "ledger_section db fm (tb_ledger t) = (Inr r5, tb_ledger t)"
    "event_section db fm (tb_events t) = (Inr r6, tb_events t)"
    "report_section db fm (tb_reports t) = (Inr r7, tb_reports t)"
  shows "\<exists>again. backfill_run db collation fm now t = (Inr again, t) \<and> map snd again = [r1, r2, r3, r4, r5, r6, r7]"
  using assms by (simp add: backfill_run_def bnd_run on_part_def ret_run)

text \<open>
  C40. The backfill is complete and idempotent. When a run on tables that their stores wrote
  succeeds, every record of a file is imported or counted as skipped; the sample, journal,
  ledger, audit and report tables keep their rows in order and gain exactly the records of the
  file they did not have, each once; the tuning state is the one of the file; and another run
  on the same files, with another clock and other default ids, imports nothing and leaves every
  table as it is. Four conditions: the dates are read back as they are written; no two datasets
  of the file have ids the key's collation takes for the same (each would replace the other
  again); the tuning file does not hold the default state of the very instant of the first run;
  and no event, report, dataset or tuning state of the files leaves out an id or a date that is
  filled in when it is read (each run would fill in another).
\<close>

theorem backfill_idempotent:
  assumes "backfill_run db collation fm now t = (Inr sections, t')"
    and "tables_stored db collation fm t" and "files_complete t"
    and "datasets_apart collation fm (tb_datasets t)" and "not_the_defaults fm now (tb_tuning t)"
  shows "(\<exists>again. backfill_run db collation (later fm fresh clock) now' t' = (Inr again, t')
      \<and> (\<forall>(name, r)\<in>set again. sx_imported r = 0))
    \<and> (\<forall>(name, r)\<in>set sections. sx_imported r + sx_skipped r = sx_source_records r)
    \<and> gains (dump_sample fm) (validate_sample fm) (sample_store_list db fm) (tb_samples t) (tb_samples t')
    \<and> gains (dump_trade fm) (validate_trade fm) (journal_store_list db fm) (tb_journal t) (tb_journal t')
    \<and> gains (dump_ledger fm) (validate_ledger fm) (ledger_store_list db fm) (tb_ledger t) (tb_ledger t')
    \<and> gains (dump_event fm) (validate_event fm) (audit_store_list db fm) (tb_events t) (tb_events t')
    \<and> gains (dump_report fm) (validate_report fm) (report_store_list db fm) (tb_reports t) (tb_reports t')
    \<and> (case st_file (tb_tuning t) of
         None \<Rightarrow> tb_tuning t' = tb_tuning t
       | Some p \<Rightarrow> \<exists>x cur. validate_tuning fm p = Inr x
           \<and> tuning_store_load db collation fm now' (tb_tuning t') = (Inr cur, tb_tuning t')
           \<and> canonical_of (dump_tuning fm) cur = canonical_of (dump_tuning fm) x)"
proof -
  let ?fm = "later fm fresh clock"
  obtain r1 r2 r3 r4 r5 r6 r7 where runs:
    "tuning_section db collation fm now (tb_tuning t) = (Inr r1, tb_tuning t')"
    "sample_section db fm (tb_samples t) = (Inr r2, tb_samples t')"
    "journal_section db fm (tb_journal t) = (Inr r3, tb_journal t')"
    "dataset_section db collation fm (tb_datasets t) = (Inr r4, tb_datasets t')"
    "ledger_section db fm (tb_ledger t) = (Inr r5, tb_ledger t')"
    "event_section db fm (tb_events t) = (Inr r6, tb_events t')"
    "report_section db fm (tb_reports t) = (Inr r7, tb_reports t')"
    and sections: "map snd sections = [r1, r2, r3, r4, r5, r6, r7]"
    by (rule backfill_sections[OF assms(1)])
  obtain s2 s3 s4 s5 s6 s7 s1 where held:
    "list_stored db fm (dump_sample fm) sample_columns storable_sample s2 (tb_samples t)"
    "list_stored db fm (dump_trade fm) trade_columns storable_trade s3 (tb_journal t)"
    "datasets_held db collation fm s4 (tb_datasets t)"
    "list_stored db fm (dump_ledger fm) ledger_columns storable_ledger s5 (tb_ledger t)"
    "list_stored db fm (dump_event fm) event_columns (\<lambda>_. True) s6 (tb_events t)"
    "list_stored db fm (dump_report fm) report_columns storable_report s7 (tb_reports t)"
    "tuning_held db fm s1 (tb_tuning t)"
    using assms(2) unfolding tables_stored_def by blast
  have complete: "all_have_fields [''event_id'', ''occurred_at''] (tb_events t)"
    "all_have_fields [''report_id'', ''updated_at''] (tb_reports t)" "all_have_fields [''imported_at''] (tb_datasets t)"
    using assms(3) by (simp_all add: files_complete_def)
  have samples: "gains (dump_sample fm) (validate_sample fm) (sample_store_list db fm) (tb_samples t) (tb_samples t')
      \<and> settled (sample_section db ?fm) r2 (tb_samples t')"
    using list_backfilled[OF sample_rows.json_store_axioms sample_rows.json_store_axioms sample_storable held(1)] runs(2)
    by (simp add: sample_section_def store_defs)
  have journal: "gains (dump_trade fm) (validate_trade fm) (journal_store_list db fm) (tb_journal t) (tb_journal t')
      \<and> settled (journal_section db ?fm) r3 (tb_journal t')"
    using list_backfilled[OF trade_rows.json_store_axioms trade_rows.json_store_axioms trade_storable held(2)] runs(3)
    by (simp add: journal_section_def store_defs)
  have ledger: "gains (dump_ledger fm) (validate_ledger fm) (ledger_store_list db fm) (tb_ledger t) (tb_ledger t')
      \<and> settled (ledger_section db ?fm) r5 (tb_ledger t')"
    using list_backfilled[OF ledger_rows.json_store_axioms ledger_rows.json_store_axioms ledger_storable held(4)] runs(5)
    by (simp add: ledger_section_def store_defs)
  have events: "gains (dump_event fm) (validate_event fm) (audit_store_list db fm) (tb_events t) (tb_events t')
      \<and> settled (event_section db ?fm) r6 (tb_events t')"
    using list_backfilled[where validate' = "validate_event ?fm", OF _ _ _ held(5)] runs(6)
      event_rows.json_store_axioms[of fm] event_rows.json_store_axioms[of ?fm] read_alike[OF complete(1) _ later_event]
    by (simp add: event_section_def store_defs)
  have reports: "gains (dump_report fm) (validate_report fm) (report_store_list db fm) (tb_reports t) (tb_reports t')
      \<and> settled (report_section db ?fm) r7 (tb_reports t')"
    using list_backfilled[where validate' = "validate_report ?fm", OF _ _ report_storable held(6)] runs(7)
      report_rows.json_store_axioms[of fm] report_rows.json_store_axioms[of ?fm] read_alike[OF complete(2) _ later_report]
    by (simp add: report_section_def store_defs)
  have datasets: "settled (dataset_section db collation ?fm) r4 (tb_datasets t')"
    by (rule datasets_backfilled[OF held(3) runs(4) assms(4) complete(3)])
  have tuning: "settled (tuning_section db collation ?fm now') r1 (tb_tuning t')
    \<and> (case st_file (tb_tuning t) of None \<Rightarrow> tb_tuning t' = tb_tuning t
        | Some p \<Rightarrow> \<exists>x cur. validate_tuning fm p = Inr x
           \<and> tuning_store_load db collation fm now' (tb_tuning t') = (Inr cur, tb_tuning t')
           \<and> canonical_of (dump_tuning fm) cur = canonical_of (dump_tuning fm) x)"
  proof -
    have "validate_tuning ?fm p = validate_tuning fm p" if "st_file (tb_tuning t) = Some p" for p
      using that assms(3) by (simp add: files_complete_def later_tuning)
    moreover have "canonical_of (dump_tuning fm) x \<noteq> canonical_of (dump_tuning fm) (default_state now)"
      if "st_file (tb_tuning t) = Some p" "validate_tuning fm p = Inr x" for p x
      using that assms(5) by (simp add: not_the_defaults_def)
    ultimately show ?thesis
      using tuning_settles[OF held(7) runs(1), of ?fm now'] unfolding settled_def by simp
  qed
  note counts = conjunct2[OF samples, THEN settled_counts] conjunct2[OF journal, THEN settled_counts]
    conjunct2[OF ledger, THEN settled_counts] conjunct2[OF events, THEN settled_counts]
    conjunct2[OF reports, THEN settled_counts] datasets[THEN settled_counts] conjunct1[OF tuning, THEN settled_counts]
  have again: "\<exists>again. backfill_run db collation ?fm now' t' = (Inr again, t') \<and> (\<forall>(name, r)\<in>set again. sx_imported r = 0)"
  proof -
    obtain q1 where q1: "tuning_section db collation ?fm now' (tb_tuning t') = (Inr q1, tb_tuning t')" "sx_imported q1 = 0"
      using tuning unfolding settled_def by blast
    obtain q2 where q2: "sample_section db ?fm (tb_samples t') = (Inr q2, tb_samples t')" "sx_imported q2 = 0"
      using samples unfolding settled_def by blast
    obtain q3 where q3: "journal_section db ?fm (tb_journal t') = (Inr q3, tb_journal t')" "sx_imported q3 = 0"
      using journal unfolding settled_def by blast
    obtain q4 where q4: "dataset_section db collation ?fm (tb_datasets t') = (Inr q4, tb_datasets t')" "sx_imported q4 = 0"
      using datasets unfolding settled_def by blast
    obtain q5 where q5: "ledger_section db ?fm (tb_ledger t') = (Inr q5, tb_ledger t')" "sx_imported q5 = 0"
      using ledger unfolding settled_def by blast
    obtain q6 where q6: "event_section db ?fm (tb_events t') = (Inr q6, tb_events t')" "sx_imported q6 = 0"
      using events unfolding settled_def by blast
    obtain q7 where q7: "report_section db ?fm (tb_reports t') = (Inr q7, tb_reports t')" "sx_imported q7 = 0"
      using reports unfolding settled_def by blast
    have none: "\<forall>r\<in>set [q1, q2, q3, q4, q5, q6, q7]. sx_imported r = 0"
      using q1(2) q2(2) q3(2) q4(2) q5(2) q6(2) q7(2) by simp
    obtain again where again: "backfill_run db collation ?fm now' t' = (Inr again, t')"
      "map snd again = [q1, q2, q3, q4, q5, q6, q7]"
      by (rule exE[OF backfill_again[OF q1(1) q2(1) q3(1) q4(1) q5(1) q6(1) q7(1)]]) (erule conjE, rule that)
    have "\<forall>r\<in>set (map snd again). sx_imported r = 0" unfolding again(2) by (rule none)
    then have "\<forall>(name, r)\<in>set again. sx_imported r = 0" by auto
    then show ?thesis using again(1) by blast
  qed
  have "\<forall>r\<in>set (map snd sections). sx_imported r + sx_skipped r = sx_source_records r"
    unfolding sections by (simp add: counts)
  then have "\<forall>(name, r)\<in>set sections. sx_imported r + sx_skipped r = sx_source_records r" by auto
  with again show ?thesis
    using samples journal ledger events reports tuning by (intro conjI) blast+
qed

definition empty_table :: "pyval option \<Rightarrow> storage" where
  "empty_table f = \<lparr>st_file = f, st_rows = []\<rparr>"

definition sample_files :: backfill_tables where
  \<comment> \<open>a ledger file that lists a record twice, a file with one dataset, empty tables\<close>
  "sample_files = \<lparr>tb_tuning = empty_table None, tb_samples = empty_table None, tb_journal = empty_table None,
     tb_datasets = empty_table (Some (PList [dump_dataset decimal_formats (named_dataset ''A'')])),
     tb_ledger = empty_table (Some (PList (map (dump_ledger decimal_formats) [sample_record ''t1'' Open, sample_record ''t1'' Open]))),
     tb_events = empty_table None, tb_reports = empty_table None\<rparr>"

lemma sample_files_run:
  "\<exists>sections t'. backfill_run willing_mysql py_lower decimal_formats 0 sample_files = (Inr sections, t')
     \<and> ledger_store_list willing_mysql decimal_formats (tb_ledger t') = (Inr [sample_record ''t1'' Open], tb_ledger t')"
proof -
  let ?r = "sample_record ''t1'' Open" and ?st = "tb_ledger sample_files"
  have ok: "storable_ledger ?r"
    by (simp add: storable_ledger_def sample_record_def valid_ledger_record_def is_f64_of_int[of 1000, simplified])
  have none: "backfill_many dump v l w (empty_table None) = (Inr empty_section, empty_table None)" for dump v l w
    by (simp add: no_file empty_table_def)
  have my: "mysql_enabled willing_mysql" by (simp add: willing_mysql_def mysql_enabled_def)
  have willing: "refused_at willing_mysql n rows = None" for n rows
    by (induction rows arbitrary: n) (simp_all add: willing_mysql_def)
  have accept: "db_insert willing_mysql n row = None" for n row by (simp add: willing_mysql_def)
  let ?st' = "?st\<lparr>st_rows := sql_rows (dump_ledger decimal_formats) ledger_columns [?r]\<rparr>"
  have same: "validate_ledger decimal_formats (dump_ledger decimal_formats ?r) = Inr ?r"
    by (rule ledger_rows.validate_dump) (simp add: ok)
  have ledger: "ledger_section willing_mysql decimal_formats ?st = (Inr \<lparr>sx_found = True, sx_source_records = 2,
      sx_imported = 1, sx_skipped = 1\<rparr>, ?st')"
    by (simp add: ledger_section_def backfill_many_def py_simps sample_files_def empty_table_def source_items_def
        iterate_def same store_defs store_list_def my fetch_json_rows_def append_rows_def store_save_def
        store_merged_def replace_rows_run willing)
  have read: "ledger_store_list willing_mysql decimal_formats ?st' = (Inr [?r], ?st')"
    unfolding ledger_store_list_def by (rule ledger_rows.list_rows) (simp_all add: my ok)
  have "validate_dataset decimal_formats (dump_dataset decimal_formats (named_dataset ''A'')) = Inr (named_dataset ''A'')"
    by (rule dataset_json.validate_dump) (simp add: storable_dataset_def named_dataset_def)
  then obtain r st4 where datasets: "dataset_section willing_mysql py_lower decimal_formats (tb_datasets sample_files) = (Inr r, st4)"
    by (simp add: dataset_section_def backfill_many_def py_simps sample_files_def empty_table_def source_items_def
        iterate_def dataset_store_list_def my sorted_by_def dataset_store_save_def replace_row_def accept)
  show ?thesis using ledger read datasets
    by (simp add: backfill_run_def bnd_run on_part_def ret_run tuning_section_def backfill_single_def sample_section_def
        journal_section_def event_section_def report_section_def gets_run none[unfolded empty_table_def]
        sample_files_def empty_table_def)
qed

theorem backfill_idempotent_witness:
  "\<exists>sections t' again. backfill_run willing_mysql py_lower decimal_formats 0 sample_files = (Inr sections, t')
     \<and> ledger_store_list willing_mysql decimal_formats (tb_ledger t') = (Inr [sample_record ''t1'' Open], tb_ledger t')
     \<and> backfill_run willing_mysql py_lower (later decimal_formats (\<lambda>_. ''other'') (\<lambda>_. 1)) 1 t' = (Inr again, t')"
proof -
  obtain sections t' where run: "backfill_run willing_mysql py_lower decimal_formats 0 sample_files = (Inr sections, t')"
    and read: "ledger_store_list willing_mysql decimal_formats (tb_ledger t') = (Inr [sample_record ''t1'' Open], tb_ledger t')"
    using sample_files_run by blast
  have my: "mysql_enabled willing_mysql" by (simp add: willing_mysql_def mysql_enabled_def)
  have stored: "tables_stored willing_mysql py_lower decimal_formats sample_files"
    unfolding tables_stored_def sample_files_def empty_table_def
    by (auto simp: tuning_held_def list_stored_def datasets_held_def dataset_stored_def my sql_rows_def
        intro!: exI[of _ None] exI[of _ "[]"])
  have complete: "files_complete sample_files"
    by (simp add: files_complete_def sample_files_def empty_table_def all_have_fields_def iterate_def has_fields_def
        dump_dataset_def)
  have "validate_dataset decimal_formats (dump_dataset decimal_formats (named_dataset ''A'')) = Inr (named_dataset ''A'')"
    by (rule dataset_json.validate_dump) (simp add: storable_dataset_def named_dataset_def)
  then have apart: "datasets_apart py_lower decimal_formats (tb_datasets sample_files)"
    by (simp add: datasets_apart_def sample_files_def empty_table_def source_items_def iterate_def)
  have other: "not_the_defaults decimal_formats 0 (tb_tuning sample_files)"
    by (simp add: not_the_defaults_def sample_files_def empty_table_def)
  show ?thesis
    using backfill_idempotent[OF run stored complete apart other, of "\<lambda>_. ''other''" "\<lambda>_. 1" 1] run read by blast
qed

end
