(* ===== verification/Mysql.thy ===== *)
theory Mysql
  imports World
begin

section \<open>MySQL connections\<close>

text \<open>
  \<open>app/persistence/mysql.py\<close> below the level of rows: a connection per call, the schema
  created on first use and remembered per process, the statements in the order they are sent.
  PyMySQL and the server are the parameter \<open>driver\<close>, read by the number of connections and
  statements so far; \<open>json.loads\<close> is \<open>dv_json\<close>. A statement is its text and
  parameters. The lemmas show that every connection that is opened is closed, whatever fails,
  and that the schema statements are sent once.
\<close>

record mysql_settings =
  mq_host :: string
  mq_port :: int
  mq_user :: string
  mq_password :: string
  mq_database :: string
  mq_charset :: string

datatype statement =
    Execute string "pyval list" \<comment> \<open>\<open>cursor.execute(sql, params)\<close>\<close>
  | ExecuteMany string "pyval list list" \<comment> \<open>\<open>cursor.executemany(sql, rows)\<close>: what the driver makes of it is its own\<close>

record driver =
  dv_installed :: bool
  dv_connect :: "nat \<Rightarrow> mysql_settings \<Rightarrow> string option \<Rightarrow> py_error option" \<comment> \<open>the database, where one is named\<close>
  dv_run :: "nat \<Rightarrow> statement \<Rightarrow> py_error + pyval list" \<comment> \<open>the rows of the answer\<close>
  dv_json :: "string \<Rightarrow> py_error + pyval"

type_synonym database_key = "string \<times> int \<times> string"
type_synonym table_key = "string \<times> int \<times> string \<times> string"

record process =
  pr_databases :: "database_key list" \<comment> \<open>\<open>_DATABASE_READY\<close>\<close>
  pr_tables :: "table_key list" \<comment> \<open>\<open>_TABLES_READY\<close>\<close>
  pr_open :: nat \<comment> \<open>open connections\<close>
  pr_connections :: nat \<comment> \<open>connections asked for\<close>
  pr_statements :: "statement list" \<comment> \<open>statements sent\<close>

subsection \<open>One connection\<close>

definition load_driver :: "driver \<Rightarrow> (process, unit) py" where
  "load_driver dv = require (dv_installed dv) (RuntimeError ''MySQL storage backend requires PyMySQL. Install backend dependencies before enabling storage_backend=mysql.'')"

definition connect :: "driver \<Rightarrow> mysql_settings \<Rightarrow> string option \<Rightarrow> (process, unit) py" where
  \<comment> \<open>\<open>driver.connect(...)\<close>, with or without a database\<close>
  "connect dv c db =
     bnd (gets pr_connections) (\<lambda>n.
     thn (modify (\<lambda>p. p\<lparr>pr_connections := Suc n\<rparr>))
       (case dv_connect dv n c db of
          Some exc \<Rightarrow> raise exc
        | None \<Rightarrow> modify (\<lambda>p. p\<lparr>pr_open := Suc (pr_open p)\<rparr>)))"

definition close_connection :: "(process, unit) py" where
  "close_connection = modify (\<lambda>p. p\<lparr>pr_open := pr_open p - 1\<rparr>)"

definition finally_close :: "(process, 'a) py \<Rightarrow> (process, 'a) py" where
  \<comment> \<open>\<open>try: ... finally: connection.close()\<close>\<close>
  "finally_close m = bnd (attempt m) (\<lambda>r. thn close_connection (case r of Inl exc \<Rightarrow> raise exc | Inr x \<Rightarrow> ret x))"

definition run_statement :: "driver \<Rightarrow> statement \<Rightarrow> (process, pyval list) py" where
  "run_statement dv st =
     bnd (gets (\<lambda>p. length (pr_statements p))) (\<lambda>n.
     thn (modify (\<lambda>p. p\<lparr>pr_statements := pr_statements p @ [st]\<rparr>))
       (lift (dv_run dv n st)))"

definition create_database_sql :: "mysql_settings \<Rightarrow> string" where
  "create_database_sql c = ''CREATE DATABASE IF NOT EXISTS `'' @ mq_database c @ ''` CHARACTER SET '' @ mq_charset c"

definition database_key_of :: "mysql_settings \<Rightarrow> database_key" where
  "database_key_of c = (mq_host c, mq_port c, mq_database c)"

definition ensure_database :: "driver \<Rightarrow> mysql_settings \<Rightarrow> (process, unit) py" where
  "ensure_database dv c =
     bnd (gets pr_databases) (\<lambda>ready.
       if database_key_of c \<in> set ready then ret ()
       else thn (load_driver dv)
         (thn (connect dv c None)
         (thn (finally_close (run_statement dv (Execute (create_database_sql c) [])))
           (modify (\<lambda>p. p\<lparr>pr_databases := database_key_of c # pr_databases p\<rparr>)))))"

definition with_cursor :: "driver \<Rightarrow> mysql_settings \<Rightarrow> (process, 'a) py \<Rightarrow> (process, 'a) py" where
  \<comment> \<open>\<open>with self.cursor() as cursor\<close>\<close>
  "with_cursor dv c body =
     thn (ensure_database dv c) (thn (load_driver dv) (thn (connect dv c (Some (mq_database c))) (finally_close body)))"

subsection \<open>Operations\<close>

definition table_key_of :: "mysql_settings \<Rightarrow> string \<Rightarrow> table_key" where
  "table_key_of c table = (mq_host c, mq_port c, mq_database c, table)"

definition ensure_table :: "driver \<Rightarrow> mysql_settings \<Rightarrow> string \<Rightarrow> string \<Rightarrow> (process, unit) py" where
  "ensure_table dv c table ddl =
     bnd (gets pr_tables) (\<lambda>ready.
       if table_key_of c table \<in> set ready then ret ()
       else thn (with_cursor dv c (run_statement dv (Execute ddl [])))
         (modify (\<lambda>p. p\<lparr>pr_tables := table_key_of c table # pr_tables p\<rparr>)))"

definition decode_payload :: "driver \<Rightarrow> pyval \<Rightarrow> py_error + pyval" where
  \<comment> \<open>a row's payload; the driver gives text for bytes\<close>
  "decode_payload dv row =
     (case row of
        PDict d \<Rightarrow> (case map_of d ''payload'' of
            None \<Rightarrow> Inl (KeyError (repr_str ''payload''))
          | Some (PStr s) \<Rightarrow> dv_json dv s
          | Some v \<Rightarrow> Inr v)
      | _ \<Rightarrow> Inl (TypeError ''row indices must be integers or slices, not str''))"

definition rows_of_query :: "driver \<Rightarrow> mysql_settings \<Rightarrow> string \<Rightarrow> pyval list \<Rightarrow> (process, pyval list) py" where
  \<comment> \<open>\<open>fetch_json_rows\<close>\<close>
  "rows_of_query dv c query params =
     bnd (with_cursor dv c (run_statement dv (Execute query params))) (\<lambda>rows.
     bnd (for_map (\<lambda>r. lift (decode_payload dv r)) rows) ret)"

definition execute_statement :: "driver \<Rightarrow> mysql_settings \<Rightarrow> string \<Rightarrow> pyval list \<Rightarrow> (process, unit) py" where
  "execute_statement dv c sql params = with_cursor dv c (thn (run_statement dv (Execute sql params)) (ret ()))"

definition executemany :: "driver \<Rightarrow> mysql_settings \<Rightarrow> string \<Rightarrow> pyval list list \<Rightarrow> (process, unit) py" where
  "executemany dv c sql params =
     (if params = [] then ret ()
      else with_cursor dv c (thn (run_statement dv (ExecuteMany sql params)) (ret ())))"

definition replace_table :: "driver \<Rightarrow> mysql_settings \<Rightarrow> string \<Rightarrow> string \<Rightarrow> pyval list list \<Rightarrow> (process, unit) py" where
  \<comment> \<open>\<open>replace_rows\<close>\<close>
  "replace_table dv c table insert_sql params =
     with_cursor dv c
       (thn (run_statement dv (Execute (''DELETE FROM '' @ table) []))
         (if params = [] then ret () else thn (run_statement dv (ExecuteMany insert_sql params)) (ret ())))"

subsection \<open>Connections are closed\<close>

definition open_kept :: "process \<Rightarrow> process \<Rightarrow> bool" where
  "open_kept p p' \<longleftrightarrow> pr_open p' = pr_open p"

interpretation connections: effect open_kept
  by unfold_locales (auto simp: open_kept_def)

lemma steps_statement [steps]: "steps_in open_kept (run_statement dv st)"
  by (auto simp: steps_in_def open_kept_def run_statement_def py_simps lift_run split: sum.split)

lemma connect_cases:
  obtains (refused) exc p' where "connect dv c db p = (Inl exc, p')" "pr_open p' = pr_open p"
  | (connected) p' where "connect dv c db p = (Inr (), p')" "pr_open p' = Suc (pr_open p)"
  by (cases "dv_connect dv (pr_connections p) c db") (auto simp: connect_def py_simps)

lemma connected_closed [steps]:
  assumes "steps_in open_kept m"
  shows "steps_in open_kept (thn (connect dv c db) (finally_close m))"
proof (rule steps_inI)
  fix p r p' assume run: "thn (connect dv c db) (finally_close m) p = (r, p')"
  show "open_kept p p'"
  proof (cases rule: connect_cases[of dv c db p])
    case refused
    then show ?thesis using run by (auto simp: py_simps open_kept_def)
  next
    case (connected p1)
    obtain r2 p2 where m: "m p1 = (r2, p2)" by fastforce
    then have "pr_open p2 = Suc (pr_open p)"
      using steps_inD[OF assms m] connected(2) by (simp add: open_kept_def)
    then show ?thesis
      using run connected(1) m
      by (auto simp: py_simps finally_close_def attempt_def close_connection_def modify_def open_kept_def
          split: sum.splits)
  qed
qed

lemma steps_load [steps]: "steps_in open_kept (load_driver dv)"
  unfolding load_driver_def by (intro steps)

lemma steps_caches [steps]:
  "steps_in open_kept (modify (\<lambda>p. p\<lparr>pr_databases := f p\<rparr>))" "steps_in open_kept (modify (\<lambda>p. p\<lparr>pr_tables := g p\<rparr>))"
  by (simp_all add: steps_in_def open_kept_def modify_def)

lemma thn_assoc: "thn a (thn b k) = thn (thn a b) k"
  by (rule ext) (simp add: py_simps split: prod.split sum.split)

lemma steps_ensure_database [steps]: "steps_in open_kept (ensure_database dv c)"
  unfolding ensure_database_def thn_assoc[of "connect dv c None"] by (intro steps)

lemma steps_with_cursor [steps]: "steps_in open_kept m \<Longrightarrow> steps_in open_kept (with_cursor dv c m)"
  unfolding with_cursor_def by (intro steps)

lemma steps_operations [steps]:
  "steps_in open_kept (ensure_table dv c table ddl)"
  "steps_in open_kept (rows_of_query dv c query params)"
  "steps_in open_kept (execute_statement dv c sql params)"
  "steps_in open_kept (executemany dv c sql rows)"
  "steps_in open_kept (replace_table dv c table sql rows)"
  unfolding ensure_table_def rows_of_query_def execute_statement_def executemany_def replace_table_def
  by (intro steps)+

subsection \<open>The schema is created once\<close>

definition schema_known :: "process \<Rightarrow> bool" where
  \<comment> \<open>a table is remembered only with its database\<close>
  "schema_known p \<longleftrightarrow> (\<forall>(h, q, d, t) \<in> set (pr_tables p). (h, q, d) \<in> set (pr_databases p))"

definition caches_kept :: "process \<Rightarrow> process \<Rightarrow> bool" where
  "caches_kept p p' \<longleftrightarrow> pr_databases p' = pr_databases p \<and> pr_tables p' = pr_tables p"

interpretation caches: effect caches_kept
  by unfold_locales (auto simp: caches_kept_def)

lemma steps_caches_kept [steps]:
  "steps_in caches_kept (run_statement dv st)" "steps_in caches_kept (connect dv c db)"
  "steps_in caches_kept (load_driver dv)" "steps_in caches_kept close_connection"
  by (auto simp: steps_in_def caches_kept_def run_statement_def connect_def load_driver_def close_connection_def
      py_simps split: sum.split option.split)

lemma caches_finally [steps]: "steps_in caches_kept m \<Longrightarrow> steps_in caches_kept (finally_close m)"
  unfolding finally_close_def by (intro steps)

lemma ensure_database_cases:
  assumes "ensure_database dv c p = (r, p')"
  obtains (ready) "r = Inr ()" "database_key_of c \<in> set (pr_databases p')"
      "set (pr_databases p') = insert (database_key_of c) (set (pr_databases p))" "pr_tables p' = pr_tables p"
    | (failed) exc where "r = Inl exc" "caches_kept p p'" "database_key_of c \<notin> set (pr_databases p)"
proof (cases "database_key_of c \<in> set (pr_databases p)")
  case True
  then have "r = Inr ()" "p' = p" using assms by (simp_all add: ensure_database_def bnd_run gets_run ret_run)
  then show thesis using True ready by (simp add: insert_absorb)
next
  case False
  let ?m = "thn (load_driver dv) (thn (connect dv c None)
      (finally_close (run_statement dv (Execute (create_database_sql c) []))))"
  have kept: "steps_in caches_kept ?m" by (intro steps)
  obtain r1 p1 where m: "?m p = (r1, p1)" by fastforce
  have same: "caches_kept p p1" by (rule steps_inD[OF kept m])
  have run: "ensure_database dv c p =
      thn ?m (modify (\<lambda>p. p\<lparr>pr_databases := database_key_of c # pr_databases p\<rparr>)) p"
    by (simp only: ensure_database_def bnd_run gets_run prod.case sum.case False if_False thn_assoc)
  show thesis
  proof (cases r1)
    case (Inl exc)
    then show thesis using failed[of exc] run m same assms False by (simp add: thn_run)
  next
    case (Inr x)
    have "ensure_database dv c p = (Inr (), p1\<lparr>pr_databases := database_key_of c # pr_databases p1\<rparr>)"
      using run m Inr by (simp add: thn_run modify_run)
    then have "r = Inr ()" "p' = p1\<lparr>pr_databases := database_key_of c # pr_databases p1\<rparr>" using assms by simp_all
    then show thesis using ready same by (simp add: caches_kept_def)
  qed
qed

lemma with_cursor_caches:
  assumes "steps_in caches_kept m" and run: "with_cursor dv c m p = (r, p')"
  obtains (ready) "database_key_of c \<in> set (pr_databases p')"
      "set (pr_databases p') = insert (database_key_of c) (set (pr_databases p))" "pr_tables p' = pr_tables p"
    | (failed) exc where "r = Inl exc" "caches_kept p p'"
proof -
  obtain r1 p1 where db: "ensure_database dv c p = (r1, p1)" by fastforce
  have rest: "steps_in caches_kept (thn (load_driver dv) (thn (connect dv c (Some (mq_database c))) (finally_close m)))"
    by (intro steps assms)
  show thesis
  proof (cases rule: ensure_database_cases[OF db])
    case 1
    then have "caches_kept p1 p'"
      using run db steps_inD[OF rest] by (auto simp: with_cursor_def thn_run[of "ensure_database dv c"])
    then show thesis using ready 1 by (simp add: caches_kept_def)
  next
    case (2 exc)
    then show thesis using failed run db by (auto simp: with_cursor_def thn_run[of "ensure_database dv c"])
  qed
qed

lemma with_cursor_ready:
  assumes "steps_in caches_kept m" "with_cursor dv c m p = (Inr x, p')"
  shows "database_key_of c \<in> set (pr_databases p')"
  by (rule with_cursor_caches[OF assms]) auto

theorem table_created_once:
  assumes run: "ensure_table dv c table ddl p = (r, p')"
  shows "case r of
      Inr _ \<Rightarrow> table_key_of c table \<in> set (pr_tables p') \<and> ensure_table dv2 c table ddl2 p' = (Inr (), p')
    | Inl _ \<Rightarrow> table_key_of c table \<notin> set (pr_tables p')"
proof (cases "table_key_of c table \<in> set (pr_tables p)")
  case True
  then show ?thesis using run by (auto simp: ensure_table_def bnd_run gets_run ret_run)
next
  case False
  have kept: "steps_in caches_kept (run_statement dv (Execute ddl []))" by (rule steps)
  obtain r1 p1 where sent: "with_cursor dv c (run_statement dv (Execute ddl [])) p = (r1, p1)" by fastforce
  have "pr_tables p1 = pr_tables p"
    by (rule with_cursor_caches[OF kept sent]) (simp_all add: caches_kept_def)
  then show ?thesis
    using False run sent
    by (auto simp: ensure_table_def bnd_run[of "gets _"] gets_run ret_run thn_run modify_run split: sum.splits)
qed

subsection \<open>Every sequence of calls\<close>

datatype mysql_call =
    EnsureTable string string
  | FetchRows string "pyval list"
  | ExecuteOne string "pyval list"
  | ExecuteRows string "pyval list list"
  | ReplaceRows string string "pyval list list"

definition mysql_step :: "driver \<Rightarrow> mysql_settings \<Rightarrow> mysql_call \<Rightarrow> (process, unit) py" where
  "mysql_step dv c call =
     (case call of
        EnsureTable t ddl \<Rightarrow> ensure_table dv c t ddl
      | FetchRows q ps \<Rightarrow> thn (rows_of_query dv c q ps) (ret ())
      | ExecuteOne q ps \<Rightarrow> execute_statement dv c q ps
      | ExecuteRows q rows \<Rightarrow> executemany dv c q rows
      | ReplaceRows t q rows \<Rightarrow> replace_table dv c t q rows)"

fun mysql_run :: "driver \<Rightarrow> mysql_settings \<Rightarrow> mysql_call list \<Rightarrow> process \<Rightarrow> process" where
  "mysql_run dv c [] p = p"
| "mysql_run dv c (call # calls) p = mysql_run dv c calls (snd (mysql_step dv c call p))"

lemma schema_known_cursor:
  assumes "steps_in caches_kept m" "with_cursor dv c m p = (r, p')" "schema_known p"
  shows "schema_known p'"
  by (rule with_cursor_caches[OF assms(1,2)]) (use assms(3) in \<open>auto simp: schema_known_def caches_kept_def\<close>)

lemma schema_known_table:
  assumes "ensure_table dv c table ddl p = (r, p')" "schema_known p"
  shows "schema_known p'"
proof (cases "table_key_of c table \<in> set (pr_tables p)")
  case True
  then show ?thesis using assms by (auto simp: ensure_table_def bnd_run gets_run ret_run)
next
  case False
  have kept: "steps_in caches_kept (run_statement dv (Execute ddl []))" by (rule steps)
  obtain r1 p1 where sent: "with_cursor dv c (run_statement dv (Execute ddl [])) p = (r1, p1)" by fastforce
  have known: "schema_known p1" by (rule schema_known_cursor[OF kept sent assms(2)])
  show ?thesis
  proof (cases r1)
    case (Inl exc)
    then show ?thesis using assms(1) sent False known
      by (simp add: ensure_table_def bnd_run[of "gets _"] gets_run thn_run)
  next
    case (Inr x)
    have "database_key_of c \<in> set (pr_databases p1)"
      by (rule with_cursor_ready[OF kept]) (use sent Inr in simp)
    then show ?thesis using assms(1) sent False known Inr
      by (auto simp: ensure_table_def bnd_run[of "gets _"] gets_run thn_run modify_run schema_known_def
          table_key_of_def database_key_of_def)
  qed
qed

lemma schema_known_step:
  assumes "mysql_step dv c call p = (r, p')" "schema_known p"
  shows "schema_known p'"
proof (cases call)
  case (EnsureTable t ddl)
  then show ?thesis using schema_known_table assms by (simp add: mysql_step_def)
next
  case (FetchRows q ps)
  obtain r1 p1 where sent: "with_cursor dv c (run_statement dv (Execute q ps)) p = (r1, p1)" by fastforce
  have pure: "for_map (\<lambda>r. lift (decode_payload dv r)) rows w = (z, w') \<Longrightarrow> w' = w" for rows w z w'
    by (induction rows arbitrary: w z w') (auto simp: py_simps split: sum.splits prod.splits)
  then have "p' = p1"
    using assms(1) FetchRows sent
    by (auto simp: mysql_step_def rows_of_query_def bnd_run thn_run ret_run split: sum.splits prod.splits dest!: pure)
  moreover have "schema_known p1" by (rule schema_known_cursor[OF steps_caches_kept(1) sent assms(2)])
  ultimately show ?thesis by simp
next
  case (ExecuteOne q ps)
  have "steps_in caches_kept (thn (run_statement dv (Execute q ps)) (ret ()))" by (intro steps)
  then show ?thesis using schema_known_cursor assms ExecuteOne by (simp add: mysql_step_def execute_statement_def)
next
  case (ExecuteRows q rows)
  have "steps_in caches_kept (thn (run_statement dv (ExecuteMany q rows)) (ret ()))" by (intro steps)
  then show ?thesis using schema_known_cursor assms ExecuteRows
    by (auto simp: mysql_step_def executemany_def ret_run split: if_splits)
next
  case (ReplaceRows t q rows)
  have "steps_in caches_kept (thn (run_statement dv (Execute (''DELETE FROM '' @ t) []))
      (if rows = [] then ret () else thn (run_statement dv (ExecuteMany q rows)) (ret ())))" by (intro steps)
  then show ?thesis using schema_known_cursor assms ReplaceRows by (simp add: mysql_step_def replace_table_def)
qed

lemma steps_mysql [steps]: "steps_in open_kept (mysql_step dv c call)"
  unfolding mysql_step_def by (cases call) (auto intro!: steps)

theorem calls_leave_no_connection:
  \<comment> \<open>any calls, any failures of the driver\<close>
  "pr_open (mysql_run dv c calls p) = pr_open p \<and> (schema_known p \<longrightarrow> schema_known (mysql_run dv c calls p))"
proof (induction calls arbitrary: p)
  case (Cons call calls)
  obtain r p1 where run: "mysql_step dv c call p = (r, p1)" by fastforce
  have "pr_open p1 = pr_open p" using steps_inD[OF steps_mysql run] by (simp add: open_kept_def)
  then show ?case using Cons.IH[of p1] schema_known_step[OF run] run by simp
qed simp

end
