(* ===== verification/Codec.thy ===== *)
theory Codec
  imports Prelude "HOL-Library.Word"
begin

section \<open>Bytes: SHA-256, base64 and UTF-8\<close>

text \<open>
  What \<open>app/credentials/service.py\<close> uses of Python's standard library: \<open>hashlib.sha256\<close>
  (FIPS 180-4, on 32-bit words that wrap), \<open>base64.b64encode\<close> and the lenient
  \<open>base64.b64decode\<close>, and the check \<open>bytes.decode()\<close> makes. A byte is a \<open>char\<close>, text is
  its UTF-8 bytes, so \<open>str.encode()\<close> is the identity.
\<close>

unbundle bit_operations_syntax

type_synonym word32 = "32 word"

definition byte_of :: "char \<Rightarrow> 8 word" where
  "byte_of c = of_nat (of_char c)"

definition char_of_byte :: "8 word \<Rightarrow> char" where
  "char_of_byte b = char_of (unat b)"

lemma char_byte_inverse [simp]: "char_of_byte (byte_of c) = c"
  by (simp add: char_of_byte_def byte_of_def unsigned_of_nat take_bit_nat_eq_self)

lemma byte_char_inverse [simp]: "byte_of (char_of_byte b) = b"
  using unsigned_less[of b, where ?'a = nat] by (simp add: char_of_byte_def byte_of_def of_char_of)

definition xor_char :: "char \<Rightarrow> char \<Rightarrow> char" where
  "xor_char c d = char_of_byte (byte_of c XOR byte_of d)"

lemma xor_char_twice [simp]: "xor_char (xor_char c d) d = c"
  by (simp add: xor_char_def xor.assoc)

subsection \<open>SHA-256\<close>

definition int_root :: "nat \<Rightarrow> int \<Rightarrow> int" where
  \<comment> \<open>the integer \<open>k\<close>-th root of a number below \<open>2 ^ (40 k)\<close>, bit by bit\<close>
  "int_root k n = fold (\<lambda>i r. if (r + 2 ^ i) ^ k \<le> n then r + 2 ^ i else r) (rev [0..<40]) 0"

definition first_primes :: "int list" where
  \<comment> \<open>the 64 primes up to 311\<close>
  "first_primes = filter (\<lambda>p. list_all (\<lambda>d. p mod d \<noteq> 0) [2..p - 1]) [2..311]"

definition sha_k :: "word32 list" where
  \<comment> \<open>the first 32 bits of the fractional parts of the cube roots of the primes\<close>
  "sha_k = map (\<lambda>p. of_int (int_root 3 (p * 2 ^ 96))) first_primes"

definition sha_init :: "word32 list" where
  \<comment> \<open>the same of the square roots of the first eight\<close>
  "sha_init = map (\<lambda>p. of_int (int_root 2 (p * 2 ^ 64))) [2, 3, 5, 7, 11, 13, 17, 19]"

definition rotr :: "nat \<Rightarrow> word32 \<Rightarrow> word32" where
  "rotr n x = drop_bit n x OR push_bit (32 - n) x"

definition big_endian :: "nat \<Rightarrow> int \<Rightarrow> string" where
  \<comment> \<open>\<open>n\<close> bytes of \<open>x\<close>, most significant first\<close>
  "big_endian n x = map (\<lambda>i. char_of (x div 256 ^ (n - 1 - i) mod 256)) [0..<n]"

definition sha_pad :: "string \<Rightarrow> string" where
  "sha_pad m = m @ [char_of (128::nat)] @ replicate ((119 - length m mod 64) mod 64) (char_of (0::nat))
     @ big_endian 8 (8 * int (length m))"

definition word_of_bytes :: "string \<Rightarrow> word32" where
  "word_of_bytes bs = fold (\<lambda>c w. push_bit 8 w OR ucast (byte_of c)) bs 0"

fun chunks :: "nat \<Rightarrow> nat \<Rightarrow> 'a list \<Rightarrow> 'a list list" where
  \<comment> \<open>the first \<open>k\<close> blocks of \<open>n\<close> elements\<close>
  "chunks n 0 xs = []"
| "chunks n (Suc k) xs = take n xs # chunks n k (drop n xs)"

definition sha_sigma0 :: "word32 \<Rightarrow> word32" where
  "sha_sigma0 x = rotr 7 x XOR rotr 18 x XOR drop_bit 3 x"

definition sha_sigma1 :: "word32 \<Rightarrow> word32" where
  "sha_sigma1 x = rotr 17 x XOR rotr 19 x XOR drop_bit 10 x"

fun sha_extend :: "nat \<Rightarrow> word32 list \<Rightarrow> word32 list" where
  \<comment> \<open>the message schedule, the newest word first\<close>
  "sha_extend 0 ws = ws"
| "sha_extend (Suc n) ws =
     sha_extend n ((ws ! 15 + sha_sigma0 (ws ! 14) + ws ! 6 + sha_sigma1 (ws ! 1)) # ws)"

definition sha_schedule :: "string \<Rightarrow> word32 list" where
  "sha_schedule block = rev (sha_extend 48 (rev (map word_of_bytes (chunks 4 16 block))))"

fun sha_round :: "word32 \<times> word32 \<Rightarrow> word32 list \<Rightarrow> word32 list" where
  "sha_round (k, w) [a, b, c, d, e, f, g, h] =
     (let t1 = h + (rotr 6 e XOR rotr 11 e XOR rotr 25 e) + ((e AND f) XOR (NOT e AND g)) + k + w;
          t2 = (rotr 2 a XOR rotr 13 a XOR rotr 22 a) + ((a AND b) XOR (a AND c) XOR (b AND c))
      in [t1 + t2, a, b, c, d + t1, e, f, g])"
| "sha_round _ hs = hs"

definition sha_block :: "string \<Rightarrow> word32 list \<Rightarrow> word32 list" where
  "sha_block block hs = map2 (+) hs (fold sha_round (zip sha_k (sha_schedule block)) hs)"

definition sha256 :: "string \<Rightarrow> string" where
  \<comment> \<open>\<open>hashlib.sha256(m).digest()\<close>\<close>
  "sha256 m =
     (let p = sha_pad m
      in concat (map (\<lambda>w. big_endian 4 (uint w)) (fold sha_block (chunks 64 (length p div 64) p) sha_init)))"

lemma length_big_endian [simp]: "length (big_endian n x) = n"
  by (simp add: big_endian_def)

lemma length_sha_round [simp]: "length (sha_round kw hs) = length hs"
  by (cases "(kw, hs)" rule: sha_round.cases) (auto simp: Let_def)

lemma length_sha_block [simp]: "length (sha_block block hs) = length hs"
proof -
  have "length (fold sha_round kws hs) = length hs" for kws
    by (induction kws arbitrary: hs) simp_all
  then show ?thesis by (simp add: sha_block_def)
qed

lemma length_sha256 [simp]: "length (sha256 m) = 32"
proof -
  have "length (fold sha_block bs hs) = length hs" for bs hs
    by (induction bs arbitrary: hs) simp_all
  then have "length (fold sha_block bs sha_init) = 8" for bs by (simp add: sha_init_def)
  then show ?thesis by (simp add: sha256_def Let_def length_concat comp_def sum_list_triv)
qed

subsection \<open>base64\<close>

definition b64_char :: "nat \<Rightarrow> char" where
  \<comment> \<open>letters, small letters, digits, plus and slash\<close>
  "b64_char n =
     (if n < 26 then char_of (65 + n) else if n < 52 then char_of (71 + n)
      else if n < 62 then char_of (n - 4) else if n = 62 then CHR ''+'' else CHR ''/'')"

definition b64_value :: "char \<Rightarrow> nat option" where
  "b64_value c =
     (let n = of_char c :: nat in
      if 65 \<le> n \<and> n \<le> 90 then Some (n - 65) else if 97 \<le> n \<and> n \<le> 122 then Some (n - 71)
      else if 48 \<le> n \<and> n \<le> 57 then Some (n + 4) else if n = 43 then Some 62 else if n = 47 then Some 63 else None)"

fun b64_encode :: "string \<Rightarrow> string" where
  "b64_encode [] = []"
| "b64_encode [a] =
     (let x = of_char a in [b64_char (x div 4), b64_char (x mod 4 * 16), CHR ''='', CHR ''=''])"
| "b64_encode [a, b] =
     (let x = of_char a; y = of_char b in
      [b64_char (x div 4), b64_char (x mod 4 * 16 + y div 16), b64_char (y mod 16 * 4), CHR ''=''])"
| "b64_encode (a # b # c # rest) =
     (let x = of_char a; y = of_char b; z = of_char c in
      [b64_char (x div 4), b64_char (x mod 4 * 16 + y div 16), b64_char (y mod 16 * 4 + z div 64), b64_char (z mod 64)]
      @ b64_encode rest)"

fun b64_loop :: "string \<Rightarrow> nat \<Rightarrow> nat \<Rightarrow> nat \<Rightarrow> string \<Rightarrow> py_error + string" where
  \<comment> \<open>the lenient decoder: position in the quad, bits left over, pads seen, output so far\<close>
  "b64_loop [] quad left pads out =
     (if quad = 0 then Inr out
      else if quad = 1 then Inl (ValueError (''Invalid base64-encoded string: number of data characters (''
        @ show_nat (length out div 3 * 4 + 1) @ '') cannot be 1 more than a multiple of 4''))
      else Inl (ValueError ''Incorrect padding''))"
| "b64_loop (c # cs) quad left pads out =
     (if c = CHR ''='' then
        if 2 \<le> quad then
          if 4 \<le> quad + (pads + 1) then Inr out else b64_loop cs quad left (pads + 1) out
        else b64_loop cs quad left pads out
      else case b64_value c of
          None \<Rightarrow> b64_loop cs quad left pads out
        | Some v \<Rightarrow>
            if quad = 0 then b64_loop cs 1 v 0 out
            else if quad = 1 then b64_loop cs 2 (v mod 16) 0 (out @ [char_of (left * 4 + v div 16)])
            else if quad = 2 then b64_loop cs 3 (v mod 4) 0 (out @ [char_of (left * 16 + v div 4)])
            else b64_loop cs 0 0 0 (out @ [char_of (left * 64 + v)]))"

definition b64_decode :: "string \<Rightarrow> py_error + string" where
  "b64_decode s =
     (if list_all (\<lambda>c. of_char c < (128::nat)) s then b64_loop s 0 0 0 []
      else Inl (ValueError ''string argument should contain only ASCII characters''))"

lemma b64_char_code:
  "n < 64 \<Longrightarrow> of_char (b64_char n) = (if n < 26 then 65 + n else if n < 52 then 71 + n
     else if n < 62 then n - 4 else if n = 62 then 43 else 47 :: nat)"
  by (simp add: b64_char_def)

lemma b64_char_simps:
  assumes "n < 64"
  shows "b64_value (b64_char n) = Some n" "b64_char n \<noteq> CHR ''=''" "of_char (b64_char n) < (128::nat)"
proof -
  show "b64_value (b64_char n) = Some n"
    using assms by (auto simp: b64_value_def Let_def b64_char_code)
  have "of_char (b64_char n) \<noteq> (61::nat)" using assms by (auto simp: b64_char_code)
  then show "b64_char n \<noteq> CHR ''=''" by auto
  show "of_char (b64_char n) < (128::nat)" using assms by (auto simp: b64_char_code)
qed

lemma of_char_bound: "of_char c < (256::nat)"
  by simp

lemma b64_quad_bounds:
  fixes x y z :: nat
  assumes "x < 256" "y < 256" "z < 256"
  shows "x div 4 < 64" "x mod 4 * 16 < 64" "x mod 4 * 16 + y div 16 < 64" "y mod 16 * 4 < 64"
    "y mod 16 * 4 + z div 64 < 64" "z mod 64 < 64"
proof -
  have "x div 4 < 64" "y div 16 < 16" "z div 64 < 4" using assms by (simp_all add: less_mult_imp_div_less)
  moreover have "x mod 4 < 4" "y mod 16 < 16" "z mod 64 < 64" by simp_all
  ultimately show "x div 4 < 64" "x mod 4 * 16 < 64" "x mod 4 * 16 + y div 16 < 64" "y mod 16 * 4 < 64"
    "y mod 16 * 4 + z div 64 < 64" "z mod 64 < 64" by linarith+
qed

lemma split_quad:
  fixes m k n :: nat
  assumes "k < n"
  shows "(m * n + k) mod n = k" "(m * n + k) div n = m"
  using assms by simp_all

lemma b64_loop_encode: "b64_loop (b64_encode s) 0 0 0 out = Inr (out @ s)"
proof (induction s arbitrary: out rule: b64_encode.induct)
  case (2 a)
  note q = b64_quad_bounds[OF of_char_bound[of a] of_char_bound[of a] of_char_bound[of a]]
  show ?case by (simp add: Let_def b64_char_simps q)
next
  case (3 a b)
  note q = b64_quad_bounds[OF of_char_bound[of a] of_char_bound[of b] of_char_bound[of b]]
  have "of_char b mod 16 * 4 div 4 = (of_char b mod 16 :: nat)" by simp
  moreover have "(of_char a mod 4 * 16 + of_char b div 16) mod 16 = (of_char b div 16 :: nat)"
    "(of_char a mod 4 * 16 + of_char b div 16) div 16 = (of_char a mod 4 :: nat)"
    using of_char_bound[of b] by (intro split_quad; simp add: less_mult_imp_div_less)+
  ultimately show ?case by (simp add: Let_def b64_char_simps q)
next
  case (4 a b c rest)
  note q = b64_quad_bounds[OF of_char_bound[of a] of_char_bound[of b] of_char_bound[of c]]
  have "(of_char a mod 4 * 16 + of_char b div 16) mod 16 = (of_char b div 16 :: nat)"
    "(of_char a mod 4 * 16 + of_char b div 16) div 16 = (of_char a mod 4 :: nat)"
    "(of_char b mod 16 * 4 + of_char c div 64) mod 4 = (of_char c div 64 :: nat)"
    "(of_char b mod 16 * 4 + of_char c div 64) div 4 = (of_char b mod 16 :: nat)"
    using of_char_bound[of b] of_char_bound[of c] by (intro split_quad; simp add: less_mult_imp_div_less)+
  then show ?case using 4 by (simp add: Let_def b64_char_simps q)
qed simp

lemma b64_encode_ascii: "list_all (\<lambda>c. of_char c < (128::nat)) (b64_encode s)"
proof (induction s rule: b64_encode.induct)
  case (2 a)
  note q = b64_quad_bounds[OF of_char_bound[of a] of_char_bound[of a] of_char_bound[of a]]
  show ?case by (simp add: Let_def b64_char_simps q)
next
  case (3 a b)
  note q = b64_quad_bounds[OF of_char_bound[of a] of_char_bound[of b] of_char_bound[of b]]
  show ?case by (simp add: Let_def b64_char_simps q)
next
  case (4 a b c rest)
  note q = b64_quad_bounds[OF of_char_bound[of a] of_char_bound[of b] of_char_bound[of c]]
  show ?case using 4 by (simp add: Let_def b64_char_simps q)
qed simp

lemma b64_round_trip [simp]: "b64_decode (b64_encode s) = Inr s"
  using b64_encode_ascii[of s] by (simp add: b64_decode_def b64_loop_encode)

subsection \<open>UTF-8\<close>

definition cont :: "nat \<Rightarrow> nat \<Rightarrow> nat \<Rightarrow> bool" where
  "cont lo hi n \<longleftrightarrow> lo \<le> n \<and> n \<le> hi"

fun utf8_ok :: "nat list \<Rightarrow> bool" where
  \<comment> \<open>well-formed UTF-8: no overlong form, no surrogate, nothing above U+10FFFF\<close>
  "utf8_ok [] = True"
| "utf8_ok (a # s) =
     (if a < 128 then utf8_ok s
      else if cont 194 223 a then
        (case s of b # t \<Rightarrow> cont 128 191 b \<and> utf8_ok t | _ \<Rightarrow> False)
      else if cont 224 239 a then
        (case s of b # c # t \<Rightarrow>
           cont (if a = 224 then 160 else 128) (if a = 237 then 159 else 191) b \<and> cont 128 191 c \<and> utf8_ok t
         | _ \<Rightarrow> False)
      else if cont 240 244 a then
        (case s of b # c # d # t \<Rightarrow>
           cont (if a = 240 then 144 else 128) (if a = 244 then 143 else 191) b \<and> cont 128 191 c \<and> cont 128 191 d
           \<and> utf8_ok t
         | _ \<Rightarrow> False)
      else False)"

definition utf8_decode :: "string \<Rightarrow> py_error + string" where
  \<comment> \<open>\<open>bytes.decode()\<close>: a \<open>UnicodeDecodeError\<close> is a \<open>ValueError\<close>; its message is abbreviated\<close>
  "utf8_decode bs = (if utf8_ok (map of_char bs) then Inr bs else Inl (ValueError ''utf-8 codec cannot decode''))"

subsection \<open>Characters of a text\<close>

definition char_length :: "string \<Rightarrow> int" where
  \<comment> \<open>\<open>len\<close> of a text held as its UTF-8 bytes\<close>
  "char_length s = int (length (filter (\<lambda>c. \<not> cont 128 191 (of_char c)) s))"

end
