(* ===== verification/Accounts.thy ===== *)
theory Accounts
  imports Codec World
begin

section \<open>Users and exchange credentials\<close>

text \<open>
  \<open>app/auth\<close> (users, passwords, tokens) and \<open>app/credentials\<close> (the exchange keys of each
  user, the secret enciphered with a key stretched by SHA-256). The two JSON files are the
  state \<open>site\<close>. \<open>bcrypt\<close> and \<open>jwt\<close> are third-party packages: the record \<open>crypto\<close> holds what
  the code calls of them, \<open>cr_hashpw n\<close> hashing with the \<open>n\<close>-th generated salt.
\<close>

subsection \<open>State and outside calls\<close>

record user =
  us_id :: string
  us_username :: string
  us_password_hash :: string
  us_role :: string
  us_created_at :: string

record key_entry =
  ke_id :: string
  ke_label :: string
  ke_exchange :: string
  ke_api_key :: string
  ke_api_secret_enc :: string
  ke_is_active :: bool
  ke_created_at :: string

record site =
  si_users :: "user list"
  si_keys :: "(string \<times> key_entry list) list"
  si_ticks :: nat
  si_uuids :: nat
  si_salts :: nat

datatype jwt_outcome = JwtExpired | JwtInvalid | JwtPayload pydict

record crypto =
  cr_hashpw :: "nat \<Rightarrow> string \<Rightarrow> py_error + string"
  cr_checkpw :: "string \<Rightarrow> string \<Rightarrow> py_error + bool"
  cr_jwt_encode :: "pydict \<Rightarrow> string \<Rightarrow> string"
  cr_jwt_decode :: "string \<Rightarrow> string \<Rightarrow> jwt_outcome"

definition site_now :: "env \<Rightarrow> (site, datetime) py" where
  "site_now e = (\<lambda>s. (Inr (env_now e (si_ticks s)), s\<lparr>si_ticks := Suc (si_ticks s)\<rparr>))"

definition uuid_text :: "string \<Rightarrow> string" where
  \<comment> \<open>\<open>str(uuid)\<close> from its 32 hexadecimal digits\<close>
  "uuid_text h = take 8 h @ ''-'' @ take 4 (drop 8 h) @ ''-'' @ take 4 (drop 12 h) @ ''-''
     @ take 4 (drop 16 h) @ ''-'' @ drop 20 h"

definition site_uuid :: "env \<Rightarrow> (site, string) py" where
  "site_uuid e = (\<lambda>s. (Inr (uuid_text (env_uuid e (si_uuids s))), s\<lparr>si_uuids := Suc (si_uuids s)\<rparr>))"

definition hashpw :: "crypto \<Rightarrow> string \<Rightarrow> (site, string) py" where
  \<comment> \<open>\<open>bcrypt.hashpw(password.encode(), bcrypt.gensalt()).decode()\<close>\<close>
  "hashpw cr password = (\<lambda>s. (cr_hashpw cr (si_salts s) password, s\<lparr>si_salts := Suc (si_salts s)\<rparr>))"

lemma site_runs [py_simps]:
  "site_now e s = (Inr (env_now e (si_ticks s)), s\<lparr>si_ticks := Suc (si_ticks s)\<rparr>)"
  "site_uuid e s = (Inr (uuid_text (env_uuid e (si_uuids s))), s\<lparr>si_uuids := Suc (si_uuids s)\<rparr>)"
  "hashpw cr password s = (cr_hashpw cr (si_salts s) password, s\<lparr>si_salts := Suc (si_salts s)\<rparr>)"
  by (simp_all add: site_now_def site_uuid_def hashpw_def)

subsection \<open>Users\<close>

record user_response =
  ur_id :: string
  ur_username :: string
  ur_role :: string
  ur_created_at :: string

definition response_of :: "user \<Rightarrow> user_response" where
  "response_of u = \<lparr>ur_id = us_id u, ur_username = us_username u, ur_role = us_role u, ur_created_at = us_created_at u\<rparr>"

definition ensure_default_admin :: "env \<Rightarrow> crypto \<Rightarrow> (site, unit) py" where
  "ensure_default_admin e cr =
     bnd (gets si_users) (\<lambda>users.
     if list_ex (\<lambda>u. us_username u = ''admin'') users then ret ()
     else bnd (hashpw cr ''admin'') (\<lambda>hashed.
          bnd (site_uuid e) (\<lambda>k.
          bnd (site_now e) (\<lambda>t.
          modify (\<lambda>s. s\<lparr>si_users := users @ [\<lparr>us_id = k, us_username = ''admin'', us_password_hash = hashed,
             us_role = ''admin'', us_created_at = isoformat t\<rparr>]\<rparr>)))))"

definition register_user :: "env \<Rightarrow> crypto \<Rightarrow> string \<Rightarrow> string \<Rightarrow> (site, user_response) py" where
  "register_user e cr username password =
     bnd (gets si_users) (\<lambda>users.
     thn (require (\<not> list_ex (\<lambda>u. us_username u = username) users)
           (ValueError (''username '' @ [char_of (39::nat)] @ username @ [char_of (39::nat)] @ '' already exists'')))
     (bnd (hashpw cr password) (\<lambda>hashed.
      bnd (site_uuid e) (\<lambda>k.
      bnd (site_now e) (\<lambda>t.
      let u = \<lparr>us_id = k, us_username = username, us_password_hash = hashed, us_role = ''trader'',
               us_created_at = isoformat t\<rparr> in
      thn (modify (\<lambda>s. s\<lparr>si_users := users @ [u]\<rparr>)) (ret (response_of u)))))))"

definition login :: "env \<Rightarrow> crypto \<Rightarrow> string \<Rightarrow> string \<Rightarrow> string \<Rightarrow> (site, string \<times> user_response) py" where
  "login e cr secret username password =
     bnd (gets si_users) (\<lambda>users.
     case find (\<lambda>u. us_username u = username) users of
       None \<Rightarrow> raise (ValueError ''invalid username or password'')
     | Some u \<Rightarrow>
         bnd (lift (cr_checkpw cr password (us_password_hash u))) (\<lambda>ok.
         thn (require ok (ValueError ''invalid username or password''))
         (bnd (site_now e) (\<lambda>t.
          ret (cr_jwt_encode cr [(''sub'', PStr (us_id u)), (''username'', PStr (us_username u)),
                 (''role'', PStr (us_role u)),
                 (''exp'', PFloat (fadd (total_seconds t) (24 * 3600)))] secret, response_of u)))))"

definition verify_token :: "crypto \<Rightarrow> string \<Rightarrow> string \<Rightarrow> (site, user_response) py" where
  "verify_token cr secret token =
     (case cr_jwt_decode cr token secret of
        JwtExpired \<Rightarrow> raise (ValueError ''token expired'')
      | JwtInvalid \<Rightarrow> raise (ValueError ''invalid token'')
      | JwtPayload p \<Rightarrow>
          bnd (gets si_users) (\<lambda>users.
          case find (\<lambda>u. map_of p ''sub'' = Some (PStr (us_id u))) users of
            None \<Rightarrow> raise (ValueError ''user not found'')
          | Some u \<Rightarrow> ret (response_of u)))"

fun update_first :: "('a \<Rightarrow> bool) \<Rightarrow> ('a \<Rightarrow> 'a) \<Rightarrow> 'a list \<Rightarrow> 'a list" where
  "update_first p f [] = []"
| "update_first p f (x # xs) = (if p x then f x # xs else x # update_first p f xs)"

definition change_password :: "crypto \<Rightarrow> string \<Rightarrow> string \<Rightarrow> string \<Rightarrow> (site, unit) py" where
  "change_password cr user_id old_password new_password =
     bnd (gets si_users) (\<lambda>users.
     case find (\<lambda>u. us_id u = user_id) users of
       None \<Rightarrow> raise (ValueError ''user not found'')
     | Some u \<Rightarrow>
         bnd (lift (cr_checkpw cr old_password (us_password_hash u))) (\<lambda>ok.
         thn (require ok (ValueError ''old password is incorrect''))
         (bnd (hashpw cr new_password) (\<lambda>hashed.
          modify (\<lambda>s. s\<lparr>si_users := update_first (\<lambda>u. us_id u = user_id) (\<lambda>u. u\<lparr>us_password_hash := hashed\<rparr>) users\<rparr>)))))"

definition get_current_user :: "crypto \<Rightarrow> string option \<Rightarrow> string \<Rightarrow> (site, user_response) py" where
  \<comment> \<open>\<open>None\<close>: no auth service was set; otherwise its token secret\<close>
  "get_current_user cr service token =
     (case service of
        None \<Rightarrow> raise (HTTPException 500 ''auth service not initialized'')
      | Some secret \<Rightarrow> catch (verify_token cr secret token) is_value_error (\<lambda>exc. raise (HTTPException 401 (exc_str exc))))"

subsection \<open>Credentials\<close>

definition xor_with :: "string \<Rightarrow> string \<Rightarrow> string" where
  \<comment> \<open>\<open>bytes(b ^ key_hash[i % len(key_hash)] for i, b in enumerate(bs))\<close>\<close>
  "xor_with k bs = map (\<lambda>(i, b). xor_char b (k ! (i mod length k))) (enumerate 0 bs)"

definition xor_cipher :: "string \<Rightarrow> string \<Rightarrow> string" where
  "xor_cipher key t = b64_encode (xor_with (sha256 key) t)"

definition xor_decipher :: "string \<Rightarrow> string \<Rightarrow> py_error + string" where
  "xor_decipher key encoded =
     (case b64_decode encoded of Inl exc \<Rightarrow> Inl exc | Inr bs \<Rightarrow> utf8_decode (xor_with (sha256 key) bs))"

definition encryption_key :: "string \<Rightarrow> string" where
  \<comment> \<open>\<open>settings.encryption_key or "default-encryption-key"\<close>\<close>
  "encryption_key k = (if k = [] then ''default-encryption-key'' else k)"

record key_summary =
  ks_id :: string
  ks_label :: string
  ks_exchange :: string
  ks_api_key_preview :: string
  ks_created_at :: string
  ks_is_active :: bool

fun utf8_take :: "nat \<Rightarrow> string \<Rightarrow> string" where
  \<comment> \<open>the first characters of a text, a character being its leading and continuation bytes\<close>
  "utf8_take 0 s = []"
| "utf8_take (Suc n) [] = []"
| "utf8_take (Suc n) (c # cs) =
     (let is_cont = (\<lambda>d. cont 128 191 (of_char d)) in c # takeWhile is_cont cs @ utf8_take n (dropWhile is_cont cs))"

definition summary_of_key :: "key_entry \<Rightarrow> key_summary" where
  "summary_of_key k = \<lparr>ks_id = ke_id k, ks_label = ke_label k, ks_exchange = ke_exchange k,
     ks_api_key_preview = utf8_take 4 (ke_api_key k) @ ''****'', ks_created_at = ke_created_at k,
     ks_is_active = ke_is_active k\<rparr>"

definition user_keys :: "string \<Rightarrow> (string \<times> key_entry list) list \<Rightarrow> key_entry list" where
  "user_keys user_id d = (case map_of d user_id of None \<Rightarrow> [] | Some ks \<Rightarrow> ks)"

definition list_keys :: "string \<Rightarrow> (site, key_summary list) py" where
  "list_keys user_id = gets (\<lambda>s. map summary_of_key (user_keys user_id (si_keys s)))"

definition add_key ::
  "env \<Rightarrow> string \<Rightarrow> string \<Rightarrow> string \<Rightarrow> string \<Rightarrow> string \<Rightarrow> string \<Rightarrow> (site, key_summary) py" where
  "add_key e key user_id label exchange api_key api_secret =
     bnd (gets (\<lambda>s. si_keys s)) (\<lambda>d.
     let ks = user_keys user_id d in
     bnd (site_uuid e) (\<lambda>k.
     bnd (site_now e) (\<lambda>t.
     let entry = \<lparr>ke_id = k, ke_label = label, ke_exchange = exchange, ke_api_key = api_key,
           ke_api_secret_enc = xor_cipher key api_secret, ke_is_active = (length ks = 0),
           ke_created_at = isoformat t\<rparr> in
     thn (modify (\<lambda>s. s\<lparr>si_keys := AList.update user_id (ks @ [entry]) d\<rparr>))
       (ret (summary_of_key entry)))))"

definition delete_key :: "string \<Rightarrow> string \<Rightarrow> (site, unit) py" where
  "delete_key user_id key_id =
     bnd (gets si_keys) (\<lambda>d.
     thn (require (map_of d user_id \<noteq> None) (ValueError ''key not found''))
       (modify (\<lambda>s. s\<lparr>si_keys := AList.update user_id (filter (\<lambda>k. ke_id k \<noteq> key_id) (user_keys user_id d)) d\<rparr>)))"

definition activate_key :: "string \<Rightarrow> string \<Rightarrow> (site, unit) py" where
  "activate_key user_id key_id =
     bnd (gets si_keys) (\<lambda>d.
     thn (require (map_of d user_id \<noteq> None) (ValueError ''key not found''))
       (modify (\<lambda>s. s\<lparr>si_keys := AList.update user_id
          (map (\<lambda>k. k\<lparr>ke_is_active := (ke_id k = key_id)\<rparr>) (user_keys user_id d)) d\<rparr>)))"

definition active_key :: "string \<Rightarrow> site \<Rightarrow> key_entry option" where
  \<comment> \<open>\<open>next((k for k in keys if k.get("is_active")), None)\<close>\<close>
  "active_key user_id s = find ke_is_active (user_keys user_id (si_keys s))"

definition get_active_credentials :: "string \<Rightarrow> string \<Rightarrow> (site, (string \<times> string) option) py" where
  "get_active_credentials key user_id =
     bnd (gets (active_key user_id)) (\<lambda>active. case active of
        None \<Rightarrow> ret None
      | Some k \<Rightarrow> bnd (lift (xor_decipher key (ke_api_secret_enc k))) (\<lambda>secret. ret (Some (ke_api_key k, secret))))"

definition get_active_key_summary :: "string \<Rightarrow> (site, key_summary option) py" where
  "get_active_key_summary user_id = gets (\<lambda>s. map_option summary_of_key (active_key user_id s))"

definition route_activate_key :: "string \<Rightarrow> string \<Rightarrow> (site, key_summary option) py" where
  "route_activate_key user_id key_id = thn (activate_key user_id key_id) (get_active_key_summary user_id)"

subsection \<open>Properties\<close>

lemma length_xor_with [simp]: "length (xor_with k bs) = length bs"
  by (simp add: xor_with_def)

lemma xor_with_twice [simp]: "xor_with k (xor_with k bs) = bs"
  by (rule nth_equalityI) (simp_all add: xor_with_def nth_enumerate_eq)

lemma xor_round_trip: "utf8_ok (map of_char t) \<Longrightarrow> xor_decipher key (xor_cipher key t) = Inr t"
  by (simp add: xor_decipher_def xor_cipher_def utf8_decode_def)

definition keys_ok :: "string \<Rightarrow> key_entry list \<Rightarrow> bool" where
  \<comment> \<open>the well-formed key lists: distinct ids, at most one active key, every secret readable\<close>
  "keys_ok key ks \<longleftrightarrow> distinct (map ke_id ks) \<and> length (filter ke_is_active ks) \<le> 1
     \<and> (\<forall>k\<in>set ks. \<exists>t. xor_decipher key (ke_api_secret_enc k) = Inr t)"

definition vault_ok :: "string \<Rightarrow> site \<Rightarrow> bool" where
  "vault_ok key s \<longleftrightarrow> (\<forall>u. keys_ok key (user_keys u (si_keys s)))"

lemma user_keys_update [simp]: "user_keys u (AList.update v ks d) = (if u = v then ks else user_keys u d)"
  by (simp add: user_keys_def update_conv')

lemma keys_ok_add:
  assumes "keys_ok key ks" "ke_id k \<notin> ke_id ` set ks" "ke_is_active k = (ks = [])"
    "xor_decipher key (ke_api_secret_enc k) = Inr t"
  shows "keys_ok key (ks @ [k])"
  using assms by (auto simp: keys_ok_def)

lemma keys_ok_delete: "keys_ok key ks \<Longrightarrow> keys_ok key (filter P ks)"
  using length_filter_le[of P "filter ke_is_active ks"]
  by (auto simp: keys_ok_def distinct_map_filter filter_filter conj_commute)

lemma one_with_id: "distinct (map f ks) \<Longrightarrow> length (filter (\<lambda>k. f k = x) ks) \<le> 1"
proof (induction ks)
  case (Cons k ks)
  have "f k = x \<Longrightarrow> filter (\<lambda>k. f k = x) ks = []" using Cons.prems by (auto simp: filter_empty_conv) (metis image_eqI)
  then show ?case using Cons by auto
qed simp

lemma keys_ok_activate: "keys_ok key ks \<Longrightarrow> keys_ok key (map (\<lambda>k. k\<lparr>ke_is_active := (ke_id k = i)\<rparr>) ks)"
  using one_with_id[of ke_id ks i] by (auto simp: keys_ok_def comp_def filter_map)

lemma vault_ok_update: "vault_ok key s \<Longrightarrow> keys_ok key ks \<Longrightarrow> vault_ok key (s\<lparr>si_keys := AList.update u ks (si_keys s)\<rparr>)"
  by (simp add: vault_ok_def)

lemma vault_ok_cong: "si_keys s' = si_keys s \<Longrightarrow> vault_ok key s' = vault_ok key s"
  by (simp add: vault_ok_def)

lemma find_activated:
  "find ke_is_active (map (\<lambda>k. k\<lparr>ke_is_active := (ke_id k = i)\<rparr>) ks)
     = map_option (\<lambda>k. k\<lparr>ke_is_active := True\<rparr>) (find (\<lambda>k. ke_id k = i) ks)"
  by (induction ks) auto

lemma find_id: "find (\<lambda>k. ke_id k = i) ks = None \<longleftrightarrow> i \<notin> ke_id ` set ks"
  "find (\<lambda>k. ke_id k = i) ks = Some k \<Longrightarrow> ke_id k = i"
  by (auto simp: find_None_iff find_Some_iff)

lemma add_key_run:
  "\<exists>entry s'. add_key e key u label exchange api_key api_secret s = (Inr (summary_of_key entry), s')
     \<and> si_keys s' = AList.update u (user_keys u (si_keys s) @ [entry]) (si_keys s)
     \<and> ke_id entry = uuid_text (env_uuid e (si_uuids s)) \<and> ke_api_key entry = api_key
     \<and> ke_api_secret_enc entry = xor_cipher key api_secret \<and> ke_is_active entry = (user_keys u (si_keys s) = [])"
  by (auto simp: add_key_def py_simps Let_def)

lemma activate_key_run:
  "route_activate_key u i s =
     (if map_of (si_keys s) u = None then (Inl (ValueError ''key not found''), s)
      else (Inr (map_option (\<lambda>k. summary_of_key (k\<lparr>ke_is_active := True\<rparr>)) (find (\<lambda>k. ke_id k = i) (user_keys u (si_keys s)))),
            s\<lparr>si_keys := AList.update u (map (\<lambda>k. k\<lparr>ke_is_active := (ke_id k = i)\<rparr>) (user_keys u (si_keys s))) (si_keys s)\<rparr>))"
  by (auto simp: route_activate_key_def activate_key_def get_active_key_summary_def active_key_def find_activated
      option.map_comp comp_def py_simps)

lemma delete_key_run:
  "delete_key u i s =
     (if map_of (si_keys s) u = None then (Inl (ValueError ''key not found''), s)
      else (Inr (), s\<lparr>si_keys := AList.update u (filter (\<lambda>k. ke_id k \<noteq> i) (user_keys u (si_keys s))) (si_keys s)\<rparr>))"
  by (simp add: delete_key_def py_simps)

text \<open>
  C39. The stored credentials stay well formed: under every operation each user's keys keep
  distinct ids, at most one of them is active and every secret can be deciphered, provided the
  id drawn for a new key is new and the secret is text. A user's first key is active at once
  and reads back as entered; activating an existing key makes exactly that one active,
  activating an unknown one leaves none; a deleted key is gone; other users are untouched.
\<close>

theorem credentials_well_formed:
  assumes "vault_ok key s" "uuid_text (env_uuid e (si_uuids s)) \<notin> ke_id ` set (user_keys u (si_keys s))"
    and "utf8_ok (map of_char api_secret)"
  shows "(\<exists>sm s'. add_key e key u label exchange api_key api_secret s = (Inr sm, s') \<and> vault_ok key s'
        \<and> (user_keys u (si_keys s) = [] \<longrightarrow>
             get_active_credentials key u s' = (Inr (Some (api_key, api_secret)), s'))
        \<and> (v \<noteq> u \<longrightarrow> user_keys v (si_keys s') = user_keys v (si_keys s)))
    \<and> (\<exists>r s'. delete_key u i s = (r, s') \<and> vault_ok key s' \<and> i \<notin> ke_id ` set (user_keys u (si_keys s'))
        \<and> (v \<noteq> u \<longrightarrow> user_keys v (si_keys s') = user_keys v (si_keys s)))
    \<and> (\<exists>r s'. route_activate_key u i s = (r, s') \<and> vault_ok key s'
        \<and> (i \<in> ke_id ` set (user_keys u (si_keys s)) \<longrightarrow> (\<exists>sm. r = Inr (Some sm) \<and> ks_id sm = i \<and> ks_is_active sm))
        \<and> (i \<notin> ke_id ` set (user_keys u (si_keys s)) \<longrightarrow> r = Inr None \<or> r = Inl (ValueError ''key not found''))
        \<and> (v \<noteq> u \<longrightarrow> user_keys v (si_keys s') = user_keys v (si_keys s)))"
proof (intro conjI)
  have ks: "keys_ok key (user_keys u (si_keys s))" using assms(1) by (simp add: vault_ok_def)
  obtain entry s' where a: "add_key e key u label exchange api_key api_secret s = (Inr (summary_of_key entry), s')"
    "si_keys s' = AList.update u (user_keys u (si_keys s) @ [entry]) (si_keys s)"
    "ke_id entry = uuid_text (env_uuid e (si_uuids s))" "ke_api_key entry = api_key"
    "ke_api_secret_enc entry = xor_cipher key api_secret" "ke_is_active entry = (user_keys u (si_keys s) = [])"
    using add_key_run by blast
  have dec: "xor_decipher key (ke_api_secret_enc entry) = Inr api_secret" using a(5) assms(3) by (simp add: xor_round_trip)
  have "keys_ok key (user_keys u (si_keys s) @ [entry])" using ks a(3,6) assms(2) dec by (intro keys_ok_add) auto
  then have "vault_ok key s'" using assms(1) a(2) by (simp add: vault_ok_def)
  moreover have "user_keys u (si_keys s) = [] \<Longrightarrow> get_active_credentials key u s' = (Inr (Some (api_key, api_secret)), s')"
    using a(2,4,6) dec by (simp add: get_active_credentials_def active_key_def py_simps)
  ultimately show "\<exists>sm s'. add_key e key u label exchange api_key api_secret s = (Inr sm, s') \<and> vault_ok key s'
        \<and> (user_keys u (si_keys s) = [] \<longrightarrow>
             get_active_credentials key u s' = (Inr (Some (api_key, api_secret)), s'))
        \<and> (v \<noteq> u \<longrightarrow> user_keys v (si_keys s') = user_keys v (si_keys s))"
    using a(1,2) by auto
  have empty: "map_of (si_keys s) u = None \<Longrightarrow> user_keys u (si_keys s) = []" by (simp add: user_keys_def)
  show "\<exists>r s'. delete_key u i s = (r, s') \<and> vault_ok key s' \<and> i \<notin> ke_id ` set (user_keys u (si_keys s'))
        \<and> (v \<noteq> u \<longrightarrow> user_keys v (si_keys s') = user_keys v (si_keys s))"
    using vault_ok_update[OF assms(1) keys_ok_delete[OF ks]] assms(1) empty by (auto simp: delete_key_run)
  show "\<exists>r s'. route_activate_key u i s = (r, s') \<and> vault_ok key s'
        \<and> (i \<in> ke_id ` set (user_keys u (si_keys s)) \<longrightarrow> (\<exists>sm. r = Inr (Some sm) \<and> ks_id sm = i \<and> ks_is_active sm))
        \<and> (i \<notin> ke_id ` set (user_keys u (si_keys s)) \<longrightarrow> r = Inr None \<or> r = Inl (ValueError ''key not found''))
        \<and> (v \<noteq> u \<longrightarrow> user_keys v (si_keys s') = user_keys v (si_keys s))"
  proof (cases "map_of (si_keys s) u")
    case None
    then show ?thesis using assms(1) empty by (simp add: activate_key_run)
  next
    case (Some ks')
    let ?s' = "s\<lparr>si_keys := AList.update u (map (\<lambda>k. k\<lparr>ke_is_active := (ke_id k = i)\<rparr>) (user_keys u (si_keys s))) (si_keys s)\<rparr>"
    have ok: "vault_ok key ?s'"
      by (rule vault_ok_update[OF assms(1) keys_ok_activate[OF ks]])
    have others: "v \<noteq> u \<Longrightarrow> user_keys v (si_keys ?s') = user_keys v (si_keys s)" by simp
    show ?thesis
    proof (cases "find (\<lambda>k. ke_id k = i) (user_keys u (si_keys s))")
      case None
      then have "route_activate_key u i s = (Inr None, ?s')" using Some
        by (simp only: activate_key_run option.map option.distinct(2) if_False)
      moreover have "i \<notin> ke_id ` set (user_keys u (si_keys s))" using None by (rule find_id(1)[THEN iffD1])
      ultimately show ?thesis using ok others by blast
    next
      case (Some k)
      then have "route_activate_key u i s = (Inr (Some (summary_of_key (k\<lparr>ke_is_active := True\<rparr>))), ?s')"
        using \<open>map_of (si_keys s) u = Some ks'\<close>
        by (simp only: activate_key_run option.map option.distinct(2) if_False)
      moreover have "ks_id (summary_of_key (k\<lparr>ke_is_active := True\<rparr>)) = i" "ks_is_active (summary_of_key (k\<lparr>ke_is_active := True\<rparr>))"
        using find_id(2)[OF Some] by (simp_all add: summary_of_key_def)
      moreover have "i \<in> ke_id ` set (user_keys u (si_keys s))" using Some find_id(1) by (metis option.distinct(1))
      ultimately show ?thesis using ok others by blast
    qed
  qed
qed

definition sample_site :: site where
  "sample_site = \<lparr>si_users = [], si_keys = [], si_ticks = 0, si_uuids = 0, si_salts = 0\<rparr>"

theorem credentials_well_formed_witness:
  "\<exists>s'. snd (add_key sample_env ''k'' ''u1'' ''main'' ''binance'' ''AKEY'' ''top secret'' sample_site) = s' \<and> vault_ok ''k'' s'
     \<and> get_active_credentials ''k'' ''u1'' s' = (Inr (Some (''AKEY'', ''top secret'')), s')"
proof -
  have v: "vault_ok ''k'' sample_site" by (simp add: vault_ok_def keys_ok_def user_keys_def sample_site_def)
  have n: "uuid_text (env_uuid sample_env (si_uuids sample_site)) \<notin> ke_id ` set (user_keys ''u1'' (si_keys sample_site))"
    by (simp add: user_keys_def sample_site_def)
  have t: "utf8_ok (map of_char ''top secret'')" by code_simp
  obtain sm s' where
    "add_key sample_env ''k'' ''u1'' ''main'' ''binance'' ''AKEY'' ''top secret'' sample_site = (Inr sm, s')" "vault_ok ''k'' s'"
    "user_keys ''u1'' (si_keys sample_site) = [] \<longrightarrow>
       get_active_credentials ''k'' ''u1'' s' = (Inr (Some (''AKEY'', ''top secret'')), s')"
    using credentials_well_formed[where label = "''main''" and exchange = "''binance''" and api_key = "''AKEY''" and v = "''u2''", OF v n t, THEN conjunct1]
    by (elim exE conjE) (rule that)
  moreover have "user_keys ''u1'' (si_keys sample_site) = []" by (simp add: user_keys_def sample_site_def)
  ultimately show ?thesis by simp
qed

end
