(* ===== verification/Portal.thy ===== *)
theory Portal
  imports Accounts
begin

section \<open>The account routes\<close>

text \<open>
  \<open>app/auth/router.py\<close> and \<open>app/credentials/router.py\<close>: the requests on users and exchange
  keys, each as the handler with the checks FastAPI makes before it (the token by
  \<open>get_current_user\<close>, then the lengths the body model asks for). The state is the two files,
  whether the middleware was given its service (at startup) and whether the router has made its
  own. The lemmas show that a token acts on its user's account only and that the accounts stay
  well formed under every sequence of requests.
\<close>

subsection \<open>Requests\<close>

datatype portal_request =
    Register string string \<comment> \<open>user name, password\<close>
  | Login string string
  | Me string \<comment> \<open>the bearer token comes first in this and the following\<close>
  | ChangePassword string string string
  | ListKeys string
  | AddKey string string string string string
  | DeleteKey string string
  | ActivateKey string string
  | ActiveKey string

datatype portal_answer =
    AnsUser user_response
  | AnsToken string string string \<comment> \<open>access token, user name, role\<close>
  | AnsDetail string
  | AnsKeys "key_summary list"
  | AnsKey "key_summary option"

record portal =
  po_env :: env
  po_crypto :: crypto
  po_jwt_secret :: string
  po_key :: string

record gateway =
  gw_site :: site
  gw_middleware :: bool \<comment> \<open>\<open>_auth_service\<close> of the middleware is set\<close>
  gw_auth :: bool \<comment> \<open>\<open>_service\<close> of the router is made\<close>

definition on_site :: "(site, 'a) py \<Rightarrow> (gateway, 'a) py" where
  "on_site m g = (case m (gw_site g) of (r, s) \<Rightarrow> (r, g\<lparr>gw_site := s\<rparr>))"

definition auth_service :: "portal \<Rightarrow> (gateway, unit) py" where
  \<comment> \<open>\<open>_get_service\<close>: the first call makes an \<open>AuthService\<close>\<close>
  "auth_service P =
     bnd (gets gw_auth) (\<lambda>made.
       if made then ret ()
       else thn (on_site (ensure_default_admin (po_env P) (po_crypto P))) (modify (\<lambda>g. g\<lparr>gw_auth := True\<rparr>)))"

definition current_user :: "portal \<Rightarrow> string \<Rightarrow> (gateway, user_response) py" where
  "current_user P token =
     bnd (gets gw_middleware) (\<lambda>set_up.
       on_site (get_current_user (po_crypto P) (if set_up then Some (po_jwt_secret P) else None) token))"

definition checked :: "bool \<Rightarrow> string \<Rightarrow> (gateway, unit) py" where
  \<comment> \<open>a body that does not validate\<close>
  "checked b what = require b (HTTPException 422 what)"

definition serve_public :: "portal \<Rightarrow> portal_request \<Rightarrow> (gateway, portal_answer) py" where
  \<comment> \<open>the two routes without a token\<close>
  "serve_public P req =
     (case req of
        Register username password \<Rightarrow>
          thn (checked (3 \<le> char_length username \<and> char_length username \<le> 32) ''username'')
          (thn (checked (6 \<le> char_length password) ''password'')
          (thn (auth_service P)
          (bnd (on_site (register_user (po_env P) (po_crypto P) username password)) (\<lambda>u. ret (AnsUser u)))))
      | Login username password \<Rightarrow>
          thn (auth_service P)
          (bnd (on_site (login (po_env P) (po_crypto P) (po_jwt_secret P) username password))
            (\<lambda>(token, u). ret (AnsToken token (ur_username u) (ur_role u))))
      | _ \<Rightarrow> raise (HTTPException 404 ''Not Found''))"

definition serve_keys :: "portal \<Rightarrow> user_response \<Rightarrow> portal_request \<Rightarrow> (gateway, portal_answer) py" where
  \<comment> \<open>the routes on exchange keys, for the current user\<close>
  "serve_keys P u req =
     (case req of
        ListKeys _ \<Rightarrow> bnd (on_site (list_keys (ur_id u))) (\<lambda>ks. ret (AnsKeys ks))
      | AddKey _ label exchange api_key api_secret \<Rightarrow>
          bnd (on_site (add_key (po_env P) (po_key P) (ur_id u) label exchange api_key api_secret)) (\<lambda>k. ret (AnsKey (Some k)))
      | DeleteKey _ key_id \<Rightarrow> thn (on_site (delete_key (ur_id u) key_id)) (ret (AnsDetail ''deleted''))
      | ActivateKey _ key_id \<Rightarrow> bnd (on_site (route_activate_key (ur_id u) key_id)) (\<lambda>k. ret (AnsKey k))
      | ActiveKey _ \<Rightarrow> bnd (on_site (get_active_key_summary (ur_id u))) (\<lambda>k. ret (AnsKey k))
      | _ \<Rightarrow> raise (HTTPException 404 ''Not Found''))"

definition serve_user :: "portal \<Rightarrow> user_response \<Rightarrow> portal_request \<Rightarrow> (gateway, portal_answer) py" where
  \<comment> \<open>the handlers that get the current user\<close>
  "serve_user P u req =
     (case req of
        Me _ \<Rightarrow> ret (AnsUser u)
      | ChangePassword _ old new \<Rightarrow>
          thn (checked (6 \<le> char_length new) ''new_password'')
          (thn (auth_service P)
          (thn (on_site (change_password (po_crypto P) (ur_id u) old new)) (ret (AnsDetail ''password changed''))))
      | _ \<Rightarrow> serve_keys P u req)"

definition token_of :: "portal_request \<Rightarrow> string option" where
  "token_of req =
     (case req of
        Register _ _ \<Rightarrow> None | Login _ _ \<Rightarrow> None | Me t \<Rightarrow> Some t | ChangePassword t _ _ \<Rightarrow> Some t | ListKeys t \<Rightarrow> Some t
      | AddKey t _ _ _ _ \<Rightarrow> Some t | DeleteKey t _ \<Rightarrow> Some t | ActivateKey t _ \<Rightarrow> Some t | ActiveKey t \<Rightarrow> Some t)"

definition serve_portal :: "portal \<Rightarrow> portal_request \<Rightarrow> (gateway, portal_answer) py" where
  "serve_portal P req =
     (case token_of req of
        None \<Rightarrow> serve_public P req
      | Some token \<Rightarrow> bnd (current_user P token) (\<lambda>u. serve_user P u req))"

fun portal_run :: "portal \<Rightarrow> portal_request list \<Rightarrow> gateway \<Rightarrow> gateway" where
  "portal_run P [] g = g"
| "portal_run P (req # reqs) g = portal_run P reqs (snd (serve_portal P req g))"

definition portal_start :: "portal \<Rightarrow> site \<Rightarrow> py_error + gateway" where
  \<comment> \<open>\<open>set_auth_service(AuthService())\<close> at startup\<close>
  "portal_start P s =
     (case ensure_default_admin (po_env P) (po_crypto P) s of
        (Inl exc, _) \<Rightarrow> Inl exc
      | (Inr _, s') \<Rightarrow> Inr \<lparr>gw_site = s', gw_middleware = True, gw_auth = False\<rparr>)"

subsection \<open>Well-formed accounts\<close>

definition drawn :: "env \<Rightarrow> nat \<Rightarrow> string \<Rightarrow> bool" where
  \<comment> \<open>one of the ids drawn so far\<close>
  "drawn e n i \<longleftrightarrow> (\<exists>m<n. i = uuid_text (env_uuid e m))"

definition has_admin :: "site \<Rightarrow> bool" where
  "has_admin s \<longleftrightarrow> ''admin'' \<in> us_username ` set (si_users s)"

definition users_ok :: "env \<Rightarrow> site \<Rightarrow> bool" where
  "users_ok e s \<longleftrightarrow> distinct (map us_id (si_users s)) \<and> distinct (map us_username (si_users s))
     \<and> (\<forall>x\<in>set (si_users s). drawn e (si_uuids s) (us_id x) \<and> (us_role x = ''admin'' \<longleftrightarrow> us_username x = ''admin''))"

definition keys_drawn :: "env \<Rightarrow> site \<Rightarrow> bool" where
  "keys_drawn e s \<longleftrightarrow> (\<forall>v. \<forall>k\<in>set (user_keys v (si_keys s)). drawn e (si_uuids s) (ke_id k))"

definition site_ok :: "portal \<Rightarrow> site \<Rightarrow> bool" where
  "site_ok P s \<longleftrightarrow> users_ok (po_env P) s \<and> keys_drawn (po_env P) s \<and> vault_ok (po_key P) s"

definition account_of :: "site \<Rightarrow> string \<Rightarrow> user option \<times> key_entry list" where
  "account_of s v = (find (\<lambda>x. us_id x = v) (si_users s), user_keys v (si_keys s))"

definition fresh_ids :: "env \<Rightarrow> bool" where
  \<comment> \<open>\<open>uuid4\<close> never repeats\<close>
  "fresh_ids e \<longleftrightarrow> inj (\<lambda>n. uuid_text (env_uuid e n))"

fun request_text :: "portal_request \<Rightarrow> bool" where
  \<comment> \<open>a secret is text\<close>
  "request_text (AddKey _ _ _ _ secret) = utf8_ok (map of_char secret)"
| "request_text _ = True"

lemma drawn_Suc: "drawn e n i \<Longrightarrow> drawn e (Suc n) i"
  by (auto simp: drawn_def less_Suc_eq)

lemma drawn_next: "drawn e (Suc n) (uuid_text (env_uuid e n))"
  by (auto simp: drawn_def)

lemma fresh_not_drawn: "fresh_ids e \<Longrightarrow> \<not> drawn e n (uuid_text (env_uuid e n))"
  by (auto simp: drawn_def fresh_ids_def dest: injD)

lemma drawn_mono: "drawn e n i \<Longrightarrow> n \<le> m \<Longrightarrow> drawn e m i"
  by (auto simp: drawn_def) (metis order_less_le_trans)

subsection \<open>What a request may change\<close>

definition site_moves :: "portal \<Rightarrow> string option \<Rightarrow> site \<Rightarrow> site \<Rightarrow> bool" where
  \<comment> \<open>the accounts stay well formed, and those of others than the owner stay as they are\<close>
  "site_moves P owner s s' \<longleftrightarrow> si_uuids s \<le> si_uuids s' \<and>
     (fresh_ids (po_env P) \<and> site_ok P s \<and> has_admin s \<longrightarrow> site_ok P s' \<and> has_admin s' \<and>
       (\<forall>v. drawn (po_env P) (si_uuids s) v \<and> owner \<noteq> Some v \<longrightarrow> account_of s' v = account_of s v))"

lemma moves_trans:
  assumes "site_moves P ow s t" "site_moves P ow t u"
  shows "site_moves P ow s u"
proof -
  have "drawn (po_env P) (si_uuids s) v \<Longrightarrow> drawn (po_env P) (si_uuids t) v" for v
    using assms(1) drawn_mono by (auto simp: site_moves_def)
  then show ?thesis using assms by (auto simp: site_moves_def)
qed

interpretation moves: effect "site_moves P ow" for P ow
  by unfold_locales (auto simp: site_moves_def[of _ _ w w for w] intro: moves_trans)

lemma moves_quiet:
  assumes "si_users s' = si_users s" "si_keys s' = si_keys s" "si_uuids s' = si_uuids s"
  shows "site_moves P ow s s'"
  using assms vault_ok_cong[of s' s]
  by (simp add: site_moves_def site_ok_def users_ok_def keys_drawn_def has_admin_def account_of_def)

lemma find_snoc: "find p (xs @ [x]) = (case find p xs of None \<Rightarrow> if p x then Some x else None | Some y \<Rightarrow> Some y)"
  by (induction xs) auto

lemma new_user_ok:
  assumes s': "si_users s' = si_users s @ [x]" "si_keys s' = si_keys s" "si_uuids s' = Suc (si_uuids s)"
    and x: "us_id x = uuid_text (env_uuid (po_env P) (si_uuids s))" "us_username x \<notin> us_username ` set (si_users s)"
      "us_role x = ''admin'' \<longleftrightarrow> us_username x = ''admin''"
    and fresh: "fresh_ids (po_env P)" and ok: "site_ok P s"
  shows "site_ok P s'" "drawn (po_env P) (si_uuids s) v \<Longrightarrow> account_of s' v = account_of s v"
proof -
  have new: "\<not> drawn (po_env P) (si_uuids s) (us_id x)" using fresh_not_drawn[OF fresh] x(1) by simp
  have "drawn (po_env P) (Suc (si_uuids s)) (us_id x)" using drawn_next x(1) by simp
  then have "users_ok (po_env P) s'" using ok new s' x by (auto simp: site_ok_def users_ok_def drawn_Suc)
  moreover have "keys_drawn (po_env P) s'" "vault_ok (po_key P) s'"
    using ok s'(2,3) vault_ok_cong[of s' s] by (auto simp: site_ok_def keys_drawn_def drawn_Suc)
  ultimately show "site_ok P s'" by (simp add: site_ok_def)
  show "account_of s' v = account_of s v" if "drawn (po_env P) (si_uuids s) v"
  proof -
    have "us_id x \<noteq> v" using new that by auto
    then show ?thesis using s'(1,2) by (auto simp: account_of_def find_snoc split: option.split)
  qed
qed

lemma moves_new_user:
  assumes "si_users s' = si_users s @ [x]" "si_keys s' = si_keys s" "si_uuids s' = Suc (si_uuids s)"
    and "us_id x = uuid_text (env_uuid (po_env P) (si_uuids s))" "us_username x \<notin> us_username ` set (si_users s)"
      "us_role x = ''admin'' \<longleftrightarrow> us_username x = ''admin''"
  shows "site_moves P ow s s'"
  using new_user_ok[OF assms] assms(1-3) by (auto simp: site_moves_def has_admin_def)

lemma update_first_fields [simp]:
  "(\<And>x. f (g x) = f x) \<Longrightarrow> map f (update_first p g xs) = map f xs"
  by (induction xs) auto

lemma find_update_first:
  "(\<And>x. us_id (g x) = us_id x) \<Longrightarrow> u \<noteq> v \<Longrightarrow>
   find (\<lambda>x. us_id x = v) (update_first (\<lambda>x. us_id x = u) g xs) = find (\<lambda>x. us_id x = v) xs"
  by (induction xs) auto

lemma moves_password:
  assumes "si_users s' = update_first (\<lambda>x. us_id x = u) (\<lambda>x. x\<lparr>us_password_hash := h\<rparr>) (si_users s)"
    and "si_keys s' = si_keys s" "si_uuids s' = si_uuids s"
  shows "site_moves P (Some u) s s'"
proof -
  have same: "map (\<lambda>x. (us_id x, us_username x, us_role x)) (si_users s') = map (\<lambda>x. (us_id x, us_username x, us_role x)) (si_users s)"
    "map us_id (si_users s') = map us_id (si_users s)" "map us_username (si_users s') = map us_username (si_users s)"
    using assms(1) by simp_all
  have "(\<forall>x\<in>set (si_users s'). Q (us_id x) (us_username x) (us_role x)) \<longleftrightarrow>
      (\<forall>x\<in>set (si_users s). Q (us_id x) (us_username x) (us_role x))" for Q
    using arg_cong[OF same(1), of "list_all (\<lambda>(i, n, r). Q i n r)"] by (simp add: list_all_iff)
  from this[of "\<lambda>i n r. drawn (po_env P) (si_uuids s) i \<and> (r = ''admin'' \<longleftrightarrow> n = ''admin'')"]
  have "users_ok (po_env P) s' = users_ok (po_env P) s" using same(2,3) assms(3) by (simp add: users_ok_def)
  moreover have "has_admin s' = has_admin s" using arg_cong[OF same(3), of set] by (simp add: has_admin_def)
  ultimately show ?thesis
    using assms(2,3) vault_ok_cong[of s' s] assms(1)
    by (auto simp: site_moves_def site_ok_def keys_drawn_def account_of_def find_update_first)
qed

lemma moves_keys:
  assumes "si_users s' = si_users s" "si_keys s' = AList.update u ks (si_keys s)" "si_uuids s \<le> si_uuids s'"
    and "fresh_ids (po_env P) \<Longrightarrow> site_ok P s \<Longrightarrow> keys_ok (po_key P) ks \<and> (\<forall>k\<in>set ks. drawn (po_env P) (si_uuids s') (ke_id k))"
  shows "site_moves P (Some u) s s'"
proof -
  have "site_ok P s'" if "fresh_ids (po_env P)" "site_ok P s"
    using assms that drawn_mono[OF _ assms(3)]
    by (auto simp: site_ok_def users_ok_def keys_drawn_def vault_ok_def)
  then show ?thesis using assms(1-3) by (auto simp: site_moves_def has_admin_def account_of_def)
qed

subsection \<open>The operations\<close>

lemma ensure_admin_runs:
  obtains (there) "has_admin s" "ensure_default_admin e cr s = (Inr (), s)"
  | (failed) exc where "\<not> has_admin s" "ensure_default_admin e cr s = (Inl exc, s\<lparr>si_salts := Suc (si_salts s)\<rparr>)"
  | (made) x where "\<not> has_admin s" "us_username x = ''admin''" "us_role x = ''admin''" "us_id x = uuid_text (env_uuid e (si_uuids s))"
      "ensure_default_admin e cr s = (Inr (), s\<lparr>si_users := si_users s @ [x], si_salts := Suc (si_salts s),
         si_uuids := Suc (si_uuids s), si_ticks := Suc (si_ticks s)\<rparr>)"
proof (cases "has_admin s")
  case True
  then have "list_ex (\<lambda>u. us_username u = ''admin'') (si_users s)" by (auto simp: has_admin_def list_ex_iff)
  then show thesis using there True by (simp add: ensure_default_admin_def py_simps)
next
  case False
  then have none: "\<not> list_ex (\<lambda>u. us_username u = ''admin'') (si_users s)"
    by (force simp: has_admin_def list_ex_iff)
  show thesis
  proof (cases "cr_hashpw cr (si_salts s) ''admin''")
    case (Inl exc)
    then show thesis using failed[of exc] False none by (simp add: ensure_default_admin_def py_simps)
  next
    case (Inr h)
    then show thesis
      using made[of "\<lparr>us_id = uuid_text (env_uuid e (si_uuids s)), us_username = ''admin'', us_password_hash = h,
          us_role = ''admin'', us_created_at = isoformat (env_now e (si_ticks s))\<rparr>"] False none
      by (simp add: ensure_default_admin_def py_simps)
  qed
qed

lemma steps_ensure_admin [steps]: "steps_in (site_moves P ow) (ensure_default_admin (po_env P) (po_crypto P))"
proof (rule steps_inI)
  fix s r s' assume run: "ensure_default_admin (po_env P) (po_crypto P) s = (r, s')"
  show "site_moves P ow s s'"
  proof (cases rule: ensure_admin_runs[of s "po_env P" "po_crypto P"])
    case there
    then show ?thesis using run by (auto intro: moves_quiet)
  next
    case (failed exc)
    then show ?thesis using run by (auto intro: moves_quiet)
  next
    case (made x)
    have "us_username x \<notin> us_username ` set (si_users s)" using made(1,2) by (simp add: has_admin_def)
    then show ?thesis using run made by (intro moves_new_user[of _ _ x]) auto
  qed
qed

lemma steps_register [steps]: "steps_in (site_moves P ow) (register_user (po_env P) (po_crypto P) username password)"
proof (rule steps_inI)
  fix s r s' assume run: "register_user (po_env P) (po_crypto P) username password s = (r, s')"
  show "site_moves P ow s s'"
  proof (cases "list_ex (\<lambda>u. us_username u = username) (si_users s)")
    case True
    then show ?thesis using run by (auto simp: register_user_def py_simps intro: moves_quiet)
  next
    case False
    then have new: "username \<notin> us_username ` set (si_users s)" by (auto simp: list_ex_iff)
    show ?thesis
    proof (cases "username = ''admin'' \<or> (\<exists>exc. cr_hashpw (po_crypto P) (si_salts s) password = Inl exc)")
      case True
      then show ?thesis
      proof
        assume "username = ''admin''"
        then show ?thesis using new run False
          by (auto simp: register_user_def py_simps Let_def site_moves_def has_admin_def split: sum.splits)
      next
        assume "\<exists>exc. cr_hashpw (po_crypto P) (si_salts s) password = Inl exc"
        then show ?thesis using run False by (auto simp: register_user_def py_simps intro!: moves_quiet)
      qed
    next
      case named: False
      then obtain h where h: "cr_hashpw (po_crypto P) (si_salts s) password = Inr h"
        by (cases "cr_hashpw (po_crypto P) (si_salts s) password") auto
      show ?thesis
        by (rule moves_new_user[where x = "\<lparr>us_id = uuid_text (env_uuid (po_env P) (si_uuids s)), us_username = username,
            us_password_hash = h, us_role = ''trader'', us_created_at = isoformat (env_now (po_env P) (si_ticks s))\<rparr>"])
          (use run False h new named in \<open>auto simp: register_user_def py_simps Let_def\<close>)
    qed
  qed
qed

lemma steps_now [steps]: "steps_in (site_moves P ow) (site_now e)"
  by (auto simp: steps_in_def site_now_def intro: moves_quiet)

lemma steps_hashpw [steps]: "steps_in (site_moves P ow) (hashpw cr p)"
  by (auto simp: steps_in_def hashpw_def intro: moves_quiet)

lemma steps_login [steps]: "steps_in (site_moves P ow) (login e cr secret username password)"
  unfolding login_def by (intro steps)

lemma steps_verify [steps]:
  "steps_in (site_moves P ow) (verify_token cr secret token)"
  "steps_in (site_moves P ow) (get_current_user cr service token)"
  unfolding get_current_user_def verify_token_def by (auto split: jwt_outcome.split intro!: steps)

lemma steps_change_password [steps]: "steps_in (site_moves P (Some u)) (change_password cr u old new)"
proof (rule steps_inI)
  fix s r s' assume run: "change_password cr u old new s = (r, s')"
  consider "si_users s' = si_users s" "si_keys s' = si_keys s" "si_uuids s' = si_uuids s"
    | h where "si_users s' = update_first (\<lambda>x. us_id x = u) (\<lambda>x. x\<lparr>us_password_hash := h\<rparr>) (si_users s)"
        "si_keys s' = si_keys s" "si_uuids s' = si_uuids s"
    using run by (auto simp: change_password_def py_simps split: option.splits sum.splits if_splits)
  then show "site_moves P (Some u) s s'"
    by cases (auto intro: moves_quiet moves_password)
qed

lemma steps_read_keys [steps]:
  "steps_in (site_moves P ow) (list_keys u)" "steps_in (site_moves P ow) (get_active_key_summary u)"
  unfolding list_keys_def get_active_key_summary_def by (intro steps)+

lemma keys_of_ok: "site_ok P s \<Longrightarrow> keys_ok (po_key P) (user_keys u (si_keys s))
    \<and> (\<forall>k\<in>set (user_keys u (si_keys s)). drawn (po_env P) (si_uuids s) (ke_id k))"
  by (simp add: site_ok_def vault_ok_def keys_drawn_def)

lemma steps_add_key:
  assumes "utf8_ok (map of_char secret)"
  shows "steps_in (site_moves P (Some u)) (add_key (po_env P) (po_key P) u label exchange api_key secret)"
proof (rule steps_inI)
  fix s r s' assume run: "add_key (po_env P) (po_key P) u label exchange api_key secret s = (r, s')"
  let ?ks = "user_keys u (si_keys s)"
  let ?k = "\<lparr>ke_id = uuid_text (env_uuid (po_env P) (si_uuids s)), ke_label = label, ke_exchange = exchange,
      ke_api_key = api_key, ke_api_secret_enc = xor_cipher (po_key P) secret, ke_is_active = (length ?ks = 0),
      ke_created_at = isoformat (env_now (po_env P) (si_ticks s))\<rparr>"
  have s': "si_users s' = si_users s" "si_keys s' = AList.update u (?ks @ [?k]) (si_keys s)" "si_uuids s' = Suc (si_uuids s)"
    using run by (auto simp: add_key_def py_simps Let_def)
  show "site_moves P (Some u) s s'"
  proof (rule moves_keys[OF s'(1,2)])
    assume fresh: "fresh_ids (po_env P)" and ok: "site_ok P s"
    have old: "keys_ok (po_key P) ?ks" "\<forall>k\<in>set ?ks. drawn (po_env P) (si_uuids s) (ke_id k)"
      using keys_of_ok[OF ok] by auto
    have "drawn (po_env P) (si_uuids s) i" if "i \<in> ke_id ` set ?ks" for i using that old(2) by auto
    then have "ke_id ?k \<notin> ke_id ` set ?ks" using fresh_not_drawn[OF fresh, of "si_uuids s"] by auto
    then have "keys_ok (po_key P) (?ks @ [?k])" using old(1) xor_round_trip[OF assms] by (intro keys_ok_add) auto
    then show "keys_ok (po_key P) (?ks @ [?k]) \<and> (\<forall>k\<in>set (?ks @ [?k]). drawn (po_env P) (si_uuids s') (ke_id k))"
      using old(2) drawn_Suc drawn_next s'(3) by auto
  qed (simp add: s'(3))
qed

lemma steps_delete_key [steps]: "steps_in (site_moves P (Some u)) (delete_key u i)"
proof (rule steps_inI)
  fix s r s' assume run: "delete_key u i s = (r, s')"
  show "site_moves P (Some u) s s'"
  proof (cases "map_of (si_keys s) u")
    case None
    then show ?thesis using run by (auto simp: delete_key_run intro: moves_quiet)
  next
    case (Some a)
    show ?thesis
      by (rule moves_keys[where ks = "filter (\<lambda>k. ke_id k \<noteq> i) (user_keys u (si_keys s))"])
        (use run Some keys_ok_delete keys_of_ok[of P s u] in \<open>auto simp: delete_key_run\<close>)
  qed
qed

lemma steps_activate_key [steps]: "steps_in (site_moves P (Some u)) (route_activate_key u i)"
proof (rule steps_inI)
  fix s r s' assume run: "route_activate_key u i s = (r, s')"
  show "site_moves P (Some u) s s'"
  proof (cases "map_of (si_keys s) u")
    case None
    then show ?thesis using run by (auto simp: activate_key_run intro: moves_quiet)
  next
    case (Some a)
    show ?thesis
      by (rule moves_keys[where ks = "map (\<lambda>k. k\<lparr>ke_is_active := (ke_id k = i)\<rparr>) (user_keys u (si_keys s))"])
        (use run Some keys_ok_activate keys_of_ok[of P s u] in \<open>auto simp: activate_key_run\<close>)
  qed
qed

subsection \<open>Requests move accounts\<close>

definition gate_moves :: "portal \<Rightarrow> string option \<Rightarrow> gateway \<Rightarrow> gateway \<Rightarrow> bool" where
  "gate_moves P owner g g' \<longleftrightarrow> site_moves P owner (gw_site g) (gw_site g') \<and> gw_middleware g' = gw_middleware g"

interpretation gate: effect "gate_moves P ow" for P ow
  by unfold_locales (auto simp: gate_moves_def moves.R_refl intro: moves_trans)

lemma steps_on_site [steps]: "steps_in (site_moves P ow) m \<Longrightarrow> steps_in (gate_moves P ow) (on_site m)"
  by (auto simp: steps_in_def gate_moves_def on_site_def split: prod.split) (metis snd_conv)

lemma steps_gate [steps]:
  "steps_in (gate_moves P ow) (checked b what)" "steps_in (gate_moves P ow) (modify (\<lambda>g. g\<lparr>gw_auth := b\<rparr>))"
  unfolding checked_def by (auto intro: gate.steps_require) (simp add: steps_in_def modify_def gate_moves_def moves.R_refl)

lemma steps_auth_service [steps]: "steps_in (gate_moves P ow) (auth_service P)"
  unfolding auth_service_def by (intro steps)

lemma steps_current_user [steps]: "steps_in (gate_moves P ow) (current_user P token)"
  unfolding current_user_def by (intro steps)

lemma steps_public [steps]: "steps_in (gate_moves P ow) (serve_public P req)"
  unfolding serve_public_def by (cases req) (auto intro!: steps)

lemma steps_user:
  assumes "request_text req"
  shows "steps_in (gate_moves P (Some (ur_id u))) (serve_user P u req)"
  unfolding serve_user_def serve_keys_def using assms by (cases req) (auto intro!: steps steps_add_key)

text \<open>The user a token stands for, read from the file without changing it.\<close>

definition bearer :: "portal \<Rightarrow> gateway \<Rightarrow> string \<Rightarrow> py_error + user_response" where
  "bearer P g token = fst (current_user P token g)"

lemma current_user_pure: "current_user P token g = (bearer P g token, g)"
proof -
  have "snd (verify_token cr secret token s) = s" for cr secret s
    by (auto simp: verify_token_def py_simps split: jwt_outcome.split option.split)
  then have "snd (get_current_user cr service token s) = s" for cr service s
    by (auto simp: get_current_user_def catch_run raise_run split: option.split prod.split sum.split)
      (metis snd_conv)+
  then have "snd (current_user P token g) = g"
    by (simp add: current_user_def on_site_def py_simps split: prod.split) (metis gateway.surjective gateway.update_convs(1) snd_conv)
  then show ?thesis by (simp add: bearer_def prod_eq_iff)
qed

lemma bearer_refused:
  "bearer P g token = Inl exc \<Longrightarrow> gw_middleware g \<Longrightarrow> \<exists>m. exc = HTTPException 401 m"
  by (auto simp: bearer_def current_user_def get_current_user_def verify_token_def on_site_def py_simps
      split: jwt_outcome.splits option.splits prod.splits sum.splits if_splits)

definition owner_of :: "portal \<Rightarrow> gateway \<Rightarrow> portal_request \<Rightarrow> string option" where
  "owner_of P g req =
     (case token_of req of
        None \<Rightarrow> None
      | Some token \<Rightarrow> (case bearer P g token of Inl _ \<Rightarrow> None | Inr u \<Rightarrow> Some (ur_id u)))"

lemma request_moves:
  assumes "serve_portal P req g = (r, g')" "request_text req"
  shows "gate_moves P (owner_of P g req) g g'"
proof (cases "token_of req")
  case None
  then show ?thesis using assms(1) steps_inD[OF steps_public] by (simp add: serve_portal_def)
next
  case (Some token)
  show ?thesis
  proof (cases "bearer P g token")
    case (Inl exc)
    then show ?thesis using assms(1) Some
      by (auto simp: serve_portal_def bnd_run current_user_pure gate_moves_def moves.R_refl)
  next
    case (Inr u)
    then have "serve_user P u req g = (r, g')" using assms(1) Some by (simp add: serve_portal_def bnd_run current_user_pure)
    then show ?thesis using steps_inD[OF steps_user[OF assms(2)]] Some Inr by (simp add: owner_of_def)
  qed
qed

lemma run_keeps_accounts:
  assumes "fresh_ids (po_env P)" "list_all request_text reqs" "site_ok P (gw_site g)" "has_admin (gw_site g)"
  shows "site_ok P (gw_site (portal_run P reqs g)) \<and> has_admin (gw_site (portal_run P reqs g))
    \<and> gw_middleware (portal_run P reqs g) = gw_middleware g"
  using assms(2-4)
proof (induction reqs arbitrary: g)
  case (Cons req reqs)
  obtain r g1 where run: "serve_portal P req g = (r, g1)" by fastforce
  have "gate_moves P (owner_of P g req) g g1" by (rule request_moves[OF run]) (use Cons.prems in simp)
  then have "site_ok P (gw_site g1)" "has_admin (gw_site g1)" "gw_middleware g1 = gw_middleware g"
    using Cons.prems assms(1) by (auto simp: gate_moves_def site_moves_def)
  then show ?case using Cons.IH[of g1] Cons.prems(1) run by simp
qed simp

lemma startup_accounts:
  assumes "fresh_ids (po_env P)" "site_ok P s" "portal_start P s = Inr g"
  shows "site_ok P (gw_site g)" "has_admin (gw_site g)" "gw_middleware g"
proof -
  obtain s' where admin: "ensure_default_admin (po_env P) (po_crypto P) s = (Inr (), s')"
    "g = \<lparr>gw_site = s', gw_middleware = True, gw_auth = False\<rparr>"
    using assms(3) by (auto simp: portal_start_def split: prod.splits sum.splits)
  have "site_ok P s' \<and> has_admin s'"
  proof (cases rule: ensure_admin_runs[of s "po_env P" "po_crypto P"])
    case there
    then show ?thesis using admin(1) assms(2) by simp
  next
    case (failed exc)
    then show ?thesis using admin(1) by simp
  next
    case (made x)
    have "us_username x \<notin> us_username ` set (si_users s)" using made(1,2) by (simp add: has_admin_def)
    then have "site_ok P s'" using made(2-5) admin(1) assms(1,2) by (intro new_user_ok(1)[of s' s x]) auto
    then show ?thesis using made(2,5) admin(1) by (auto simp: has_admin_def)
  qed
  then show "site_ok P (gw_site g)" "has_admin (gw_site g)" "gw_middleware g" using admin(2) by simp_all
qed

text \<open>
  C24. From startup, under any sequence of account requests, the accounts stay well formed: ids
  and user names are distinct, the one administrator is \<open>admin\<close>, whatever is registered, and
  every user's keys are well formed. A request whose token is not valid answers 401 and
  changes nothing; any other request leaves every existing account but the token's own as it
  was, password and keys included.
\<close>

theorem portal_isolates_users:
  assumes "fresh_ids (po_env P)" "site_ok P s" "portal_start P s = Inr g0"
    and "list_all request_text reqs" "request_text req"
    and "portal_run P reqs g0 = g" "serve_portal P req g = (r, g')"
  shows "site_ok P (gw_site g) \<and> has_admin (gw_site g)
    \<and> (\<forall>v. drawn (po_env P) (si_uuids (gw_site g)) v \<and> owner_of P g req \<noteq> Some v \<longrightarrow>
          account_of (gw_site g') v = account_of (gw_site g) v)
    \<and> (token_of req \<noteq> None \<and> owner_of P g req = None \<longrightarrow> (\<exists>m. r = Inl (HTTPException 401 m)) \<and> g' = g)"
proof (intro conjI)
  have kept: "site_ok P (gw_site g)" "has_admin (gw_site g)" "gw_middleware g"
    using run_keeps_accounts[OF assms(1,4) startup_accounts(1,2)[OF assms(1-3)]] startup_accounts(3)[OF assms(1-3)] assms(6)
    by auto
  then show "site_ok P (gw_site g)" "has_admin (gw_site g)" by simp_all
  show "\<forall>v. drawn (po_env P) (si_uuids (gw_site g)) v \<and> owner_of P g req \<noteq> Some v \<longrightarrow>
      account_of (gw_site g') v = account_of (gw_site g) v"
    using request_moves[OF assms(7,5)] kept assms(1) by (simp add: gate_moves_def site_moves_def)
  show "token_of req \<noteq> None \<and> owner_of P g req = None \<longrightarrow> (\<exists>m. r = Inl (HTTPException 401 m)) \<and> g' = g"
    using assms(7) bearer_refused[OF _ kept(3)]
    by (auto simp: serve_portal_def owner_of_def bnd_run current_user_pure split: sum.splits)
qed

text \<open>For examples: passwords are kept as they are and a token is the id of its user.\<close>

definition plain_crypto :: crypto where
  "plain_crypto = \<lparr>cr_hashpw = (\<lambda>n p. Inr p), cr_checkpw = (\<lambda>p h. Inr (p = h)),
     cr_jwt_encode = (\<lambda>p k. case map_of p ''sub'' of Some (PStr i) \<Rightarrow> i | _ \<Rightarrow> []),
     cr_jwt_decode = (\<lambda>t k. JwtPayload [(''sub'', PStr t)])\<rparr>"

definition sample_portal :: portal where
  "sample_portal = \<lparr>po_env = sample_env\<lparr>env_uuid := (\<lambda>n. replicate n (CHR ''a''))\<rparr>, po_crypto = plain_crypto,
     po_jwt_secret = ''s'', po_key = ''k''\<rparr>"

lemma sample_ids: "fresh_ids (po_env sample_portal)"
proof -
  let ?id = "\<lambda>n. uuid_text (replicate n (CHR ''a''))"
  have plain: "length (filter (\<lambda>c. c \<noteq> CHR ''-'') (?id n)) = n" for n
    by (simp add: uuid_text_def)
  have "inj ?id"
  proof (rule injI)
    fix m n assume "?id m = ?id n"
    from arg_cong[OF this, of "\<lambda>t. length (filter (\<lambda>c. c \<noteq> CHR ''-'') t)"] show "m = n" by (simp only: plain)
  qed
  then show ?thesis by (simp add: fresh_ids_def sample_portal_def)
qed

lemma sample_site_ok: "site_ok sample_portal sample_site"
  by (simp add: site_ok_def users_ok_def keys_drawn_def vault_ok_def keys_ok_def user_keys_def sample_site_def)

theorem portal_isolates_users_witness:
  "\<exists>g0 g r g'. portal_start sample_portal sample_site = Inr g0
     \<and> portal_run sample_portal [Register ''bob'' ''secret''] g0 = g
     \<and> serve_portal sample_portal (AddKey ''a----'' ''main'' ''binance'' ''AKEY'' ''hidden'') g = (r, g')
     \<and> account_of (gw_site g') ''----'' = account_of (gw_site g) ''----''"
proof -
  define g0 where "g0 = (case portal_start sample_portal sample_site of Inr x \<Rightarrow> x)"
  have start: "portal_start sample_portal sample_site = Inr g0"
    unfolding g0_def by (simp add: portal_start_def ensure_default_admin_def sample_site_def sample_portal_def plain_crypto_def py_simps)
  let ?g = "portal_run sample_portal [Register ''bob'' ''secret''] g0"
  let ?req = "AddKey ''a----'' ''main'' ''binance'' ''AKEY'' ''hidden''"
  obtain r g' where run: "serve_portal sample_portal ?req ?g = (r, g')" by fastforce
  have texts: "list_all request_text [Register ''bob'' ''secret'']" "request_text ?req" by code_simp+
  have owner: "owner_of sample_portal ?g ?req = Some ''a----''" unfolding g0_def by code_simp
  have "0 < si_uuids (gw_site ?g)" unfolding g0_def by code_simp
  moreover have "uuid_text (env_uuid (po_env sample_portal) 0) = ''----''" by code_simp
  ultimately have "drawn (po_env sample_portal) (si_uuids (gw_site ?g)) ''----''" by (auto simp: drawn_def)
  moreover have "owner_of sample_portal ?g ?req \<noteq> Some ''----''" unfolding owner by simp
  ultimately have "account_of (gw_site g') ''----'' = account_of (gw_site ?g) ''----''"
    using portal_isolates_users[OF sample_ids sample_site_ok start texts refl run, THEN conjunct2, THEN conjunct2, THEN conjunct1]
    by blast
  with start run show ?thesis by (intro exI conjI) (assumption | rule refl)+
qed

end
