(* ===== verification/Assembly.thy ===== *)
theory Assembly
  imports Backend Mysql Portal Migration
begin

section \<open>How the application is put together\<close>

text \<open>
  The settings of \<open>app/core/settings.py\<close> that name files, the database and secrets, and the
  objects the application makes of them: each service constructor with its defaults
  (\<open>service or Service()\<close>), the dependency getters of \<open>app/api/routes/algo.py\<close> and the builders
  of the workers. A service is the record of the files its parts read and write, so the lemmas
  can say which parts of the application share a file: all of them, as long as nobody gives a
  service a store of its own.
\<close>

subsection \<open>Settings\<close>

record installation = settings +
  in_storage_backend :: string
  in_mysql_host :: string
  in_mysql_port :: int
  in_mysql_user :: string
  in_mysql_password :: string
  in_mysql_database :: string
  in_mysql_charset :: string
  in_tuning_path :: string
  in_sample_path :: string
  in_journal_path :: string
  in_dataset_path :: string
  in_ledger_path :: string
  in_audit_path :: string
  in_report_path :: string
  in_breaker_path :: string
  in_users_path :: string
  in_credentials_path :: string
  in_jwt_secret :: string
  in_encryption_key :: string

definition default_installation :: installation where
  "default_installation = settings.extend default_settings \<lparr>
     in_storage_backend = ''json'', in_mysql_host = ''127.0.0.1'', in_mysql_port = 3306, in_mysql_user = ''root'',
     in_mysql_password = ''root'', in_mysql_database = ''crypto_funding_arb'', in_mysql_charset = ''utf8mb4'',
     in_tuning_path = ''backend/runtime/tuning-state.json'', in_sample_path = ''backend/runtime/learning-samples.json'',
     in_journal_path = ''backend/runtime/trade-journal.json'', in_dataset_path = ''backend/runtime/backtest-datasets.json'',
     in_ledger_path = ''backend/runtime/trade-ledger.json'', in_audit_path = ''backend/runtime/audit-events.json'',
     in_report_path = ''backend/runtime/exchange-order-reports.json'',
     in_breaker_path = ''backend/runtime/execution-circuit-breaker.json'', in_users_path = ''backend/runtime/users.json'',
     in_credentials_path = ''backend/runtime/credentials.json'', in_jwt_secret = ''change-me-in-production'',
     in_encryption_key = []\<rparr>"

definition mysql_settings_of :: "installation \<Rightarrow> mysql_settings" where
  "mysql_settings_of s = \<lparr>mq_host = in_mysql_host s, mq_port = in_mysql_port s, mq_user = in_mysql_user s,
     mq_password = in_mysql_password s, mq_database = in_mysql_database s, mq_charset = in_mysql_charset s\<rparr>"

definition portal_of :: "env \<Rightarrow> crypto \<Rightarrow> installation \<Rightarrow> portal" where
  \<comment> \<open>the secrets of \<open>AuthService\<close> and \<open>CredentialsService\<close>\<close>
  "portal_of e cr s = \<lparr>po_env = e, po_crypto = cr, po_jwt_secret = in_jwt_secret s, po_key = encryption_key (in_encryption_key s)\<rparr>"

subsection \<open>Stores\<close>

datatype store_kind = TuningFile | SampleFile | JournalFile | DatasetFile | LedgerFile | AuditFile | ReportFile | BreakerFile

definition home :: "installation \<Rightarrow> store_kind \<Rightarrow> string" where
  \<comment> \<open>where a store of the kind lives\<close>
  "home s k = (case k of
     TuningFile \<Rightarrow> in_tuning_path s | SampleFile \<Rightarrow> in_sample_path s | JournalFile \<Rightarrow> in_journal_path s
   | DatasetFile \<Rightarrow> in_dataset_path s | LedgerFile \<Rightarrow> in_ledger_path s | AuditFile \<Rightarrow> in_audit_path s
   | ReportFile \<Rightarrow> in_report_path s | BreakerFile \<Rightarrow> in_breaker_path s)"

definition store_path :: "installation \<Rightarrow> store_kind \<Rightarrow> string option \<Rightarrow> string" where
  \<comment> \<open>\<open>Path(path or settings.<kind>_path)\<close>\<close>
  "store_path s k path = (case path of None \<Rightarrow> home s k | Some p \<Rightarrow> if p = [] then home s k else p)"

definition new_tuning_store :: "installation \<Rightarrow> string option \<Rightarrow> string" where
  "new_tuning_store s path = store_path s TuningFile path"

definition new_sample_store :: "installation \<Rightarrow> string option \<Rightarrow> string" where
  "new_sample_store s path = store_path s SampleFile path"

definition new_journal_store :: "installation \<Rightarrow> string option \<Rightarrow> string" where
  "new_journal_store s path = store_path s JournalFile path"

definition new_dataset_store :: "installation \<Rightarrow> string option \<Rightarrow> string" where
  "new_dataset_store s path = store_path s DatasetFile path"

definition new_ledger_store :: "installation \<Rightarrow> string option \<Rightarrow> string" where
  "new_ledger_store s path = store_path s LedgerFile path"

definition new_audit_store :: "installation \<Rightarrow> string option \<Rightarrow> string" where
  "new_audit_store s path = store_path s AuditFile path"

definition new_report_store :: "installation \<Rightarrow> string option \<Rightarrow> string" where
  "new_report_store s path = store_path s ReportFile path"

definition new_breaker_store :: "installation \<Rightarrow> string option \<Rightarrow> string" where
  "new_breaker_store s path = store_path s BreakerFile path"

type_synonym store_use = "store_kind \<times> string"

subsection \<open>Services\<close>

definition or_new :: "'a option \<Rightarrow> 'a \<Rightarrow> 'a" where
  \<comment> \<open>\<open>given or New()\<close>\<close>
  "or_new given new = (case given of Some x \<Rightarrow> x | None \<Rightarrow> new)"

text \<open>A service that only has a store is the path of the store.\<close>

definition new_ledger_service :: "installation \<Rightarrow> string option \<Rightarrow> string" where
  "new_ledger_service s store = or_new store (new_ledger_store s None)"

definition new_audit_service :: "installation \<Rightarrow> string option \<Rightarrow> string" where
  "new_audit_service s store = or_new store (new_audit_store s None)"

definition new_journal_service :: "installation \<Rightarrow> string option \<Rightarrow> string" where
  "new_journal_service s store = or_new store (new_journal_store s None)"

definition new_dataset_service :: "installation \<Rightarrow> string option \<Rightarrow> string" where
  "new_dataset_service s store = or_new store (new_dataset_store s None)"

definition new_safety_service :: "installation \<Rightarrow> string option \<Rightarrow> string" where
  \<comment> \<open>its audit service\<close>
  "new_safety_service s audit = or_new audit (new_audit_service s None)"

definition new_breaker_service :: "installation \<Rightarrow> string option \<Rightarrow> string" where
  "new_breaker_service s path = new_breaker_store s path"

record adaptation_parts =
  ap_tuning :: string
  ap_samples :: string

definition new_adaptation_service :: "installation \<Rightarrow> string option \<Rightarrow> string option \<Rightarrow> string option \<Rightarrow> adaptation_parts" where
  "new_adaptation_service s store sample_store sample_path = \<lparr>
     ap_tuning = or_new store (new_tuning_store s None),
     ap_samples = or_new sample_store (new_sample_store s sample_path)\<rparr>"

record reconciliation_parts =
  rp_reports :: string
  rp_ledger :: string
  rp_audit :: string

definition new_reconciliation_service ::
  "installation \<Rightarrow> string option \<Rightarrow> string option \<Rightarrow> string option \<Rightarrow> reconciliation_parts" where
  "new_reconciliation_service s store ledger audit = \<lparr>
     rp_reports = or_new store (new_report_store s None),
     rp_ledger = or_new ledger (new_ledger_service s None), rp_audit = or_new audit (new_audit_service s None)\<rparr>"

record recovery_parts =
  vp_ledger :: string
  vp_audit :: string
  vp_reconciliation :: reconciliation_parts

definition new_recovery_service ::
  "installation \<Rightarrow> string option \<Rightarrow> string option \<Rightarrow> reconciliation_parts option \<Rightarrow> recovery_parts" where
  "new_recovery_service s ledger audit reconciliation = \<lparr>
     vp_ledger = or_new ledger (new_ledger_service s None), vp_audit = or_new audit (new_audit_service s None),
     vp_reconciliation = or_new reconciliation (new_reconciliation_service s None None None)\<rparr>"

record hedge_parts =
  hp_ledger :: string
  hp_audit :: string
  hp_reports :: string

definition new_hedge_manager :: "installation \<Rightarrow> string option \<Rightarrow> string option \<Rightarrow> string option \<Rightarrow> hedge_parts" where
  "new_hedge_manager s ledger audit reports = \<lparr>
     hp_ledger = or_new ledger (new_ledger_service s None), hp_audit = or_new audit (new_audit_service s None),
     hp_reports = or_new reports (new_report_store s None)\<rparr>"

record compensation_parts =
  cp_ledger :: string
  cp_audit :: string
  cp_reports :: string
  cp_reconciliation :: reconciliation_parts
  cp_recovery :: recovery_parts
  cp_hedge :: hedge_parts

definition new_compensation_service ::
  "installation \<Rightarrow> string option \<Rightarrow> string option \<Rightarrow> string option \<Rightarrow> reconciliation_parts option \<Rightarrow>
   recovery_parts option \<Rightarrow> hedge_parts option \<Rightarrow> compensation_parts" where
  "new_compensation_service s ledger audit reports reconciliation recovery hedge =
     (let l = or_new ledger (new_ledger_service s (Some (new_ledger_store s None)));
          a = or_new audit (new_audit_service s (Some (new_audit_store s None)));
          r = or_new reports (new_report_store s None);
          rec = or_new reconciliation (new_reconciliation_service s (Some r) (Some l) (Some a))
      in \<lparr>cp_ledger = l, cp_audit = a, cp_reports = r, cp_reconciliation = rec,
          cp_recovery = or_new recovery (new_recovery_service s (Some l) (Some a) (Some rec)),
          cp_hedge = or_new hedge (new_hedge_manager s (Some l) (Some a) None)\<rparr>)"

record execution_parts =
  xp_ledger :: string
  xp_audit :: string
  xp_breaker :: "string option"
  xp_safety :: "string option"

definition new_orchestrator ::
  "installation \<Rightarrow> string option \<Rightarrow> string option \<Rightarrow> string option \<Rightarrow> string option \<Rightarrow> execution_parts" where
  "new_orchestrator s ledger audit breaker safety = \<lparr>
     xp_ledger = or_new ledger (new_ledger_service s None), xp_audit = or_new audit (new_audit_service s None),
     xp_breaker = breaker, xp_safety = safety\<rparr>"

record read_parts =
  ep_ledger :: string
  ep_audit :: string

definition new_execution_read_service :: "installation \<Rightarrow> string option \<Rightarrow> string option \<Rightarrow> read_parts" where
  "new_execution_read_service s ledger audit = \<lparr>
     ep_ledger = or_new ledger (new_ledger_service s None), ep_audit = or_new audit (new_audit_service s None)\<rparr>"

record cycle_parts = \<comment> \<open>the scheduler and the holding monitor\<close>
  yp_safety :: string
  yp_ledger :: string
  yp_audit :: string

definition new_monitor_service :: "installation \<Rightarrow> string option \<Rightarrow> string option \<Rightarrow> string option \<Rightarrow> cycle_parts" where
  "new_monitor_service s safety ledger audit = \<lparr>
     yp_safety = or_new safety (new_safety_service s None),
     yp_ledger = or_new ledger (new_ledger_service s None), yp_audit = or_new audit (new_audit_service s None)\<rparr>"

definition new_scheduler_service :: "installation \<Rightarrow> string option \<Rightarrow> string option \<Rightarrow> string option \<Rightarrow> cycle_parts" where
  "new_scheduler_service s safety ledger audit = \<lparr>
     yp_safety = or_new safety (new_safety_service s None),
     yp_ledger = or_new ledger (new_ledger_service s None), yp_audit = or_new audit (new_audit_service s None)\<rparr>"

definition backfill_stores :: "installation \<Rightarrow> store_use list" where
  \<comment> \<open>\<open>JsonToMySQLBackfillService.__init__\<close>\<close>
  "backfill_stores s = map (\<lambda>k. (k, store_path s k None))
     [TuningFile, SampleFile, JournalFile, DatasetFile, LedgerFile, AuditFile, ReportFile]"

subsection \<open>Dependencies of the routes\<close>

definition get_trade_ledger_service :: "installation \<Rightarrow> string" where
  "get_trade_ledger_service s = new_ledger_service s (Some (new_ledger_store s (Some (in_ledger_path s))))"

definition get_audit_event_service :: "installation \<Rightarrow> string" where
  "get_audit_event_service s = new_audit_service s (Some (new_audit_store s (Some (in_audit_path s))))"

definition get_trade_journal_service :: "installation \<Rightarrow> string" where
  "get_trade_journal_service s = new_journal_service s (Some (new_journal_store s (Some (in_journal_path s))))"

definition get_backtest_dataset_service :: "installation \<Rightarrow> string" where
  "get_backtest_dataset_service s = new_dataset_service s (Some (new_dataset_store s (Some (in_dataset_path s))))"

definition get_adaptation_service :: "installation \<Rightarrow> adaptation_parts" where
  "get_adaptation_service s = new_adaptation_service s None None None"

definition get_execution_circuit_breaker_service :: "installation \<Rightarrow> string" where
  "get_execution_circuit_breaker_service s = new_breaker_service s (Some (in_breaker_path s))"

definition get_execution_orchestrator :: "installation \<Rightarrow> execution_parts" where
  "get_execution_orchestrator s =
     new_orchestrator s (Some (get_trade_ledger_service s)) (Some (get_audit_event_service s))
       (Some (get_execution_circuit_breaker_service s)) None"

definition get_execution_read_service :: "installation \<Rightarrow> read_parts" where
  "get_execution_read_service s =
     new_execution_read_service s (Some (get_trade_ledger_service s)) (Some (get_audit_event_service s))"

definition report_store_of :: "installation \<Rightarrow> string" where
  "report_store_of s = new_report_store s (Some (in_report_path s))"

definition get_hedge_manager_service :: "installation \<Rightarrow> hedge_parts" where
  "get_hedge_manager_service s =
     new_hedge_manager s (Some (get_trade_ledger_service s)) (Some (get_audit_event_service s)) (Some (report_store_of s))"

definition get_reconciliation_service :: "installation \<Rightarrow> reconciliation_parts" where
  "get_reconciliation_service s =
     new_reconciliation_service s (Some (report_store_of s)) (Some (get_trade_ledger_service s)) (Some (get_audit_event_service s))"

definition get_recovery_service :: "installation \<Rightarrow> recovery_parts" where
  "get_recovery_service s =
     new_recovery_service s (Some (get_trade_ledger_service s)) (Some (get_audit_event_service s))
       (Some (get_reconciliation_service s))"

definition get_compensation_service :: "installation \<Rightarrow> compensation_parts" where
  "get_compensation_service s =
     new_compensation_service s (Some (get_trade_ledger_service s)) (Some (get_audit_event_service s)) (Some (report_store_of s))
       None None None"

subsection \<open>The files of a service\<close>

definition reconciliation_files :: "reconciliation_parts \<Rightarrow> store_use list" where
  "reconciliation_files r = [(ReportFile, rp_reports r), (LedgerFile, rp_ledger r), (AuditFile, rp_audit r)]"

definition recovery_files :: "recovery_parts \<Rightarrow> store_use list" where
  "recovery_files v = [(LedgerFile, vp_ledger v), (AuditFile, vp_audit v)] @ reconciliation_files (vp_reconciliation v)"

definition hedge_files :: "hedge_parts \<Rightarrow> store_use list" where
  "hedge_files h = [(LedgerFile, hp_ledger h), (AuditFile, hp_audit h), (ReportFile, hp_reports h)]"

definition compensation_files :: "compensation_parts \<Rightarrow> store_use list" where
  "compensation_files c = [(LedgerFile, cp_ledger c), (AuditFile, cp_audit c), (ReportFile, cp_reports c)]
     @ reconciliation_files (cp_reconciliation c) @ recovery_files (cp_recovery c) @ hedge_files (cp_hedge c)"

definition opt_use :: "store_kind \<Rightarrow> string option \<Rightarrow> store_use list" where
  "opt_use k p = (case p of None \<Rightarrow> [] | Some x \<Rightarrow> [(k, x)])"

definition execution_files :: "execution_parts \<Rightarrow> store_use list" where
  "execution_files x = [(LedgerFile, xp_ledger x), (AuditFile, xp_audit x)]
     @ opt_use BreakerFile (xp_breaker x) @ opt_use AuditFile (xp_safety x)"

definition cycle_files :: "cycle_parts \<Rightarrow> store_use list" where
  "cycle_files y = [(AuditFile, yp_safety y), (LedgerFile, yp_ledger y), (AuditFile, yp_audit y)]"

definition route_files :: "installation \<Rightarrow> store_use list" where
  \<comment> \<open>every dependency of a route\<close>
  "route_files s =
     [(LedgerFile, get_trade_ledger_service s), (AuditFile, get_audit_event_service s),
      (JournalFile, get_trade_journal_service s), (DatasetFile, get_backtest_dataset_service s),
      (TuningFile, ap_tuning (get_adaptation_service s)), (SampleFile, ap_samples (get_adaptation_service s)),
      (BreakerFile, get_execution_circuit_breaker_service s),
      (LedgerFile, ep_ledger (get_execution_read_service s)), (AuditFile, ep_audit (get_execution_read_service s))]
     @ execution_files (get_execution_orchestrator s) @ hedge_files (get_hedge_manager_service s)
     @ reconciliation_files (get_reconciliation_service s) @ recovery_files (get_recovery_service s)
     @ compensation_files (get_compensation_service s)"

definition lifespan_files :: "installation \<Rightarrow> store_use list" where
  \<comment> \<open>the safety switch, the monitor and the scheduler of the lifespan, and what a manual order and the emergency routes make\<close>
  "lifespan_files s =
     (let safety = new_safety_service s None in
      (AuditFile, safety) # cycle_files (new_monitor_service s (Some safety) None None)
      @ cycle_files (new_scheduler_service s (Some safety) None None)
      @ execution_files (new_orchestrator s None None None (Some safety))
      @ execution_files (new_orchestrator s None None None None) @ [(LedgerFile, new_ledger_service s None)])"

definition worker_files :: "installation \<Rightarrow> store_use list" where
  \<comment> \<open>what the builders of the four workers make; the recovery worker's orchestrator has no breaker\<close>
  "worker_files s =
     (let ledger = Some (get_trade_ledger_service s); audit = Some (get_audit_event_service s);
          orchestrator = new_orchestrator s ledger audit (Some (get_execution_circuit_breaker_service s)) None in
      hedge_files (new_hedge_manager s ledger audit (Some (report_store_of s))) @ execution_files orchestrator
      @ reconciliation_files (new_reconciliation_service s (Some (report_store_of s)) ledger audit)
      @ recovery_files (new_recovery_service s ledger audit
          (Some (new_reconciliation_service s (Some (report_store_of s)) ledger audit)))
      @ execution_files (new_orchestrator s ledger audit None None)
      @ compensation_files (new_compensation_service s ledger audit (Some (report_store_of s)) None None None))"

lemmas store_path_defs = new_tuning_store_def new_sample_store_def new_journal_store_def new_dataset_store_def
  new_ledger_store_def new_audit_store_def new_report_store_def new_breaker_store_def

lemmas service_defs = store_path_defs get_trade_ledger_service_def get_audit_event_service_def get_trade_journal_service_def
  get_backtest_dataset_service_def get_adaptation_service_def get_execution_circuit_breaker_service_def
  get_execution_orchestrator_def get_execution_read_service_def report_store_of_def get_hedge_manager_service_def
  get_reconciliation_service_def get_recovery_service_def get_compensation_service_def
  new_ledger_service_def new_audit_service_def new_journal_service_def new_dataset_service_def new_safety_service_def
  new_breaker_service_def new_adaptation_service_def new_reconciliation_service_def new_recovery_service_def
  new_hedge_manager_def new_compensation_service_def new_orchestrator_def new_execution_read_service_def
  new_monitor_service_def new_scheduler_service_def backfill_stores_def

lemmas files_defs = reconciliation_files_def recovery_files_def hedge_files_def compensation_files_def opt_use_def
  execution_files_def cycle_files_def route_files_def lifespan_files_def worker_files_def

lemma store_path_home [simp]: "store_path s k None = home s k" "store_path s k (Some (home s k)) = home s k"
  by (simp_all add: store_path_def)

lemma or_new_simps [simp]: "or_new None x = x" "or_new (Some y) x = y"
  by (simp_all add: or_new_def)

lemma home_paths:
  "in_tuning_path s = home s TuningFile" "in_sample_path s = home s SampleFile" "in_journal_path s = home s JournalFile"
  "in_dataset_path s = home s DatasetFile" "in_ledger_path s = home s LedgerFile" "in_audit_path s = home s AuditFile"
  "in_report_path s = home s ReportFile" "in_breaker_path s = home s BreakerFile"
  by (simp_all add: home_def)

text \<open>
  All parts of the application share one file of each kind, however their services were made;
  this is what lets the other theories keep one ledger, one log and one list of reports. The
  one way out is a report store given to a compensation service: the hedge manager it makes
  goes on reading the file of the settings.
\<close>

theorem one_file_of_each_kind:
  "(\<forall>(k, p) \<in> set (route_files s @ worker_files s @ lifespan_files s @ backfill_stores s). p = home s k)
   \<and> (let c = new_compensation_service s None None (Some r) None None None in
        {p. (ReportFile, p) \<in> set (compensation_files c)} = {r, home s ReportFile}
        \<and> hp_reports (cp_hedge c) = home s ReportFile)"
  by (auto simp: service_defs files_defs home_paths Let_def)

subsection \<open>The workers of \<open>app.state\<close>\<close>

record app_workers =
  aw_hedge :: "hedge_rebalance_snapshot worker option"
  aw_reconciliation :: "reconciliation_snapshot worker option"
  aw_recovery :: "recovery_snapshot worker option"
  aw_compensation :: "compensation_snapshot worker option"

definition get_hedge_rebalance_worker :: "settings \<Rightarrow> (app_workers, hedge_rebalance_snapshot worker) py" where
  "get_hedge_rebalance_worker s =
     bnd (gets aw_hedge) (\<lambda>w. case w of Some wk \<Rightarrow> ret wk | None \<Rightarrow>
       bnd (lift (build_hedge_rebalance_worker s)) (\<lambda>wk. thn (modify (\<lambda>a. a\<lparr>aw_hedge := Some wk\<rparr>)) (ret wk)))"

definition get_reconciliation_worker :: "settings \<Rightarrow> (app_workers, reconciliation_snapshot worker) py" where
  "get_reconciliation_worker s =
     bnd (gets aw_reconciliation) (\<lambda>w. case w of Some wk \<Rightarrow> ret wk | None \<Rightarrow>
       bnd (lift (build_reconciliation_worker s)) (\<lambda>wk. thn (modify (\<lambda>a. a\<lparr>aw_reconciliation := Some wk\<rparr>)) (ret wk)))"

definition get_recovery_worker :: "settings \<Rightarrow> (app_workers, recovery_snapshot worker) py" where
  "get_recovery_worker s =
     bnd (gets aw_recovery) (\<lambda>w. case w of Some wk \<Rightarrow> ret wk | None \<Rightarrow>
       bnd (lift (build_recovery_worker s)) (\<lambda>wk. thn (modify (\<lambda>a. a\<lparr>aw_recovery := Some wk\<rparr>)) (ret wk)))"

definition get_compensation_worker :: "settings \<Rightarrow> (app_workers, compensation_snapshot worker) py" where
  "get_compensation_worker s =
     bnd (gets aw_compensation) (\<lambda>w. case w of Some wk \<Rightarrow> ret wk | None \<Rightarrow>
       bnd (lift (build_compensation_worker s)) (\<lambda>wk. thn (modify (\<lambda>a. a\<lparr>aw_compensation := Some wk\<rparr>)) (ret wk)))"

definition gets_once :: "('w, 'a) py \<Rightarrow> bool" where
  \<comment> \<open>once it has answered, it gives the same answer and changes nothing\<close>
  "gets_once m \<longleftrightarrow> (\<forall>w x w'. m w = (Inr x, w') \<longrightarrow> m w' = (Inr x, w'))"

lemma workers_are_built_once:
  "gets_once (get_hedge_rebalance_worker s)" "gets_once (get_reconciliation_worker s)"
  "gets_once (get_recovery_worker s)" "gets_once (get_compensation_worker s)"
  by (auto simp: gets_once_def get_hedge_rebalance_worker_def get_reconciliation_worker_def get_recovery_worker_def
      get_compensation_worker_def py_simps split: option.splits sum.splits)

definition workers_of :: "backend \<Rightarrow> app_workers" where
  \<comment> \<open>\<open>app.state\<close> after startup\<close>
  "workers_of b = \<lparr>aw_hedge = Some (bk_hedge b), aw_reconciliation = Some (bk_reconciliation b),
     aw_recovery = Some (bk_recovery b), aw_compensation = Some (bk_compensation b)\<rparr>"

lemma started_workers_are_served:
  "get_hedge_rebalance_worker s (workers_of b) = (Inr (bk_hedge b), workers_of b)"
  "get_reconciliation_worker s (workers_of b) = (Inr (bk_reconciliation b), workers_of b)"
  "get_recovery_worker s (workers_of b) = (Inr (bk_recovery b), workers_of b)"
  "get_compensation_worker s (workers_of b) = (Inr (bk_compensation b), workers_of b)"
  by (simp_all add: workers_of_def get_hedge_rebalance_worker_def get_reconciliation_worker_def get_recovery_worker_def
      get_compensation_worker_def py_simps)

definition route_hedge_worker :: "settings \<Rightarrow> (app_workers, bool \<times> hedge_rebalance_snapshot) py" where
  "route_hedge_worker s = bnd (get_hedge_rebalance_worker s) (\<lambda>w. ret (worker_snapshot w))"

definition route_reconciliation_worker :: "settings \<Rightarrow> (app_workers, bool \<times> reconciliation_snapshot) py" where
  "route_reconciliation_worker s = bnd (get_reconciliation_worker s) (\<lambda>w. ret (worker_snapshot w))"

definition route_recovery_worker :: "settings \<Rightarrow> (app_workers, bool \<times> recovery_snapshot) py" where
  "route_recovery_worker s = bnd (get_recovery_worker s) (\<lambda>w. ret (worker_snapshot w))"

definition route_compensation_worker :: "settings \<Rightarrow> (app_workers, bool \<times> compensation_snapshot) py" where
  "route_compensation_worker s = bnd (get_compensation_worker s) (\<lambda>w. ret (worker_snapshot w))"

text \<open>The status pages always answer once the worker was made at startup.\<close>

lemma status_pages_answer:
  "route_hedge_worker s (workers_of b) = (Inr (worker_snapshot (bk_hedge b)), workers_of b)"
  "route_reconciliation_worker s (workers_of b) = (Inr (worker_snapshot (bk_reconciliation b)), workers_of b)"
  "route_recovery_worker s (workers_of b) = (Inr (worker_snapshot (bk_recovery b)), workers_of b)"
  "route_compensation_worker s (workers_of b) = (Inr (worker_snapshot (bk_compensation b)), workers_of b)"
  by (simp_all add: route_hedge_worker_def route_reconciliation_worker_def route_recovery_worker_def
      route_compensation_worker_def bnd_run ret_run started_workers_are_served)

definition get_persistence_backfill_service :: "installation \<Rightarrow> py_error + unit" where
  "get_persistence_backfill_service s = new_backfill_service (in_storage_backend s)"

text \<open>The dependency refuses the JSON backend, before the route's own handler of errors.\<close>

lemma backfill_needs_mysql: "get_persistence_backfill_service s = Inr () \<longleftrightarrow> in_storage_backend s = ''mysql''"
  by (simp add: get_persistence_backfill_service_def new_backfill_service_def)

end
