(* ===== verification/Schema.thy ===== *)
theory Schema
  imports StateStores Mysql Codec
begin

section \<open>Tables\<close>

text \<open>
  The tables of the MySQL backend: the \<open>CREATE TABLE\<close> text of each store
  (\<open>_CREATE_TABLE_SQL\<close>), built from its columns and keys, and what it asks of a row. The
  lemmas compare each table with the rows its store writes: the parameters are the columns in
  their order, the columns that may be missing are the nullable ones, and a row fails to fit
  exactly when a text, less its trailing spaces, is longer than its column. Under a server that
  refuses rows that do not fit, that is what a save depends on.
\<close>

subsection \<open>Columns and keys\<close>

datatype column_type = VarChar nat | LongText | DateTime6 | DoubleFloat | JsonValue

record column =
  co_name :: string
  co_type :: column_type
  co_null :: bool

record table =
  ta_name :: string
  ta_key :: "column option" \<comment> \<open>the key the rows carry; without one, \<open>row_id\<close> numbers them\<close>
  ta_columns :: "column list"
  ta_indexes :: "(string \<times> string list) list"

definition required :: "string \<Rightarrow> column_type \<Rightarrow> column" where
  "required n t = \<lparr>co_name = n, co_type = t, co_null = False\<rparr>"

definition nullable :: "string \<Rightarrow> column_type \<Rightarrow> column" where
  "nullable n t = \<lparr>co_name = n, co_type = t, co_null = True\<rparr>"

definition ledger_table :: table where
  "ledger_table = \<lparr>ta_name = ''trade_ledger'', ta_key = None,
     ta_columns = [required ''trade_id'' (VarChar 191), required ''mode'' (VarChar 16),
       required ''strategy_id'' (VarChar 191), required ''symbol'' (VarChar 64), required ''status'' (VarChar 32),
       required ''opened_at'' DateTime6, nullable ''closed_at'' DateTime6, required ''payload'' JsonValue],
     ta_indexes = [(''trade_id'', [''trade_id'']), (''symbol_status'', [''symbol'', ''status'']),
       (''mode_status'', [''mode'', ''status''])]\<rparr>"

definition audit_table :: table where
  "audit_table = \<lparr>ta_name = ''audit_events'', ta_key = None,
     ta_columns = [required ''event_id'' (VarChar 191), required ''event_type'' (VarChar 191),
       required ''severity'' (VarChar 16), required ''source'' (VarChar 191), required ''occurred_at'' DateTime6,
       required ''summary'' LongText, required ''payload'' JsonValue],
     ta_indexes = [(''event_id'', [''event_id'']), (''source_occurred_at'', [''source'', ''occurred_at'']),
       (''severity_occurred_at'', [''severity'', ''occurred_at''])]\<rparr>"

definition report_table :: table where
  "report_table = \<lparr>ta_name = ''exchange_order_reports'', ta_key = None,
     ta_columns = [required ''report_id'' (VarChar 191), required ''venue'' (VarChar 64),
       required ''order_id'' (VarChar 191), nullable ''trade_id'' (VarChar 191), required ''symbol'' (VarChar 64),
       required ''leg'' (VarChar 16), required ''status'' (VarChar 64), required ''updated_at'' DateTime6,
       required ''payload'' JsonValue],
     ta_indexes = [(''report_id'', [''report_id'']), (''order_id'', [''order_id'']), (''trade_id'', [''trade_id'']),
       (''symbol_updated_at'', [''symbol'', ''updated_at''])]\<rparr>"

definition journal_table :: table where
  "journal_table = \<lparr>ta_name = ''trade_journal'', ta_key = None,
     ta_columns = [required ''trade_id'' (VarChar 191), required ''symbol'' (VarChar 64), required ''closed_at'' DateTime6,
       required ''score'' DoubleFloat, required ''risk_tag'' (VarChar 64), required ''payload'' JsonValue],
     ta_indexes = [(''trade_id'', [''trade_id'']), (''symbol_closed_at'', [''symbol'', ''closed_at''])]\<rparr>"

definition sample_table :: table where
  "sample_table = \<lparr>ta_name = ''learning_samples'', ta_key = None,
     ta_columns = [nullable ''trade_id'' (VarChar 191), required ''symbol'' (VarChar 64), nullable ''closed_at'' DateTime6,
       required ''score'' DoubleFloat, required ''risk_tag'' (VarChar 64), required ''payload'' JsonValue],
     ta_indexes = [(''trade_id'', [''trade_id'']), (''symbol_closed_at'', [''symbol'', ''closed_at''])]\<rparr>"

definition dataset_table :: table where
  "dataset_table = \<lparr>ta_name = ''backtest_datasets'', ta_key = Some (required ''dataset_id'' (VarChar 191)),
     ta_columns = [required ''title'' (VarChar 255), required ''source'' (VarChar 128), required ''imported_at'' DateTime6,
       required ''payload'' JsonValue],
     ta_indexes = [(''imported_at'', [''imported_at''])]\<rparr>"

definition tuning_table :: table where
  "tuning_table = \<lparr>ta_name = ''tuning_state'', ta_key = Some (required ''state_key'' (VarChar 64)),
     ta_columns = [required ''updated_at'' DateTime6, required ''payload'' JsonValue], ta_indexes = []\<rparr>"

definition breaker_table :: table where
  "breaker_table = \<lparr>ta_name = ''execution_circuit_breaker_state'', ta_key = Some (required ''state_key'' (VarChar 64)),
     ta_columns = [required ''updated_at'' DateTime6, required ''payload'' JsonValue], ta_indexes = []\<rparr>"

definition tables :: "table list" where
  "tables = [ledger_table, audit_table, report_table, journal_table, sample_table, dataset_table, tuning_table, breaker_table]"

subsection \<open>The statements\<close>

definition newline :: string where
  "newline = [char_of (10::nat)]"

fun separated :: "string \<Rightarrow> string list \<Rightarrow> string" where
  "separated sep [] = []"
| "separated sep [x] = x"
| "separated sep (x # xs) = x @ sep @ separated sep xs"

fun type_text :: "column_type \<Rightarrow> string" where
  "type_text (VarChar n) = ''VARCHAR('' @ show_nat n @ '')''"
| "type_text LongText = ''TEXT''"
| "type_text DateTime6 = ''DATETIME(6)''"
| "type_text DoubleFloat = ''DOUBLE''"
| "type_text JsonValue = ''JSON''"

definition column_text :: "column \<Rightarrow> string" where
  "column_text c = co_name c @ '' '' @ type_text (co_type c) @ (if co_null c then '' NULL'' else '' NOT NULL'')"

definition key_text :: "column option \<Rightarrow> string" where
  "key_text k = (case k of
     None \<Rightarrow> ''row_id BIGINT AUTO_INCREMENT PRIMARY KEY''
   | Some c \<Rightarrow> co_name c @ '' '' @ type_text (co_type c) @ '' PRIMARY KEY'')"

definition index_text :: "string \<Rightarrow> string \<times> string list \<Rightarrow> string" where
  "index_text table ix = ''KEY idx_'' @ table @ ''_'' @ fst ix @ '' ('' @ separated '', '' (snd ix) @ '')''"

definition create_table_sql :: "table \<Rightarrow> string" where
  \<comment> \<open>\<open>_CREATE_TABLE_SQL\<close>\<close>
  "create_table_sql t =
     newline @ ''CREATE TABLE IF NOT EXISTS '' @ ta_name t @ '' ('' @ newline
     @ separated ('','' @ newline)
         (map (\<lambda>l. ''    '' @ l) (key_text (ta_key t) # map column_text (ta_columns t) @ map (index_text (ta_name t)) (ta_indexes t)))
     @ newline @ '')'' @ newline"

definition row_columns :: "table \<Rightarrow> column list" where
  \<comment> \<open>the columns an insert names\<close>
  "row_columns t = (case ta_key t of None \<Rightarrow> ta_columns t | Some c \<Rightarrow> c # ta_columns t)"

definition placeholder :: "column \<Rightarrow> string" where
  "placeholder c = (if co_type c = JsonValue then ''CAST(%s AS JSON)'' else ''%s'')"

definition indent :: "nat \<Rightarrow> string" where
  "indent n = newline @ replicate n (CHR '' '')"

definition values_text :: "table \<Rightarrow> string" where
  "values_text t = ''VALUES ('' @ separated '', '' (map placeholder (row_columns t)) @ '')''"

definition insert_sql :: "table \<Rightarrow> bool \<Rightarrow> string" where
  \<comment> \<open>some stores write the columns on a line of their own\<close>
  "insert_sql t own_line =
     indent 20 @ ''INSERT INTO '' @ ta_name t @ (if own_line then indent 20 else '' '')
     @ ''('' @ separated '', '' (map co_name (row_columns t)) @ '')'' @ indent 20 @ values_text t @ indent 20"

definition replace_sql :: "table \<Rightarrow> string" where
  "replace_sql t =
     indent 16 @ ''REPLACE INTO '' @ ta_name t @ '' ('' @ separated '', '' (map co_name (row_columns t)) @ '')''
     @ indent 16 @ values_text t @ indent 16"

text \<open>The texts as the source has them, line by line.\<close>

lemma ledger_table_text:
  "create_table_sql ledger_table = separated newline [[],
     ''CREATE TABLE IF NOT EXISTS trade_ledger ('',
     ''    row_id BIGINT AUTO_INCREMENT PRIMARY KEY,'',
     ''    trade_id VARCHAR(191) NOT NULL,'',
     ''    mode VARCHAR(16) NOT NULL,'',
     ''    strategy_id VARCHAR(191) NOT NULL,'',
     ''    symbol VARCHAR(64) NOT NULL,'',
     ''    status VARCHAR(32) NOT NULL,'',
     ''    opened_at DATETIME(6) NOT NULL,'',
     ''    closed_at DATETIME(6) NULL,'',
     ''    payload JSON NOT NULL,'',
     ''    KEY idx_trade_ledger_trade_id (trade_id),'',
     ''    KEY idx_trade_ledger_symbol_status (symbol, status),'',
     ''    KEY idx_trade_ledger_mode_status (mode, status)'',
     '')'', []]"
  by code_simp

lemma dataset_table_text:
  "create_table_sql dataset_table = separated newline [[],
     ''CREATE TABLE IF NOT EXISTS backtest_datasets ('',
     ''    dataset_id VARCHAR(191) PRIMARY KEY,'',
     ''    title VARCHAR(255) NOT NULL,'',
     ''    source VARCHAR(128) NOT NULL,'',
     ''    imported_at DATETIME(6) NOT NULL,'',
     ''    payload JSON NOT NULL,'',
     ''    KEY idx_backtest_datasets_imported_at (imported_at)'',
     '')'', []]"
  by code_simp

lemma breaker_table_text:
  "create_table_sql breaker_table = separated newline [[],
     ''CREATE TABLE IF NOT EXISTS execution_circuit_breaker_state ('',
     ''    state_key VARCHAR(64) PRIMARY KEY,'',
     ''    updated_at DATETIME(6) NOT NULL,'',
     ''    payload JSON NOT NULL'',
     '')'', []]"
  by code_simp

lemma ledger_insert_text:
  "insert_sql ledger_table True = separated newline [[],
     ''                    INSERT INTO trade_ledger'',
     ''                    (trade_id, mode, strategy_id, symbol, status, opened_at, closed_at, payload)'',
     ''                    VALUES (%s, %s, %s, %s, %s, %s, %s, CAST(%s AS JSON))'',
     ''                    '']"
  by code_simp

lemma dataset_replace_text:
  "replace_sql dataset_table = separated newline [[],
     ''                REPLACE INTO backtest_datasets (dataset_id, title, source, imported_at, payload)'',
     ''                VALUES (%s, %s, %s, %s, CAST(%s AS JSON))'',
     ''                '']"
  by code_simp

text \<open>Each store has a table of its own, so the schema cache of a process keeps them apart.\<close>

lemma table_names_distinct: "distinct (map ta_name tables)"
  by code_simp

subsection \<open>What a store sends\<close>

definition create_table :: "driver \<Rightarrow> mysql_settings \<Rightarrow> table \<Rightarrow> (process, unit) py" where
  \<comment> \<open>\<open>self._mysql.ensure_table(_TABLE_NAME, _CREATE_TABLE_SQL)\<close>\<close>
  "create_table dv c t = ensure_table dv c (ta_name t) (create_table_sql t)"

definition read_table :: "driver \<Rightarrow> mysql_settings \<Rightarrow> table \<Rightarrow> string \<Rightarrow> (process, pyval list) py" where
  "read_table dv c t order =
     thn (create_table dv c t) (rows_of_query dv c (''SELECT payload FROM '' @ ta_name t @ '' ORDER BY '' @ order) [])"

definition write_table :: "driver \<Rightarrow> mysql_settings \<Rightarrow> table \<Rightarrow> bool \<Rightarrow> pyval list list \<Rightarrow> (process, unit) py" where
  "write_table dv c t own_line rows =
     thn (create_table dv c t) (replace_table dv c (ta_name t) (insert_sql t own_line) rows)"

definition read_key :: "driver \<Rightarrow> mysql_settings \<Rightarrow> table \<Rightarrow> string \<Rightarrow> (process, pyval list) py" where
  "read_key dv c t k =
     thn (create_table dv c t)
       (rows_of_query dv c (''SELECT payload FROM '' @ ta_name t @ '' WHERE state_key = %s LIMIT 1'') [PStr k])"

definition write_key :: "driver \<Rightarrow> mysql_settings \<Rightarrow> table \<Rightarrow> pyval list \<Rightarrow> (process, unit) py" where
  "write_key dv c t row = thn (create_table dv c t) (execute_statement dv c (replace_sql t) row)"

lemma steps_store_calls [steps]:
  "steps_in open_kept (create_table dv c t)" "steps_in open_kept (read_table dv c t order)"
  "steps_in open_kept (write_table dv c t own_line rows)" "steps_in open_kept (read_key dv c t k)"
  "steps_in open_kept (write_key dv c t row)"
  unfolding create_table_def read_table_def write_table_def read_key_def write_key_def by (intro steps)+

definition willing_driver :: "driver \<Rightarrow> bool" where
  "willing_driver dv \<longleftrightarrow> dv_installed dv \<and> (\<forall>n c db. dv_connect dv n c db = None) \<and> (\<forall>n st. \<exists>rows. dv_run dv n st = Inr rows)"

definition schema_statements :: "mysql_settings \<Rightarrow> table \<Rightarrow> process \<Rightarrow> statement list" where
  "schema_statements c t p =
     (if database_key_of c \<in> set (pr_databases p) then [] else [Execute (create_database_sql c) []])
     @ (if table_key_of c (ta_name t) \<in> set (pr_tables p) then [] else [Execute (create_table_sql t) []])"

lemma willing_runs:
  assumes "willing_driver dv"
  shows "load_driver dv p = (Inr (), p)"
    "connect dv c db p = (Inr (), p\<lparr>pr_connections := Suc (pr_connections p), pr_open := Suc (pr_open p)\<rparr>)"
    "\<exists>rows. run_statement dv st p = (Inr rows, p\<lparr>pr_statements := pr_statements p @ [st]\<rparr>)"
  using assms by (auto simp: willing_driver_def load_driver_def connect_def run_statement_def py_simps)

lemma willing_cursor:
  assumes "willing_driver dv" "database_key_of c \<in> set (pr_databases p)"
    and "\<And>q. \<exists>x. m q = (Inr x, q\<lparr>pr_statements := pr_statements q @ sts\<rparr>)"
  shows "\<exists>x n. with_cursor dv c m p = (Inr x, p\<lparr>pr_connections := n, pr_statements := pr_statements p @ sts\<rparr>)"
proof -
  let ?q = "p\<lparr>pr_connections := Suc (pr_connections p), pr_open := Suc (pr_open p)\<rparr>"
  obtain x where "m ?q = (Inr x, ?q\<lparr>pr_statements := pr_statements ?q @ sts\<rparr>)" using assms(3)[of ?q] by blast
  then have "with_cursor dv c m p = (Inr x, p\<lparr>pr_connections := Suc (pr_connections p), pr_statements := pr_statements p @ sts\<rparr>)"
    using assms(2)
    by (simp add: with_cursor_def ensure_database_def finally_close_def close_connection_def willing_runs[OF assms(1)] py_simps)
  then show ?thesis by blast
qed

lemma willing_database:
  assumes "willing_driver dv"
  shows "\<exists>n. ensure_database dv c p = (Inr (), p\<lparr>pr_databases := (if database_key_of c \<in> set (pr_databases p)
        then pr_databases p else database_key_of c # pr_databases p), pr_connections := n,
      pr_statements := pr_statements p @ (if database_key_of c \<in> set (pr_databases p) then []
        else [Execute (create_database_sql c) []])\<rparr>)"
proof (cases "database_key_of c \<in> set (pr_databases p)")
  case True
  then show ?thesis
    by (intro exI[of _ "pr_connections p"]) (simp add: ensure_database_def py_simps)
next
  case False
  let ?q = "p\<lparr>pr_connections := Suc (pr_connections p), pr_open := Suc (pr_open p)\<rparr>"
  obtain rows where "run_statement dv (Execute (create_database_sql c) []) ?q
      = (Inr rows, ?q\<lparr>pr_statements := pr_statements p @ [Execute (create_database_sql c) []]\<rparr>)"
    using willing_runs(3)[OF assms, of "Execute (create_database_sql c) []" ?q] by auto
  then show ?thesis using False
    by (intro exI[of _ "Suc (pr_connections p)"])
      (simp add: ensure_database_def finally_close_def close_connection_def willing_runs[OF assms] py_simps)
qed

definition with_schema :: "mysql_settings \<Rightarrow> table \<Rightarrow> process \<Rightarrow> process" where
  \<comment> \<open>what the process remembers once the table was made\<close>
  "with_schema c t p = p\<lparr>pr_databases := (if database_key_of c \<in> set (pr_databases p) then pr_databases p
        else database_key_of c # pr_databases p),
     pr_tables := (if table_key_of c (ta_name t) \<in> set (pr_tables p) then pr_tables p else table_key_of c (ta_name t) # pr_tables p),
     pr_statements := pr_statements p @ schema_statements c t p\<rparr>"

lemma willing_create:
  assumes "willing_driver dv" "schema_known p"
  shows "\<exists>n. create_table dv c t p = (Inr (), (with_schema c t p)\<lparr>pr_connections := n\<rparr>)"
proof (cases "table_key_of c (ta_name t) \<in> set (pr_tables p)")
  case True
  then have "database_key_of c \<in> set (pr_databases p)"
    using assms(2) by (auto simp: schema_known_def table_key_of_def database_key_of_def)
  then show ?thesis using True
    by (intro exI[of _ "pr_connections p"])
      (simp add: create_table_def ensure_table_def with_schema_def schema_statements_def py_simps)
next
  case False
  let ?st = "Execute (create_table_sql t) []"
  obtain n where db: "ensure_database dv c p = (Inr (), p\<lparr>pr_databases := (if database_key_of c \<in> set (pr_databases p)
        then pr_databases p else database_key_of c # pr_databases p), pr_connections := n,
      pr_statements := pr_statements p @ (if database_key_of c \<in> set (pr_databases p) then []
        else [Execute (create_database_sql c) []])\<rparr>)" (is "_ = (_, ?p1)")
    using willing_database[OF assms(1)] by blast
  let ?q = "?p1\<lparr>pr_connections := Suc n, pr_open := Suc (pr_open p)\<rparr>"
  obtain rows where "run_statement dv ?st ?q = (Inr rows, ?q\<lparr>pr_statements := pr_statements ?p1 @ [?st]\<rparr>)"
    using willing_runs(3)[OF assms(1), of ?st ?q] by auto
  then have "with_cursor dv c (run_statement dv ?st) p
      = (Inr rows, ?p1\<lparr>pr_connections := Suc n, pr_statements := pr_statements ?p1 @ [?st]\<rparr>)"
    using db by (simp add: with_cursor_def finally_close_def close_connection_def willing_runs[OF assms(1)] py_simps)
  then have "create_table dv c t p = (Inr (), (with_schema c t p)\<lparr>pr_connections := Suc n\<rparr>)"
    using False by (simp add: create_table_def ensure_table_def with_schema_def schema_statements_def py_simps)
  then show ?thesis by blast
qed

theorem write_statements:
  assumes "willing_driver dv" "schema_known p" "write_table dv c t own_line rows p = (r, p')"
  shows "r = Inr () \<and> pr_open p' = pr_open p \<and> pr_statements p' = pr_statements p @ schema_statements c t p
      @ Execute (''DELETE FROM '' @ ta_name t) []
      # (if rows = [] then [] else [ExecuteMany (insert_sql t own_line) rows])"
proof -
  obtain n where created: "create_table dv c t p = (Inr (), (with_schema c t p)\<lparr>pr_connections := n\<rparr>)" (is "_ = (_, ?p1)")
    using willing_create[OF assms(1,2)] by blast
  let ?m = "thn (run_statement dv (Execute (''DELETE FROM '' @ ta_name t) []))
      (if rows = [] then ret () else thn (run_statement dv (ExecuteMany (insert_sql t own_line) rows)) (ret ()))"
  let ?sts = "Execute (''DELETE FROM '' @ ta_name t) [] # (if rows = [] then [] else [ExecuteMany (insert_sql t own_line) rows])"
  have body: "\<exists>x. ?m q = (Inr x, q\<lparr>pr_statements := pr_statements q @ ?sts\<rparr>)" for q
  proof -
    obtain r1 where r1: "run_statement dv (Execute (''DELETE FROM '' @ ta_name t) []) q
        = (Inr r1, q\<lparr>pr_statements := pr_statements q @ [Execute (''DELETE FROM '' @ ta_name t) []]\<rparr>)" (is "_ = (_, ?q1)")
      using willing_runs(3)[OF assms(1)] by blast
    obtain r2 where "run_statement dv (ExecuteMany (insert_sql t own_line) rows) ?q1
        = (Inr r2, ?q1\<lparr>pr_statements := pr_statements ?q1 @ [ExecuteMany (insert_sql t own_line) rows]\<rparr>)"
      using willing_runs(3)[OF assms(1)] by blast
    then show ?thesis using r1 by (simp add: thn_run ret_run)
  qed
  have "database_key_of c \<in> set (pr_databases ?p1)" by (simp add: with_schema_def)
  from willing_cursor[OF assms(1) this body] obtain x n' where
    "with_cursor dv c ?m ?p1 = (Inr x, ?p1\<lparr>pr_connections := n', pr_statements := pr_statements ?p1 @ ?sts\<rparr>)" by blast
  then have "write_table dv c t own_line rows p = (Inr x, ?p1\<lparr>pr_connections := n', pr_statements := pr_statements ?p1 @ ?sts\<rparr>)"
    using created by (simp only: write_table_def replace_table_def thn_run prod.case sum.case)
  then show ?thesis using assms(3) by (auto simp: with_schema_def)
qed

subsection \<open>Rows that fit\<close>

definition text_size :: "(string \<Rightarrow> int) \<Rightarrow> string \<Rightarrow> int" where
  \<comment> \<open>MySQL drops the trailing spaces a column has no room for, in any mode\<close>
  "text_size measured s = measured (rev (dropWhile (\<lambda>c. c = CHR '' '') (rev s)))"

fun value_fits :: "column_type \<Rightarrow> pyval \<Rightarrow> bool" where
  \<comment> \<open>what MySQL documents of its types in strict mode\<close>
  "value_fits (VarChar n) (PStr s) = (text_size char_length s \<le> int n)"
| "value_fits LongText (PStr s) = (text_size (\<lambda>x. int (length x)) s \<le> 65535)"
| "value_fits DateTime6 (PInt t) = True"
| "value_fits DoubleFloat (PFloat x) = True"
| "value_fits JsonValue v = True"
| "value_fits _ _ = False"

definition cell_fits :: "column \<Rightarrow> pyval \<Rightarrow> bool" where
  "cell_fits c v = (if v = PNone then co_null c else value_fits (co_type c) v)"

definition row_fits :: "table \<Rightarrow> sql_row \<Rightarrow> bool" where
  "row_fits t r = list_all2 cell_fits (row_columns t) (sq_columns r @ [sq_payload r])"

lemma mode_short [simp]: "text_size char_length (mode_str m) \<le> 16"
  by (cases m; hypsubst; code_simp)

lemma status_short [simp]: "text_size char_length (status_str s) \<le> 32"
  by (cases s; hypsubst; code_simp)

lemma severity_short [simp]: "text_size char_length (severity_str v) \<le> 16"
  by (cases v; hypsubst; code_simp)

lemma leg_short [simp]: "text_size char_length (leg_str l) \<le> 16"
  by (cases l; hypsubst; code_simp)

lemma text_cell:
  "cell_fits (required n (VarChar k)) (PStr s) \<longleftrightarrow> text_size char_length s \<le> int k"
  "cell_fits (nullable n (VarChar k)) (sql_text t) \<longleftrightarrow> (\<forall>x. t = Some x \<longrightarrow> text_size char_length x \<le> int k)"
  "cell_fits (required n LongText) (PStr s) \<longleftrightarrow> text_size (\<lambda>x. int (length x)) s \<le> 65535"
  by (auto simp: cell_fits_def required_def nullable_def sql_text_def or_null_def split: option.split)

lemma other_cell:
  "cell_fits (required n DateTime6) (sql_date (Some d))" "cell_fits (nullable n DateTime6) (sql_date dt)"
  "cell_fits (required n DoubleFloat) (PFloat x)" "v \<noteq> PNone \<Longrightarrow> cell_fits (required n JsonValue) v"
  by (auto simp: cell_fits_def required_def nullable_def sql_date_def or_null_def split: option.split)

lemma dump_not_none [simp]:
  "dump_ledger fm r \<noteq> PNone" "dump_event fm ev \<noteq> PNone" "dump_report fm er \<noteq> PNone" "dump_trade fm t \<noteq> PNone"
  "dump_sample fm sm \<noteq> PNone" "dump_dataset fm b \<noteq> PNone" "dump_tuning fm ts \<noteq> PNone" "dump_breaker fm cb \<noteq> PNone"
  by (simp_all add: dump_ledger_def dump_event_def dump_report_def dump_trade_def dump_sample_def dump_dataset_def
      dump_tuning_def dump_breaker_def)

lemma ledger_row_fits:
  "row_fits ledger_table \<lparr>sq_columns = ledger_columns r, sq_payload = dump_ledger fm r\<rparr> \<longleftrightarrow>
     text_size char_length (lr_trade_id r) \<le> 191 \<and> text_size char_length (lr_strategy_id r) \<le> 191 \<and> text_size char_length (lr_symbol r) \<le> 64"
  using mode_short[of "lr_mode r"] status_short[of "lr_status r"]
  by (auto simp: row_fits_def row_columns_def ledger_table_def ledger_columns_def text_cell other_cell)

lemma event_row_fits:
  "row_fits audit_table \<lparr>sq_columns = event_columns ev, sq_payload = dump_event fm ev\<rparr> \<longleftrightarrow>
     text_size char_length (ev_event_id ev) \<le> 191 \<and> text_size char_length (ev_event_type ev) \<le> 191 \<and> text_size char_length (ev_source ev) \<le> 191
     \<and> text_size (\<lambda>x. int (length x)) (ev_summary ev) \<le> 65535"
  using severity_short[of "ev_severity ev"]
  by (auto simp: row_fits_def row_columns_def audit_table_def event_columns_def text_cell other_cell)

lemma report_row_fits:
  "row_fits report_table \<lparr>sq_columns = report_columns r, sq_payload = dump_report fm r\<rparr> \<longleftrightarrow>
     text_size char_length (er_report_id r) \<le> 191 \<and> text_size char_length (er_venue r) \<le> 64 \<and> text_size char_length (er_order_id r) \<le> 191
     \<and> (\<forall>t. er_trade_id r = Some t \<longrightarrow> text_size char_length t \<le> 191) \<and> text_size char_length (er_symbol r) \<le> 64 \<and> text_size char_length (er_status r) \<le> 64"
  using leg_short[of "er_leg r"]
  by (auto simp: row_fits_def row_columns_def report_table_def report_columns_def text_cell other_cell)

lemma trade_row_fits:
  "row_fits journal_table \<lparr>sq_columns = trade_columns t, sq_payload = dump_trade fm t\<rparr> \<longleftrightarrow>
     text_size char_length (cj_trade_id t) \<le> 191 \<and> text_size char_length (cj_symbol t) \<le> 64 \<and> text_size char_length (cj_risk_tag t) \<le> 64"
  by (auto simp: row_fits_def row_columns_def journal_table_def trade_columns_def text_cell other_cell)

lemma sample_row_fits:
  "row_fits sample_table \<lparr>sq_columns = sample_columns s, sq_payload = dump_sample fm s\<rparr> \<longleftrightarrow>
     (\<forall>t. ls_trade_id s = Some t \<longrightarrow> text_size char_length t \<le> 191) \<and> text_size char_length (ls_symbol s) \<le> 64 \<and> text_size char_length (ls_risk_tag s) \<le> 64"
  by (auto simp: row_fits_def row_columns_def sample_table_def sample_columns_def text_cell other_cell)

lemma dataset_row_fits:
  "row_fits dataset_table (dataset_row fm b) \<longleftrightarrow>
     text_size char_length (bd_dataset_id b) \<le> 191 \<and> text_size char_length (bd_title b) \<le> 255 \<and> text_size char_length (bd_source b) \<le> 128"
  by (auto simp: row_fits_def row_columns_def dataset_table_def dataset_row_def text_cell other_cell)

lemma state_row_fits:
  "row_fits tuning_table \<lparr>sq_columns = [PStr active_key_text, sql_date (Some d)], sq_payload = dump_tuning fm ts\<rparr>"
  "row_fits breaker_table \<lparr>sq_columns = [PStr active_key_text, sql_date (Some d)], sq_payload = dump_breaker fm cb\<rparr>"
proof -
  have "text_size char_length active_key_text \<le> 64" by code_simp
  then show "row_fits tuning_table \<lparr>sq_columns = [PStr active_key_text, sql_date (Some d)], sq_payload = dump_tuning fm ts\<rparr>"
    "row_fits breaker_table \<lparr>sq_columns = [PStr active_key_text, sql_date (Some d)], sq_payload = dump_breaker fm cb\<rparr>"
    by (auto simp: row_fits_def row_columns_def tuning_table_def breaker_table_def text_cell other_cell)
qed

subsection \<open>Saving under a strict server\<close>

definition strict_server :: "database \<Rightarrow> table \<Rightarrow> bool" where
  \<comment> \<open>MySQL in strict mode: a row is refused exactly when it does not fit\<close>
  "strict_server db t \<longleftrightarrow> mysql_enabled db \<and> (\<forall>n r. db_insert db n r = None \<longleftrightarrow> row_fits t r)"

definition saves_short ::
  "(storage, 'r list) py \<Rightarrow> ('r list \<Rightarrow> write_mode \<Rightarrow> (storage, 'r list) py) \<Rightarrow> ('r \<Rightarrow> bool) \<Rightarrow> ('r \<Rightarrow> bool) \<Rightarrow> bool" where
  \<comment> \<open>a save stores the merged list when all its records are short; the first that is not ends it, and the
     records before that one are what the store then holds\<close>
  "saves_short list_all_rows save_rows ok short \<longleftrightarrow>
     (\<forall>st old rs m. list_all_rows st = (Inr old, st) \<longrightarrow> list_all ok (write_rows m rs old) \<longrightarrow>
        (if list_all short (write_rows m rs old)
         then \<exists>st'. save_rows rs m st = (Inr (write_rows m rs old), st') \<and> list_all_rows st' = (Inr (write_rows m rs old), st')
         else \<exists>exc st'. save_rows rs m st = (Inl exc, st') \<and> list_all_rows st' = (Inr (takeWhile short (write_rows m rs old)), st')))"

lemma refused_strict:
  assumes "strict_server db t" "refused_at db n rows = r"
  shows "case r of
      None \<Rightarrow> list_all (row_fits t) rows
    | Some (k, exc) \<Rightarrow> \<not> list_all (row_fits t) rows \<and> k = n + length (takeWhile (row_fits t) rows)"
  using assms
proof (induction db n rows arbitrary: r rule: refused_at.induct)
  case (2 db n row rows)
  have fits: "db_insert db n row = None \<longleftrightarrow> row_fits t row" using 2(2) by (simp add: strict_server_def)
  show ?case
    using 2(1)[OF _ 2(2) refl] 2(3) fits by (cases "db_insert db n row") (auto split: option.splits)
qed auto

lemma saves_short_strict:
  fixes dump :: "'r \<Rightarrow> pyval"
  assumes keeps: "keeps_list db dump columns (store_list db validate) save_rows ok" and strict: "strict_server db t"
    and fits: "\<And>r. row_fits t \<lparr>sq_columns = columns r, sq_payload = dump r\<rparr> \<longleftrightarrow> short r"
  shows "saves_short (store_list db validate) save_rows ok short"
  unfolding saves_short_def
proof (intro allI impI)
  fix st m and old rs :: "'r list"
  let ?new = "write_rows m rs old"
  assume old: "store_list db validate st = (Inr old, st)" and ok: "list_all ok ?new"
  have "refusal db dump columns ?new = refused_at db 0 (sql_rows dump columns ?new)"
    using strict by (simp add: refusal_def strict_server_def)
  moreover have "list_all (row_fits t) (sql_rows dump columns ?new) \<longleftrightarrow> list_all short ?new"
    by (simp add: sql_rows_def list_all_length fits)
  moreover have "take (length (takeWhile (row_fits t) (sql_rows dump columns ?new))) ?new = takeWhile short ?new"
    by (simp add: sql_rows_def takeWhile_map fits o_def takeWhile_eq_take[symmetric])
  ultimately have at: "case refusal db dump columns ?new of
      None \<Rightarrow> list_all short ?new
    | Some (k, exc) \<Rightarrow> \<not> list_all short ?new \<and> take k ?new = takeWhile short ?new"
    using refused_strict[OF strict refl, where n = 0 and rows = "sql_rows dump columns ?new"] by (auto split: option.split)
  have run: "case refusal db dump columns ?new of
      None \<Rightarrow> \<exists>st'. save_rows rs m st = (Inr ?new, st') \<and> store_list db validate st' = (Inr ?new, st')
    | Some (k, exc) \<Rightarrow> \<exists>st'. save_rows rs m st = (Inl exc, st') \<and> store_list db validate st' = (Inr (take k ?new), st')"
    using keeps old ok unfolding keeps_list_def by blast
  show "if list_all short ?new
      then \<exists>st'. save_rows rs m st = (Inr ?new, st') \<and> store_list db validate st' = (Inr ?new, st')
      else \<exists>exc st'. save_rows rs m st = (Inl exc, st') \<and> store_list db validate st' = (Inr (takeWhile short ?new), st')"
    using at run by (cases "refusal db dump columns ?new") (auto split: prod.splits)
qed

definition short_ledger :: "ledger_record \<Rightarrow> bool" where
  "short_ledger r \<longleftrightarrow> text_size char_length (lr_trade_id r) \<le> 191 \<and> text_size char_length (lr_strategy_id r) \<le> 191 \<and> text_size char_length (lr_symbol r) \<le> 64"

definition short_event :: "audit_event \<Rightarrow> bool" where
  "short_event ev \<longleftrightarrow> text_size char_length (ev_event_id ev) \<le> 191 \<and> text_size char_length (ev_event_type ev) \<le> 191
     \<and> text_size char_length (ev_source ev) \<le> 191 \<and> text_size (\<lambda>x. int (length x)) (ev_summary ev) \<le> 65535"

definition short_report :: "order_report \<Rightarrow> bool" where
  "short_report r \<longleftrightarrow> text_size char_length (er_report_id r) \<le> 191 \<and> text_size char_length (er_venue r) \<le> 64 \<and> text_size char_length (er_order_id r) \<le> 191
     \<and> (\<forall>t. er_trade_id r = Some t \<longrightarrow> text_size char_length t \<le> 191) \<and> text_size char_length (er_symbol r) \<le> 64 \<and> text_size char_length (er_status r) \<le> 64"

definition short_trade :: "completed_trade \<Rightarrow> bool" where
  "short_trade t \<longleftrightarrow> text_size char_length (cj_trade_id t) \<le> 191 \<and> text_size char_length (cj_symbol t) \<le> 64 \<and> text_size char_length (cj_risk_tag t) \<le> 64"

definition short_sample :: "learning_sample \<Rightarrow> bool" where
  "short_sample s \<longleftrightarrow> (\<forall>t. ls_trade_id s = Some t \<longrightarrow> text_size char_length t \<le> 191) \<and> text_size char_length (ls_symbol s) \<le> 64 \<and> text_size char_length (ls_risk_tag s) \<le> 64"

text \<open>
  C38. On a MySQL server in strict mode a save depends on the lengths of its texts alone: each
  store's rows have the columns of its table in their order, the columns a record may leave
  out are the nullable ones, and a list of records is stored, and read back, when every text,
  less its trailing spaces, is within its column (ids and sources 191 characters, symbols and
  tags 64, summaries 64 KiB). With a text that is longer the save fails, and the store is left
  with the records before the first that does not fit: the later ones, old or new, are lost.
\<close>

theorem stores_need_short_texts:
  assumes "dates_round_trip fm"
  shows "(strict_server db ledger_table \<longrightarrow> saves_short (ledger_store_list db fm) (ledger_store_save db fm) storable_ledger short_ledger)
    \<and> (strict_server db audit_table \<longrightarrow> saves_short (audit_store_list db fm) (audit_store_save db fm) (\<lambda>_. True) short_event)
    \<and> (strict_server db report_table \<longrightarrow> saves_short (report_store_list db fm) (report_store_save db fm) storable_report short_report)
    \<and> (strict_server db journal_table \<longrightarrow> saves_short (journal_store_list db fm) (journal_store_save db fm) storable_trade short_trade)
    \<and> (strict_server db sample_table \<longrightarrow> saves_short (sample_store_list db fm) (sample_store_save db fm) storable_sample short_sample)"
  using assms
    saves_short_strict[OF ledger_rows.keeps[of db fm ledger_columns], of ledger_table short_ledger]
    saves_short_strict[OF event_rows.keeps[of db fm event_columns], of audit_table short_event]
    saves_short_strict[OF report_rows.keeps[of db fm report_columns], of report_table short_report]
    saves_short_strict[OF trade_rows.keeps[of db fm trade_columns], of journal_table short_trade]
    saves_short_strict[OF sample_rows.keeps[of db fm sample_columns], of sample_table short_sample]
  by (simp add: store_defs ledger_row_fits event_row_fits report_row_fits trade_row_fits sample_row_fits
      short_ledger_def short_event_def short_report_def short_trade_def short_sample_def)

definition strict_mysql :: "table \<Rightarrow> database" where
  "strict_mysql t = \<lparr>db_backend = ''mysql'',
     db_insert = (\<lambda>_ r. if row_fits t r then None else Some (DatabaseError ''Data too long''))\<rparr>"

theorem stores_need_short_texts_witness:
  "\<exists>exc st'. ledger_store_save (strict_mysql ledger_table) decimal_formats
        [sample_record ''t1'' Hedged, sample_record (replicate 192 (CHR ''x'')) Open, sample_record ''t2'' Open] write_mode.ReplaceRows
        \<lparr>st_file = None, st_rows = sql_rows (dump_ledger decimal_formats) ledger_columns two_records\<rparr> = (Inl exc, st')
     \<and> ledger_store_list (strict_mysql ledger_table) decimal_formats st' = (Inr [sample_record ''t1'' Hedged], st')"
proof -
  let ?db = "strict_mysql ledger_table" and ?st = "\<lparr>st_file = None, st_rows = sql_rows (dump_ledger decimal_formats) ledger_columns two_records\<rparr>"
  let ?rs = "[sample_record ''t1'' Hedged, sample_record (replicate 192 (CHR ''x'')) Open, sample_record ''t2'' Open]"
  have strict: "strict_server ?db ledger_table"
    by (simp add: strict_server_def strict_mysql_def mysql_enabled_def)
  have ok: "storable_ledger (sample_record k s)" for k s
    by (simp add: storable_ledger_def sample_record_def valid_ledger_record_def is_f64_of_int[of 1000, simplified])
  have old: "ledger_store_list ?db decimal_formats ?st = (Inr two_records, ?st)"
    unfolding ledger_store_list_def
    by (rule ledger_rows.list_rows) (simp_all add: strict_mysql_def mysql_enabled_def two_records_def ok)
  have merged: "list_all storable_ledger (write_rows write_mode.ReplaceRows ?rs two_records)"
    by (simp add: write_rows_def ok)
  have "text_size char_length (replicate 192 (CHR ''x'')) = 192" by code_simp
  then have long: "\<not> short_ledger (sample_record (replicate 192 (CHR ''x'')) Open)"
    by (simp add: short_ledger_def sample_record_def)
  have "text_size char_length ''t1'' = 2" "text_size char_length ''funding-arb'' = 11" "text_size char_length ''BTCUSDT'' = 7"
    by code_simp+
  then have "short_ledger (sample_record ''t1'' Hedged)" by (simp add: short_ledger_def sample_record_def)
  with long have "\<not> list_all short_ledger (write_rows write_mode.ReplaceRows ?rs two_records)"
    and "takeWhile short_ledger (write_rows write_mode.ReplaceRows ?rs two_records) = [sample_record ''t1'' Hedged]"
    by (simp_all add: write_rows_def)
  then show ?thesis
    using stores_need_short_texts[OF decimal_dates, of ?db, THEN conjunct1, THEN mp, OF strict] old merged
    unfolding saves_short_def by metis
qed

end
