(* ===== verification/Research.thy ===== *)
theory Research
  imports Adaptation
begin

section \<open>The research pages\<close>

text \<open>
  The requests of the research pages (backtests, datasets, tuning, learning samples, trade
  journal) as the routes of \<open>app/api/routes/algo.py\<close> serve them, over the four stores of a
  \<open>lab\<close>. The stores as a whole are specified by \<open>shelf\<close>, datasets by their id, and by a relation
  that says what each request may leave there, written without the services: in particular
  which trades of the journal an extraction takes. The lemmas show that the routes refine it,
  along every sequence of requests.
\<close>

subsection \<open>Requests\<close>

definition route_list_datasets :: "(lab, dataset_summary list) py" where
  "route_list_datasets = gets (\<lambda>w. list_summaries (lb_datasets w))"

definition route_adaptation_state :: "env \<Rightarrow> (lab, tuning_state) py" where
  "route_adaptation_state e = tuning_load e"

definition route_list_samples :: "(lab, learning_sample list) py" where
  "route_list_samples = get_samples"

definition route_list_journal :: "(lab, completed_trade list) py" where
  "route_list_journal = list_journal"

datatype research_request =
    EvaluateRisk opportunity_score
  | RunBacktest "backtest_period list" config_patch
  | ListDatasets
  | RunFromDataset string "int option" config_patch
  | ImportDataset backtest_dataset
  | GetTuning
  | Recommend "learning_sample list"
  | EvaluatePackages string "int option"
  | ApplyPackage tuning_package bool
  | ListSamples
  | ImportSamples "learning_sample list" write_mode
  | ListJournal
  | ImportJournal "completed_trade list" write_mode
  | ExtractSamples write_mode "string option" "int option"

definition served :: "('w, 'a) py \<Rightarrow> ('w, unit) py" where
  "served m = bnd m (\<lambda>_. ret ())"

definition serve_research :: "env \<Rightarrow> research_request \<Rightarrow> (lab, unit) py" where
  "serve_research e q =
     (case q of
        EvaluateRisk s \<Rightarrow> served (route_evaluate_risk e s)
      | RunBacktest ps p \<Rightarrow> served (route_run_backtest e ps p)
      | ListDatasets \<Rightarrow> served route_list_datasets
      | RunFromDataset k n p \<Rightarrow> served (route_run_from_dataset e k n p)
      | ImportDataset d \<Rightarrow> served (route_import_dataset d)
      | GetTuning \<Rightarrow> served (route_adaptation_state e)
      | Recommend ss \<Rightarrow> served (route_recommend e ss)
      | EvaluatePackages k n \<Rightarrow> served (route_evaluate_packages e k n)
      | ApplyPackage p confirmed \<Rightarrow> served (route_apply e p confirmed)
      | ListSamples \<Rightarrow> served route_list_samples
      | ImportSamples ss m \<Rightarrow> served (route_import_samples ss m)
      | ListJournal \<Rightarrow> served route_list_journal
      | ImportJournal rs m \<Rightarrow> served (route_import_journal rs m)
      | ExtractSamples m y n \<Rightarrow> served (route_extract_from_journal m y n))"

fun research_run :: "env \<Rightarrow> research_request list \<Rightarrow> lab \<Rightarrow> lab" where
  "research_run e [] w = w"
| "research_run e (q # qs) w = research_run e qs (snd (serve_research e q w))"

subsection \<open>What they store\<close>

record shelf =
  sh_datasets :: "string \<rightharpoonup> backtest_dataset"
  sh_tuning :: "(string \<times> string \<times> tuning_config) option" \<comment> \<open>the active package\<close>
  sh_samples :: "learning_sample list"
  sh_journal :: "completed_trade list"

definition shelf_of :: "lab \<Rightarrow> shelf" where
  "shelf_of w = \<lparr>sh_datasets = (\<lambda>k. get_dataset k (lb_datasets w)),
     sh_tuning = map_option (\<lambda>s. (ts_active_package_id s, ts_active_package_title s, ts_config s)) (lb_tuning w),
     sh_samples = lb_samples w, sh_journal = lb_journal w\<rparr>"

definition merged_rows :: "write_mode \<Rightarrow> 'a list \<Rightarrow> 'a list \<Rightarrow> 'a list" where
  "merged_rows m new old = (if m = AppendRows then old @ new else new)"

definition is_sample_of :: "completed_trade \<Rightarrow> learning_sample \<Rightarrow> bool" where
  "is_sample_of t s \<longleftrightarrow> ls_trade_id s = Some (cj_trade_id t) \<and> ls_symbol s = cj_symbol t
     \<and> ls_closed_at s = Some (cj_closed_at t) \<and> ls_score s = cj_score t \<and> ls_risk_tag s = cj_risk_tag t
     \<and> ls_net_edge_bps s = cj_net_edge_bps t \<and> ls_projected_net_edge_bps s = cj_projected_net_edge_bps t
     \<and> ls_basis_bps s = cj_basis_bps t \<and> ls_realized_pnl_bps s = cj_realized_pnl_bps t
     \<and> ls_max_drawdown_bps s = cj_max_drawdown_bps t \<and> ls_hold_periods s = cj_hold_periods t"

definition age :: "completed_trade \<Rightarrow> datetime \<times> string \<times> string" where
  "age t = (cj_closed_at t, cj_symbol t, cj_trade_id t)"

definition newest_trades ::
  "string option \<Rightarrow> int option \<Rightarrow> completed_trade list \<Rightarrow> completed_trade list \<Rightarrow> bool" where
  \<comment> \<open>these are the trades of the symbol, oldest first: all of them, or so many that no other is newer\<close>
  "newest_trades symbol limit journal chosen \<longleftrightarrow> (\<exists>rest.
     mset chosen + mset rest = mset (filter (\<lambda>t. symbol = None \<or> symbol = Some (cj_symbol t)) journal)
     \<and> sorted (map age chosen) \<and> (\<forall>c\<in>set chosen. \<forall>r\<in>set rest. age r \<le> age c)
     \<and> (case limit of None \<Rightarrow> rest = []
        | Some n \<Rightarrow> length chosen = min (nat n) (length chosen + length rest)))"

fun shelved :: "research_request \<Rightarrow> shelf \<Rightarrow> shelf \<Rightarrow> bool" where
  "shelved (ImportDataset d) f g \<longleftrightarrow> g = f\<lparr>sh_datasets := (sh_datasets f)(bd_dataset_id d \<mapsto> d)\<rparr>"
| "shelved (ApplyPackage p True) f g \<longleftrightarrow> g = f\<lparr>sh_tuning := Some (tp_package_id p, tp_title p, tp_config p)\<rparr>"
| "shelved (ImportSamples ss m) f g \<longleftrightarrow> g = f\<lparr>sh_samples := merged_rows m ss (sh_samples f)\<rparr>"
| "shelved (ImportJournal rs m) f g \<longleftrightarrow> g = f\<lparr>sh_journal := merged_rows m rs (sh_journal f)\<rparr>"
| "shelved (ExtractSamples m y n) f g \<longleftrightarrow> (\<exists>chosen samples. newest_trades y n (sh_journal f) chosen
     \<and> list_all2 is_sample_of chosen samples \<and> g = f\<lparr>sh_samples := merged_rows m samples (sh_samples f)\<rparr>)"
| "shelved _ f g \<longleftrightarrow> g = f"

fun shelved_all :: "research_request list \<Rightarrow> shelf \<Rightarrow> shelf \<Rightarrow> bool" where
  "shelved_all [] f g \<longleftrightarrow> g = f"
| "shelved_all (q # qs) f g \<longleftrightarrow> (\<exists>h. shelved q f h \<and> shelved_all qs h g)"

subsection \<open>The routes refine the shelf\<close>

definition shelf_kept :: "lab \<Rightarrow> lab \<Rightarrow> bool" where
  "shelf_kept w w' \<longleftrightarrow> shelf_of w' = shelf_of w"

interpretation shelf_fx: effect shelf_kept
  by unfold_locales (auto simp: shelf_kept_def)

lemma steps_lab_now [steps]: "steps_in shelf_kept (lab_now e)"
  by (simp add: steps_in_def shelf_kept_def shelf_of_def lab_now_def)

lemma steps_reading [steps]:
  "steps_in shelf_kept (tuning_load e)" "steps_in shelf_kept get_samples" "steps_in shelf_kept list_journal"
  unfolding tuning_load_def get_samples_def list_journal_def by (intro steps)+

lemma steps_service [steps]:
  "steps_in shelf_kept (build_runtime_components e)" "steps_in shelf_kept (recommend e ss)"
  "steps_in shelf_kept (recommend_from_store e)" "steps_in shelf_kept (periods_or_404 k n)"
  "steps_in shelf_kept (evaluate_packages e k ps zs)"
  unfolding build_runtime_components_def recommend_def recommend_from_store_def periods_or_404_def
    evaluate_packages_def Let_def
  by (intro steps)+

lemma steps_pages [steps]:
  "steps_in shelf_kept (route_evaluate_risk e s)" "steps_in shelf_kept (route_run_backtest e ps p)"
  "steps_in shelf_kept route_list_datasets" "steps_in shelf_kept (route_run_from_dataset e k n p)"
  "steps_in shelf_kept (route_adaptation_state e)" "steps_in shelf_kept (route_recommend e ss)"
  "steps_in shelf_kept (route_evaluate_packages e k n)" "steps_in shelf_kept route_list_samples"
  "steps_in shelf_kept route_list_journal"
  unfolding route_evaluate_risk_def route_run_backtest_def route_list_datasets_def route_run_from_dataset_def
    route_adaptation_state_def route_recommend_def route_evaluate_packages_def route_list_samples_def route_list_journal_def
  by (intro steps steps_service)+

lemma snd_served: "snd (served m w) = snd (m w)"
  by (simp add: served_def bnd_run ret_run split: prod.split sum.split)

lemma steps_kept: "steps_in shelf_kept m \<Longrightarrow> shelf_of (snd (served m w)) = shelf_of w"
  by (simp add: steps_in_def shelf_kept_def snd_served)

lemma rows_written: "write_rows m new old = merged_rows m new old"
  by (cases m) (simp_all add: write_rows_def merged_rows_def)

lemma extraction:
  obtains chosen where "newest_trades symbol limit journal chosen"
    "list_all2 is_sample_of chosen (extract_samples journal symbol None limit)"
proof -
  define kept where "kept = filter (\<lambda>t. symbol = None \<or> symbol = Some (cj_symbol t)) journal"
  define ordered where "ordered = sorted_by extract_key kept"
  define k where "k = (case limit of None \<Rightarrow> length ordered | Some n \<Rightarrow> nat n)"
  let ?old = "take (length ordered - k) ordered" and ?new = "drop (length ordered - k) ordered"
  have keep: "filter (\<lambda>t. case symbol of None \<Rightarrow> True | Some s \<Rightarrow> cj_symbol t = s) journal = kept"
    by (cases symbol) (auto simp: kept_def intro!: filter_cong)
  have key: "extract_key = age" by (simp add: fun_eq_iff extract_key_def age_def)
  have "sorted (map age (?old @ ?new))" by (simp add: ordered_def key sorted_sorted_by)
  then have "sorted (map age ?new)" "\<forall>c\<in>set ?new. \<forall>r\<in>set ?old. age r \<le> age c"
    unfolding map_append sorted_append by auto
  moreover have "mset ?new + mset ?old = mset kept"
  proof -
    have "mset ?old + mset ?new = mset ordered" by (simp flip: mset_append)
    then show ?thesis by (simp add: ordered_def sorted_by_def add.commute)
  qed
  moreover have "case limit of None \<Rightarrow> ?old = [] | Some n \<Rightarrow> length ?new = min (nat n) (length ?new + length ?old)"
    by (auto simp: k_def min_def split: option.split)
  ultimately have "newest_trades symbol limit journal ?new"
    unfolding newest_trades_def kept_def[symmetric] by blast
  moreover have "extract_samples journal symbol None limit = map to_sample ?new"
    unfolding extract_samples_def keep Let_def ordered_def[symmetric]
    by (auto simp: k_def slice_from_def split: option.split)
  moreover have "list_all2 is_sample_of xs (map to_sample xs)" for xs
    by (induction xs) (simp_all add: is_sample_of_def to_sample_def)
  ultimately show thesis using that by simp
qed

lemma research_step: "shelved q (shelf_of w) (shelf_of (snd (serve_research e q w)))"
proof (cases q)
  case (ImportDataset d)
  then show ?thesis
    by (simp add: serve_research_def snd_served route_import_dataset_def import_dataset_def py_simps Let_def shelf_of_def
        datasets.put_refines_map)
next
  case (ApplyPackage p confirmed)
  then show ?thesis
    by (cases confirmed) (simp_all add: serve_research_def snd_served route_apply_def apply_package_def tuning_save_def
        py_simps shelf_of_def)
next
  case (ImportSamples ss m)
  then show ?thesis
    by (simp add: serve_research_def snd_served route_import_samples_def import_samples_def samples_save_def py_simps shelf_of_def rows_written)
next
  case (ImportJournal rs m)
  then show ?thesis
    by (simp add: serve_research_def snd_served route_import_journal_def import_journal_def journal_save_def py_simps shelf_of_def rows_written)
next
  case (ExtractSamples m y n)
  obtain chosen where "newest_trades y n (lb_journal w) chosen"
    "list_all2 is_sample_of chosen (extract_samples (lb_journal w) y None n)" by (rule extraction)
  then show ?thesis
    using ExtractSamples
    by (auto simp: serve_research_def snd_served route_extract_from_journal_def extract_learning_samples_def import_samples_def
        samples_save_def py_simps shelf_of_def rows_written)
qed (simp_all add: serve_research_def steps_kept steps_pages)

text \<open>
  C30. Along every sequence of requests the four stores are what the requests put there, in
  their order and whatever they answered: an imported dataset takes the place of the one of its
  id; a package is active once it is applied with confirmation, and only then; samples and
  trades are appended or replace the list, as asked; an extraction stores, as samples with the
  trades' own figures, the newest trades of the journal of the symbol, at most as many as the
  limit and all of them without one, oldest first; every other request only reads.
\<close>

theorem research_refines: "shelved_all qs (shelf_of w) (shelf_of (research_run e qs w))"
proof (induction qs arbitrary: w)
  case (Cons q qs)
  then show ?case using research_step[of q w e] by auto
qed simp

end
