(* ===== verification/Spec2Isabelle.thy ===== *)
theory Spec2Isabelle
  imports System Concurrency Migration Assembly Schema Research
begin

text \<open>
  A model of CryptoTradeSys (\<open>src/backend/app\<close>), a funding-rate arbitrage backend in Python: it
  scores pairs of a perpetual and a spot market, opens and closes delta-neutral hedges on paper
  or on Binance, keeps a trade ledger and an audit log, and runs workers that reconcile, hedge,
  recover and compensate trades. File names below are relative to \<open>src/backend/app\<close>.

  \<^bold>\<open>How the program runs.\<close> \<open>main.py\<close> makes the safety switch and six workers and starts their
  loops; FastAPI serves the routes of \<open>api/routes/algo.py\<close> and of the packages' routers. Routes
  and workers call the services, the services call each other, and all of them meet in a few
  stores: the ledger, the audit log, the exchange reports and the breaker's state, each a JSON
  file or a MySQL table, and the safety switch in memory. Orders leave through the trading
  client of Binance.

  \<^bold>\<open>How it is modelled.\<close> A Python function is a computation \<open>('w, 'a) py\<close>: from a state to a
  result, which is a value or a \<open>py_error\<close>, and a new state; raising does not undo what was
  written. The trading state is the record \<open>world\<close>, the research stores are \<open>lab\<close>, users and
  keys are \<open>site\<close>, a store on one backend is \<open>storage\<close>, the MySQL module of a process is
  \<open>process\<close>. A class is a record with its fields, a \<open>Literal\<close> a datatype with the text it stands
  for, a JSON value a \<open>pyval\<close>. A float is the rational value of a binary64 number and every
  operation rounds as CPython does; integers are unbounded, as in Python; a date is its
  microseconds in UTC; text is its UTF-8 bytes. What comes from outside is a parameter: the
  clock, \<open>uuid4\<close> and the replies of Binance (\<open>env\<close>), bcrypt and JWT (\<open>crypto\<close>), PyMySQL and the
  server (\<open>driver\<close>, \<open>database\<close>), pydantic's dates (\<open>formats\<close>). Where a property needs
  documented behaviour of these it is a named hypothesis (\<open>dates_round_trip\<close>, \<open>fresh_ids\<close>,
  \<open>strict_server\<close>), and its witness instantiates it.

  \<^bold>\<open>Foundations.\<close>
  \<^item> \<open>Float64\<close>: rounding to nearest even, \<open>round\<close>, \<open>sum\<close> (compensated, as from CPython 3.12
    on; the project admits 3.11, and no property depends on it); locales \<open>rounding\<close> and
    \<open>exact_rounding\<close>, interpreted on both roundings, carry monotonicity and fixed points.
  \<^item> \<open>Prelude\<close>: JSON values, exceptions, the combinators of computations, \<open>steps_in R m\<close> (all
    \<open>m\<close> does to the state is related by \<open>R\<close>) with the locale \<open>effect\<close> that proves the rules once,
    and the locale \<open>keyed_store\<close> of a list read and replaced by key.
  \<^item> \<open>Formats\<close>: \<open>isoformat\<close>, \<open>:g\<close> and the fixed formats. \<open>Codec\<close>: SHA-256, base64, UTF-8.
  \<^item> \<open>World\<close>: the data of \<open>*/schemas.py\<close>, the state and the environment.

  \<^bold>\<open>Scoring.\<close> \<open>Market\<close> (\<open>opportunity/scorer.py\<close>, \<open>strategy/funding_arb.py\<close>; the score is
  monotone), \<open>RiskPolicy\<close> (\<open>risk/policy.py\<close>; exact conditions of each decision, agreement with
  the scorer), \<open>MarketData\<close> (\<open>exchange/binance_public.py\<close>, \<open>market_data/service.py\<close>; every
  snapshot is sane).

  \<^bold>\<open>Trading.\<close>
  \<^item> \<open>Ledger\<close>, \<open>AuditLog\<close>, \<open>Reports\<close>: stores and services; the ledger refines a map by trade id.
  \<^item> \<open>Breaker\<close> (\<open>execution/circuit_breaker.py\<close>): refines a machine with the states closed with a
    failure count and open until a date. \<open>Safety\<close>, \<open>SafetyOps\<close> (\<open>safety/\<close>): what the gates
    answer after any history of the switches, emergency closing, routes.
  \<^item> \<open>Exchange\<close> (\<open>exchange/binance_trading.py\<close>, \<open>execution/adapters.py\<close>): requests and the safe
    retry, which submits at most twice.
  \<^item> \<open>Orchestrator\<close>, \<open>OrchestratorProps\<close> (\<open>execution/service.py\<close>): execute, recover, rebalance;
    results, ledger and log of every branch, what a live operation leaves behind when the
    exchange raises, and that an operation touches its own trade only.
  \<^item> \<open>Hedge\<close>, \<open>Reconciliation\<close>, \<open>Recovery\<close>, \<open>Compensation\<close>: the plans of the four services and
    their execution. \<open>Scheduler\<close>, \<open>Monitor\<close>: one cycle of each.
  \<^item> \<open>Workers\<close> (\<open>*/worker.py\<close>): the loop as a step relation; the locale \<open>background_worker\<close> is
    interpreted for all six.

  \<^bold>\<open>Research.\<close> \<open>Backtest\<close> (\<open>strategy/registry.py\<close>, \<open>backtest/\<close>; the engine equals a reference
  without loops), \<open>Journal\<close>, \<open>Adaptation\<close> (\<open>adaptation/\<close>, \<open>schemas/adaptation.py\<close>; bounds of a
  recommendation), \<open>Research\<close> (the routes of these pages refine a relation per request).

  \<^bold>\<open>Stores.\<close>
  \<^item> \<open>Persistence\<close>: the five stores of a list, on a file or a table, down to the JSON of a record;
    the locale \<open>json_store\<close> asks that \<open>model_validate\<close> reads what \<open>model_dump\<close> wrote and is
    interpreted for every model. A save deletes the table and inserts the rows one by one, each
    statement committed by itself: a refused row loses the later ones. \<open>StateStores\<close>: the
    stores of one row per key, replaced in one statement.
  \<^item> \<open>Mysql\<close> (\<open>persistence/mysql.py\<close>): connections, schema caches and the order of statements;
    every connection is closed, a table is created once. \<open>Schema\<close>: the eight tables, their
    statements as text, which rows fit.
  \<^item> \<open>Migration\<close> (\<open>persistence/migration.py\<close>): the backfill over these stores, on what each run
    reads from the files; the locale \<open>backfill_section\<close>, interpreted for the six lists, carries
    that it is complete and idempotent.
  \<^item> \<open>Concurrency\<close>: a save on MySQL as the statements it sends, and what overlapping saves keep.

  \<^bold>\<open>Accounts.\<close> \<open>Accounts\<close> (\<open>auth/service.py\<close>, \<open>credentials/service.py\<close>) and \<open>Portal\<close> (their
  routers and the token check; a token acts on its own account only).

  \<^bold>\<open>The application.\<close> \<open>Console\<close> (\<open>console/read_service.py\<close>, the scan and dashboard routes), \<open>Desk\<close>
  (\<open>trading/\<close>, \<open>account/\<close>), \<open>Backend\<close> (settings, clients, workers, startup and shutdown, the
  remaining routes), \<open>Assembly\<close> (which object is made of which, and that all of them share one
  file of each kind), \<open>System\<close> (the whole as a step relation: requests, turns and requested runs
  of the workers, shutdown). In \<open>System\<close> the locale \<open>backend_effect\<close> says what a relation must
  keep of the primitive writes to be kept by every operation; it is interpreted for the growth
  of history, for the live guards of every order sent and for the breaker's invariant, and the
  properties follow by rule induction over runs.

  \<^bold>\<open>Bounds.\<close> There is no fuel: every loop of the source is a loop over a list and a structural
  recursion here, and the endless loops of the workers are step relations. A trace may have any
  length; \<open>workers_live\<close> shows that a started worker can take any number of turns, and
  \<open>shutdown_ends_loops\<close> that none is taken after a shutdown.

  \<^bold>\<open>Not modelled.\<close>
  \<^item> NaN, infinities and overflow of floats (the code computes with prices and counts); negative
    zero is zero.
  \<^item> Threads: outside \<open>Concurrency\<close> a request or a turn of a worker is one step, although workers
    run their services with \<open>asyncio.to_thread\<close>. A stop cancels the loop between turns. The sleep
    between turns is left out, and so is the lock of the schema caches. \<open>worker_stop\<close> does not
    raise again the error a task ended with: a started loop's \<open>run_once\<close> catches every one, so no
    task ends with an error (\<open>worker_inv\<close>).
  \<^item> Overlapping saves on JSON files: a reader between the truncation of the file and the writing
    of its text gets a decoding error.
  \<^item> \<open>system_invariant\<close> leaves out the two routes that import ledger records and audit events,
    since they may replace both lists; \<open>live_orders_guarded\<close> includes them.
  \<^item> The guards that ask for a token on the trading routes are in \<open>Portal\<close> only (\<open>current_user\<close>);
    \<open>System\<close> serves these routes to anyone, so that its properties hold with and without them.
  \<^item> The timestamp, signature and headers of a request; what the server does with a statement
    beyond strict mode (a \<open>SELECT\<close> or \<open>DELETE\<close> of a store is taken to succeed, an \<open>INSERT\<close> or
    \<open>REPLACE\<close> of a row may be refused); the parsing of dates by pydantic; routing, parsing and encoding of requests
    by FastAPI; the reading of the environment and \<open>.env\<close>; the \<open>/health\<close> route; \<open>__init__.py\<close>
    files and response models, which only name fields.
  \<^item> The front end and the scripts (\<open>src/frontend\<close> and others), which are not Python code of the
    backend, and the tests.
\<close>

end
